(* ===== verification/Py_Base.thy ===== *)
theory Py_Base
  imports Main "HOL-Library.Sublist" "HOL-Library.Char_ord"
begin

text \<open>
  The shared vocabulary of the development: Python text as HOL strings, the string
  operations of the standard library that the sources call, decimal numerals, and the
  lemma collections that the component theories extend.

  A \<open>char\<close> stands for one Python code point in the range U+0000 to U+00FF and a
  \<open>string\<close> for a \<open>str\<close> over that range, so \<open>length\<close> counts code points as \<open>len\<close>
  does; the operations below are exact on that range (lower-casing of the accented
  Latin-1 letters and the non-ASCII white space included). A \<open>bytes\<close> value is a
  \<open>string\<close> too, one \<open>char\<close> per byte.
\<close>

named_theorems text_simps "equations that evaluate or normalise the text operations"
named_theorems text_intros "introduction rules about the text operations"

type_synonym pystr = string
type_synonym bytes = string

abbreviation ord :: "char \<Rightarrow> nat" where
  "ord c \<equiv> of_char c"

section \<open>Character classes\<close>

definition is_digit :: "char \<Rightarrow> bool" where
  "is_digit c \<longleftrightarrow> 48 \<le> ord c \<and> ord c \<le> 57"

definition is_upper :: "char \<Rightarrow> bool" where
  "is_upper c \<longleftrightarrow> 65 \<le> ord c \<and> ord c \<le> 90"

definition is_lower :: "char \<Rightarrow> bool" where
  "is_lower c \<longleftrightarrow> 97 \<le> ord c \<and> ord c \<le> 122"

definition is_alnum :: "char \<Rightarrow> bool" where
  "is_alnum c \<longleftrightarrow> is_digit c \<or> is_upper c \<or> is_lower c"

definition is_hex :: "char \<Rightarrow> bool" where
  "is_hex c \<longleftrightarrow> is_digit c \<or> (97 \<le> ord c \<and> ord c \<le> 102)"

text \<open>White space of \<open>str.strip\<close>, and the line boundaries of \<open>str.splitlines\<close>.\<close>

definition is_space :: "char \<Rightarrow> bool" where
  "is_space c \<longleftrightarrow> (9 \<le> ord c \<and> ord c \<le> 13) \<or> (28 \<le> ord c \<and> ord c \<le> 32)
     \<or> ord c = 133 \<or> ord c = 160"

definition is_line_break :: "char \<Rightarrow> bool" where
  "is_line_break c \<longleftrightarrow> (10 \<le> ord c \<and> ord c \<le> 13) \<or> (28 \<le> ord c \<and> ord c \<le> 30)
     \<or> ord c = 133"

lemma line_break_is_space: "is_line_break c \<Longrightarrow> is_space c"
  by (auto simp: is_line_break_def is_space_def)

lemma digit_not_space: "is_digit c \<Longrightarrow> \<not> is_space c"
  by (auto simp: is_digit_def is_space_def)

lemma lower_not_space: "is_lower c \<Longrightarrow> \<not> is_space c"
  by (auto simp: is_lower_def is_space_def)

lemmas char_class_defs =
  is_digit_def is_upper_def is_lower_def is_alnum_def is_hex_def is_space_def
  is_line_break_def

section \<open>str.lower, str.strip, slices\<close>

definition lower_char :: "char \<Rightarrow> char" where
  "lower_char c =
     (if (65 \<le> ord c \<and> ord c \<le> 90) \<or> (192 \<le> ord c \<and> ord c \<le> 222 \<and> ord c \<noteq> 215)
      then char_of (ord c + 32) else c)"

definition lower :: "pystr \<Rightarrow> pystr" where
  "lower s = map lower_char s"

definition lstrip :: "pystr \<Rightarrow> pystr" where
  "lstrip s = dropWhile is_space s"

definition rstrip :: "pystr \<Rightarrow> pystr" where
  "rstrip s = rev (dropWhile is_space (rev s))"

definition strip :: "pystr \<Rightarrow> pystr" where
  "strip s = rstrip (lstrip s)"

lemma length_lower [simp]: "length (lower s) = length s"
  by (simp add: lower_def)

lemma set_rstrip: "set (rstrip s) \<subseteq> set s"
  using set_dropWhileD by (fastforce simp: rstrip_def)

lemma set_lstrip: "set (lstrip s) \<subseteq> set s"
  using set_dropWhileD by (fastforce simp: lstrip_def)

lemma set_strip: "set (strip s) \<subseteq> set s"
  unfolding strip_def using set_rstrip set_lstrip by blast

lemma rstrip_append_nonspace:
  "\<not> is_space c \<Longrightarrow> rstrip (s @ [c]) = s @ [c]"
  by (simp add: rstrip_def)

lemma strip_id:
  assumes "s \<noteq> []" and "\<not> is_space (hd s)" and "\<not> is_space (last s)"
  shows "strip s = s"
proof -
  have l: "lstrip s = s"
    using assms by (cases s) (auto simp: lstrip_def)
  have "rstrip (butlast s @ [last s]) = butlast s @ [last s]"
    using assms(3) by (rule rstrip_append_nonspace)
  then have r: "rstrip s = s" using assms(1) by simp
  show ?thesis by (simp add: strip_def l r)
qed

lemma strip_no_space: "\<forall>c \<in> set s. \<not> is_space c \<Longrightarrow> strip s = s"
proof (cases "s = []")
  case True
  then show ?thesis by (simp add: strip_def lstrip_def rstrip_def)
next
  case False
  then have "hd s \<in> set s" and "last s \<in> set s" by simp_all
  with False show "\<forall>c \<in> set s. \<not> is_space c \<Longrightarrow> strip s = s"
    by (intro strip_id) auto
qed

lemma rstrip_last: "rstrip s \<noteq> [] \<Longrightarrow> \<not> is_space (last (rstrip s))"
  using hd_dropWhile [of is_space "rev s"]
  by (auto simp: rstrip_def last_rev)

lemma rstrip_prefix: "prefix (rstrip s) s"
proof -
  have "rev s = takeWhile is_space (rev s) @ dropWhile is_space (rev s)"
    by simp
  then have "s = rev (dropWhile is_space (rev s)) @ rev (takeWhile is_space (rev s))"
    by (metis rev_append rev_rev_ident)
  then show ?thesis unfolding rstrip_def prefix_def by metis
qed

lemma strip_ends:
  assumes "strip s \<noteq> []"
  shows "\<not> is_space (hd (strip s)) \<and> \<not> is_space (last (strip s))"
proof -
  have ne: "rstrip (lstrip s) \<noteq> []" using assms by (simp add: strip_def)
  obtain z where z: "lstrip s = rstrip (lstrip s) @ z"
    using rstrip_prefix unfolding prefix_def by metis
  then have "hd (rstrip (lstrip s)) = hd (lstrip s)"
    using ne by (metis hd_append2)
  moreover have "lstrip s \<noteq> []" using z ne by auto
  then have "\<not> is_space (hd (lstrip s))"
    using hd_dropWhile unfolding lstrip_def by blast
  ultimately show ?thesis
    using rstrip_last [OF ne] by (simp add: strip_def)
qed

lemma strip_idem: "strip (strip s) = strip s"
proof (cases "strip s = []")
  case True
  then show ?thesis by (simp only: True) (simp add: strip_def lstrip_def rstrip_def)
next
  case False
  then show ?thesis using strip_ends by (intro strip_id) auto
qed

section \<open>Splitting, joining and replacing\<close>

fun split_on :: "char \<Rightarrow> pystr \<Rightarrow> pystr list" where
  "split_on d [] = [[]]"
| "split_on d (c # cs) =
     (if c = d then [] # split_on d cs
      else (case split_on d cs of [] \<Rightarrow> [[c]] | w # ws \<Rightarrow> (c # w) # ws))"

fun join_with :: "pystr \<Rightarrow> pystr list \<Rightarrow> pystr" where
  "join_with sep [] = []"
| "join_with sep [w] = w"
| "join_with sep (w # v # ws) = w @ sep @ join_with sep (v # ws)"

text \<open>\<open>s.replace(c, new)\<close> for a one-character pattern.\<close>

definition replace_char :: "char \<Rightarrow> pystr \<Rightarrow> pystr \<Rightarrow> pystr" where
  "replace_char c new s = concat (map (\<lambda>x. if x = c then new else [x]) s)"

text \<open>\<open>s.partition(c)\<close>: before, whether the separator occurs, after.\<close>

fun partition_on :: "char \<Rightarrow> pystr \<Rightarrow> pystr \<times> bool \<times> pystr" where
  "partition_on d [] = ([], False, [])"
| "partition_on d (c # cs) =
     (if c = d then ([], True, cs)
      else (case partition_on d cs of (a, f, b) \<Rightarrow> (c # a, f, b)))"

text \<open>\<open>str.splitlines\<close>: a line ends at a boundary, CR LF counts as one, and a final
  boundary opens no empty last line. \<open>cur\<close> is the line read so far, reversed.\<close>

fun splitlines_from :: "pystr \<Rightarrow> pystr \<Rightarrow> pystr list" where
  "splitlines_from cur [] = (if cur = [] then [] else [rev cur])"
| "splitlines_from cur (c # cs) =
     (if c = CHR 0x0D \<and> cs \<noteq> [] \<and> hd cs = CHR 0x0A then rev cur # splitlines_from [] (tl cs)
      else if is_line_break c then rev cur # splitlines_from [] cs
      else splitlines_from (c # cur) cs)"

definition splitlines :: "pystr \<Rightarrow> pystr list" where
  "splitlines s = splitlines_from [] s"

lemma split_on_ne [simp]: "split_on d s \<noteq> []"
  by (induction s) (auto split: list.splits)

lemma split_on_no_sep: "d \<notin> set s \<Longrightarrow> split_on d s = [s]"
  by (induction s) auto

lemma split_on_append_sep:
  "d \<notin> set w \<Longrightarrow> split_on d (w @ d # s) = w # split_on d s"
  by (induction w) auto

lemma split_on_join:
  assumes "ws \<noteq> []" and "\<forall>w \<in> set ws. d \<notin> set w"
  shows "split_on d (join_with [d] ws) = ws"
  using assms
proof (induction ws rule: induct_list012)
  case 1
  then show ?case by simp
next
  case (2 w)
  then show ?case by (simp add: split_on_no_sep)
next
  case (3 w v ws)
  then have "split_on d (join_with [d] (v # ws)) = v # ws" by simp
  with 3 show ?case by (simp add: split_on_append_sep)
qed

lemma join_split_on: "join_with [d] (split_on d s) = s"
proof (induction s)
  case Nil
  then show ?case by simp
next
  case (Cons c cs)
  obtain w ws where w: "split_on d cs = w # ws" by (cases "split_on d cs") auto
  with Cons show ?case by (cases ws) auto
qed

lemma split_on_pieces: "w \<in> set (split_on d s) \<Longrightarrow> d \<notin> set w \<and> set w \<subseteq> set s"
proof (induction s arbitrary: w)
  case Nil
  then show ?case by simp
next
  case (Cons c cs)
  obtain v vs where v: "split_on d cs = v # vs" by (cases "split_on d cs") auto
  show ?case
  proof (cases "c = d")
    case True
    with Cons show ?thesis by auto
  next
    case False
    with Cons.prems v consider "w = c # v" | "w \<in> set vs" by auto
    then show ?thesis
    proof cases
      case 1
      have "d \<notin> set v \<and> set v \<subseteq> set cs" using Cons.IH [of v] v by simp
      with 1 False show ?thesis by auto
    next
      case 2
      with Cons.IH [of w] v show ?thesis by auto
    qed
  qed
qed

lemma splitlines_from_unbroken:
  "\<forall>c \<in> set s. \<not> is_line_break c \<Longrightarrow>
   splitlines_from cur s = (if rev cur @ s = [] then [] else [rev cur @ s])"
proof (induction s arbitrary: cur)
  case Nil
  then show ?case by simp
next
  case (Cons c cs)
  have "c \<noteq> CHR 0x0D" using Cons.prems by (auto simp: is_line_break_def)
  with Cons show ?case by simp
qed

lemma splitlines_from_line:
  assumes "\<forall>c \<in> set s. \<not> is_line_break c"
  shows "splitlines_from cur (s @ CHR 0x0A # rest) = (rev cur @ s) # splitlines_from [] rest"
  using assms
proof (induction s arbitrary: cur)
  case Nil
  then show ?case by (simp add: is_line_break_def)
next
  case (Cons c cs)
  have "c \<noteq> CHR 0x0D" using Cons.prems by (auto simp: is_line_break_def)
  with Cons show ?case by simp
qed

lemma splitlines_join:
  assumes "\<forall>w \<in> set ws. w \<noteq> [] \<and> (\<forall>c \<in> set w. \<not> is_line_break c)"
  shows "splitlines (join_with [CHR 0x0A] ws) = ws"
  using assms
proof (induction ws rule: induct_list012)
  case 1
  then show ?case by (simp add: splitlines_def)
next
  case (2 w)
  then show ?case by (simp add: splitlines_def splitlines_from_unbroken)
next
  case (3 w v ws)
  then have "splitlines (join_with [CHR 0x0A] (v # ws)) = v # ws" by simp
  with 3 show ?case by (simp add: splitlines_def splitlines_from_line)
qed

lemma partition_on_no_sep: "d \<notin> set s \<Longrightarrow> partition_on d s = (s, False, [])"
  by (induction s) auto

lemma partition_on_sep: "d \<notin> set a \<Longrightarrow> partition_on d (a @ d # b) = (a, True, b)"
  by (induction a) auto

lemma partition_on_eq:
  "partition_on d s = (a, f, b) \<Longrightarrow>
   d \<notin> set a \<and> (if f then s = a @ d # b else s = a \<and> b = [])"
  by (induction s arbitrary: a) (auto split: if_splits prod.splits)

lemma replace_char_Nil [simp]: "replace_char c new [] = []"
  by (simp add: replace_char_def)

lemma replace_char_Cons [simp]:
  "replace_char c new (x # xs) = (if x = c then new else [x]) @ replace_char c new xs"
  by (simp add: replace_char_def)

lemma replace_char_append [simp]:
  "replace_char c new (xs @ ys) = replace_char c new xs @ replace_char c new ys"
  by (simp add: replace_char_def)

lemma replace_char_id: "c \<notin> set s \<Longrightarrow> replace_char c new s = s"
  by (induction s) auto

lemma replace_char_drop: "replace_char c [] s = filter (\<lambda>x. x \<noteq> c) s"
  by (induction s) auto

section \<open>Decimal numerals\<close>

text \<open>\<open>str(n)\<close> for an \<open>int\<close>, and the value of a run of ASCII digits.\<close>

definition digit_char :: "nat \<Rightarrow> char" where
  "digit_char d = char_of (48 + d)"

definition digit_val :: "char \<Rightarrow> nat" where
  "digit_val c = ord c - 48"

fun nat_str :: "nat \<Rightarrow> pystr" where
  "nat_str n = (if n < 10 then [digit_char n] else nat_str (n div 10) @ [digit_char (n mod 10)])"

declare nat_str.simps [simp del]

definition int_str :: "int \<Rightarrow> pystr" where
  "int_str i = (if i < 0 then CHR ''-'' # nat_str (nat (- i)) else nat_str (nat i))"

definition digits_val :: "pystr \<Rightarrow> nat" where
  "digits_val s = foldl (\<lambda>acc c. 10 * acc + digit_val c) 0 s"

lemma digit_char_digit: "d < 10 \<Longrightarrow> is_digit (digit_char d)"
  by (simp add: is_digit_def digit_char_def)

lemma digit_val_char [simp]: "d < 10 \<Longrightarrow> digit_val (digit_char d) = d"
  by (simp add: digit_val_def digit_char_def)

lemma digits_val_snoc: "digits_val (s @ [c]) = 10 * digits_val s + digit_val c"
  by (simp add: digits_val_def)

lemma nat_str_digits: "\<forall>c \<in> set (nat_str n). is_digit c"
proof (induction n rule: nat_str.induct)
  case (1 n)
  then show ?case
    by (cases "n < 10") (simp_all add: nat_str.simps [of n] digit_char_digit)
qed

lemma nat_str_ne [simp]: "nat_str n \<noteq> []"
  by (subst nat_str.simps) simp

lemma digits_val_nat_str [simp]: "digits_val (nat_str n) = n"
proof (induction n rule: nat_str.induct)
  case (1 n)
  show ?case
  proof (cases "n < 10")
    case True
    have "digits_val [digit_char n] = digit_val (digit_char n)"
      by (simp add: digits_val_def)
    with True show ?thesis by (simp add: nat_str.simps [of n])
  next
    case False
    with 1 have "digits_val (nat_str (n div 10)) = n div 10" by simp
    with False show ?thesis by (simp add: nat_str.simps [of n] digits_val_snoc)
  qed
qed

lemma nat_str_inj: "nat_str m = nat_str n \<longleftrightarrow> m = n"
  using digits_val_nat_str by metis

lemma nat_str_hd: "is_digit (hd (nat_str n))"
  using nat_str_digits nat_str_ne hd_in_set by blast

text \<open>\<open>[1-9][0-9]*\<close>: a positive decimal with no leading zero.\<close>

definition str_isdigit :: "pystr \<Rightarrow> bool" where
  "str_isdigit s \<longleftrightarrow> s \<noteq> [] \<and> list_all (\<lambda>c. is_digit c \<or> ord c \<in> {178, 179, 185}) s"

definition is_positive_decimal :: "pystr \<Rightarrow> bool" where
  "is_positive_decimal s \<longleftrightarrow> s \<noteq> [] \<and> list_all is_digit s \<and> hd s \<noteq> CHR ''0''"

section \<open>UTF-8\<close>

text \<open>\<open>s.encode()\<close> for code points up to U+00FF: one byte below U+0080, two above.\<close>

definition utf8_char :: "char \<Rightarrow> bytes" where
  "utf8_char c =
     (if ord c < 128 then [c] else [char_of (192 + ord c div 64), char_of (128 + ord c mod 64)])"

definition utf8 :: "pystr \<Rightarrow> bytes" where
  "utf8 s = concat (map utf8_char s)"

definition is_ascii :: "pystr \<Rightarrow> bool" where
  "is_ascii s \<longleftrightarrow> list_all (\<lambda>c. ord c < 128) s"

lemma utf8_ascii: "is_ascii s \<Longrightarrow> utf8 s = s"
  by (induction s) (auto simp: is_ascii_def utf8_def utf8_char_def)

lemma length_utf8_ge: "length s \<le> length (utf8 s)"
  by (induction s) (auto simp: utf8_def utf8_char_def)

section \<open>First occurrences in a list\<close>

text \<open>The \<open>seen\<close>-set loop: keep the first occurrence of each element, in order.\<close>

fun dedup :: "'a list \<Rightarrow> 'a list \<Rightarrow> 'a list" where
  "dedup seen [] = []"
| "dedup seen (x # xs) =
     (if x \<in> set seen then dedup seen xs else x # dedup (x # seen) xs)"

lemma set_dedup: "set (dedup seen xs) = set xs - set seen"
  by (induction xs arbitrary: seen) auto

lemma distinct_dedup: "distinct (dedup seen xs)"
  by (induction xs arbitrary: seen) (auto simp: set_dedup)

end
