(* ===== verification/Py_Value.thy ===== *)
theory Py_Value
  imports Py_Base
begin

text \<open>
  The values a JSON request body decodes to, with the Python operations the sources
  apply to them (\<open>str\<close>, truth, \<open>dict.get\<close>, \<open>int\<close>, \<open>json.dumps\<close>), the exceptions the
  sources raise or catch, and results: \<open>Inl\<close> an exception, \<open>Inr\<close> a value.
\<close>

section \<open>Exceptions\<close>

text \<open>
  One constructor per exception class that reaches a handler, with the first argument
  where a handler looks at it. \<open>UrlError timed_out\<close> is \<open>urllib.error.URLError\<close>, whose
  reason is or is not a timeout; \<open>HttpStatusError\<close> is its subclass \<open>HTTPError\<close>;
  \<open>SubprocessTimeout\<close> is \<open>subprocess.TimeoutExpired\<close>; \<open>DatabaseCommandError\<close> carries
  the SQLSTATE.
\<close>

datatype pyexn =
    ValueError pystr
  | JSONDecodeError
  | UnicodeDecodeError
  | RuntimeError pystr
  | DatabaseCommandError "pystr option"
  | SubprocessTimeout
  | TimeoutError
  | UrlError bool
  | HttpStatusError int
  | OSError
  | KeyError
  | IndexError
  | TypeError
  | OverflowError
  | AttributeError

text \<open>The class tests of an \<open>except\<close> clause follow Python's hierarchy:
  \<open>JSONDecodeError\<close> and \<open>UnicodeDecodeError\<close> are \<open>ValueError\<close>s, \<open>TimeoutError\<close>,
  \<open>URLError\<close> and \<open>HTTPError\<close> are \<open>OSError\<close>s, \<open>DatabaseCommandError\<close> is a
  \<open>RuntimeError\<close>.\<close>

fun is_value_error :: "pyexn \<Rightarrow> bool" where
  "is_value_error (ValueError _) = True"
| "is_value_error JSONDecodeError = True"
| "is_value_error UnicodeDecodeError = True"
| "is_value_error _ = False"

fun is_runtime_error :: "pyexn \<Rightarrow> bool" where
  "is_runtime_error (RuntimeError _) = True"
| "is_runtime_error (DatabaseCommandError _) = True"
| "is_runtime_error _ = False"

fun is_os_error :: "pyexn \<Rightarrow> bool" where
  "is_os_error OSError = True"
| "is_os_error TimeoutError = True"
| "is_os_error (UrlError _) = True"
| "is_os_error (HttpStatusError _) = True"
| "is_os_error _ = False"

fun is_timeout :: "pyexn \<Rightarrow> bool" where
  "is_timeout TimeoutError = True"
| "is_timeout SubprocessTimeout = True"
| "is_timeout _ = False"

section \<open>Results\<close>

type_synonym 'a res = "pyexn + 'a"

definition res_bind :: "'a res \<Rightarrow> ('a \<Rightarrow> 'b res) \<Rightarrow> 'b res" where
  "res_bind r f = (case r of Inl e \<Rightarrow> Inl e | Inr a \<Rightarrow> f a)"

text \<open>A list comprehension or loop whose body may raise: the first exception wins.\<close>

fun res_map :: "('a \<Rightarrow> 'b res) \<Rightarrow> 'a list \<Rightarrow> 'b list res" where
  "res_map f [] = Inr []"
| "res_map f (x # xs) =
     res_bind (f x) (\<lambda>y. res_bind (res_map f xs) (\<lambda>ys. Inr (y # ys)))"

lemma res_bind_Inl [simp]: "res_bind (Inl e) f = Inl e"
  by (simp add: res_bind_def)

lemma res_bind_Inr [simp]: "res_bind (Inr a) f = f a"
  by (simp add: res_bind_def)

lemma res_bind_eq_Inr: "res_bind r f = Inr b \<longleftrightarrow> (\<exists>a. r = Inr a \<and> f a = Inr b)"
  by (cases r) auto

lemma res_bind_eq_Inl:
  "res_bind r f = Inl e \<longleftrightarrow> r = Inl e \<or> (\<exists>a. r = Inr a \<and> f a = Inl e)"
  by (cases r) auto

lemma res_bind_InrE:
  assumes "res_bind r f = Inr b" obtains a where "r = Inr a" and "f a = Inr b"
  using assms by (cases r) auto

lemma res_map_Inr_iff:
  "res_map f xs = Inr ys \<longleftrightarrow> length xs = length ys \<and> (\<forall>i < length xs. f (xs ! i) = Inr (ys ! i))"
proof (induction xs arbitrary: ys)
  case Nil
  then show ?case by auto
next
  case (Cons x xs)
  show ?case
  proof (cases ys)
    case Nil
    then show ?thesis by (auto simp: res_bind_eq_Inr)
  next
    case (Cons y zs)
    then show ?thesis by (auto simp: res_bind_eq_Inr Cons.IH less_Suc_eq_0_disj nth_Cons')
  qed
qed

lemma res_map_all:
  assumes "res_map f xs = Inr ys" and "\<And>x y. x \<in> set xs \<Longrightarrow> f x = Inr y \<Longrightarrow> P y"
  shows "\<forall>y \<in> set ys. P y"
  using assms by (auto simp: res_map_Inr_iff in_set_conv_nth) (metis nth_mem)

section \<open>JSON values\<close>

text \<open>
  A \<open>float\<close> is carried as what the sources observe of it: its \<open>repr\<close>, whether it is
  zero, and what \<open>int\<close> makes of it. A \<open>dict\<close> is the list of its items in insertion
  order, with distinct keys.
\<close>

datatype float_int = Trunc int | NotANumber | Infinite

datatype pyfloat = PyFloat (float_repr: pystr) (float_zero: bool) (float_int: float_int)

datatype pyval =
    PNone
  | PBool bool
  | PInt int
  | PFloat pyfloat
  | PStr pystr
  | PList "pyval list"
  | PDict "(pystr \<times> pyval) list"

type_synonym pydict = "(pystr \<times> pyval) list"

text \<open>\<open>d.get(k)\<close> and \<open>d.get(k, default)\<close>; \<open>k in d\<close>.\<close>

definition dget :: "pydict \<Rightarrow> pystr \<Rightarrow> pyval" where
  "dget d k = (case map_of d k of None \<Rightarrow> PNone | Some v \<Rightarrow> v)"

definition dget_or :: "pydict \<Rightarrow> pystr \<Rightarrow> pyval \<Rightarrow> pyval" where
  "dget_or d k dflt = (case map_of d k of None \<Rightarrow> dflt | Some v \<Rightarrow> v)"

definition dhas :: "pydict \<Rightarrow> pystr \<Rightarrow> bool" where
  "dhas d k \<longleftrightarrow> map_of d k \<noteq> None"

text \<open>\<open>set(d) == {...}\<close>.\<close>

definition same_fields :: "pydict \<Rightarrow> pystr list \<Rightarrow> bool" where
  "same_fields d names \<longleftrightarrow> set (map fst d) = set names"

fun truthy :: "pyval \<Rightarrow> bool" where
  "truthy PNone = False"
| "truthy (PBool b) = b"
| "truthy (PInt i) = (i \<noteq> 0)"
| "truthy (PFloat f) = (\<not> float_zero f)"
| "truthy (PStr s) = (s \<noteq> [])"
| "truthy (PList xs) = (xs \<noteq> [])"
| "truthy (PDict d) = (d \<noteq> [])"

text \<open>\<open>a or b\<close>.\<close>

definition py_or :: "pyval \<Rightarrow> pyval \<Rightarrow> pyval" where
  "py_or a b = (if truthy a then a else b)"

text \<open>\<open>repr\<close> of a string: double quotes only when the text holds a single quote and no
  double one; backslash, control characters and the unprintable Latin-1 code points are
  escaped.\<close>

definition hex_digit :: "nat \<Rightarrow> char" where
  "hex_digit d = (if d < 10 then char_of (48 + d) else char_of (87 + d))"

definition hex_byte :: "nat \<Rightarrow> pystr" where
  "hex_byte n = [hex_digit (n div 16), hex_digit (n mod 16)]"

definition repr_char :: "char \<Rightarrow> char \<Rightarrow> pystr" where
  "repr_char q c =
     (if c = q \<or> c = CHR 0x5C then [CHR 0x5C, c]
      else if c = CHR 0x09 then [CHR 0x5C, CHR ''t'']
      else if c = CHR 0x0A then [CHR 0x5C, CHR ''n'']
      else if c = CHR 0x0D then [CHR 0x5C, CHR ''r'']
      else if ord c < 32 \<or> (127 \<le> ord c \<and> ord c \<le> 160) \<or> ord c = 173
        then [CHR 0x5C, CHR ''x''] @ hex_byte (ord c)
      else [c])"

definition repr_str :: "pystr \<Rightarrow> pystr" where
  "repr_str s =
     (let q = (if CHR 0x27 \<in> set s \<and> CHR 0x22 \<notin> set s then CHR 0x22 else CHR 0x27)
      in [q] @ concat (map (repr_char q) s) @ [q])"

fun py_repr :: "pyval \<Rightarrow> pystr" where
  "py_repr PNone = ''None''"
| "py_repr (PBool b) = (if b then ''True'' else ''False'')"
| "py_repr (PInt i) = int_str i"
| "py_repr (PFloat f) = float_repr f"
| "py_repr (PStr s) = repr_str s"
| "py_repr (PList xs) = ''['' @ join_with '', '' (map py_repr xs) @ '']''"
| "py_repr (PDict d) =
     ''{'' @ join_with '', '' (map (\<lambda>(k, v). repr_str k @ '': '' @ py_repr v) d) @ ''}''"

fun py_str :: "pyval \<Rightarrow> pystr" where
  "py_str (PStr s) = s"
| "py_str v = py_repr v"

text \<open>\<open>str(value or "")\<close>, the reading of an optional text field.\<close>

definition str_or_empty :: "pyval \<Rightarrow> pystr" where
  "str_or_empty v = py_str (py_or v (PStr []))"

lemma str_or_empty_simps [simp]:
  "str_or_empty (PStr s) = s" "str_or_empty PNone = []"
  by (auto simp: str_or_empty_def py_or_def)

section \<open>int()\<close>

text \<open>
  \<open>int(text)\<close>: surrounding white space, an optional sign, digits with single underscores
  between them, at most 4300 digits; anything else is a \<open>ValueError\<close>.
\<close>

definition int_digits :: "pystr \<Rightarrow> nat option" where
  "int_digits s =
     (let groups = split_on (CHR ''_'') s; ds = concat groups
      in if list_all (\<lambda>g. g \<noteq> [] \<and> list_all is_digit g) groups \<and> length ds \<le> 4300
         then Some (digits_val ds) else None)"

definition int_of_text :: "pystr \<Rightarrow> int option" where
  "int_of_text text =
     (case strip text of
        [] \<Rightarrow> None
      | c # cs \<Rightarrow>
          (if c = CHR ''-'' then map_option (\<lambda>n. - int n) (int_digits cs)
           else if c = CHR ''+'' then map_option int (int_digits cs)
           else map_option int (int_digits (c # cs))))"

fun py_int :: "pyval \<Rightarrow> int res" where
  "py_int (PBool b) = Inr (if b then 1 else 0)"
| "py_int (PInt i) = Inr i"
| "py_int (PStr s) =
     (case int_of_text s of None \<Rightarrow> Inl (ValueError ''invalid literal'') | Some i \<Rightarrow> Inr i)"
| "py_int (PFloat f) =
     (case float_int f of
        Trunc i \<Rightarrow> Inr i
      | NotANumber \<Rightarrow> Inl (ValueError ''cannot convert float NaN to integer'')
      | Infinite \<Rightarrow> Inl OverflowError)"
| "py_int _ = Inl TypeError"

lemma int_digits_plain:
  assumes "s \<noteq> []" and "list_all is_digit s" and "length s \<le> 4300"
  shows "int_digits s = Some (digits_val s)"
proof -
  have "CHR ''_'' \<notin> set s"
    using assms(2) by (auto simp: list_all_iff is_digit_def)
  then have "split_on (CHR ''_'') s = [s]" by (rule split_on_no_sep)
  with assms show ?thesis by (simp add: int_digits_def)
qed

lemma int_of_text_digits:
  assumes "s \<noteq> []" and "list_all is_digit s" and "length s \<le> 4300"
  shows "int_of_text s = Some (int (digits_val s))"
proof -
  have sp: "strip s = s"
    using assms(2) by (intro strip_no_space) (auto simp: list_all_iff digit_not_space)
  obtain c cs where s: "s = c # cs" using assms(1) by (cases s) auto
  have "c \<noteq> CHR ''-''" "c \<noteq> CHR ''+''"
    using assms(2) s by (auto simp: is_digit_def)
  with sp s int_digits_plain [OF assms] show ?thesis by (simp add: int_of_text_def)
qed

lemma int_of_text_nat_str:
  "length (nat_str n) \<le> 4300 \<Longrightarrow> int_of_text (nat_str n) = Some (int n)"
  using int_of_text_digits [of "nat_str n"] nat_str_digits by (simp add: list_all_iff)

section \<open>json.dumps\<close>

text \<open>
  \<open>json.dumps(value, separators=(",", ":"))\<close> with its default \<open>ensure_ascii\<close>: every code
  point outside printable ASCII is escaped, so the text is ASCII and one line.
\<close>

definition json_char :: "char \<Rightarrow> pystr" where
  "json_char c =
     (if c = CHR 0x22 then [CHR 0x5C, CHR 0x22]
      else if c = CHR 0x5C then [CHR 0x5C, CHR 0x5C]
      else if c = CHR 0x08 then [CHR 0x5C, CHR ''b'']
      else if c = CHR 0x09 then [CHR 0x5C, CHR ''t'']
      else if c = CHR 0x0A then [CHR 0x5C, CHR ''n'']
      else if c = CHR 0x0C then [CHR 0x5C, CHR ''f'']
      else if c = CHR 0x0D then [CHR 0x5C, CHR ''r'']
      else if 32 \<le> ord c \<and> ord c \<le> 126 then [c]
      else [CHR 0x5C, CHR ''u'', CHR ''0'', CHR ''0''] @ hex_byte (ord c))"

definition json_str :: "pystr \<Rightarrow> pystr" where
  "json_str s = [CHR 0x22] @ concat (map json_char s) @ [CHR 0x22]"

fun json_dumps :: "pyval \<Rightarrow> pystr" where
  "json_dumps PNone = ''null''"
| "json_dumps (PBool b) = (if b then ''true'' else ''false'')"
| "json_dumps (PInt i) = int_str i"
| "json_dumps (PFloat f) =
     (case float_int f of
        Trunc _ \<Rightarrow> float_repr f
      | NotANumber \<Rightarrow> ''NaN''
      | Infinite \<Rightarrow> (if float_repr f = ''-inf'' then ''-Infinity'' else ''Infinity''))"
| "json_dumps (PStr s) = json_str s"
| "json_dumps (PList xs) = ''['' @ join_with '','' (map json_dumps xs) @ '']''"
| "json_dumps (PDict d) =
     ''{'' @ join_with '','' (map (\<lambda>(k, v). json_str k @ '':'' @ json_dumps v) d) @ ''}''"

lemma hex_digit_printable:
  "n < 16 \<Longrightarrow> 32 \<le> ord (hex_digit n) \<and> ord (hex_digit n) < 127"
  by (auto simp: hex_digit_def)

lemma json_char_printable: "x \<in> set (json_char c) \<Longrightarrow> 32 \<le> ord x \<and> ord x < 127"
proof -
  have "ord c < 256" using of_char_mod_256 [of c] by (metis mod_less_divisor zero_less_numeral)
  then have "ord c div 16 < 16" by linarith
  then have "\<And>x. x \<in> set (hex_byte (ord c)) \<Longrightarrow> 32 \<le> ord x \<and> ord x < 127"
    using hex_digit_printable [of "ord c div 16"] hex_digit_printable [of "ord c mod 16"]
    by (auto simp: hex_byte_def)
  then show "x \<in> set (json_char c) \<Longrightarrow> 32 \<le> ord x \<and> ord x < 127"
    by (auto simp: json_char_def split: if_splits)
qed

lemma json_str_printable: "x \<in> set (json_str s) \<Longrightarrow> 32 \<le> ord x \<and> ord x < 127"
  by (auto simp: json_str_def dest: json_char_printable)

end
