(* ===== verification/Sql_Text.thy ===== *)
theory Sql_Text
  imports Py_Value
begin

text \<open>
  The SQL text that the sync service builds: \<open>sql_quote\<close>, \<open>jsonb\<close> and the \<open>ILIKE\<close>
  pattern of \<open>usage_metadata.ilike_contains\<close>. The reader of string literals and the
  matcher of \<open>LIKE\<close> patterns are the specification: what the SQL language makes of the
  text, for both settings of \<open>standard_conforming_strings\<close>.
\<close>

abbreviation quote :: char where "quote \<equiv> CHR 0x27"
abbreviation backslash :: char where "backslash \<equiv> CHR 0x5C"
abbreviation NUL :: char where "NUL \<equiv> CHR 0x00"

section \<open>The quoting functions\<close>

definition sql_escape :: "pystr \<Rightarrow> pystr" where
  "sql_escape text =
     replace_char NUL [] (replace_char quote [quote, quote]
       (replace_char backslash [backslash, backslash] text))"

definition sql_quote :: "pyval \<Rightarrow> nat option \<Rightarrow> pystr" where
  "sql_quote value max_length =
     (let text = (if value = PNone then [] else py_str value);
          text = (case max_length of None \<Rightarrow> text | Some n \<Rightarrow> take n text)
      in [quote] @ sql_escape text @ [quote])"

definition jsonb :: "pyval \<Rightarrow> pystr" where
  "jsonb value =
     (let text = json_dumps value
      in [quote] @ replace_char NUL [] (replace_char quote [quote, quote] text) @ [quote]
         @ ''::jsonb'')"

definition ilike_escape :: "pystr \<Rightarrow> pystr" where
  "ilike_escape text =
     replace_char (CHR ''_'') ''!_'' (replace_char (CHR ''%'') ''!%''
       (replace_char (CHR ''!'') ''!!'' text))"

definition ilike_contains :: "pyval \<Rightarrow> nat \<Rightarrow> pystr" where
  "ilike_contains value max_length =
     (let text = take max_length (str_or_empty value)
      in sql_quote (PStr (''%'' @ ilike_escape text @ ''%'')) None
         @ '' ESCAPE '' @ [quote] @ ''!'' @ [quote])"

section \<open>Reading a string literal\<close>

text \<open>
  \<open>lex_literal esc s\<close> reads the rest of a literal whose opening quote is consumed: its
  value and the text after the closing quote, \<open>None\<close> when it does not close. With
  \<open>esc\<close> (\<open>standard_conforming_strings = off\<close>) a backslash takes the next character
  literally; without it a backslash is an ordinary character.
\<close>

fun lex_literal :: "bool \<Rightarrow> pystr \<Rightarrow> (pystr \<times> pystr) option" where
  "lex_literal esc [] = None"
| "lex_literal esc (c # cs) =
     (if c = quote then
        (case cs of
           [] \<Rightarrow> Some ([], [])
         | d # ds \<Rightarrow>
             if d = quote then map_option (\<lambda>(v, r). (quote # v, r)) (lex_literal esc ds)
             else Some ([], cs))
      else if esc \<and> c = backslash then
        (case cs of
           [] \<Rightarrow> None
         | d # ds \<Rightarrow> map_option (\<lambda>(v, r). (d # v, r)) (lex_literal esc ds))
      else map_option (\<lambda>(v, r). (c # v, r)) (lex_literal esc cs))"

text \<open>
  What a value becomes on its way through \<open>sql_quote\<close> and the reader, by mode. With
  the standard setting, PostgreSQL's default, every backslash arrives doubled.
\<close>

definition sql_value :: "bool \<Rightarrow> pystr \<Rightarrow> pystr" where
  "sql_value esc text =
     filter (\<lambda>c. c \<noteq> NUL)
       (if esc then text else replace_char backslash [backslash, backslash] text)"

lemma sql_escape_Nil [simp]: "sql_escape [] = []"
  by (simp add: sql_escape_def)

lemma sql_escape_Cons [simp]:
  "sql_escape (c # cs) =
     (if c = backslash then [backslash, backslash] else if c = quote then [quote, quote]
      else if c = NUL then [] else [c]) @ sql_escape cs"
  by (simp add: sql_escape_def)

lemma sql_value_Nil [simp]: "sql_value esc [] = []"
  by (simp add: sql_value_def)

lemma sql_value_Cons [simp]:
  "sql_value esc (c # cs) =
     (if c = NUL then [] else if c = backslash \<and> \<not> esc then [backslash, backslash] else [c])
     @ sql_value esc cs"
  by (simp add: sql_value_def)

lemma sql_value_append: "sql_value esc (xs @ ys) = sql_value esc xs @ sql_value esc ys"
  by (induction xs) auto

lemma sql_value_plain:
  "backslash \<notin> set s \<Longrightarrow> NUL \<notin> set s \<Longrightarrow> sql_value esc s = s"
  by (induction s) auto

lemma lex_literal_escape:
  assumes "rest = [] \<or> hd rest \<noteq> quote"
  shows "lex_literal esc (sql_escape text @ quote # rest) = Some (sql_value esc text, rest)"
proof (induction "text")
  case Nil
  from assms show ?case by (cases "rest") auto
next
  case (Cons c cs)
  then show ?case by auto
qed

lemma lex_literal_doubled:
  assumes "rest = [] \<or> hd rest \<noteq> quote"
  shows "lex_literal False (replace_char quote [quote, quote] text @ quote # rest) = Some (text, rest)"
proof (induction "text")
  case Nil
  from assms show ?case by (cases "rest") auto
next
  case (Cons c cs)
  then show ?case by auto
qed

lemma sql_quote_PStr:
  "sql_quote (PStr s) None = quote # sql_escape s @ [quote]"
  "sql_quote (PStr s) (Some n) = quote # sql_escape (take n s) @ [quote]"
  by (simp_all add: sql_quote_def)

text \<open>
  C1. A value quoted by sql_quote is one string literal of any SQL statement it is pasted
  into, whatever its text: in both literal modes the reader consumes exactly the quoted
  text, stops at the closing quote that sql_quote wrote, and hands on what follows
  unchanged, so no value can end its literal early and continue as SQL. The value read is
  the (truncated) text without NUL characters, and in the standard mode with its
  backslashes doubled.
\<close>

theorem sql_quote_is_one_literal:
  assumes "rest = [] \<or> hd rest \<noteq> CHR 0x27"
  shows "\<exists>body. sql_quote value max_length @ rest = CHR 0x27 # body \<and>
     lex_literal esc body =
       Some (sql_value esc
               (case max_length of
                  None \<Rightarrow> (if value = PNone then [] else py_str value)
                | Some n \<Rightarrow> take n (if value = PNone then [] else py_str value)), rest)"
  using lex_literal_escape [OF assms] by (auto simp: sql_quote_def Let_def split: option.splits)

theorem sql_quote_is_one_literal_witness:
  "\<exists>body. sql_quote (PStr ''a' OR 1=1--'') (Some 4) @ '', x'' = CHR 0x27 # body \<and>
     lex_literal False body = Some (''a' O'', '', x'')"
  using sql_quote_is_one_literal [of "'', x''" "PStr ''a' OR 1=1--''" "Some 4" False]
  by (simp add: sql_value_plain)

text \<open>
  The JSON text of \<open>jsonb\<close> survives the standard reader unchanged: it holds no NUL and no
  line break, and only its quotes are doubled.
\<close>

lemma jsonb_value:
  assumes "NUL \<notin> set (json_dumps v)"
  shows "lex_literal False (tl (jsonb v)) = Some (json_dumps v, ''::jsonb'')"
proof -
  have "NUL \<notin> set (replace_char quote [quote, quote] (json_dumps v))"
    using assms by (auto simp: replace_char_def)
  then have "jsonb v = quote # replace_char quote [quote, quote] (json_dumps v) @ quote # ''::jsonb''"
    by (simp add: jsonb_def replace_char_id)
  then show ?thesis using lex_literal_doubled [of "''::jsonb''" "json_dumps v"] by simp
qed

section \<open>Blanking the literals of a statement\<close>

text \<open>
  \<open>sql_skeleton esc s\<close> is the statement with the contents of its literals removed:
  what of the text is syntax. Client text that never shows in the skeleton cannot change
  the statement.
\<close>

fun skeleton :: "bool \<Rightarrow> bool \<Rightarrow> pystr \<Rightarrow> pystr option" where
  "skeleton esc inside [] = (if inside then None else Some [])"
| "skeleton esc inside (c # cs) =
     (if \<not> inside then map_option (Cons c) (skeleton esc (c = quote) cs)
      else if c = quote then
        (case cs of
           [] \<Rightarrow> Some [quote]
         | d # ds \<Rightarrow>
             if d = quote then skeleton esc True ds
             else map_option (Cons quote) (skeleton esc False cs))
      else if esc \<and> c = backslash then
        (case cs of [] \<Rightarrow> None | d # ds \<Rightarrow> skeleton esc True ds)
      else skeleton esc True cs)"

definition sql_skeleton :: "bool \<Rightarrow> pystr \<Rightarrow> pystr option" where
  "sql_skeleton esc s = skeleton esc False s"

lemma skeleton_outside_append:
  "quote \<notin> set a \<Longrightarrow> skeleton esc False (a @ b) = map_option (append a) (skeleton esc False b)"
  by (cases "skeleton esc False b"; induction a) auto

lemma skeleton_inside_escape:
  assumes "rest = [] \<or> hd rest \<noteq> quote"
  shows "skeleton esc True (sql_escape text @ quote # rest) =
    map_option (Cons quote) (skeleton esc False rest)"
proof (induction "text")
  case Nil
  from assms show ?case by (cases "rest") auto
next
  case (Cons c cs)
  then show ?case by auto
qed

lemma skeleton_quote:
  assumes "rest = [] \<or> hd rest \<noteq> quote"
  shows "skeleton esc False (sql_quote v n @ rest) =
    map_option (append [quote, quote]) (skeleton esc False rest)"
  using skeleton_inside_escape [OF assms]
  by (cases "skeleton esc False rest") (auto simp: sql_quote_def Let_def split: option.splits)

section \<open>LIKE patterns\<close>

text \<open>
  \<open>like eq e pat s\<close>: does \<open>s\<close> match the pattern, with escape character \<open>e\<close> and
  characters compared by \<open>eq\<close> (case-insensitively for \<open>ILIKE\<close>).
\<close>

fun like :: "(char \<Rightarrow> char \<Rightarrow> bool) \<Rightarrow> char \<Rightarrow> pystr \<Rightarrow> pystr \<Rightarrow> bool" where
  "like eq e [] s = (s = [])"
| "like eq e (p # ps) s =
     (if p = e then
        (case (ps, s) of (q # qs, c # cs) \<Rightarrow> eq q c \<and> like eq e qs cs | _ \<Rightarrow> False)
      else if p = CHR ''%'' then
        like eq e ps s \<or> (case s of [] \<Rightarrow> False | c # cs \<Rightarrow> like eq e (p # ps) cs)
      else
        (case s of
           [] \<Rightarrow> False
         | c # cs \<Rightarrow> (p = CHR ''_'' \<or> eq p c) \<and> like eq e ps cs))"

lemma ilike_escape_Nil [simp]: "ilike_escape [] = []"
  by (simp add: ilike_escape_def)

lemma ilike_escape_Cons [simp]:
  "ilike_escape (c # cs) =
     (if c \<in> {CHR ''!'', CHR ''%'', CHR ''_''} then [CHR ''!'', c] else [c]) @ ilike_escape cs"
  by (simp add: ilike_escape_def)

lemma like_percent: "CHR ''%'' \<noteq> e \<Longrightarrow> like eq e ''%'' s"
  by (induction s) auto

lemma like_percent_split:
  "CHR ''%'' \<noteq> e \<Longrightarrow>
   like eq e (CHR ''%'' # ps) s \<longleftrightarrow> (\<exists>a b. s = a @ b \<and> like eq e ps b)"
proof (induction s)
  case Nil
  then show ?case by simp
next
  case (Cons c cs)
  then have "like eq e (CHR ''%'' # ps) (c # cs) \<longleftrightarrow>
    like eq e ps (c # cs) \<or> (\<exists>a b. cs = a @ b \<and> like eq e ps b)" by simp
  also have "\<dots> \<longleftrightarrow> (\<exists>a b. c # cs = a @ b \<and> like eq e ps b)"
    by (metis append_Cons append_Nil list.exhaust list.inject)
  finally show ?case .
qed

lemma like_escaped_prefix:
  "like eq (CHR ''!'') (ilike_escape t @ ps) s \<longleftrightarrow>
   (\<exists>m b. s = m @ b \<and> list_all2 eq t m \<and> like eq (CHR ''!'') ps b)"
proof (induction t arbitrary: s)
  case Nil
  then show ?case by simp
next
  case (Cons c cs)
  show ?case
  proof (cases s)
    case Nil
    then show ?thesis by auto
  next
    case (Cons d ds)
    have "like eq (CHR ''!'') (ilike_escape (c # cs) @ ps) (d # ds) \<longleftrightarrow>
        eq c d \<and> like eq (CHR ''!'') (ilike_escape cs @ ps) ds"
      by auto
    also have "\<dots> \<longleftrightarrow>
        eq c d \<and> (\<exists>m b. ds = m @ b \<and> list_all2 eq cs m \<and> like eq (CHR ''!'') ps b)"
      by (simp add: Cons.IH)
    also have "\<dots> \<longleftrightarrow>
        (\<exists>m b. d # ds = m @ b \<and> list_all2 eq (c # cs) m \<and> like eq (CHR ''!'') ps b)"
      by (auto simp: list_all2_Cons1 Cons_eq_append_conv)
    finally show ?thesis using Cons by simp
  qed
qed

lemma like_contains:
  "like eq (CHR ''!'') (CHR ''%'' # ilike_escape t @ ''%'') s \<longleftrightarrow>
   (\<exists>a m b. s = a @ m @ b \<and> list_all2 eq t m)"
proof -
  have "like eq (CHR ''!'') (CHR ''%'' # ilike_escape t @ ''%'') s \<longleftrightarrow>
      (\<exists>a r. s = a @ r \<and> like eq (CHR ''!'') (ilike_escape t @ ''%'') r)"
    by (rule like_percent_split) simp
  also have "\<dots> \<longleftrightarrow> (\<exists>a r. s = a @ r \<and> (\<exists>m b. r = m @ b \<and> list_all2 eq t m))"
    by (simp add: like_escaped_prefix like_percent del: like.simps)
  finally show ?thesis by auto
qed

lemma sql_value_ilike_escape: "sql_value esc (ilike_escape t) = ilike_escape (sql_value esc t)"
  by (induction t) auto

lemma ilike_contains_literal:
  "lex_literal esc (tl (ilike_contains v n)) =
     Some (CHR ''%'' # ilike_escape (sql_value esc (take n (str_or_empty v))) @ ''%'',
           '' ESCAPE '' @ [quote] @ ''!'' @ [quote])"
  using lex_literal_escape
      [of "'' ESCAPE '' @ [quote] @ ''!'' @ [quote]" esc
          "''%'' @ ilike_escape (take n (str_or_empty v)) @ ''%''"]
  by (simp add: ilike_contains_def sql_quote_PStr sql_value_append sql_value_ilike_escape)

text \<open>
  The pattern that ilike_contains writes means "contains this text": the literal reads
  back as a pattern which, with the escape character the function declares, matches exactly
  the strings with a part that equals the (truncated) search text character by character
  under the comparison used, the wildcards of the client's text included. This holds for
  every search text without backslash and NUL, in both literal modes.
\<close>

theorem ilike_contains_matches_substrings:
  assumes "CHR 0x5C \<notin> set (take n (str_or_empty v))" and "CHR 0x00 \<notin> set (take n (str_or_empty v))"
  shows "\<exists>pat. lex_literal esc (tl (ilike_contains v n)) =
       Some (pat, '' ESCAPE '' @ [CHR 0x27] @ ''!'' @ [CHR 0x27]) \<and>
     (\<forall>s. like eq (CHR ''!'') pat s \<longleftrightarrow>
        (\<exists>a m b. s = a @ m @ b \<and> list_all2 eq (take n (str_or_empty v)) m))"
  using assms by (simp add: ilike_contains_literal sql_value_plain like_contains del: like.simps)

theorem ilike_contains_matches_substrings_witness:
  "\<exists>pat. lex_literal False (tl (ilike_contains (PStr ''50%_off'') 120)) =
       Some (pat, '' ESCAPE '' @ [CHR 0x27] @ ''!'' @ [CHR 0x27]) \<and>
     like (=) (CHR ''!'') pat ''now 50%_off!'' \<and> \<not> like (=) (CHR ''!'') pat ''now 50 percent off''"
proof -
  obtain pat where p: "lex_literal False (tl (ilike_contains (PStr ''50%_off'') 120)) =
       Some (pat, '' ESCAPE '' @ [CHR 0x27] @ ''!'' @ [CHR 0x27])"
    and m: "\<And>s. like (=) (CHR ''!'') pat s \<longleftrightarrow> (\<exists>a m b. s = a @ m @ b \<and> m = ''50%_off'')"
    using ilike_contains_matches_substrings [of 120 "PStr ''50%_off''" False "(=)"]
    by (auto simp: list.rel_eq)
  have "like (=) (CHR ''!'') pat ''now 50%_off!''"
    unfolding m by (rule exI [of _ "''now ''"], rule exI, rule exI [of _ "''!''"]) simp
  moreover have "\<not> like (=) (CHR ''!'') pat ''now 50 percent off''"
  proof
    assume "like (=) (CHR ''!'') pat ''now 50 percent off''"
    then obtain a b where "''now 50 percent off'' = a @ ''50%_off'' @ b" unfolding m by auto
    then have "CHR ''%'' \<in> set ''now 50 percent off''" by (metis UnCI list.set_intros set_append)
    then show False by simp
  qed
  ultimately show ?thesis using p by blast
qed

text \<open>
  Backslashes do not survive the standard mode: with standard_conforming_strings on,
  PostgreSQL's default, the value that a quoted text stands for is the text itself exactly
  when the text holds neither a backslash nor a NUL character, so a name, password or
  search text with a backslash is stored or searched with the backslash doubled.
\<close>

theorem sql_quote_standard_value_iff:
  "lex_literal False (tl (sql_quote (PStr s) None)) = Some (s, []) \<longleftrightarrow>
   CHR 0x5C \<notin> set s \<and> CHR 0x00 \<notin> set s"
proof -
  have len: "length (sql_value False t) + count_list t NUL = length t + count_list t backslash" for t
    by (induction t) auto
  have "lex_literal False (tl (sql_quote (PStr s) None)) = Some (sql_value False s, [])"
    using lex_literal_escape [of "[]" False s] by (simp add: sql_quote_PStr)
  moreover have "sql_value False s = s \<longleftrightarrow> backslash \<notin> set s \<and> NUL \<notin> set s"
  proof
    assume eq: "sql_value False s = s"
    have "NUL \<notin> set (sql_value False s)" by (simp add: sql_value_def)
    with eq have "NUL \<notin> set s" by simp
    with len [of s] eq show "backslash \<notin> set s \<and> NUL \<notin> set s" by (simp add: count_list_0_iff)
  qed (simp add: sql_value_plain)
  ultimately show ?thesis by simp
qed

end
