(* ===== verification/Payload.thy ===== *)
theory Payload
  imports Py_Value
begin

text \<open>
  The reading of a request payload in \<open>sub2api_sync.py\<close>: who the request is about
  (\<open>payload_identity\<close>, \<open>payload_identifier\<close>), which API keys and groups it asks for
  (\<open>requested_tokens\<close>, \<open>requested_groups\<close>), and the validators they use. The process
  environment is the argument \<open>environ\<close>.
\<close>

type_synonym environ = "pystr \<Rightarrow> pystr option"

definition env_get :: "environ \<Rightarrow> pystr \<Rightarrow> pystr \<Rightarrow> pystr" where
  "env_get environ name dflt = (case environ name of None \<Rightarrow> dflt | Some v \<Rightarrow> v)"

definition env_int :: "environ \<Rightarrow> pystr \<Rightarrow> int \<Rightarrow> int" where
  "env_int environ name dflt =
     (case int_of_text (env_get environ name (int_str dflt)) of None \<Rightarrow> dflt | Some i \<Rightarrow> i)"

section \<open>Constants\<close>

definition MAX_SAFE_IDENTIFIER :: int where "MAX_SAFE_IDENTIFIER = 9007199254740991"
definition MAX_USER_API_KEYS :: nat where "MAX_USER_API_KEYS = 100"
definition MAX_GROUP_CATALOG :: nat where "MAX_GROUP_CATALOG = 32"
definition DEFAULT_KEY_NAME :: pystr where "DEFAULT_KEY_NAME = ''Sub2API''"

definition TOKEN_ID_FIELDS :: "pystr list" where
  "TOKEN_ID_FIELDS = [''sub2apiTokenId'', ''sub2apiApiKeyId'', ''tokenId'', ''apiKeyId'']"

definition USER_ID_FIELDS :: "pystr list" where
  "USER_ID_FIELDS = [''sub2apiUserId'', ''userId'']"

definition FORBIDDEN_GROUP_NAMES :: "pystr list" where
  "FORBIDDEN_GROUP_NAMES = [''default'']"

section \<open>Who: usernames and the UUID\<close>

text \<open>The UUID pattern: five dash-separated groups of 8-4-4-4-12 lower-case hex digits,
  version 1 to 5, variant 8, 9, a or b.\<close>

definition is_uuid :: "pystr \<Rightarrow> bool" where
  "is_uuid s =
     (case split_on (CHR ''-'') s of
        [a, b, c, d, e] \<Rightarrow>
          list_all (list_all is_hex) [a, b, c, d, e] \<and>
          map length [a, b, c, d, e] = [8, 4, 4, 4, 12] \<and>
          hd c \<in> set ''12345'' \<and> hd d \<in> set ''89ab''
      | _ \<Rightarrow> False)"

definition sub2api_username :: "pyval \<Rightarrow> pystr res" where
  "sub2api_username uuid =
     (let normalized = lower (strip (str_or_empty uuid))
      in if \<not> is_uuid normalized then Inl (ValueError ''invalid uuid'')
         else Inr (CHR ''u'' # take 11 (replace_char (CHR ''-'') [] normalized)))"

definition username_mark :: "char \<Rightarrow> bool" where
  "username_mark c \<longleftrightarrow> c \<in> set ''._-''"

definition username_char :: "char \<Rightarrow> bool" where
  "username_char c \<longleftrightarrow> is_lower c \<or> is_digit c \<or> username_mark c"

text \<open>\<open>re.sub(r"[^a-z0-9._-]+", "-", text)\<close>: \<open>in_run\<close> says that the run being replaced
  has already written its dash.\<close>

fun dash_runs :: "bool \<Rightarrow> pystr \<Rightarrow> pystr" where
  "dash_runs in_run [] = []"
| "dash_runs in_run (c # cs) =
     (if username_char c then c # dash_runs False cs
      else if in_run then dash_runs True cs
      else CHR ''-'' # dash_runs True cs)"

definition trim_marks :: "pystr \<Rightarrow> pystr" where
  "trim_marks s = rev (dropWhile username_mark (rev (dropWhile username_mark s)))"

definition normalize_username :: "pyval \<Rightarrow> pystr" where
  "normalize_username value =
     take 100 (trim_marks (dash_runs False (lower (strip (str_or_empty value)))))"

definition payload_identity :: "pydict \<Rightarrow> (pystr \<times> pystr \<times> pystr) res" where
  "payload_identity payload =
     (let uuid = lower (strip (py_str (dget_or payload ''uuid'' (PStr []))))
      in res_bind (sub2api_username (PStr uuid)) (\<lambda>legacy_username.
        (let requested_username = normalize_username (dget payload ''username'');
             name_username = normalize_username (dget payload ''name'')
         in Inr (uuid, legacy_username,
              (if name_username \<noteq> [] \<and> (requested_username = [] \<or> requested_username = legacy_username)
               then name_username
               else if requested_username \<noteq> [] then requested_username
               else if name_username \<noteq> [] then name_username
               else legacy_username)))))"

definition default_email :: "pystr \<Rightarrow> pyval \<Rightarrow> pystr" where
  "default_email username email =
     (let t = lower (strip (str_or_empty email))
      in if CHR ''@'' \<in> set t \<and> length t \<le> 255 then t else username @ ''@sub2api.local'')"

section \<open>Identifiers\<close>

text \<open>One field: \<open>None\<close> when it counts as absent (missing, empty or zero).\<close>

fun identifier_of :: "pyval \<Rightarrow> int option res" where
  "identifier_of PNone = Inr None"
| "identifier_of (PBool _) = Inl (ValueError ''invalid identifier'')"
| "identifier_of (PInt i) =
     (if i = 0 then Inr None
      else if 1 \<le> i \<and> i \<le> MAX_SAFE_IDENTIFIER then Inr (Some i)
      else Inl (ValueError ''invalid identifier''))"
| "identifier_of (PStr s) =
     (if s = [] \<or> s = ''0'' then Inr None
      else if \<not> (is_positive_decimal s \<and> length s \<le> 16) then Inl (ValueError ''invalid identifier'')
      else if int (digits_val s) \<le> MAX_SAFE_IDENTIFIER then Inr (Some (int (digits_val s)))
      else Inl (ValueError ''invalid identifier''))"
| "identifier_of _ = Inl (ValueError ''invalid identifier'')"

definition payload_identifier :: "pydict \<Rightarrow> pystr list \<Rightarrow> int res" where
  "payload_identifier payload field_names =
     res_bind (res_map (\<lambda>f. identifier_of (dget payload f)) field_names) (\<lambda>found.
       (let identifiers = remdups (List.map_filter id found)
        in if length identifiers > 1 then Inl (ValueError ''conflicting identifiers'')
           else Inr (case identifiers of [] \<Rightarrow> 0 | i # _ \<Rightarrow> i)))"

definition payload_token_id :: "pydict \<Rightarrow> int res" where
  "payload_token_id payload = payload_identifier payload TOKEN_ID_FIELDS"

definition payload_user_id :: "pydict \<Rightarrow> int res" where
  "payload_user_id payload = payload_identifier payload USER_ID_FIELDS"

section \<open>API keys\<close>

definition is_api_key :: "pyval \<Rightarrow> bool" where
  "is_api_key value =
     (let t = str_or_empty value
      in (length t = 48 \<and> list_all is_alnum t)
       \<or> (prefix ''sk-'' t \<and> 1 \<le> length (drop 3 t) \<and> length (drop 3 t) \<le> 125
          \<and> list_all is_alnum (drop 3 t)))"

definition normalize_api_key :: "pyval \<Rightarrow> pystr res" where
  "normalize_api_key value =
     (let t = strip (str_or_empty value)
      in if t = [] then Inr []
         else if \<not> is_api_key (PStr t) then Inl (ValueError ''invalid api key'')
         else if prefix ''sk-'' t then Inr t
         else Inr (''sk-'' @ t))"

definition clean_key_name :: "pyval \<Rightarrow> pystr" where
  "clean_key_name value =
     (let t = take 100 (strip (str_or_empty value))
      in if t = [] then DEFAULT_KEY_NAME else t)"

text \<open>\<open>validate_group_name\<close>: \<open>^[A-Za-z0-9][A-Za-z0-9._-]{0,63}$\<close>, and not \<open>default\<close>.\<close>

definition group_name_ok :: "pystr \<Rightarrow> bool" where
  "group_name_ok name \<longleftrightarrow> name \<noteq> [] \<and> is_alnum (hd name) \<and> length name \<le> 64
     \<and> list_all (\<lambda>c. is_alnum c \<or> c \<in> set ''._-'') (tl name)"

definition validate_group_name :: "pyval \<Rightarrow> pystr res" where
  "validate_group_name value =
     (let name = strip (str_or_empty value)
      in if \<not> group_name_ok name then Inl (ValueError ''invalid_group'')
         else if lower name \<in> set FORBIDDEN_GROUP_NAMES then Inl (ValueError ''invalid_group'')
         else Inr name)"

record token =
  tk_key :: pystr
  tk_name :: pystr
  tk_group :: "pystr option"

definition item_key :: "pydict \<Rightarrow> pystr res" where
  "item_key item =
     normalize_api_key (py_or (dget item ''tokenKey'') (py_or (dget item ''apiKey'') (PStr [])))"

definition item_name :: "pydict \<Rightarrow> pystr" where
  "item_name item =
     clean_key_name
       (py_or (dget item ''tokenName'') (py_or (dget item ''apiKeyName'') (PStr DEFAULT_KEY_NAME)))"

definition item_group :: "pydict \<Rightarrow> pystr option res" where
  "item_group item =
     (if truthy (dget item ''groupName'')
      then res_bind (validate_group_name (dget item ''groupName'')) (\<lambda>g. Inr (Some g))
      else Inr None)"

text \<open>The body of the loop of \<open>requested_tokens\<close>: the keys seen so far and the tokens
  collected so far, in order.\<close>

fun token_loop :: "pyval list \<Rightarrow> pystr list \<Rightarrow> token list \<Rightarrow> token list res" where
  "token_loop [] seen result = Inr result"
| "token_loop (PDict item # items) seen result =
     res_bind (item_key item) (\<lambda>key.
       if key = [] \<or> key \<in> set seen then token_loop items seen result
       else res_bind (item_group item) (\<lambda>grp.
         (let result' = result @ [\<lparr>tk_key = key, tk_name = item_name item, tk_group = grp\<rparr>]
          in if length result' > MAX_USER_API_KEYS
             then Inl (RuntimeError ''api_key_limit_exceeded'')
             else token_loop items (key # seen) result')))"
| "token_loop (_ # items) seen result = token_loop items seen result"

definition token_items :: "pydict \<Rightarrow> pyval list" where
  "token_items payload =
     (case dget payload ''tokens'' of
        PList items \<Rightarrow> items
      | _ \<Rightarrow> [PDict
          [(''tokenKey'', py_or (dget payload ''tokenKey'') (py_or (dget payload ''apiKey'') (PStr []))),
           (''tokenName'', py_or (dget payload ''tokenName'')
              (py_or (dget payload ''apiKeyName'') (PStr DEFAULT_KEY_NAME)))]])"

definition requested_tokens :: "pydict \<Rightarrow> token list res" where
  "requested_tokens payload = token_loop (token_items payload) [] []"

section \<open>Groups\<close>

definition configured_groups :: "environ \<Rightarrow> pystr list" where
  "configured_groups environ =
     (let raw = env_get environ ''SUB2API_SYNC_DEFAULT_GROUP'' ''openai-default'';
          valid = List.map_filter
            (\<lambda>part. case validate_group_name (PStr (take 100 (strip part))) of
               Inl _ \<Rightarrow> None | Inr g \<Rightarrow> Some g) (split_on (CHR '','') raw);
          groups = dedup [] valid
      in if groups = [] then [''openai-default''] else groups)"

text \<open>The names in the order the code collects them: \<open>allowedGroups\<close> (which must be a
  non-empty list when present) or else \<open>groupNames\<close>, then the tokens' groups.\<close>

definition token_group_names :: "pydict \<Rightarrow> pyval list" where
  "token_group_names payload =
     (case dget payload ''tokens'' of
        PList items \<Rightarrow>
          List.map_filter
            (\<lambda>item. case item of
               PDict d \<Rightarrow> if truthy (dget d ''groupName'') then Some (dget d ''groupName'') else None
             | _ \<Rightarrow> None) items
      | _ \<Rightarrow> [])"

definition group_name_values :: "pydict \<Rightarrow> pyval list res" where
  "group_name_values payload =
     res_bind
       (if dhas payload ''allowedGroups'' then
          (case dget payload ''allowedGroups'' of
             PList (r # rs) \<Rightarrow> Inr (r # rs)
           | _ \<Rightarrow> Inl (ValueError ''invalid_group''))
        else
          (case dget payload ''groupNames'' of PList rs \<Rightarrow> Inr rs | _ \<Rightarrow> Inr []))
       (\<lambda>names. Inr (names @ token_group_names payload))"

fun group_loop :: "pyval list \<Rightarrow> pystr list \<Rightarrow> pystr list res" where
  "group_loop [] seen = Inr seen"
| "group_loop (name # names) seen =
     res_bind (validate_group_name name) (\<lambda>grp.
       if grp \<in> set seen then group_loop names seen
       else if length (seen @ [grp]) > MAX_GROUP_CATALOG then Inl (ValueError ''too_many_groups'')
       else group_loop names (seen @ [grp]))"

definition requested_groups :: "environ \<Rightarrow> pydict \<Rightarrow> pystr list res" where
  "requested_groups environ payload =
     res_bind (group_name_values payload) (\<lambda>names.
     res_bind (group_loop names []) (\<lambda>seen.
       Inr (if seen \<noteq> [] then seen else configured_groups environ)))"

definition group_profile :: "pystr \<Rightarrow> pystr \<times> pystr" where
  "group_profile grp =
     (let name = lower (strip grp)
      in if name = ''default'' \<or> prefix ''openai'' name then (''openai'', ''OpenAI-compatible gateway'')
         else if prefix ''grok'' name \<or> prefix ''xai'' name then (''openai'', ''Grok gateway'')
         else if prefix ''anthropic'' name then (''anthropic'', ''Anthropic gateway'')
         else if prefix ''gemini'' name then (''gemini'', ''Gemini gateway'')
         else if prefix ''antigravity'' name then (''antigravity'', ''Antigravity gateway'')
         else (''openai'', ''OpenAI-compatible gateway''))"

definition DEFAULT_SUBSCRIPTION_DAYS :: int where "DEFAULT_SUBSCRIPTION_DAYS = 36500"

definition subscription_days :: "environ \<Rightarrow> int" where
  "subscription_days environ =
     max 1 (min (env_int environ ''SUB2API_SYNC_DEFAULT_SUBSCRIPTION_DAYS'' DEFAULT_SUBSCRIPTION_DAYS)
                DEFAULT_SUBSCRIPTION_DAYS)"

text \<open>A code equation that does not print the default number, for evaluation.\<close>

lemma digit_chars:
  "char_of (48::nat) = CHR ''0''" "char_of (51::nat) = CHR ''3''" "char_of (53::nat) = CHR ''5''"
  "char_of (54::nat) = CHR ''6''"
  by code_simp+

lemma days_text: "int_str 36500 = ''36500''" "int_of_text ''36500'' = Some 36500"
  by (simp_all add: int_str_def nat_str.simps digit_char_def digit_chars int_of_text_def int_digits_def
      strip_def lstrip_def rstrip_def is_space_def digits_val_def digit_val_def is_digit_def)

lemma subscription_days_code [code]:
  "subscription_days vars = (case vars ''SUB2API_SYNC_DEFAULT_SUBSCRIPTION_DAYS'' of
      None \<Rightarrow> 36500
    | Some v \<Rightarrow> max 1 (min (case int_of_text v of None \<Rightarrow> 36500 | Some i \<Rightarrow> i) 36500))"
  by (simp add: subscription_days_def env_int_def env_get_def DEFAULT_SUBSCRIPTION_DAYS_def days_text
      split: option.splits)

end
