(* ===== verification/Payload_Facts.thy ===== *)
theory Payload_Facts
  imports Payload
begin

text \<open>
  What the payload readers guarantee to the operations behind them: the shape of an
  identity, of identifiers, keys and groups, on the success branch, and which inputs are
  refused.
\<close>

section \<open>Case folding\<close>

lemma ord_lt_256 [simp]: "ord c < 256"
  using of_char_mod_256 [of c] by (metis mod_less_divisor zero_less_numeral)

lemma ord_lower_char:
  "ord (lower_char c) =
     (if (65 \<le> ord c \<and> ord c \<le> 90) \<or> (192 \<le> ord c \<and> ord c \<le> 222 \<and> ord c \<noteq> 215)
      then ord c + 32 else ord c)"
  by (auto simp: lower_char_def)

lemma is_space_lower_char [simp]: "is_space (lower_char c) = is_space c"
  by (auto simp: is_space_def ord_lower_char)

lemma lower_char_idem [simp]: "lower_char (lower_char c) = lower_char c"
proof -
  have "ord (lower_char (lower_char c)) = ord (lower_char c)"
    by (auto simp: ord_lower_char)
  then show ?thesis by (metis char_of_char)
qed

lemma lower_idem [simp]: "lower (lower s) = lower s"
  by (simp add: lower_def)

lemma strip_lower: "strip (lower s) = lower (strip s)"
  by (simp add: strip_def rstrip_def lstrip_def lower_def dropWhile_map comp_def rev_map)

lemma normal_text_idem: "lower (strip (lower (strip s))) = lower (strip s)"
  by (simp add: strip_lower strip_idem)

section \<open>Usernames\<close>

lemma dash_runs_chars: "\<forall>c \<in> set (dash_runs r s). username_char c"
  by (induction r s rule: dash_runs.induct)
     (auto simp: username_char_def username_mark_def)

lemma dash_runs_id: "\<forall>c \<in> set s. username_char c \<Longrightarrow> dash_runs False s = s"
  by (induction s) auto

lemma set_trim_marks: "set (trim_marks s) \<subseteq> set s"
  by (auto simp: trim_marks_def dest!: set_dropWhileD)

lemma normalize_username_chars: "c \<in> set (normalize_username v) \<Longrightarrow> username_char c"
  using set_trim_marks dash_runs_chars unfolding normalize_username_def
  by (meson in_set_takeD subsetD)

lemma normalize_username_length: "length (normalize_username v) \<le> 100"
  by (simp add: normalize_username_def)

lemma is_uuid_groups:
  assumes "is_uuid s"
  obtains a b c d e where "split_on (CHR ''-'') s = [a, b, c, d, e]"
    and "list_all (list_all is_hex) [a, b, c, d, e]"
    and "map length [a, b, c, d, e] = [8, 4, 4, 4, 12]"
    and "hd c \<in> set ''12345''" and "hd d \<in> set ''89ab''"
  using assms unfolding is_uuid_def by (auto split: list.splits)

lemma is_uuid_text:
  assumes "is_uuid s"
  shows "length s = 36 \<and> list_all (\<lambda>c. is_hex c \<or> c = CHR ''-'') s"
proof -
  obtain a b c d e where sp: "split_on (CHR ''-'') s = [a, b, c, d, e]"
    and h: "list_all (list_all is_hex) [a, b, c, d, e]"
    and l: "map length [a, b, c, d, e] = [8, 4, 4, 4, 12]"
    using assms by (rule is_uuid_groups)
  have "s = a @ ''-'' @ b @ ''-'' @ c @ ''-'' @ d @ ''-'' @ e"
    using join_split_on [of "CHR ''-''" s] sp by simp
  with h l show ?thesis by (auto simp: list_all_iff)
qed

text \<open>The compact form keeps the 32 hex digits.\<close>

lemma is_uuid_compact:
  assumes "is_uuid s"
  shows "length (replace_char (CHR ''-'') [] s) = 32 \<and>
    list_all is_hex (replace_char (CHR ''-'') [] s)"
proof -
  obtain a b c d e where sp: "split_on (CHR ''-'') s = [a, b, c, d, e]"
    and h: "list_all (list_all is_hex) [a, b, c, d, e]"
    and l: "map length [a, b, c, d, e] = [8, 4, 4, 4, 12]"
    using assms by (rule is_uuid_groups)
  have s: "s = a @ ''-'' @ b @ ''-'' @ c @ ''-'' @ d @ ''-'' @ e"
    using join_split_on [of "CHR ''-''" s] sp by simp
  have "CHR ''-'' \<notin> set w" if "w \<in> {a, b, c, d, e}" for w
    using split_on_pieces [of w "CHR ''-''" s] sp that by auto
  then have "replace_char (CHR ''-'') [] s = a @ b @ c @ d @ e"
    by (simp add: s replace_char_id)
  with h l show ?thesis by simp
qed

lemma hex_username_char: "is_hex c \<Longrightarrow> username_char c"
  by (auto simp: is_hex_def username_char_def is_lower_def)

lemma sub2api_username_Inr:
  assumes "sub2api_username (PStr u) = Inr legacy"
  shows "is_uuid (lower (strip u)) \<and>
     legacy = CHR ''u'' # take 11 (replace_char (CHR ''-'') [] (lower (strip u)))"
  using assms by (auto simp: sub2api_username_def Let_def split: if_splits)

lemma legacy_username_shape:
  assumes "sub2api_username (PStr u) = Inr legacy"
  shows "length legacy = 12 \<and> list_all username_char legacy"
proof -
  let ?k = "replace_char (CHR ''-'') [] (lower (strip u))"
  have k: "length ?k = 32" "list_all is_hex ?k" and l: "legacy = CHR ''u'' # take 11 ?k"
    using sub2api_username_Inr [OF assms] is_uuid_compact by auto
  have "username_char (CHR ''u'')" by (simp add: username_char_def is_lower_def)
  moreover have "list_all username_char (take 11 ?k)"
    using k(2) by (auto simp: list_all_iff hex_username_char dest: in_set_takeD)
  ultimately show ?thesis using k(1) l by simp
qed

lemma payload_identity_Inr:
  assumes "payload_identity payload = Inr (uuid, legacy_username, username)"
  shows "is_uuid uuid \<and> length uuid = 36 \<and>
    legacy_username = CHR ''u'' # take 11 (replace_char (CHR ''-'') [] uuid) \<and>
    length legacy_username = 12 \<and>
    username \<noteq> [] \<and> length username \<le> 100 \<and>
    list_all (\<lambda>c. is_lower c \<or> is_digit c \<or> c \<in> set ''._-'') username"
proof -
  let ?u = "lower (strip (py_str (dget_or payload ''uuid'' (PStr []))))"
  let ?r = "normalize_username (dget payload ''username'')"
  let ?n = "normalize_username (dget payload ''name'')"
  from assms have legacy: "sub2api_username (PStr ?u) = Inr legacy_username" and u: "uuid = ?u"
    and name: "username \<in> {?n, ?r, legacy_username}"
    and ne: "username = [] \<Longrightarrow> legacy_username = []"
    by (auto simp: payload_identity_def Let_def res_bind_eq_Inr split: if_splits)
  have shape: "length legacy_username = 12" "list_all username_char legacy_username"
    using legacy_username_shape [OF legacy] by auto
  have uu: "is_uuid uuid" "legacy_username = CHR ''u'' # take 11 (replace_char (CHR ''-'') [] uuid)"
    using sub2api_username_Inr [OF legacy] u by (simp_all add: normal_text_idem)
  have "username \<noteq> []" using ne shape(1) by auto
  moreover have "length username \<le> 100"
    using name normalize_username_length shape(1) by auto
  moreover have "list_all username_char username"
    using name normalize_username_chars shape(2) by (auto simp: list_all_iff)
  ultimately show ?thesis
    using uu shape(1) is_uuid_text [OF uu(1)]
    by (simp add: list_all_iff username_char_def username_mark_def)
qed

text \<open>
  A request that passes payload_identity names one canonical person: the UUID is in
  canonical lower-case form, the legacy username is the letter u and the first eleven of
  its 32 hex digits, and the username chosen for the account is never empty, at most 100
  characters long and made of lower-case letters, digits, dots, underscores and dashes
  only. So no account name can hold white space, quotes, control or non-ASCII characters.
\<close>

theorem payload_identity_shape:
  assumes "payload_identity payload = Inr (uuid, legacy_username, username)"
  shows "is_uuid uuid \<and> length uuid = 36 \<and>
    legacy_username = CHR ''u'' # take 11 (replace_char (CHR ''-'') [] uuid) \<and>
    length legacy_username = 12 \<and>
    username \<noteq> [] \<and> length username \<le> 100 \<and>
    list_all (\<lambda>c. is_lower c \<or> is_digit c \<or> c \<in> set ''._-'') username"
  using payload_identity_Inr [OF assms] .

definition example_uuid :: pystr where
  "example_uuid = ''7c484f74-6d93-43d1-9441-00c7d8d4ab11''"

lemma example_identity:
  "payload_identity [(''uuid'', PStr example_uuid), (''name'', PStr ''Alice Example'')] =
     Inr (example_uuid, ''u7c484f746d9'', ''alice-example'')"
  by code_simp

theorem payload_identity_shape_witness:
  "is_uuid example_uuid \<and> length example_uuid = 36 \<and>
    ''u7c484f746d9'' = CHR ''u'' # take 11 (replace_char (CHR ''-'') [] example_uuid)"
  using payload_identity_shape [OF example_identity] by blast

section \<open>Identifiers\<close>

text \<open>
  When an identifier field counts, and as which number: the specification that
  \<open>payload_identifier\<close> is measured against.
\<close>

definition field_identifier :: "pydict \<Rightarrow> pystr \<Rightarrow> int \<Rightarrow> bool" where
  "field_identifier payload f i \<longleftrightarrow> identifier_of (dget payload f) = Inr (Some i)"

lemma digits_val_foldl_ge: "a \<le> foldl (\<lambda>acc c. 10 * acc + digit_val c) a s"
proof (induction s arbitrary: a)
  case Nil
  then show ?case by simp
next
  case (Cons c cs)
  have "a \<le> 10 * a + digit_val c" by simp
  also have "\<dots> \<le> foldl (\<lambda>acc c. 10 * acc + digit_val c) (10 * a + digit_val c) cs"
    by (rule Cons.IH)
  finally show ?case by simp
qed

lemma positive_decimal_pos:
  assumes "is_positive_decimal s" shows "0 < digits_val s"
proof -
  obtain c cs where s: "s = c # cs" "is_digit c" "c \<noteq> CHR ''0''"
    using assms by (cases s) (auto simp: is_positive_decimal_def)
  have "ord c \<noteq> ord (CHR ''0'')" using s(3) by (simp only: of_char_eq_iff not_False_eq_True)
  then have "0 < digit_val c" using s(2) by (simp add: digit_val_def is_digit_def)
  also have "digit_val c \<le> digits_val s"
    using digits_val_foldl_ge by (simp add: s(1) digits_val_def)
  finally show ?thesis .
qed

lemma identifier_of_range:
  assumes "identifier_of v = Inr (Some i)" shows "1 \<le> i \<and> i \<le> MAX_SAFE_IDENTIFIER"
proof (cases v)
  case (PStr s)
  with assms have "is_positive_decimal s" and "i = int (digits_val s)" "i \<le> MAX_SAFE_IDENTIFIER"
    by (auto split: if_splits)
  then show ?thesis using positive_decimal_pos [of s] by simp
qed (use assms in \<open>auto split: if_splits\<close>)

lemma set_map_filter_id: "set (List.map_filter id xs) = {i. Some i \<in> set xs}"
  by (induction xs) (auto simp: List.map_filter_simps split: option.splits)

lemma res_map_Inr_list_all2: "res_map f xs = Inr ys \<longleftrightarrow> list_all2 (\<lambda>x y. f x = Inr y) xs ys"
  by (auto simp: res_map_Inr_iff list_all2_conv_all_nth)

lemma length_remdups_le1: "length (remdups xs) \<le> 1 \<longleftrightarrow> (\<forall>x \<in> set xs. \<forall>y \<in> set xs. x = y)"
proof -
  have "length (remdups xs) \<le> 1 \<longleftrightarrow> card (set xs) \<le> 1" by (simp add: length_remdups_card_conv)
  also have "\<dots> \<longleftrightarrow> (\<forall>x \<in> set xs. \<forall>y \<in> set xs. x = y)" by (simp add: card_le_Suc0_iff_eq)
  finally show ?thesis .
qed

text \<open>
  payload_identifier answers with the one number that every identifier field of the
  payload agrees on. It returns i exactly when each field is either absent (missing, empty
  or zero) or well formed with the value i, and i is 0 if no field carries a number;
  otherwise it raises. The answer always lies between 0 and 2^53 - 1.
\<close>

theorem payload_identifier_agrees:
  "(payload_identifier payload names = Inr i \<longleftrightarrow>
      (\<forall>f \<in> set names. identifier_of (dget payload f) \<in> {Inr None, Inr (Some i)}) \<and>
      (i = 0 \<or> (\<exists>f \<in> set names. identifier_of (dget payload f) = Inr (Some i)))) \<and>
   (payload_identifier payload names = Inr i \<longrightarrow> 0 \<le> i \<and> i \<le> 9007199254740991)"
proof -
  let ?g = "\<lambda>f. identifier_of (dget payload f)"
  have fwd: "(\<forall>f \<in> set names. ?g f \<in> {Inr None, Inr (Some i)}) \<and>
      (i = 0 \<or> (\<exists>f \<in> set names. ?g f = Inr (Some i)))"
    if r: "payload_identifier payload names = Inr i"
  proof -
    obtain found where m: "res_map ?g names = Inr found"
      and l: "length (remdups (List.map_filter id found)) \<le> 1"
      and i: "i = (case remdups (List.map_filter id found) of [] \<Rightarrow> 0 | i # _ \<Rightarrow> i)"
      using r by (auto simp: payload_identifier_def Let_def res_bind_eq_Inr split: if_splits)
    define S where "S = {i. Some i \<in> set found}"
    let ?L = "remdups (List.map_filter id found)"
    have img: "?g ` set names = Inr ` set found"
      using m unfolding res_map_Inr_list_all2
      by (induction rule: list_all2_induct) auto
    have set: "set ?L = S" by (simp add: set_map_filter_id S_def)
    have one: "\<forall>x \<in> S. \<forall>y \<in> S. x = y"
      using l unfolding length_remdups_le1 set_map_filter_id S_def .
    have S: "S = {} \<and> i = 0 \<or> S = {i}"
    proof (cases ?L)
      case Nil
      have "S = {}" using set unfolding Nil by simp
      moreover have "i = 0" using i unfolding Nil by simp
      ultimately show ?thesis by simp
    next
      case (Cons x xs)
      have "i = x" using i unfolding Cons by simp
      then have "i \<in> set ?L" unfolding Cons by simp
      then have "i \<in> S" unfolding set .
      with one show ?thesis by blast
    qed
    have "?g f \<in> {Inr None, Inr (Some i)}" if "f \<in> set names" for f
    proof -
      have "?g f \<in> ?g ` set names" using that by (rule imageI)
      then have "?g f \<in> Inr ` set found" unfolding img .
      then obtain y where y: "?g f = Inr y" "y \<in> set found" by (elim imageE)
      have "x \<in> S" if "y = Some x" for x using y that by (simp add: S_def)
      then show ?thesis using y(1) S by (cases y) auto
    qed
    moreover have "i = 0 \<or> (\<exists>f \<in> set names. ?g f = Inr (Some i))"
    proof (cases "i \<in> S")
      case True
      then have "Inr (Some i) \<in> ?g ` set names" using img by (auto simp: S_def)
      then show ?thesis by auto
    next
      case False
      then show ?thesis using S by auto
    qed
    ultimately show ?thesis by blast
  qed
  have bwd: "payload_identifier payload names = Inr i"
    if all: "\<forall>f \<in> set names. ?g f \<in> {Inr None, Inr (Some i)}"
      and some: "i = 0 \<or> (\<exists>f \<in> set names. ?g f = Inr (Some i))"
  proof -
    let ?found = "map (\<lambda>f. case ?g f of Inl _ \<Rightarrow> None | Inr y \<Rightarrow> y) names"
    have m: "res_map ?g names = Inr ?found"
      unfolding res_map_Inr_list_all2 list_all2_map2 using all by (auto intro!: list.rel_refl_strong)
    have sub: "set (List.map_filter id ?found) \<subseteq> {i}"
      unfolding set_map_filter_id using all by (auto split: sum.splits)
    have mem: "set (List.map_filter id ?found) = {} \<Longrightarrow> i = 0"
    proof -
      assume e: "set (List.map_filter id ?found) = {}"
      have "?g f \<noteq> Inr (Some i)" if "f \<in> set names" for f
      proof
        assume "?g f = Inr (Some i)"
        with that have "Some i \<in> set ?found" by force
        with e show False by (simp add: set_map_filter_id)
      qed
      with some show "i = 0" by blast
    qed
    have "length (remdups (List.map_filter id ?found)) \<le> 1"
      unfolding length_remdups_le1 using sub by auto
    moreover have "(case remdups (List.map_filter id ?found) of [] \<Rightarrow> 0 | i # _ \<Rightarrow> i) = i"
      using sub mem set_remdups [of "List.map_filter id ?found"]
      by (cases "remdups (List.map_filter id ?found)") auto
    ultimately show ?thesis by (simp add: payload_identifier_def m)
  qed
  show ?thesis
    using fwd bwd identifier_of_range unfolding MAX_SAFE_IDENTIFIER_def by fastforce
qed

theorem payload_identifier_agrees_witness:
  "payload_identifier [(''tokenId'', PStr ''17''), (''apiKeyId'', PInt 17)] TOKEN_ID_FIELDS = Inr 17"
proof -
  let ?p = "[(''tokenId'', PStr ''17''), (''apiKeyId'', PInt 17)]"
  have "\<forall>f \<in> set TOKEN_ID_FIELDS. identifier_of (dget ?p f) \<in> {Inr None, Inr (Some 17)}"
    "\<exists>f \<in> set TOKEN_ID_FIELDS. identifier_of (dget ?p f) = Inr (Some 17)"
    by code_simp+
  then show ?thesis using payload_identifier_agrees [of ?p TOKEN_ID_FIELDS 17] by blast
qed

section \<open>API keys\<close>

definition valid_api_key :: "pystr \<Rightarrow> bool" where
  "valid_api_key k \<longleftrightarrow> prefix ''sk-'' k \<and> 4 \<le> length k \<and> length k \<le> 128
     \<and> list_all is_alnum (drop 3 k)"

definition valid_group :: "pystr \<Rightarrow> bool" where
  "valid_group g \<longleftrightarrow> group_name_ok g \<and> lower g \<noteq> ''default''"

definition valid_token :: "token \<Rightarrow> bool" where
  "valid_token t \<longleftrightarrow> valid_api_key (tk_key t) \<and> tk_name t \<noteq> [] \<and> length (tk_name t) \<le> 100
     \<and> (case tk_group t of None \<Rightarrow> True | Some g \<Rightarrow> valid_group g)"

lemma validate_group_name_Inr:
  "validate_group_name v = Inr g \<Longrightarrow> valid_group g \<and> g = strip (str_or_empty v)"
  by (auto simp: validate_group_name_def valid_group_def FORBIDDEN_GROUP_NAMES_def Let_def
      split: if_splits)

lemma normalize_api_key_Inr:
  assumes "normalize_api_key v = Inr k" shows "k = [] \<or> valid_api_key k"
  using assms
  by (auto simp: normalize_api_key_def is_api_key_def valid_api_key_def Let_def py_or_def
      str_or_empty_def list_all_iff dest: in_set_dropD split: if_splits)

lemma clean_key_name_length: "clean_key_name v \<noteq> [] \<and> length (clean_key_name v) \<le> 100"
  by (auto simp: clean_key_name_def DEFAULT_KEY_NAME_def Let_def)

lemma item_group_Inr: "item_group item = Inr g \<Longrightarrow> (case g of None \<Rightarrow> True | Some n \<Rightarrow> valid_group n)"
  by (auto simp: item_group_def res_bind_eq_Inr split: if_splits dest: validate_group_name_Inr)

text \<open>The keys in the order in which the items first name them.\<close>

definition named_keys :: "pyval list \<Rightarrow> pystr list" where
  "named_keys items =
     dedup [] (filter (\<lambda>k. k \<noteq> [])
       (List.map_filter (\<lambda>item. case item of
           PDict d \<Rightarrow> (case item_key d of Inl _ \<Rightarrow> None | Inr k \<Rightarrow> Some k)
         | _ \<Rightarrow> None) items))"

lemma token_loop_Inr:
  assumes "token_loop items seen result = Inr ts"
    and "\<forall>t \<in> set result. valid_token t" and "length result \<le> MAX_USER_API_KEYS"
  shows "(\<forall>t \<in> set ts. valid_token t) \<and> length ts \<le> MAX_USER_API_KEYS \<and>
    map tk_key ts = map tk_key result @ dedup seen (filter (\<lambda>k. k \<noteq> [])
       (List.map_filter (\<lambda>item. case item of
           PDict d \<Rightarrow> (case item_key d of Inl _ \<Rightarrow> None | Inr k \<Rightarrow> Some k)
         | _ \<Rightarrow> None) items))"
  using assms
proof (induction items seen result rule: token_loop.induct)
  case (2 item items seen result)
  obtain k where k: "item_key item = Inr k"
    and rest: "(if k = [] \<or> k \<in> set seen then token_loop items seen result
       else res_bind (item_group item) (\<lambda>grp.
         (let result' = result @ [\<lparr>tk_key = k, tk_name = item_name item, tk_group = grp\<rparr>]
          in if length result' > MAX_USER_API_KEYS
             then Inl (RuntimeError ''api_key_limit_exceeded'')
             else token_loop items (k # seen) result'))) = Inr ts"
    using "2.prems"(1) by (auto simp: res_bind_eq_Inr)
  show ?case
  proof (cases "k = [] \<or> k \<in> set seen")
    case True
    with rest have "token_loop items seen result = Inr ts" by simp
    from "2.IH"(1) [OF True this "2.prems"(2,3)] True k show ?thesis
      by (auto simp: List.map_filter_simps)
  next
    case False
    with rest obtain grp where g: "item_group item = Inr grp"
      and len: "length (result @ [\<lparr>tk_key = k, tk_name = item_name item, tk_group = grp\<rparr>])
          \<le> MAX_USER_API_KEYS"
      and tl: "token_loop items (k # seen)
          (result @ [\<lparr>tk_key = k, tk_name = item_name item, tk_group = grp\<rparr>]) = Inr ts"
      by (auto simp: res_bind_eq_Inr Let_def split: if_splits)
    have "valid_api_key k"
      using normalize_api_key_Inr k False unfolding item_key_def by blast
    then have "valid_token \<lparr>tk_key = k, tk_name = item_name item, tk_group = grp\<rparr>"
      using item_group_Inr [OF g] clean_key_name_length by (simp add: valid_token_def item_name_def)
    with "2.prems"(2) have "\<forall>t \<in> set (result @ [\<lparr>tk_key = k, tk_name = item_name item, tk_group = grp\<rparr>]).
        valid_token t" by simp
    from "2.IH"(2) [OF False refl _ tl this len] len False k show ?thesis
      by (auto simp: List.map_filter_simps)
  qed
qed (auto simp: List.map_filter_simps)

lemma requested_tokens_Inr:
  assumes "requested_tokens payload = Inr ts"
  shows "map tk_key ts = named_keys (token_items payload) \<and> distinct (map tk_key ts) \<and>
    length ts \<le> 100 \<and> (\<forall>t \<in> set ts. valid_token t)"
  using token_loop_Inr [OF assms [unfolded requested_tokens_def]]
  by (simp add: named_keys_def distinct_dedup MAX_USER_API_KEYS_def)

text \<open>
  The key list of a request is canonical: requested_tokens answers with exactly the
  distinct keys that the payload's items name, in the order of their first mention, each
  in the form sk- and 1 to 125 letters or digits, with a non-empty name of at most 100
  characters and, if it names a group, a valid one; there are never more than 100.
\<close>

theorem requested_tokens_canonical:
  assumes "requested_tokens payload = Inr ts"
  shows "map tk_key ts = named_keys (token_items payload) \<and> distinct (map tk_key ts) \<and>
    length ts \<le> 100 \<and> (\<forall>t \<in> set ts. valid_token t)"
  using requested_tokens_Inr [OF assms] .


theorem requested_tokens_canonical_witness:
  "let p = [(''tokens'', PList [PDict [(''tokenKey'', PStr ''sk-ab12''), (''tokenName'', PStr ''primary'')],
              PDict [(''apiKey'', PStr ''sk-ab12'')], PInt 3, PDict [(''apiKey'', PStr ''sk-cd34'')]])]
   in map tk_key (case requested_tokens p of Inl _ \<Rightarrow> [] | Inr ts \<Rightarrow> ts) = [''sk-ab12'', ''sk-cd34'']"
proof -
  let ?p = "[(''tokens'', PList [PDict [(''tokenKey'', PStr ''sk-ab12''), (''tokenName'', PStr ''primary'')],
              PDict [(''apiKey'', PStr ''sk-ab12'')], PInt 3, PDict [(''apiKey'', PStr ''sk-cd34'')]])]"
  have r: "requested_tokens ?p = Inr [\<lparr>tk_key = ''sk-ab12'', tk_name = ''primary'', tk_group = None\<rparr>,
      \<lparr>tk_key = ''sk-cd34'', tk_name = ''Sub2API'', tk_group = None\<rparr>]" by code_simp
  have "named_keys (token_items ?p) = [''sk-ab12'', ''sk-cd34'']" by code_simp
  with requested_tokens_canonical [OF r] r show ?thesis by simp
qed

section \<open>Groups\<close>

lemma group_loop_Inr:
  assumes "group_loop names seen = Inr gs" and "distinct seen" and "\<forall>g \<in> set seen. valid_group g"
    and "length seen \<le> MAX_GROUP_CATALOG"
  shows "distinct gs \<and> (\<forall>g \<in> set gs. valid_group g) \<and> length gs \<le> MAX_GROUP_CATALOG
    \<and> set gs = set seen \<union> (\<lambda>v. strip (str_or_empty v)) ` set names"
  using assms
proof (induction names arbitrary: seen)
  case Nil
  then show ?case by simp
next
  case (Cons name names)
  then obtain g where g: "validate_group_name name = Inr g" by (auto simp: res_bind_eq_Inr)
  then have vg: "valid_group g" "g = strip (str_or_empty name)"
    using validate_group_name_Inr by auto
  show ?case
  proof (cases "g \<in> set seen")
    case True
    with Cons.prems g have "group_loop names seen = Inr gs" by simp
    from Cons.IH [OF this Cons.prems(2-4)] True vg show ?thesis by auto
  next
    case False
    with Cons.prems g have "group_loop names (seen @ [g]) = Inr gs"
      and "length (seen @ [g]) \<le> MAX_GROUP_CATALOG" by (auto split: if_splits)
    with Cons.IH [of "seen @ [g]"] Cons.prems False vg show ?thesis by auto
  qed
qed

lemma configured_groups_valid:
  "configured_groups environ \<noteq> [] \<and> distinct (configured_groups environ) \<and>
   (\<forall>g \<in> set (configured_groups environ). valid_group g)"
proof -
  let ?valid = "List.map_filter
      (\<lambda>part. case validate_group_name (PStr (take 100 (strip part))) of Inl _ \<Rightarrow> None | Inr g \<Rightarrow> Some g)
      (split_on (CHR '','') (env_get environ ''SUB2API_SYNC_DEFAULT_GROUP'' ''openai-default''))"
  have "\<forall>g \<in> set (dedup [] ?valid). valid_group g"
    by (auto simp: set_dedup List.map_filter_def split: sum.splits dest: validate_group_name_Inr)
  moreover have "valid_group ''openai-default''" by code_simp
  ultimately show ?thesis
    by (simp add: configured_groups_def Let_def distinct_dedup)
qed

text \<open>
  Whatever a request asks for, the groups it is granted are usable names: never an
  empty list, no duplicates, each a well-formed group name that is not "default" in any
  capitalisation. A request that names groups gets exactly the names it mentions, at most
  32 of them; one that names none gets the configured groups.
\<close>

theorem requested_groups_valid:
  assumes "requested_groups environ payload = Inr gs"
  shows "gs \<noteq> [] \<and> distinct gs \<and> (\<forall>g \<in> set gs. group_name_ok g \<and> lower g \<noteq> ''default'') \<and>
    (\<exists>names. group_name_values payload = Inr names \<and>
       (if names = [] then gs = configured_groups environ
        else set gs = (\<lambda>v. strip (str_or_empty v)) ` set names \<and> length gs \<le> 32))"
proof -
  from assms obtain names seen where n: "group_name_values payload = Inr names"
    and l: "group_loop names [] = Inr seen"
    and gs: "gs = (if seen \<noteq> [] then seen else configured_groups environ)"
    by (auto simp: requested_groups_def res_bind_eq_Inr)
  have s: "distinct seen \<and> (\<forall>g \<in> set seen. valid_group g) \<and> length seen \<le> 32 \<and>
      set seen = (\<lambda>v. strip (str_or_empty v)) ` set names"
    using group_loop_Inr [OF l] by (simp add: MAX_GROUP_CATALOG_def)
  then have "seen = [] \<longleftrightarrow> names = []" by (metis image_is_empty set_empty)
  with s gs n configured_groups_valid [of environ] show ?thesis
    by (auto simp: valid_group_def)
qed

theorem requested_groups_valid_witness:
  "requested_groups (\<lambda>_. None) [(''groupNames'', PList [PStr '' grok-fast '', PStr ''grok-fast''])] =
     Inr [''grok-fast''] \<and> group_name_ok ''grok-fast''"
proof -
  have r: "requested_groups (\<lambda>_. None) [(''groupNames'', PList [PStr '' grok-fast '', PStr ''grok-fast''])] =
     Inr [''grok-fast'']" by code_simp
  with requested_groups_valid [OF r] show ?thesis by simp
qed

end
