(* ===== verification/Psql_Rows.thy ===== *)
theory Psql_Rows
  imports Payload_Facts
begin

text \<open>
  How query results reach the service: the \<open>psql\<close> process prints rows as text, the open
  transaction reads them line by line up to a marker (\<open>DatabaseTransaction._readline\<close>,
  \<open>execute\<close>), and \<open>first_row\<close> and \<open>rows\<close> cut the text into rows and columns again.
\<close>

abbreviation LF :: char where "LF \<equiv> CHR 0x0A"
abbreviation CR :: char where "CR \<equiv> CHR 0x0D"
abbreviation TAB :: char where "TAB \<equiv> CHR 0x09"

section \<open>Reading the pipe of an open transaction\<close>

text \<open>
  What one call to a database or to Redis does: it works, it fails before it takes effect, or it takes
  effect and its answer is lost (a time-out after the server acted).
\<close>

datatype fault = Works | Fails pyexn | AnswerLost pyexn

text \<open>
  What the pipe does at each wait: it delivers a chunk, it is at its end (an empty read),
  or nothing arrives before the deadline.
\<close>

datatype pipe_event = Chunk bytes | EndOfFile | NotReady

text \<open>\<open>fill_buffer\<close> is the waiting loop of \<open>_readline\<close>: read until the buffer holds a line
  feed. An exhausted schedule of events is a pipe that stays silent.\<close>

fun fill_buffer :: "bytes \<Rightarrow> pipe_event list \<Rightarrow> pyexn + bytes \<times> pipe_event list" where
  "fill_buffer buf [] =
     (if LF \<in> set buf then Inr (buf, []) else Inl SubprocessTimeout)"
| "fill_buffer buf (ev # evs) =
     (if LF \<in> set buf then Inr (buf, ev # evs)
      else (case ev of
              NotReady \<Rightarrow> Inl SubprocessTimeout
            | EndOfFile \<Rightarrow> Inl (DatabaseCommandError None)
            | Chunk b \<Rightarrow>
                if b = [] then Inl (DatabaseCommandError None)
                else fill_buffer (buf @ b) evs))"

definition strip_cr :: "bytes \<Rightarrow> bytes" where
  "strip_cr line = rev (dropWhile (\<lambda>c. c = CR) (rev line))"

text \<open>\<open>_readline\<close>: the line without its carriage returns, decoded by \<open>decode\<close> (UTF-8 with
  replacement), and the buffer after it.\<close>

definition read_line ::
  "(bytes \<Rightarrow> pystr) \<Rightarrow> bytes \<Rightarrow> pipe_event list \<Rightarrow> pyexn + pystr \<times> bytes \<times> pipe_event list" where
  "read_line decode buf evs =
     (case fill_buffer buf evs of
        Inl e \<Rightarrow> Inl e
      | Inr (buf', evs') \<Rightarrow>
          (case partition_on LF buf' of
             (line, _, rest) \<Rightarrow> Inr (decode (strip_cr line), rest, evs')))"

definition pipe_size :: "bytes \<Rightarrow> pipe_event list \<Rightarrow> nat" where
  "pipe_size buf evs =
     length buf + length (concat (map (\<lambda>e. case e of Chunk b \<Rightarrow> b | _ \<Rightarrow> []) evs))"

lemma fill_buffer_size:
  "fill_buffer buf evs = Inr (buf', evs') \<Longrightarrow>
   LF \<in> set buf' \<and> pipe_size buf' evs' \<le> pipe_size buf evs"
  by (induction buf evs rule: fill_buffer.induct)
     (auto simp: pipe_size_def split: if_splits pipe_event.splits)

lemma read_line_shrinks:
  assumes "read_line decode buf evs = Inr (line, buf', evs')"
  shows "pipe_size buf' evs' < pipe_size buf evs"
proof -
  obtain buf1 l f where fb: "fill_buffer buf evs = Inr (buf1, evs')"
    and sp: "partition_on LF buf1 = (l, f, buf')"
    using assms by (auto simp: read_line_def split: sum.splits prod.splits)
  have lf: "LF \<in> set buf1" and le: "pipe_size buf1 evs' \<le> pipe_size buf evs"
    using fill_buffer_size [OF fb] by auto
  have "length buf' < length buf1"
    using lf partition_on_eq [OF sp] by (auto split: if_splits)
  with le show ?thesis by (simp add: pipe_size_def)
qed

text \<open>\<open>execute\<close> after the statement and the marker echo are written: collect lines until the
  marker line.\<close>

function read_until ::
  "(bytes \<Rightarrow> pystr) \<Rightarrow> pystr \<Rightarrow> bytes \<Rightarrow> pipe_event list \<Rightarrow> pystr list
   \<Rightarrow> pyexn + pystr \<times> bytes \<times> pipe_event list" where
  "read_until decode marker buf evs lines =
     (case read_line decode buf evs of
        Inl e \<Rightarrow> Inl e
      | Inr (line, buf', evs') \<Rightarrow>
          if line = marker then Inr (strip (join_with [LF] lines), buf', evs')
          else read_until decode marker buf' evs' (lines @ [line]))"
  by pat_completeness auto
termination
  by (relation "measure (\<lambda>(d, m, buf, evs, ls). pipe_size buf evs)") (auto dest: read_line_shrinks)

declare read_until.simps [simp del]

section \<open>The answer does not depend on the chunking\<close>

lemma fill_buffer_pending:
  assumes "LF \<in> set (buf @ concat bs)" and "\<forall>b \<in> set bs. b \<noteq> []"
  shows "\<exists>k \<le> length bs. fill_buffer buf (map Chunk bs @ tail) =
      Inr (buf @ concat (take k bs), map Chunk (drop k bs) @ tail) \<and>
      LF \<in> set (buf @ concat (take k bs))"
  using assms
proof (induction bs arbitrary: buf)
  case Nil
  then show ?case by (cases tail) auto
next
  case (Cons b bs)
  show ?case
  proof (cases "LF \<in> set buf")
    case True
    then show ?thesis by (intro exI [of _ 0]) simp
  next
    case False
    with Cons.prems Cons.IH [of "buf @ b"] obtain k where "k \<le> length bs"
      "fill_buffer (buf @ b) (map Chunk bs @ tail) =
         Inr ((buf @ b) @ concat (take k bs), map Chunk (drop k bs) @ tail)"
      "LF \<in> set ((buf @ b) @ concat (take k bs))" by auto
    with False Cons.prems show ?thesis by (intro exI [of _ "Suc k"]) auto
  qed
qed

lemma partition_on_append:
  "d \<in> set a \<Longrightarrow> partition_on d (a @ b) = (case partition_on d a of (x, f, y) \<Rightarrow> (x, f, y @ b))"
  by (induction a) (auto split: prod.splits)

lemma read_line_chunks:
  assumes "buf @ concat bs = line @ LF # rest" and "LF \<notin> set line" and "\<forall>b \<in> set bs. b \<noteq> []"
  shows "\<exists>buf' bs'. read_line decode buf (map Chunk bs @ tail) =
      Inr (decode (strip_cr line), buf', map Chunk bs' @ tail) \<and>
      buf' @ concat bs' = rest \<and> (\<forall>b \<in> set bs'. b \<noteq> [])"
proof -
  have "LF \<in> set (buf @ concat bs)" using assms(1) by simp
  then obtain k where f: "fill_buffer buf (map Chunk bs @ tail) =
      Inr (buf @ concat (take k bs), map Chunk (drop k bs) @ tail)"
    and lf: "LF \<in> set (buf @ concat (take k bs))"
    using fill_buffer_pending [OF _ assms(3)] by blast
  obtain x f y where p: "partition_on LF (buf @ concat (take k bs)) = (x, f, y)"
    by (metis surj_pair)
  have whole: "(buf @ concat (take k bs)) @ concat (drop k bs) = line @ LF # rest"
    using assms(1) by (metis append.assoc append_take_drop_id concat_append)
  have "partition_on LF ((buf @ concat (take k bs)) @ concat (drop k bs)) = (line, True, rest)"
    unfolding whole using assms(2) by (rule partition_on_sep)
  then have "x = line" "y @ concat (drop k bs) = rest"
    using partition_on_append [OF lf, of "concat (drop k bs)"] p by simp_all
  with f p assms(3) show ?thesis
    by (auto simp: read_line_def dest: in_set_dropD intro!: exI [of _ y] exI [of _ "drop k bs"])
qed

lemma read_until_chunks:
  assumes "buf @ concat bs = concat (map (\<lambda>l. l @ [LF]) ls) @ marker @ LF # rest"
    and "\<forall>l \<in> set ls. LF \<notin> set l \<and> decode (strip_cr l) \<noteq> mark"
    and "LF \<notin> set marker" and "decode (strip_cr marker) = mark" and "\<forall>b \<in> set bs. b \<noteq> []"
  shows "\<exists>buf' bs'. read_until decode mark buf (map Chunk bs @ tail) acc =
      Inr (strip (join_with [LF] (acc @ map (decode \<circ> strip_cr) ls)), buf', map Chunk bs' @ tail)
      \<and> buf' @ concat bs' = rest"
  using assms
proof (induction ls arbitrary: buf bs acc)
  case Nil
  then have "buf @ concat bs = marker @ LF # rest" by simp
  from read_line_chunks [OF this Nil.prems(3,5)] obtain buf' bs' where
    "read_line decode buf (map Chunk bs @ tail) = Inr (decode (strip_cr marker), buf', map Chunk bs' @ tail)"
    "buf' @ concat bs' = rest" by blast
  with Nil.prems(4) show ?case
    by (intro exI [of _ buf'] exI [of _ bs']) (simp add: read_until.simps [of _ _ buf])
next
  case (Cons l ls)
  then have "buf @ concat bs = l @ LF # (concat (map (\<lambda>l. l @ [LF]) ls) @ marker @ LF # rest)"
    and "LF \<notin> set l" by simp_all
  from read_line_chunks [OF this Cons.prems(5)] obtain buf1 bs1 where
    rl: "read_line decode buf (map Chunk bs @ tail) = Inr (decode (strip_cr l), buf1, map Chunk bs1 @ tail)"
    and b1: "buf1 @ concat bs1 = concat (map (\<lambda>l. l @ [LF]) ls) @ marker @ LF # rest"
    and ne: "\<forall>b \<in> set bs1. b \<noteq> []" by blast
  have "\<forall>l \<in> set ls. LF \<notin> set l \<and> decode (strip_cr l) \<noteq> mark" using Cons.prems(2) by simp
  from Cons.IH [OF b1 this Cons.prems(3,4) ne, of "acc @ [decode (strip_cr l)]"]
  obtain buf' bs' where "read_until decode mark buf1 (map Chunk bs1 @ tail) (acc @ [decode (strip_cr l)]) =
      Inr (strip (join_with [LF] (acc @ map (decode \<circ> strip_cr) (l # ls))), buf', map Chunk bs' @ tail)"
    "buf' @ concat bs' = rest" by (auto simp: comp_def)
  with rl Cons.prems(2) show ?case
    by (intro exI [of _ buf'] exI [of _ bs']) (simp add: read_until.simps [of _ _ buf] comp_def)
qed

text \<open>
  C32. What a statement of an open transaction returns does not depend on how the pipe cuts
  its output into chunks: however the bytes of some lines and the marker line arrive, and
  whatever is still buffered, the reader returns the lines before the marker, joined and
  stripped, and leaves exactly the bytes after the marker for the next statement.
\<close>

theorem execute_independent_of_chunks:
  assumes "buf @ concat bs = concat (map (\<lambda>l. l @ [CHR 0x0A]) ls) @ marker @ CHR 0x0A # rest"
    and "\<forall>l \<in> set ls. CHR 0x0A \<notin> set l \<and> decode (strip_cr l) \<noteq> decode (strip_cr marker)"
    and "CHR 0x0A \<notin> set marker" and "\<forall>b \<in> set bs. b \<noteq> []"
  shows "\<exists>buf' bs'. read_until decode (decode (strip_cr marker)) buf (map Chunk bs @ tail) [] =
      Inr (strip (join_with [CHR 0x0A] (map (decode \<circ> strip_cr) ls)), buf', map Chunk bs' @ tail)
      \<and> buf' @ concat bs' = rest"
  using read_until_chunks [OF assms(1,2,3) refl assms(4), of tail "[]"] by simp

theorem execute_independent_of_chunks_witness:
  "\<exists>buf' bs'. read_until id ''__m__'' ''17'' (map Chunk [[CHR 0x0A, CHR ''_''], ''_m__'', [CHR 0x0A]] @ [NotReady]) [] =
      Inr (''17'', buf', map Chunk bs' @ [NotReady]) \<and> buf' @ concat bs' = []"
  using execute_independent_of_chunks
    [of "''17''" "[[CHR 0x0A, CHR ''_''], ''_m__'', [CHR 0x0A]]" "[''17'']" "''__m__''" "[]" id "[NotReady]"]
  by (simp add: strip_cr_def strip_no_space is_space_def)

section \<open>Rows as text\<close>

text \<open>\<open>psql_text\<close> is what \<open>psql\<close> prints (unaligned, tab-separated, tuples only) as \<open>psql()\<close>
  returns it, stripped.\<close>

definition psql_text :: "pystr list list \<Rightarrow> pystr" where
  "psql_text table = strip (join_with [LF] (map (join_with [TAB]) table))"

definition first_row_of :: "pystr \<Rightarrow> pystr list" where
  "first_row_of output =
     (if output = [] then [] else split_on TAB (hd (splitlines output)))"

definition rows_of :: "pystr \<Rightarrow> pystr list list" where
  "rows_of output = (if output = [] then [] else map (split_on TAB) (splitlines output))"

definition plain_field :: "pystr \<Rightarrow> bool" where
  "plain_field f \<longleftrightarrow> list_all (\<lambda>c. c \<noteq> TAB \<and> \<not> is_line_break c) f"

text \<open>A row that survives: no separators in its fields, and its first and last fields are
  non-empty and do not start, or end, with white space.\<close>

definition plain_row :: "pystr list \<Rightarrow> bool" where
  "plain_row r \<longleftrightarrow> r \<noteq> [] \<and> list_all plain_field r
     \<and> hd r \<noteq> [] \<and> \<not> is_space (hd (hd r)) \<and> last r \<noteq> [] \<and> \<not> is_space (last (last r))"

lemma join_with_ne: "ws \<noteq> [] \<Longrightarrow> hd ws \<noteq> [] \<Longrightarrow> join_with sep ws \<noteq> [] \<and> hd (join_with sep ws) = hd (hd ws)"
  by (induction ws rule: induct_list012) auto

lemma join_with_last: "ws \<noteq> [] \<Longrightarrow> last ws \<noteq> [] \<Longrightarrow> join_with sep ws \<noteq> [] \<and> last (join_with sep ws) = last (last ws)"
  by (induction ws rule: induct_list012) (auto simp: last_append split: if_splits)

lemma set_join_with: "set (join_with sep ws) \<subseteq> set sep \<union> \<Union> (set ` set ws)"
  by (induction ws rule: induct_list012) auto

lemma plain_row_line:
  assumes "plain_row r"
  shows "join_with [TAB] r \<noteq> []" "\<not> is_space (hd (join_with [TAB] r))"
    "\<not> is_space (last (join_with [TAB] r))"
    "\<forall>c \<in> set (join_with [TAB] r). \<not> is_line_break c" "split_on TAB (join_with [TAB] r) = r"
proof -
  have ne: "r \<noteq> []" "hd r \<noteq> []" "last r \<noteq> []" using assms by (auto simp: plain_row_def)
  show "join_with [TAB] r \<noteq> []" using join_with_ne [OF ne(1,2)] by blast
  show "\<not> is_space (hd (join_with [TAB] r))"
    using join_with_ne [OF ne(1,2)] assms by (simp add: plain_row_def)
  show "\<not> is_space (last (join_with [TAB] r))"
    using join_with_last [OF ne(1,3)] assms by (simp add: plain_row_def)
  have f: "plain_field f" if "f \<in> set r" for f
    using assms that by (auto simp: plain_row_def list_all_iff)
  have "\<not> is_line_break TAB" by (simp add: is_line_break_def)
  then show "\<forall>c \<in> set (join_with [TAB] r). \<not> is_line_break c"
    using set_join_with [of "[TAB]" r] f by (fastforce simp: plain_field_def list_all_iff)
  show "split_on TAB (join_with [TAB] r) = r"
    using ne(1) f by (intro split_on_join) (auto simp: plain_field_def list_all_iff)
qed

lemma psql_text_plain:
  assumes "table \<noteq> []" and "\<forall>r \<in> set table. plain_row r"
  shows "psql_text table = join_with [LF] (map (join_with [TAB]) table) \<and> psql_text table \<noteq> []"
proof -
  let ?ls = "map (join_with [TAB]) table"
  have l: "?ls \<noteq> []" using assms(1) by simp
  have r: "plain_row (hd table)" "plain_row (last table)" using assms by simp_all
  have h: "hd ?ls \<noteq> []" "\<not> is_space (hd (hd ?ls))" "last ?ls \<noteq> []" "\<not> is_space (last (last ?ls))"
    using assms(1) plain_row_line [OF r(1)] plain_row_line [OF r(2)] by (simp_all add: hd_map last_map)
  note j = join_with_ne [OF l h(1), of "[LF]"] join_with_last [OF l h(3), of "[LF]"]
  have "strip (join_with [LF] ?ls) = join_with [LF] ?ls"
    using h j by (intro strip_id) simp_all
  with j show ?thesis by (simp add: psql_text_def)
qed

lemma splitlines_psql_text:
  assumes "table \<noteq> []" and "\<forall>r \<in> set table. plain_row r"
  shows "splitlines (psql_text table) = map (join_with [TAB]) table"
proof -
  have "\<forall>w \<in> set (map (join_with [TAB]) table). w \<noteq> [] \<and> (\<forall>c \<in> set w. \<not> is_line_break c)"
    using plain_row_line assms(2) by auto
  then show ?thesis using psql_text_plain [OF assms] splitlines_join by metis
qed

lemma first_row_of_plain:
  assumes "plain_row r"
  shows "first_row_of (psql_text [r]) = r"
  using psql_text_plain [of "[r]"] splitlines_psql_text [of "[r]"] plain_row_line [OF assms] assms
  by (simp add: first_row_of_def)

lemma first_row_of_empty [simp]: "first_row_of (psql_text []) = []"
  by (simp add: first_row_of_def psql_text_def strip_def lstrip_def rstrip_def)

text \<open>
  C33. Rows survive the textual transport when their columns are plain: if no column holds
  a tab or a line boundary and the rows neither begin nor end in white space or an empty
  column, then printing a table as psql does and cutting the text up again with rows gives
  the table back, and first_row gives its first row.
\<close>

theorem rows_roundtrip:
  assumes "\<forall>r \<in> set table. plain_row r"
  shows "rows_of (psql_text table) = table \<and>
    first_row_of (psql_text table) = (case table of [] \<Rightarrow> [] | r # _ \<Rightarrow> r)"
proof (cases table)
  case Nil
  then show ?thesis
    by (simp add: rows_of_def first_row_of_def psql_text_def strip_def lstrip_def rstrip_def)
next
  case (Cons r rs)
  have map: "map (split_on TAB) (map (join_with [TAB]) table) = table"
    using assms plain_row_line(5) by (simp add: map_idI)
  have ne: "table \<noteq> []" using Cons by simp
  have "psql_text table \<noteq> []" using psql_text_plain [OF ne assms] by blast
  moreover have "hd (splitlines (psql_text table)) = join_with [TAB] r"
    unfolding splitlines_psql_text [OF ne assms] using Cons by simp
  moreover have "split_on TAB (join_with [TAB] r) = r"
    using assms Cons plain_row_line(5) by simp
  ultimately show ?thesis
    using map Cons unfolding rows_of_def first_row_of_def splitlines_psql_text [OF ne assms] by simp
qed

theorem rows_roundtrip_witness:
  "rows_of (psql_text [[''1'', ''my key'', ''active''], [''2'', '''', ''active'']]) =
     [[''1'', ''my key'', ''active''], [''2'', '''', ''active'']]"
proof -
  have "\<forall>r \<in> set [[''1'', ''my key'', ''active''], [''2'', '''', ''active'']]. plain_row r"
    by (simp add: plain_row_def plain_field_def is_line_break_def is_space_def)
  from rows_roundtrip [OF this] show ?thesis by simp
qed

text \<open>
  The transport is not faithful for every column: a single stored row whose name column
  holds a line feed and tabs is read back as two rows, the second one made of text the
  client chose, so a key name with these characters forges a row of the key listing.
\<close>

theorem rows_forged_by_name_column:
  "rows_of (psql_text [[''7'', ''x'' @ [LF] @ ''99'' @ [TAB] @ ''n'' @ [TAB] @ ''sk-forged'', ''sk-real'', ''active'']]) =
     [[''7'', ''x''], [''99'', ''n'', ''sk-forged'', ''sk-real'', ''active'']]"
  by code_simp

end
