(* ===== verification/Sync_World.thy ===== *)
theory Sync_World
  imports Sql_Text Psql_Rows
begin

text \<open>
  The world the sync service acts on and the shape of its actions: the PostgreSQL tables
  it reads and writes, the transaction it holds open, the schedule of faults of its
  database connection, the clock, the entropy, the group-catalog cache and
  the cache of model names (expiry and items). An action takes
  the world to a result and a world. \<open>psql\<close> and \<open>DatabaseTransaction\<close> are here; the
  statements are in \<open>Store\<close>.
\<close>

named_theorems act_simps "equations that run the actions"
named_theorems db_rel_intros "composition rules for effects on the database"

section \<open>Tables\<close>

text \<open>Text columns that the queries read through \<open>COALESCE(col,'')\<close> hold \<open>''\<close> for NULL.\<close>

record user_row =
  u_id :: int
  u_email :: pystr
  u_pwhash :: pystr
  u_role :: pystr
  u_balance :: int
  u_concurrency :: int
  u_status :: pystr
  u_username :: pystr
  u_notes :: pystr
  u_deleted :: "int option"
  u_updated :: int

record key_row =
  k_id :: int
  k_user :: int
  k_key :: pystr
  k_name :: pystr
  k_group :: int
  k_status :: pystr
  k_quota :: pystr
  k_quota_used :: pystr
  k_expires :: "int option"
  k_deleted :: "int option"
  k_updated :: int

record group_row =
  g_id :: int
  g_name :: pystr
  g_description :: pystr
  g_platform :: pystr
  g_subscription :: pystr
  g_rate :: int
  g_status :: pystr
  g_dispatch :: bool
  g_deleted :: "int option"
  g_updated :: int

record plan_row =
  p_group :: int
  p_name :: pystr
  p_description :: pystr
  p_price :: int
  p_original_price :: int
  p_days :: int
  p_unit :: pystr
  p_features :: pystr
  p_product :: pystr
  p_for_sale :: bool
  p_sort :: int
  p_updated :: int

record sub_row =
  s_user :: int
  s_group :: int
  s_starts :: int
  s_expires :: int
  s_status :: pystr
  s_notes :: pystr
  s_deleted :: "int option"
  s_updated :: int

text \<open>\<open>owners\<close> is \<open>sub2api_sync_invite_owners\<close>: user id and invite fingerprint, both
  unique (migration 003). \<open>allowed\<close> is \<open>user_allowed_groups\<close>. The \<open>next\<close> fields are the
  id sequences.\<close>

record database =
  users :: "user_row list"
  api_keys :: "key_row list"
  grps :: "group_row list"
  plans :: "plan_row list"
  subs :: "sub_row list"
  allowed :: "(int \<times> int) list"
  owners :: "(int \<times> pystr) list"
  next_user :: int
  next_key :: int
  next_group :: int

section \<open>The world\<close>

record catalog_entry =
  c_id :: int
  c_name :: pystr
  c_platform :: pystr

record world =
  db :: database
  session :: "int option"
  faults :: "fault list"
  pg_now :: int
  mono :: int
  ticks :: "nat list"
  entropy :: "nat list"
  catalog :: "(int \<times> catalog_entry list) option"
  model_cache :: "int \<times> pystr list"

text \<open>
  What the service uses of code that is not in this repository, as parameters: the process
  environment, HMAC-SHA-256 as a hex digest, the password hash of pgcrypto, the parser of
  \<open>float\<close>, the constraints of the upstream schema (the SQLSTATE that a table state violates,
  if any), the collation that orders names, and the UTC time stamp of the response.
\<close>

record sync_env =
  environ :: environ
  hmac_hex :: "pystr \<Rightarrow> bytes \<Rightarrow> pystr"
  crypt_bf :: "pystr \<Rightarrow> pystr"
  py_float :: "pystr \<Rightarrow> pyfloat res"
  violates :: "database \<Rightarrow> pystr option"
  collate :: "pystr \<Rightarrow> nat list"
  stamp :: pystr

section \<open>Actions\<close>

type_synonym 'a act = "world \<Rightarrow> 'a res \<times> world"

definition act_return :: "'a \<Rightarrow> 'a act" where
  "act_return a w = (Inr a, w)"

definition act_raise :: "pyexn \<Rightarrow> 'a act" where
  "act_raise e w = (Inl e, w)"

definition act_lift :: "'a res \<Rightarrow> 'a act" where
  "act_lift r w = (r, w)"

definition act_bind :: "'a act \<Rightarrow> ('a \<Rightarrow> 'b act) \<Rightarrow> 'b act" where
  "act_bind m f w = (case m w of (Inl e, w') \<Rightarrow> (Inl e, w') | (Inr a, w') \<Rightarrow> f a w')"

definition act_get :: "(world \<Rightarrow> 'a) \<Rightarrow> 'a act" where
  "act_get f w = (Inr (f w), w)"

definition act_put :: "(world \<Rightarrow> world) \<Rightarrow> unit act" where
  "act_put f w = (Inr (), f w)"

text \<open>A \<open>for\<close> loop over a list, in order, stopped by the first exception.\<close>

fun act_each :: "('a \<Rightarrow> 'b act) \<Rightarrow> 'a list \<Rightarrow> 'b list act" where
  "act_each f [] = act_return []"
| "act_each f (x # xs) =
     act_bind (f x) (\<lambda>y. act_bind (act_each f xs) (\<lambda>ys. act_return (y # ys)))"

lemma act_bind_simps [simp, act_simps]:
  "act_bind (act_return a) f = f a"
  "act_bind (act_raise e) f = act_raise e"
  "act_bind (act_lift (Inr a)) f = f a"
  "act_bind (act_lift (Inl e)) f = act_raise e"
  by (auto simp: act_bind_def act_return_def act_raise_def act_lift_def)

lemma act_lift_simps [simp]:
  "act_lift (Inr a) = act_return a" "act_lift (Inl e) = act_raise e"
  by (auto simp: act_lift_def act_return_def act_raise_def)

lemma act_bind_assoc: "act_bind (act_bind m f) g = act_bind m (\<lambda>a. act_bind (f a) g)"
  by (rule ext) (auto simp: act_bind_def split: prod.splits sum.splits)

lemma act_return_Inr [simp]: "act_return a w = (Inr b, w') \<longleftrightarrow> b = a \<and> w' = w"
  by (auto simp: act_return_def)

lemma act_return_Inl [simp]: "act_return a w \<noteq> (Inl e, w')"
  by (simp add: act_return_def)

lemma act_raise_Inr [simp]: "act_raise e w \<noteq> (Inr b, w')"
  by (simp add: act_raise_def)

lemma act_raise_Inl [simp]: "act_raise e w = (Inl e', w') \<longleftrightarrow> e' = e \<and> w' = w"
  by (auto simp: act_raise_def)

lemma act_lift_Inr [simp]: "act_lift r w = (Inr b, w') \<longleftrightarrow> r = Inr b \<and> w' = w"
  by (auto simp: act_lift_def)

lemma act_bind_Inr:
  "act_bind m f w = (Inr b, w') \<longleftrightarrow> (\<exists>a w1. m w = (Inr a, w1) \<and> f a w1 = (Inr b, w'))"
  by (auto simp: act_bind_def split: prod.splits sum.splits)

lemma act_bind_InrE:
  assumes "act_bind m f w = (Inr b, w')"
  obtains a w1 where "m w = (Inr a, w1)" and "f a w1 = (Inr b, w')"
  using assms by (auto simp: act_bind_Inr)

lemma act_get_Inr [simp]: "act_get f w = (Inr b, w') \<longleftrightarrow> b = f w \<and> w' = w"
  by (auto simp: act_get_def)

lemma act_put_Inr [simp]: "act_put f w = (Inr b, w') \<longleftrightarrow> w' = f w"
  by (auto simp: act_put_def)

section \<open>Clock and entropy\<close>

text \<open>\<open>time.monotonic()\<close> never goes back: each reading advances by the next tick.\<close>

definition read_mono :: "int act" where
  "read_mono w =
     (case ticks w of
        [] \<Rightarrow> (Inr (mono w), w)
      | t # ts \<Rightarrow> (Inr (mono w + int t), w\<lparr>mono := mono w + int t, ticks := ts\<rparr>))"

definition draw :: "nat \<Rightarrow> nat act" where
  "draw n w =
     (case entropy w of
        [] \<Rightarrow> (Inr 0, w)
      | x # xs \<Rightarrow> (Inr (x mod n), w\<lparr>entropy := xs\<rparr>))"

text \<open>\<open>secrets.token_hex(n)\<close>, the generated API key and the generated password.\<close>

definition token_hex :: "nat \<Rightarrow> pystr act" where
  "token_hex n = act_bind (act_each draw (replicate (2 * n) 16)) (\<lambda>ds.
     act_return (map hex_digit ds))"

definition api_key :: "pystr act" where
  "api_key = act_bind (token_hex 32) (\<lambda>h. act_return (''sk-'' @ h))"

definition ascii_letters_digits :: pystr where
  "ascii_letters_digits =
     ''abcdefghijklmnopqrstuvwxyzABCDEFGHIJKLMNOPQRSTUVWXYZ0123456789''"

definition login_password :: "pystr act" where
  "login_password = act_bind (act_each draw (replicate 20 62)) (\<lambda>ds.
     act_return (map (\<lambda>d. ascii_letters_digits ! d) ds))"

section \<open>Statements and transactions\<close>

definition next_fault :: "fault act" where
  "next_fault w =
     (case faults w of [] \<Rightarrow> (Inr Works, w) | f # fs \<Rightarrow> (Inr f, w\<lparr>faults := fs\<rparr>))"

text \<open>\<open>psql\<close>: the statement time-out must be the open transaction's, if one is open.\<close>

definition check_session :: "int \<Rightarrow> unit act" where
  "check_session timeout_ms w =
     (if \<not> (1 \<le> timeout_ms \<and> timeout_ms \<le> 60000)
      then (Inl (ValueError ''database_statement_timeout_invalid''), w)
      else case session w of
        Some t \<Rightarrow> (if t \<noteq> timeout_ms then (Inl (ValueError ''database_statement_timeout_mismatch''), w)
                   else (Inr (), w))
      | None \<Rightarrow> (Inr (), w))"

definition psql_query :: "int \<Rightarrow> (database \<Rightarrow> pystr list list) \<Rightarrow> pystr act" where
  "psql_query timeout_ms q =
     act_bind (check_session timeout_ms) (\<lambda>_.
     act_bind next_fault (\<lambda>f. case f of
        Works \<Rightarrow> act_get (\<lambda>w. psql_text (q (db w)))
      | Fails e \<Rightarrow> act_raise e
      | AnswerLost e \<Rightarrow> act_raise e))"

text \<open>A writing statement: the table change, refused when it violates a constraint.\<close>

type_synonym db_change = "int \<Rightarrow> database \<Rightarrow> pystr + database"

definition apply_change :: "sync_env \<Rightarrow> db_change \<Rightarrow> unit act" where
  "apply_change env ch w =
     (case ch (pg_now w) (db w) of
        Inl state \<Rightarrow> (Inl (DatabaseCommandError (Some state)), w)
      | Inr d \<Rightarrow> (case violates env d of
            Some state \<Rightarrow> (Inl (DatabaseCommandError (Some state)), w)
          | None \<Rightarrow> (Inr (), w\<lparr>db := d\<rparr>)))"

text \<open>One call may send several statements; each is checked as it runs.\<close>

fun apply_changes :: "sync_env \<Rightarrow> db_change list \<Rightarrow> unit act" where
  "apply_changes env [] = act_return ()"
| "apply_changes env (ch # chs) = act_bind (apply_change env ch) (\<lambda>_. apply_changes env chs)"

definition DEFAULT_DB_STATEMENT_TIMEOUT_MS :: int where
  "DEFAULT_DB_STATEMENT_TIMEOUT_MS = 3000"

definition psql_run :: "sync_env \<Rightarrow> db_change list \<Rightarrow> unit act" where
  "psql_run env chs =
     act_bind (check_session DEFAULT_DB_STATEMENT_TIMEOUT_MS) (\<lambda>_.
     act_bind next_fault (\<lambda>f. case f of
        Works \<Rightarrow> apply_changes env chs
      | Fails e \<Rightarrow> act_raise e
      | AnswerLost e \<Rightarrow> act_bind (apply_changes env chs) (\<lambda>_. act_raise e)))"

definition first_row :: "(database \<Rightarrow> pystr list list) \<Rightarrow> pystr list act" where
  "first_row q = act_bind (psql_query DEFAULT_DB_STATEMENT_TIMEOUT_MS q) (\<lambda>out.
     act_return (first_row_of out))"

definition rows :: "(database \<Rightarrow> pystr list list) \<Rightarrow> pystr list list act" where
  "rows q = act_bind (psql_query DEFAULT_DB_STATEMENT_TIMEOUT_MS q) (\<lambda>out.
     act_return (rows_of out))"

text \<open>
  \<open>with database_transaction(): body\<close>. The session is registered, \<open>BEGIN\<close> runs, then the
  body; a normal end sends \<open>COMMIT\<close>, an exception ends the session with a best-effort
  \<open>ROLLBACK\<close>, and closing the connection discards whatever is not committed. The session
  is unregistered on every path.
\<close>

definition with_transaction :: "int \<Rightarrow> 'a act \<Rightarrow> 'a act" where
  "with_transaction timeout_ms body w0 =
     (if session w0 \<noteq> None then (Inl (RuntimeError ''database_transaction_nested''), w0)
      else
        let d0 = db w0 in
        (case next_fault (w0\<lparr>session := Some timeout_ms\<rparr>) of
           (Inr Works, w1) \<Rightarrow>
             (case body w1 of
                (Inl e, w2) \<Rightarrow> (Inl e, w2\<lparr>db := d0, session := None\<rparr>)
              | (Inr a, w2) \<Rightarrow>
                  (case next_fault w2 of
                     (Inr Works, w3) \<Rightarrow> (Inr a, w3\<lparr>session := None\<rparr>)
                   | (Inr (Fails e), w3) \<Rightarrow> (Inl e, w3\<lparr>db := d0, session := None\<rparr>)
                   | (Inr (AnswerLost e), w3) \<Rightarrow> (Inl e, w3\<lparr>session := None\<rparr>)
                   | (Inl e, w3) \<Rightarrow> (Inl e, w3\<lparr>db := d0, session := None\<rparr>)))
         | (Inr (Fails e), w1) \<Rightarrow> (Inl e, w1\<lparr>session := None\<rparr>)
         | (Inr (AnswerLost e), w1) \<Rightarrow> (Inl e, w1\<lparr>session := None\<rparr>)
         | (Inl e, w1) \<Rightarrow> (Inl e, w1\<lparr>session := None\<rparr>)))"

section \<open>Facts about running actions\<close>

lemma next_fault_Inr: "next_fault w = (Inr f, w') \<Longrightarrow> db w' = db w"
  by (auto simp: next_fault_def split: list.splits)

lemma next_fault_cases:
  obtains f w' where "next_fault w = (Inr f, w')" and "db w' = db w" and "pg_now w' = pg_now w"
    and "session w' = session w" and "catalog w' = catalog w"
  by (cases "faults w") (auto simp: next_fault_def)

lemma check_session_Inr: "check_session t w = (Inr u, w') \<Longrightarrow> w' = w"
  by (auto simp: check_session_def split: if_splits option.splits)

lemma check_session_snd [simp]: "snd (check_session t w) = w"
  by (auto simp: check_session_def split: option.splits)

lemma next_fault_frame:
  "next_fault w = (r, w') \<Longrightarrow> db w' = db w \<and> pg_now w' = pg_now w \<and> session w' = session w"
  by (auto simp: next_fault_def split: list.splits)

lemma psql_query_Inr:
  assumes "psql_query t q w = (Inr out, w')"
  shows "out = psql_text (q (db w)) \<and> db w' = db w \<and> pg_now w' = pg_now w"
proof -
  obtain u w1 f w2 where c: "check_session t w = (Inr u, w1)" and n: "next_fault w1 = (Inr f, w2)"
    and r: "(case f of Works \<Rightarrow> act_get (\<lambda>w. psql_text (q (db w))) | Fails e \<Rightarrow> act_raise e
      | AnswerLost e \<Rightarrow> act_raise e) w2 = (Inr out, w')"
    using assms unfolding psql_query_def by (elim act_bind_InrE)
  show ?thesis
    using r check_session_Inr [OF c] next_fault_frame [OF n] by (cases f) auto
qed

lemma apply_change_Inr:
  assumes "apply_change env ch w = (Inr u, w')"
  shows "ch (pg_now w) (db w) = Inr (db w') \<and> violates env (db w') = None \<and> pg_now w' = pg_now w"
proof (cases "ch (pg_now w) (db w)")
  case (Inr d)
  with assms show ?thesis by (cases "violates env d") (auto simp: apply_change_def)
qed (use assms in \<open>simp add: apply_change_def\<close>)

fun run_changes :: "int \<Rightarrow> db_change list \<Rightarrow> database \<Rightarrow> pystr + database" where
  "run_changes now [] d = Inr d"
| "run_changes now (ch # chs) d = (case ch now d of Inl e \<Rightarrow> Inl e | Inr d' \<Rightarrow> run_changes now chs d')"

lemma apply_changes_Inr:
  "apply_changes env chs w = (Inr u, w') \<Longrightarrow>
   run_changes (pg_now w) chs (db w) = Inr (db w') \<and> pg_now w' = pg_now w"
proof (induction chs arbitrary: w)
  case Nil
  then show ?case by simp
next
  case (Cons ch chs)
  then obtain v w1 where a: "apply_change env ch w = (Inr v, w1)" "apply_changes env chs w1 = (Inr u, w')"
    by (auto simp: act_bind_Inr)
  from Cons.IH [OF a(2)] apply_change_Inr [OF a(1)] show ?case by simp
qed

lemma psql_run_Inr:
  assumes "psql_run env chs w = (Inr u, w')"
  shows "run_changes (pg_now w) chs (db w) = Inr (db w') \<and> pg_now w' = pg_now w"
proof -
  obtain v w1 f w2 where c: "check_session DEFAULT_DB_STATEMENT_TIMEOUT_MS w = (Inr v, w1)"
    and n: "next_fault w1 = (Inr f, w2)"
    and r: "(case f of Works \<Rightarrow> apply_changes env chs | Fails e \<Rightarrow> act_raise e
      | AnswerLost e \<Rightarrow> act_bind (apply_changes env chs) (\<lambda>_. act_raise e)) w2 = (Inr u, w')"
    using assms unfolding psql_run_def by (elim act_bind_InrE)
  show ?thesis
    using r check_session_Inr [OF c] next_fault_frame [OF n]
    by (cases f) (auto simp: act_bind_Inr dest: apply_changes_Inr)
qed

lemma first_row_Inr:
  assumes "first_row q w = (Inr r, w')"
  shows "r = first_row_of (psql_text (q (db w))) \<and> db w' = db w \<and> pg_now w' = pg_now w"
  using assms by (auto simp: first_row_def act_bind_Inr dest: psql_query_Inr)

lemma rows_Inr:
  assumes "rows q w = (Inr r, w')"
  shows "r = rows_of (psql_text (q (db w))) \<and> db w' = db w \<and> pg_now w' = pg_now w"
  using assms by (auto simp: rows_def act_bind_Inr dest: psql_query_Inr)

lemma draw_Inr: "draw n w = (Inr x, w') \<Longrightarrow> db w' = db w \<and> pg_now w' = pg_now w \<and> (0 < n \<longrightarrow> x < n)"
  by (auto simp: draw_def split: list.splits)

lemma act_each_Nil_Inr [simp]: "act_each f [] w = (Inr ys, w') \<longleftrightarrow> ys = [] \<and> w' = w"
  by auto

lemma act_each_Cons_Inr:
  "act_each f (x # xs) w = (Inr ys, w') \<longleftrightarrow>
   (\<exists>y w1 zs. f x w = (Inr y, w1) \<and> act_each f xs w1 = (Inr zs, w') \<and> ys = y # zs)"
  by (auto simp: act_bind_Inr)

lemma draws_Inr:
  "act_each draw (replicate k n) w = (Inr xs, w') \<Longrightarrow> 0 < n \<Longrightarrow>
   db w' = db w \<and> pg_now w' = pg_now w \<and> length xs = k \<and> (\<forall>x \<in> set xs. x < n)"
proof (induction k arbitrary: w xs)
  case 0
  then show ?case by simp
next
  case (Suc k)
  then obtain y w1 zs where d: "draw n w = (Inr y, w1)"
    and r: "act_each draw (replicate k n) w1 = (Inr zs, w')" and xs: "xs = y # zs"
    by (auto simp: act_each_Cons_Inr simp del: act_each.simps)
  from draw_Inr [OF d] Suc.IH [OF r] Suc.prems(2) xs show ?case by simp
qed

section \<open>Composing effects on the database\<close>

text \<open>
  \<open>db_rel R m\<close>: whatever \<open>m\<close> answers, exceptions included, the tables before and after
  are related by \<open>R\<close>. For a reflexive and transitive \<open>R\<close> this composes along the
  program, so a frame or monotonicity property of a handler reduces to one statement at a
  time; the interface below is interpreted for each such relation.
\<close>

definition db_rel :: "(database \<Rightarrow> database \<Rightarrow> bool) \<Rightarrow> 'a act \<Rightarrow> bool" where
  "db_rel R m \<longleftrightarrow> (\<forall>w. R (db w) (db (snd (m w))))"

locale db_effect =
  fixes R :: "database \<Rightarrow> database \<Rightarrow> bool"
  assumes R_refl: "R d d"
    and R_trans: "R d1 d2 \<Longrightarrow> R d2 d3 \<Longrightarrow> R d1 d3"
begin

lemma rel_return [db_rel_intros]: "db_rel R (act_return a)"
  by (simp add: db_rel_def act_return_def R_refl)

lemma rel_raise [db_rel_intros]: "db_rel R (act_raise e)"
  by (simp add: db_rel_def act_raise_def R_refl)

lemma rel_lift [db_rel_intros]: "db_rel R (act_lift r)"
  by (simp add: db_rel_def act_lift_def R_refl)

lemma rel_get [db_rel_intros]: "db_rel R (act_get f)"
  by (simp add: db_rel_def act_get_def R_refl)

lemma rel_bind [db_rel_intros]:
  assumes "db_rel R m" and "\<And>a. db_rel R (f a)"
  shows "db_rel R (act_bind m f)"
  unfolding db_rel_def
proof
  fix w
  obtain r w1 where m: "m w = (r, w1)" by (metis surj_pair)
  have "R (db w) (db w1)" using assms(1) m by (metis db_rel_def snd_conv)
  moreover have "R (db w1) (db (snd (f a w1)))" for a using assms(2) by (simp add: db_rel_def)
  ultimately show "R (db w) (db (snd (act_bind m f w)))"
    using m R_trans by (auto simp: act_bind_def split: sum.splits)
qed

lemma rel_if [db_rel_intros]: "db_rel R m \<Longrightarrow> db_rel R n \<Longrightarrow> db_rel R (if b then m else n)"
  by simp

lemma rel_prod [db_rel_intros]:
  "(\<And>a b. db_rel R (f a b)) \<Longrightarrow> db_rel R (case p of (a, b) \<Rightarrow> f a b)"
  by (cases p) simp

lemma rel_option [db_rel_intros]:
  "db_rel R m \<Longrightarrow> (\<And>a. db_rel R (f a)) \<Longrightarrow> db_rel R (case x of None \<Rightarrow> m | Some a \<Rightarrow> f a)"
  by (cases x) simp_all

lemma rel_put:
  assumes "\<And>w. db (f w) = db w" shows "db_rel R (act_put f)"
  using assms by (simp add: db_rel_def act_put_def R_refl)

lemma rel_each:
  assumes "\<And>x. x \<in> set xs \<Longrightarrow> db_rel R (f x)"
  shows "db_rel R (act_each f xs)"
  using assms by (induction xs) (auto intro!: rel_bind rel_return)

lemma rel_check [db_rel_intros]: "db_rel R (check_session t)"
  by (simp add: db_rel_def R_refl)

lemma rel_next_fault [db_rel_intros]: "db_rel R next_fault"
  by (simp add: db_rel_def next_fault_def R_refl split: list.splits)

lemma rel_query [db_rel_intros]: "db_rel R (psql_query t q)"
  unfolding psql_query_def
  by (intro rel_bind rel_check rel_next_fault) (auto intro: rel_get rel_raise split: fault.splits)

lemma rel_run:
  assumes "\<And>ch now d d'. ch \<in> set chs \<Longrightarrow> ch now d = Inr d' \<Longrightarrow> R d d'"
  shows "db_rel R (psql_run env chs)"
proof -
  have one: "db_rel R (apply_change env ch)" if "ch \<in> set chs" for ch
    using assms [OF that] R_refl
    by (auto simp: db_rel_def apply_change_def split: sum.splits option.splits)
  then have "db_rel R (apply_changes env chs)"
    by (induction chs) (auto intro!: rel_bind rel_return)
  then show ?thesis
    unfolding psql_run_def
    by (intro rel_bind rel_check rel_next_fault)
       (auto intro: rel_bind rel_raise split: fault.splits)
qed

lemma rel_first_row [db_rel_intros]: "db_rel R (first_row q)"
  unfolding first_row_def by (intro rel_bind rel_query rel_return)

lemma rel_rows [db_rel_intros]: "db_rel R (rows q)"
  unfolding rows_def by (intro rel_bind rel_query rel_return)

lemma rel_draw: "db_rel R (draw n)"
  by (simp add: db_rel_def draw_def R_refl split: list.splits)

lemma rel_token_hex [db_rel_intros]: "db_rel R (token_hex n)"
  unfolding token_hex_def by (intro rel_bind rel_each rel_draw rel_return)

lemma rel_api_key [db_rel_intros]: "db_rel R api_key"
  unfolding api_key_def by (intro rel_bind rel_token_hex rel_return)

lemma rel_login_password [db_rel_intros]: "db_rel R login_password"
  unfolding login_password_def by (intro rel_bind rel_each rel_draw rel_return)

lemma rel_read_mono [db_rel_intros]: "db_rel R read_mono"
  by (simp add: db_rel_def read_mono_def R_refl split: list.splits)

lemma rel_transaction [db_rel_intros]:
  assumes "db_rel R body"
  shows "db_rel R (with_transaction t body)"
  unfolding db_rel_def
proof
  fix w
  obtain f w1 where f: "next_fault (w\<lparr>session := Some t\<rparr>) = (Inr f, w1)" and w1: "db w1 = db w"
    by (rule next_fault_cases [of "w\<lparr>session := Some t\<rparr>"]) simp
  obtain r w2 where b: "body w1 = (r, w2)" by (metis surj_pair)
  have R2: "R (db w) (db w2)" using assms b w1 by (metis db_rel_def snd_conv)
  obtain g w3 where g: "next_fault w2 = (Inr g, w3)" and w3: "db w3 = db w2"
    by (metis next_fault_cases)
  show "R (db w) (db (snd (with_transaction t body w)))"
    using R2 R_refl f b g w1 w3
    by (auto simp: with_transaction_def Let_def split: fault.splits sum.splits)
qed

end

text \<open>The trivial relation gives nothing; equality gives "reads only".\<close>

interpretation reads: db_effect "(=)"
  by unfold_locales auto


definition quiet_world :: "database \<Rightarrow> world" where
  "quiet_world d = \<lparr>db = d, session = None, faults = [], pg_now = 0, mono = 0, ticks = [],
     entropy = [], catalog = None, model_cache = (0, [])\<rparr>"

definition empty_database :: database where
  "empty_database = \<lparr>users = [], api_keys = [], grps = [], plans = [], subs = [], allowed = [],
     owners = [], next_user = 1, next_key = 1, next_group = 1\<rparr>"


end
