(* ===== verification/Store.thy ===== *)
theory Store
  imports Sync_World "HOL-Library.List_Lexorder"
begin

text \<open>
  The SQL statements of \<open>sub2api_sync.py\<close>, one definition per statement: a query gives the
  rows it prints, a change the tables after it. Text that the code quotes arrives as
  \<open>sql_text\<close>, the value of the literal in the standard mode; a LIMIT 1 without ORDER BY
  takes the first matching row of the table's list, whose order is arbitrary. Times are
  seconds, and a day is 86400 of them.
\<close>

definition sql_text :: "pystr \<Rightarrow> pystr" where
  "sql_text s = sql_value False s"

definition sql_text_n :: "nat \<Rightarrow> pystr \<Rightarrow> pystr" where
  "sql_text_n n s = sql_value False (take n s)"

section \<open>Invite users\<close>

text \<open>The three conditions with which \<open>_invite_user_row\<close> is called.\<close>

datatype user_where =
    WhereId int
  | WhereUsername pystr
  | WhereKeyOwner int

definition user_matches :: "database \<Rightarrow> user_where \<Rightarrow> user_row \<Rightarrow> bool" where
  "user_matches d wh u =
     (case wh of
        WhereId n \<Rightarrow> u_id u = n
      | WhereUsername c \<Rightarrow> u_username u = sql_text_n 100 c
      | WhereKeyOwner k \<Rightarrow>
          (case find (\<lambda>r. k_id r = k) (api_keys d) of
             None \<Rightarrow> False
           | Some r \<Rightarrow> u_id u = k_user r))"

definition owner_of :: "database \<Rightarrow> int \<Rightarrow> pystr" where
  "owner_of d uid = (case map_of (owners d) uid of None \<Rightarrow> [] | Some fp \<Rightarrow> fp)"

definition invite_columns :: "user_row \<Rightarrow> pystr \<Rightarrow> pystr list" where
  "invite_columns u fp =
     [int_str (u_id u), take 100 (u_username u), take 32 (u_role u), fp,
      take 255 (u_email u), u_pwhash u, take 16 (u_status u)]"

definition invite_user_row :: "user_where \<Rightarrow> bool \<Rightarrow> database \<Rightarrow> pystr list list" where
  "invite_user_row wh include_deleted d =
     (case find (\<lambda>u. user_matches d wh u \<and> (include_deleted \<or> u_deleted u = None)) (users d) of
        None \<Rightarrow> []
      | Some u \<Rightarrow> [invite_columns u (owner_of d (u_id u))])"

definition owned_invite_user_row :: "pystr \<Rightarrow> bool \<Rightarrow> database \<Rightarrow> pystr list list" where
  "owned_invite_user_row fingerprint include_deleted d =
     (case [(u, fp). (uid, fp) \<leftarrow> owners d, fp = sql_text_n 64 fingerprint,
                     u \<leftarrow> users d, u_id u = uid, include_deleted \<or> u_deleted u = None] of
        [] \<Rightarrow> []
      | (u, fp) # _ \<Rightarrow> [invite_columns u fp])"

text \<open>\<open>INSERT INTO sub2api_sync_invite_owners ... ON CONFLICT (user_id) DO NOTHING\<close>: the
  fingerprint is unique too, so a second user cannot take it.\<close>

definition insert_owner :: "int \<Rightarrow> pystr \<Rightarrow> db_change" where
  "insert_owner uid fingerprint now d =
     (if uid \<in> fst ` set (owners d) then Inr d
      else if sql_text_n 64 fingerprint \<in> snd ` set (owners d) then Inl ''23505''
      else Inr (d\<lparr>owners := owners d @ [(uid, sql_text_n 64 fingerprint)]\<rparr>))"

definition owner_fingerprint :: "int \<Rightarrow> database \<Rightarrow> pystr list list" where
  "owner_fingerprint uid d =
     (case map_of (owners d) uid of None \<Rightarrow> [] | Some fp \<Rightarrow> [[fp]])"

definition key_owner_row :: "int \<Rightarrow> database \<Rightarrow> pystr list list" where
  "key_owner_row kid d =
     (case find (\<lambda>r. k_id r = kid) (api_keys d) of
        None \<Rightarrow> [] | Some r \<Rightarrow> [[int_str (k_user r)]])"

section \<open>Groups, plans and subscriptions\<close>

definition active_group_id :: "pystr \<Rightarrow> database \<Rightarrow> pystr list list" where
  "active_group_id name d =
     (case find (\<lambda>g. g_name g = sql_text name \<and> g_deleted g = None \<and> g_status g = ''active'') (grps d) of
        None \<Rightarrow> [] | Some g \<Rightarrow> [[int_str (g_id g)]])"

definition insert_group :: "pystr \<Rightarrow> pystr \<Rightarrow> pystr \<Rightarrow> db_change" where
  "insert_group name description platform now d =
     (if \<exists>g \<in> set (grps d). g_name g = sql_text name \<and> g_deleted g = None then Inr d
      else Inr (d\<lparr>grps := grps d @
        [\<lparr>g_id = next_group d, g_name = sql_text name, g_description = sql_text description,
          g_platform = sql_text platform, g_subscription = ''standard'', g_rate = 0,
          g_status = ''active'', g_dispatch = True, g_deleted = None, g_updated = now\<rparr>],
        next_group := next_group d + 1\<rparr>))"

definition refresh_group :: "pystr \<Rightarrow> pystr \<Rightarrow> db_change" where
  "refresh_group name description now d =
     Inr (d\<lparr>grps := map (\<lambda>g. if g_name g = sql_text name \<and> g_deleted g = None
        then g\<lparr>g_subscription := ''standard'',
               g_description := (if g_description g = [] then sql_text description else g_description g),
               g_status := ''active'', g_dispatch := True, g_updated := now\<rparr>
        else g) (grps d)\<rparr>)"

definition catalog_rows :: "(pystr \<Rightarrow> nat list) \<Rightarrow> database \<Rightarrow> pystr list list" where
  "catalog_rows order d =
     map (\<lambda>g. [int_str (g_id g), take 64 (g_name g), take 32 (g_platform g)])
       (take (MAX_GROUP_CATALOG + 1)
         (sort_key (\<lambda>g. order (g_name g))
           (filter (\<lambda>g. g_deleted g = None \<and> g_status g = ''active'') (grps d))))"

definition insert_plan :: "int \<Rightarrow> pystr \<Rightarrow> int \<Rightarrow> db_change" where
  "insert_plan gid plan_name days now d =
     (if \<exists>p \<in> set (plans d). p_group p = gid \<and> p_name p = sql_text_n 100 plan_name then Inr d
      else Inr (d\<lparr>plans := plans d @
        [\<lparr>p_group = gid, p_name = sql_text_n 100 plan_name,
          p_description = ''Default subscription assigned by sub2api sync'',
          p_price = 0, p_original_price = 0, p_days = days, p_unit = ''day'',
          p_features = ''OpenAI-compatible access'', p_product = ''Sub2API'',
          p_for_sale = False, p_sort = 0, p_updated = now\<rparr>]\<rparr>))"

definition refresh_plan :: "int \<Rightarrow> pystr \<Rightarrow> int \<Rightarrow> db_change" where
  "refresh_plan gid plan_name days now d =
     Inr (d\<lparr>plans := map (\<lambda>p. if p_group p = gid \<and> p_name p = sql_text_n 100 plan_name
        then p\<lparr>p_description := ''Default subscription assigned by sub2api sync'',
               p_price := 0, p_original_price := 0, p_days := days, p_unit := ''day'',
               p_features := ''OpenAI-compatible access'', p_product := ''Sub2API'',
               p_for_sale := False, p_updated := now\<rparr>
        else p) (plans d)\<rparr>)"

text \<open>\<open>INSERT ... ON CONFLICT (user_id,group_id) WHERE deleted_at IS NULL DO UPDATE\<close>.\<close>

definition upsert_subscription :: "int \<Rightarrow> int \<Rightarrow> int \<Rightarrow> db_change" where
  "upsert_subscription uid gid days now d =
     (let live = (\<lambda>s. s_user s = uid \<and> s_group s = gid \<and> s_deleted s = None)
      in if \<exists>s \<in> set (subs d). live s
         then Inr (d\<lparr>subs := map (\<lambda>s. if live s
                then s\<lparr>s_status := ''active'', s_expires := max (s_expires s) (now + days * 86400),
                       s_updated := now\<rparr>
                else s) (subs d)\<rparr>)
         else Inr (d\<lparr>subs := subs d @
                [\<lparr>s_user = uid, s_group = gid, s_starts = now, s_expires = now + days * 86400,
                  s_status = ''active'', s_notes = ''Default subscription assigned by sub2api sync'',
                  s_deleted = None, s_updated = now\<rparr>]\<rparr>))"

definition allow_group :: "int \<Rightarrow> int \<Rightarrow> db_change" where
  "allow_group uid gid now d =
     (if (uid, gid) \<in> set (allowed d) then Inr d
      else Inr (d\<lparr>allowed := allowed d @ [(uid, gid)]\<rparr>))"

section \<open>API keys\<close>

definition group_name_of :: "database \<Rightarrow> int \<Rightarrow> pystr" where
  "group_name_of d gid = (case find (\<lambda>g. g_id g = gid) (grps d) of None \<Rightarrow> [] | Some g \<Rightarrow> g_name g)"

definition live_keys :: "int \<Rightarrow> database \<Rightarrow> key_row list" where
  "live_keys uid d = filter (\<lambda>r. k_user r = uid \<and> k_deleted r = None) (api_keys d)"

definition user_key_rows :: "int \<Rightarrow> database \<Rightarrow> pystr list list" where
  "user_key_rows uid d =
     map (\<lambda>r. [int_str (k_id r), take 100 (k_name r), take 128 (k_key r), take 16 (k_status r),
               take 64 (k_quota r), take 64 (k_quota_used r), take 64 (group_name_of d (k_group r))])
       (take (MAX_USER_API_KEYS + 1) (sort_key k_id (live_keys uid d)))"

definition key_by_text :: "pystr \<Rightarrow> database \<Rightarrow> pystr list list" where
  "key_by_text key d =
     (case find (\<lambda>r. k_key r = sql_text_n 128 key) (api_keys d) of
        None \<Rightarrow> []
      | Some r \<Rightarrow> [[int_str (k_id r), int_str (k_user r),
                    (case k_deleted r of None \<Rightarrow> [] | Some t \<Rightarrow> int_str t)]])"

definition key_id_by_text :: "pystr \<Rightarrow> database \<Rightarrow> pystr list list" where
  "key_id_by_text key d =
     (case find (\<lambda>r. k_key r = sql_text_n 128 key) (api_keys d) of
        None \<Rightarrow> [] | Some r \<Rightarrow> [[int_str (k_id r)]])"

definition update_key :: "int \<Rightarrow> int \<Rightarrow> pystr \<Rightarrow> pystr \<Rightarrow> int \<Rightarrow> db_change" where
  "update_key kid uid key name gid now d =
     Inr (d\<lparr>api_keys := map (\<lambda>r. if k_id r = kid
        then r\<lparr>k_user := uid, k_key := sql_text_n 128 key, k_name := sql_text_n 100 name,
               k_group := gid, k_status := ''active'', k_quota := ''0'', k_expires := None,
               k_deleted := None, k_updated := now\<rparr>
        else r) (api_keys d)\<rparr>)"

definition insert_key :: "int \<Rightarrow> pystr \<Rightarrow> pystr \<Rightarrow> int \<Rightarrow> db_change" where
  "insert_key uid key name gid now d =
     Inr (d\<lparr>api_keys := api_keys d @
        [\<lparr>k_id = next_key d, k_user = uid, k_key = sql_text_n 128 key, k_name = sql_text_n 100 name,
          k_group = gid, k_status = ''active'', k_quota = ''0'', k_quota_used = ''0'',
          k_expires = None, k_deleted = None, k_updated = now\<rparr>],
        next_key := next_key d + 1\<rparr>)"

definition retire_key :: "int \<Rightarrow> key_row \<Rightarrow> key_row" where
  "retire_key now r = r\<lparr>k_status := ''disabled'', k_deleted := Some now, k_updated := now\<rparr>"

definition retire_keys_except :: "int \<Rightarrow> int list \<Rightarrow> db_change" where
  "retire_keys_except uid keep now d =
     Inr (d\<lparr>api_keys := map (\<lambda>r. if k_user r = uid \<and> k_id r \<notin> set keep \<and> k_deleted r = None
        then retire_key now r else r) (api_keys d)\<rparr>)"

definition retire_user_keys :: "int \<Rightarrow> db_change" where
  "retire_user_keys uid now d =
     Inr (d\<lparr>api_keys := map (\<lambda>r. if k_user r = uid \<and> k_deleted r = None
        then retire_key now r else r) (api_keys d)\<rparr>)"

definition retire_one_key :: "int \<Rightarrow> int \<Rightarrow> db_change" where
  "retire_one_key kid uid now d =
     Inr (d\<lparr>api_keys := map (\<lambda>r. if k_id r = kid \<and> k_user r = uid \<and> k_deleted r = None
        then retire_key now r else r) (api_keys d)\<rparr>)"

definition testable_key_by_id :: "int \<Rightarrow> int \<Rightarrow> database \<Rightarrow> pystr list list" where
  "testable_key_by_id kid uid d =
     (case find (\<lambda>r. k_id r = kid \<and> k_user r = uid \<and> k_deleted r = None \<and> k_status r = ''active'')
             (api_keys d) of
        None \<Rightarrow> [] | Some r \<Rightarrow> [[int_str (k_id r), take 128 (k_key r)]])"

definition first_testable_key :: "int \<Rightarrow> database \<Rightarrow> pystr list list" where
  "first_testable_key uid d =
     (case sort_key k_id (filter (\<lambda>r. k_user r = uid \<and> k_deleted r = None \<and> k_status r = ''active'')
             (api_keys d)) of
        [] \<Rightarrow> [] | r # _ \<Rightarrow> [[int_str (k_id r), take 128 (k_key r)]])"

section \<open>Users\<close>

definition email_owner_row :: "pystr \<Rightarrow> database \<Rightarrow> pystr list list" where
  "email_owner_row email d =
     (case find (\<lambda>u. u_email u = sql_text_n 255 email \<and> u_deleted u = None) (users d) of
        None \<Rightarrow> [] | Some u \<Rightarrow> [[int_str (u_id u)]])"

definition user_id_by_username :: "pystr \<Rightarrow> database \<Rightarrow> pystr list list" where
  "user_id_by_username username d =
     (case find (\<lambda>u. u_username u = sql_text username \<and> u_deleted u = None) (users d) of
        None \<Rightarrow> [] | Some u \<Rightarrow> [[int_str (u_id u)]])"

definition password_hash_row :: "int \<Rightarrow> database \<Rightarrow> pystr list list" where
  "password_hash_row uid d =
     (case find (\<lambda>u. u_id u = uid) (users d) of None \<Rightarrow> [] | Some u \<Rightarrow> [[u_pwhash u]])"

definition DEFAULT_USER_BALANCE :: int where "DEFAULT_USER_BALANCE = 100"

text \<open>The two updates of \<open>_provision\<close> differ in the password column only.\<close>

definition update_user ::
  "int \<Rightarrow> pystr \<Rightarrow> pystr option \<Rightarrow> pystr \<Rightarrow> pystr \<Rightarrow> db_change" where
  "update_user uid email pwhash username notes now d =
     Inr (d\<lparr>users := map (\<lambda>u. if u_id u = uid
        then u\<lparr>u_email := sql_text_n 255 email,
               u_pwhash := (case pwhash of None \<Rightarrow> u_pwhash u | Some h \<Rightarrow> h),
               u_username := sql_text_n 100 username, u_notes := sql_text_n 240 notes,
               u_status := ''active'', u_balance := DEFAULT_USER_BALANCE, u_deleted := None,
               u_updated := now\<rparr>
        else u) (users d)\<rparr>)"

definition insert_user :: "pystr \<Rightarrow> pystr \<Rightarrow> pystr \<Rightarrow> pystr \<Rightarrow> db_change" where
  "insert_user email pwhash username notes now d =
     Inr (d\<lparr>users := users d @
        [\<lparr>u_id = next_user d, u_email = sql_text_n 255 email, u_pwhash = pwhash, u_role = ''user'',
          u_balance = DEFAULT_USER_BALANCE, u_concurrency = 5, u_status = ''active'',
          u_username = sql_text_n 100 username, u_notes = sql_text_n 240 notes,
          u_deleted = None, u_updated = now\<rparr>],
        next_user := next_user d + 1\<rparr>)"

section \<open>Deprovisioning and purging\<close>

definition cancel_subscriptions :: "int \<Rightarrow> db_change" where
  "cancel_subscriptions uid now d =
     Inr (d\<lparr>subs := map (\<lambda>s. if s_user s = uid \<and> s_deleted s = None
        then s\<lparr>s_status := ''cancelled'', s_deleted := Some now, s_updated := now\<rparr> else s) (subs d)\<rparr>)"

definition disallow_groups :: "int \<Rightarrow> db_change" where
  "disallow_groups uid now d = Inr (d\<lparr>allowed := filter (\<lambda>(u, g). u \<noteq> uid) (allowed d)\<rparr>)"

definition disable_user :: "int \<Rightarrow> db_change" where
  "disable_user uid now d =
     Inr (d\<lparr>users := map (\<lambda>u. if u_id u = uid
        then u\<lparr>u_status := ''disabled'', u_deleted := Some now, u_updated := now\<rparr> else u) (users d)\<rparr>)"

definition delete_one_key :: "int \<Rightarrow> int \<Rightarrow> db_change" where
  "delete_one_key kid uid now d =
     Inr (d\<lparr>api_keys := filter (\<lambda>r. \<not> (k_id r = kid \<and> k_user r = uid)) (api_keys d)\<rparr>)"

definition delete_user_keys :: "int \<Rightarrow> db_change" where
  "delete_user_keys uid now d = Inr (d\<lparr>api_keys := filter (\<lambda>r. k_user r \<noteq> uid) (api_keys d)\<rparr>)"

definition delete_subscriptions :: "int \<Rightarrow> db_change" where
  "delete_subscriptions uid now d = Inr (d\<lparr>subs := filter (\<lambda>s. s_user s \<noteq> uid) (subs d)\<rparr>)"

definition delete_owner :: "int \<Rightarrow> db_change" where
  "delete_owner uid now d = Inr (d\<lparr>owners := filter (\<lambda>(u, fp). u \<noteq> uid) (owners d)\<rparr>)"

definition delete_user :: "int \<Rightarrow> db_change" where
  "delete_user uid now d = Inr (d\<lparr>users := filter (\<lambda>u. u_id u \<noteq> uid) (users d)\<rparr>)"

lemmas change_defs =
  insert_owner_def insert_group_def refresh_group_def insert_plan_def refresh_plan_def
  upsert_subscription_def allow_group_def update_key_def insert_key_def retire_keys_except_def
  retire_user_keys_def retire_one_key_def update_user_def insert_user_def
  cancel_subscriptions_def disallow_groups_def disable_user_def delete_one_key_def
  delete_user_keys_def delete_subscriptions_def delete_owner_def delete_user_def

end
