(* ===== verification/Invite.thy ===== *)
theory Invite
  imports Store
begin

text \<open>
  The ownership of accounts: \<open>resolve_invite_user\<close> finds the user a request is about and
  \<open>_bind_or_validate_invite_user\<close> checks, or establishes, that the account belongs to the
  request's invite, through the HMAC fingerprint stored beside it.
\<close>

section \<open>Small readers\<close>

definition text_int :: "pystr \<Rightarrow> int res" where
  "text_int s = py_int (PStr s)"

definition column :: "pystr list \<Rightarrow> nat \<Rightarrow> pystr res" where
  "column row i = (if i < length row then Inr (row ! i) else Inl IndexError)"

text \<open>\<open>hmac.compare_digest\<close> on strings: equality, but a \<open>TypeError\<close> on non-ASCII text.\<close>

definition compare_digest :: "pystr \<Rightarrow> pystr \<Rightarrow> bool res" where
  "compare_digest a b = (if is_ascii a \<and> is_ascii b then Inr (a = b) else Inl TypeError)"

definition get_secret :: "sync_env \<Rightarrow> pystr res" where
  "get_secret env =
     (let secret = env_get (environ env) ''SUB2API_SYNC_SECRET'' []
      in if length secret < 32
         then Inl (RuntimeError ''SUB2API_SYNC_SECRET must be at least 32 characters'')
         else Inr secret)"

definition invite_owner_fingerprint :: "sync_env \<Rightarrow> pystr \<Rightarrow> pystr res" where
  "invite_owner_fingerprint env uuid =
     res_bind (get_secret env) (\<lambda>secret.
       Inr (hmac_hex env secret (''sub2api-invite-owner:v1:'' @ utf8 uuid)))"

definition password_hash_fingerprint :: "sync_env \<Rightarrow> pystr \<Rightarrow> pystr res" where
  "password_hash_fingerprint env value =
     res_bind (get_secret env) (\<lambda>secret.
       Inr (hmac_hex env secret (''sub2api-password-hash:'' @ utf8 value)))"

definition identity_mismatch :: pyexn where
  "identity_mismatch = RuntimeError ''invite_identity_mismatch''"

section \<open>_bind_or_validate_invite_user\<close>

definition bind_or_validate ::
  "sync_env \<Rightarrow> pystr list \<Rightarrow> pystr \<Rightarrow> pystr list \<Rightarrow> bool \<Rightarrow> pystr list act" where
  "bind_or_validate env row uuid expected_usernames allow_bind =
     (if row = [] \<or> length row < 4 then act_return []
      else if row ! 2 \<noteq> ''user'' then act_raise identity_mismatch
      else act_bind (act_lift (invite_owner_fingerprint env uuid)) (\<lambda>expected.
        if row ! 3 \<noteq> [] then
          act_bind (act_lift (compare_digest (row ! 3) expected)) (\<lambda>same.
            if \<not> same then act_raise identity_mismatch else act_return row)
        else if \<not> allow_bind then act_raise identity_mismatch
        else if row ! 1 \<notin> set expected_usernames then act_raise identity_mismatch
        else
          act_bind (act_lift (text_int (row ! 0))) (\<lambda>uid.
          act_bind (psql_run env [insert_owner uid expected]) (\<lambda>_.
          act_bind (first_row (owner_fingerprint uid)) (\<lambda>owner.
            if owner = [] then act_raise identity_mismatch
            else act_bind (act_lift (compare_digest (owner ! 0) expected)) (\<lambda>same.
              if \<not> same then act_raise identity_mismatch
              else act_return (row[3 := expected])))))))"

section \<open>resolve_invite_user\<close>

text \<open>The candidate loop: the first username that finds a row.\<close>

fun find_candidate :: "bool \<Rightarrow> pystr list \<Rightarrow> pystr list \<Rightarrow> pystr list act" where
  "find_candidate include_deleted [] row = act_return row"
| "find_candidate include_deleted (c # cs) row =
     (if row \<noteq> [] \<or> c = [] then find_candidate include_deleted cs row
      else act_bind (first_row (invite_user_row (WhereUsername c) include_deleted))
             (find_candidate include_deleted cs))"

definition check_key_owner :: "int \<Rightarrow> pystr list \<Rightarrow> pystr list act" where
  "check_key_owner api_key_id row =
     (if row \<noteq> [] \<and> api_key_id > 0 then
        act_bind (first_row (key_owner_row api_key_id)) (\<lambda>key_owner.
          if key_owner = [] then act_return row
          else act_bind (act_lift (text_int (key_owner ! 0))) (\<lambda>k.
               act_bind (act_lift (text_int (row ! 0))) (\<lambda>u.
                 if k \<noteq> u then act_raise identity_mismatch else act_return row)))
      else act_return row)"

definition resolve_invite_user ::
  "sync_env \<Rightarrow> pystr \<Rightarrow> pystr \<Rightarrow> pystr \<Rightarrow> int \<Rightarrow> int \<Rightarrow> bool \<Rightarrow> bool \<Rightarrow> pystr list act" where
  "resolve_invite_user env uuid legacy_username username user_id api_key_id include_deleted allow_bind =
     (let expected_usernames = [legacy_username, username]
      in act_bind
        (if user_id > 0 then
           act_bind (first_row (invite_user_row (WhereId user_id) include_deleted)) (\<lambda>row.
             if row = [] then act_raise identity_mismatch
             else bind_or_validate env row uuid expected_usernames allow_bind)
         else if \<not> allow_bind then
           act_bind (act_lift (invite_owner_fingerprint env uuid)) (\<lambda>expected.
           act_bind (first_row (owned_invite_user_row expected include_deleted)) (\<lambda>row.
             if row = [] \<and> api_key_id > 0 then act_raise identity_mismatch
             else bind_or_validate env row uuid expected_usernames False))
         else
           act_bind (find_candidate include_deleted [username, legacy_username] []) (\<lambda>row.
           act_bind
             (if row = [] \<and> api_key_id > 0
              then first_row (invite_user_row (WhereKeyOwner api_key_id) include_deleted)
              else act_return row) (\<lambda>row.
             bind_or_validate env row uuid expected_usernames allow_bind)))
        (check_key_owner api_key_id))"

section \<open>What a resolved row says\<close>

text \<open>
  Tables whose text columns the transport carries unchanged: the columns of a user row hold
  no separators, and the status column, the last one, is not empty.
\<close>

definition plain_user :: "user_row \<Rightarrow> bool" where
  "plain_user u \<longleftrightarrow>
     list_all plain_field [u_username u, u_role u, u_email u, u_pwhash u, u_status u]
     \<and> length (u_role u) \<le> 32 \<and> 0 < u_id u \<and> length (int_str (u_id u)) \<le> 20
     \<and> (let s = take 16 (u_status u) in s \<noteq> [] \<and> \<not> is_space (last s))"

definition plain_users :: "database \<Rightarrow> bool" where
  "plain_users d \<longleftrightarrow> (\<forall>u \<in> set (users d). plain_user u)
     \<and> distinct (map u_id (users d))
     \<and> (\<forall>(uid, fp) \<in> set (owners d). plain_field fp \<and> fp \<noteq> [] \<and> list_all (\<lambda>c. \<not> is_space c) fp)
     \<and> distinct (map fst (owners d))"

lemma int_str_plain: "plain_field (int_str i) \<and> int_str i \<noteq> [] \<and> list_all (\<lambda>c. \<not> is_space c) (int_str i)"
proof -
  have "\<forall>c \<in> set (int_str i). is_digit c \<or> c = CHR ''-''"
    using nat_str_digits by (auto simp: int_str_def)
  moreover have dash: "\<not> is_space (CHR ''-'')" by (simp add: is_space_def)
  ultimately have "\<forall>c \<in> set (int_str i). \<not> is_space c"
    using digit_not_space dash by blast
  moreover have "\<not> is_space c \<Longrightarrow> c \<noteq> TAB \<and> \<not> is_line_break c" for c
    using line_break_is_space by (auto simp: is_space_def)
  ultimately show ?thesis
    by (auto simp: plain_field_def list_all_iff int_str_def)
qed

lemma plain_field_take: "plain_field s \<Longrightarrow> plain_field (take n s)"
  by (auto simp: plain_field_def list_all_iff dest: in_set_takeD)

lemma plain_invite_columns:
  assumes "plain_user u" and "plain_field fp"
  shows "plain_row (invite_columns u fp)"
  using assms int_str_plain [of "u_id u"] plain_field_take
  by (auto simp: plain_row_def invite_columns_def plain_user_def Let_def list_all_iff)

lemma owner_of_plain:
  assumes "plain_users d" shows "plain_field (owner_of d uid)"
proof (cases "map_of (owners d) uid")
  case None
  then show ?thesis by (simp add: owner_of_def plain_field_def)
next
  case (Some fp)
  then have "(uid, fp) \<in> set (owners d)" by (rule map_of_SomeD)
  with assms Some show ?thesis by (auto simp: plain_users_def owner_of_def)
qed

text \<open>\<open>row\<close> is what the transport makes of the account of user \<open>u\<close>.\<close>

definition row_of_user :: "database \<Rightarrow> user_row \<Rightarrow> pystr list \<Rightarrow> bool" where
  "row_of_user d u row \<longleftrightarrow> u \<in> set (users d) \<and> row = invite_columns u (owner_of d (u_id u))"

lemma first_row_invite_user:
  assumes "plain_users d" and "r = first_row_of (psql_text (invite_user_row wh inc d))"
  shows "r = [] \<or> (\<exists>u. row_of_user d u r \<and> user_matches d wh u \<and> (inc \<or> u_deleted u = None))"
proof (cases "find (\<lambda>u. user_matches d wh u \<and> (inc \<or> u_deleted u = None)) (users d)")
  case None
  with assms show ?thesis by (simp add: invite_user_row_def)
next
  case (Some u)
  then have u: "u \<in> set (users d)" "user_matches d wh u" "inc \<or> u_deleted u = None"
    by (auto simp: find_Some_iff)
  have "plain_row (invite_columns u (owner_of d (u_id u)))"
    using assms(1) u(1) owner_of_plain by (intro plain_invite_columns) (auto simp: plain_users_def)
  then have "r = invite_columns u (owner_of d (u_id u))"
    using assms(2) Some by (simp add: invite_user_row_def first_row_of_plain)
  with u show ?thesis by (auto simp: row_of_user_def)
qed

lemma first_row_owned_invite_user:
  assumes "plain_users d" and "r = first_row_of (psql_text (owned_invite_user_row fp inc d))"
  shows "r = [] \<or> (\<exists>u. row_of_user d u r \<and> owner_of d (u_id u) = sql_text_n 64 fp
     \<and> (inc \<or> u_deleted u = None))"
proof (cases "[(u, q). (uid, q) \<leftarrow> owners d, q = sql_text_n 64 fp,
      u \<leftarrow> users d, u_id u = uid, inc \<or> u_deleted u = None]")
  case Nil
  with assms show ?thesis by (simp add: owned_invite_user_row_def)
next
  case (Cons p ps)
  obtain u q where p: "p = (u, q)" by (rule prod.exhaust)
  have "p \<in> set [(u, q). (uid, q) \<leftarrow> owners d, q = sql_text_n 64 fp,
      u \<leftarrow> users d, u_id u = uid, inc \<or> u_deleted u = None]"
    unfolding Cons by simp
  then have q: "q = sql_text_n 64 fp" "(u_id u, q) \<in> set (owners d)" "u \<in> set (users d)"
    "inc \<or> u_deleted u = None"
    by (auto simp: p)
  have "distinct (map fst (owners d))" using assms(1) by (simp add: plain_users_def)
  then have o: "owner_of d (u_id u) = q" using q(2) by (simp add: owner_of_def)
  have "plain_row (invite_columns u q)"
    using assms(1) q owner_of_plain [OF assms(1), of "u_id u"] o
    by (intro plain_invite_columns) (auto simp: plain_users_def)
  then have "r = invite_columns u q"
    using assms(2) Cons p by (simp add: owned_invite_user_row_def first_row_of_plain)
  with q o show ?thesis by (auto simp: row_of_user_def)
qed

lemma invite_columns_nth:
  "length (invite_columns u fp) = 7" "invite_columns u fp ! 0 = int_str (u_id u)"
  "invite_columns u fp ! Suc 0 = take 100 (u_username u)" "invite_columns u fp ! 2 = take 32 (u_role u)"
  "invite_columns u fp ! 3 = fp" "invite_columns u fp ! 4 = take 255 (u_email u)"
  "invite_columns u fp ! 5 = u_pwhash u" "invite_columns u fp ! 6 = take 16 (u_status u)"
  "invite_columns u fp \<noteq> []" "(invite_columns u fp)[3 := q] = invite_columns u q"
  by (simp_all add: invite_columns_def numeral_eq_Suc)

section \<open>Ownership\<close>

text \<open>The digest function returns 64 hex digits, as HMAC-SHA-256 does.\<close>

definition hex_digest :: "pystr \<Rightarrow> bool" where
  "hex_digest h \<longleftrightarrow> length h = 64 \<and> list_all is_hex h"

definition digest_env :: "sync_env \<Rightarrow> bool" where
  "digest_env env \<longleftrightarrow> (\<forall>k m. hex_digest (hmac_hex env k m))"

lemma is_hex_facts:
  assumes "is_hex c"
  shows "\<not> is_space c" "ord c < 128" "c \<noteq> backslash" "c \<noteq> NUL" "c \<noteq> TAB" "\<not> is_line_break c"
  using assms by (auto simp: is_hex_def is_digit_def is_space_def is_line_break_def)

lemma hex_digest_facts:
  assumes "hex_digest h"
  shows "is_ascii h" "sql_text_n 64 h = h" "plain_field h" "h \<noteq> []" "list_all (\<lambda>c. \<not> is_space c) h"
proof -
  have h: "\<forall>c \<in> set h. is_hex c" "length h = 64" using assms by (auto simp: hex_digest_def list_all_iff)
  show "is_ascii h" using h is_hex_facts by (auto simp: is_ascii_def list_all_iff)
  show "sql_text_n 64 h = h"
    using h is_hex_facts(3,4) by (auto simp: sql_text_n_def intro!: sql_value_plain)
  show "plain_field h" using h(1) is_hex_facts(5,6) by (auto simp: plain_field_def list_all_iff)
  show "h \<noteq> []" using h(2) by auto
  show "list_all (\<lambda>c. \<not> is_space c) h" using h(1) is_hex_facts(1) by (auto simp: list_all_iff)
qed

lemma fingerprint_digest:
  assumes "digest_env env" and "invite_owner_fingerprint env uuid = Inr fp"
  shows "hex_digest fp"
  using assms by (auto simp: invite_owner_fingerprint_def res_bind_eq_Inr digest_env_def)

lemma text_int_int_str:
  assumes "0 < i" and "length (int_str i) \<le> 20" shows "text_int (int_str i) = Inr i"
proof -
  have s: "int_str i = nat_str (nat i)" using assms(1) by (simp add: int_str_def)
  then have "int_of_text (int_str i) = Some i"
    using int_of_text_nat_str [of "nat i"] assms by simp
  then show ?thesis by (simp add: text_int_def)
qed

text \<open>\<open>owned_by d u fp\<close>: the account of \<open>u\<close> is stored under the invite fingerprint \<open>fp\<close>.\<close>

definition owned_by :: "database \<Rightarrow> user_row \<Rightarrow> pystr \<Rightarrow> bool" where
  "owned_by d u fp \<longleftrightarrow> u \<in> set (users d) \<and> u_role u = ''user'' \<and> (u_id u, fp) \<in> set (owners d)"

lemma owner_of_nonempty:
  "owner_of d uid = fp \<Longrightarrow> fp \<noteq> [] \<Longrightarrow> (uid, fp) \<in> set (owners d)"
  by (auto simp: owner_of_def split: option.splits dest: map_of_SomeD)

lemma owner_of_empty:
  assumes "plain_users d" and "owner_of d uid = []"
  shows "uid \<notin> fst ` set (owners d)"
proof
  assume "uid \<in> fst ` set (owners d)"
  then obtain fp where "map_of (owners d) uid = Some fp"
    by (metis map_of_eq_None_iff not_None_eq)
  with assms show False
    by (auto simp: plain_users_def owner_of_def dest: map_of_SomeD)
qed

lemma bind_or_validate_Inr:
  assumes env: "digest_env env" and plain: "plain_users (db w)" and row: "row_of_user (db w) u row"
    and run: "bind_or_validate env row uuid exps allow_bind w = (Inr row', w')"
  shows "\<exists>fp. invite_owner_fingerprint env uuid = Inr fp \<and> row_of_user (db w') u row' \<and>
    owned_by (db w') u fp \<and> users (db w') = users (db w) \<and>
    (owned_by (db w) u fp \<and> db w' = db w
     \<or> allow_bind \<and> owner_of (db w) (u_id u) = [] \<and> take 100 (u_username u) \<in> set exps
        \<and> db w' = (db w)\<lparr>owners := owners (db w) @ [(u_id u, fp)]\<rparr>)"
proof -
  let ?o = "owner_of (db w) (u_id u)"
  have u: "u \<in> set (users (db w))" and r: "row = invite_columns u ?o"
    using row by (auto simp: row_of_user_def)
  have pu: "plain_user u" using plain u by (simp add: plain_users_def)
  have nth: "row \<noteq> []" "\<not> length row < 4" "row ! 0 = int_str (u_id u)"
    "row ! 1 = take 100 (u_username u)" "row ! 2 = take 32 (u_role u)" "row ! 3 = ?o"
    by (simp_all add: r invite_columns_nth)
  from run nth have role: "take 32 (u_role u) = ''user''"
    by (auto simp: bind_or_validate_def split: if_splits)
  then have role': "u_role u = ''user''" using pu by (simp add: plain_user_def)
  from run nth role obtain fp w0 where fp: "invite_owner_fingerprint env uuid = Inr fp"
    and run1: "(if row ! 3 \<noteq> [] then
          act_bind (act_lift (compare_digest (row ! 3) fp)) (\<lambda>same.
            if \<not> same then act_raise identity_mismatch else act_return row)
        else if \<not> allow_bind then act_raise identity_mismatch
        else if row ! 1 \<notin> set exps then act_raise identity_mismatch
        else
          act_bind (act_lift (text_int (row ! 0))) (\<lambda>uid.
          act_bind (psql_run env [insert_owner uid fp]) (\<lambda>_.
          act_bind (first_row (owner_fingerprint uid)) (\<lambda>owner.
            if owner = [] then act_raise identity_mismatch
            else act_bind (act_lift (compare_digest (owner ! 0) fp)) (\<lambda>same.
              if \<not> same then act_raise identity_mismatch
              else act_return (row[3 := fp])))))) w = (Inr row', w')"
    by (auto simp: bind_or_validate_def act_bind_Inr)
  note hd = hex_digest_facts [OF fingerprint_digest [OF env fp]]
  show ?thesis
  proof (cases "?o = []")
    case False
    with run1 nth have same: "compare_digest ?o fp = Inr True" and "row' = row" "w' = w"
      by (auto simp: act_bind_Inr split: if_splits)
    from same have "?o = fp" by (auto simp: compare_digest_def split: if_splits)
    then have "owned_by (db w) u fp"
      using u role' owner_of_nonempty [of "db w" "u_id u" fp] hd(4) by (simp add: owned_by_def)
    with fp \<open>row' = row\<close> \<open>w' = w\<close> row show ?thesis by blast
  next
    case True
    with run1 nth have allow: "allow_bind" "take 100 (u_username u) \<in> set exps"
      by (auto split: if_splits)
    have tid: "text_int (row ! 0) = Inr (u_id u)"
      using nth(3) pu by (simp add: text_int_int_str plain_user_def)
    from run1 True nth allow tid obtain w1 w2 v owner where
      ins: "psql_run env [insert_owner (u_id u) fp] w = (Inr v, w1)"
      and sel: "first_row (owner_fingerprint (u_id u)) w1 = (Inr owner, w2)"
      and fin: "row' = row[3 := fp]" "w' = w2"
      by (auto simp: act_bind_Inr split: if_splits)
    have "u_id u \<notin> fst ` set (owners (db w))" using owner_of_empty [OF plain True] .
    then have d1: "db w1 = (db w)\<lparr>owners := owners (db w) @ [(u_id u, fp)]\<rparr>"
      using psql_run_Inr [OF ins] hd(2) by (auto simp: insert_owner_def split: if_splits)
    have d2: "db w' = db w1" using first_row_Inr [OF sel] fin(2) by simp
    have "owner_of (db w1) (u_id u) = fp"
      using \<open>u_id u \<notin> fst ` set (owners (db w))\<close> d1
      by (simp add: owner_of_def map_add_def map_of_eq_None_iff [symmetric] split: option.splits)
    then have "row_of_user (db w') u row'"
      using u d1 d2 fin(1) r by (simp add: row_of_user_def invite_columns_nth)
    moreover have "owned_by (db w') u fp"
      using u role' d1 d2 by (simp add: owned_by_def)
    ultimately show ?thesis using fp d1 d2 allow True by auto
  qed
qed

lemma bind_or_validate_empty [simp]: "bind_or_validate env [] uuid exps ab = act_return []"
  by (simp add: bind_or_validate_def)

lemma find_candidate_Inr:
  assumes "find_candidate inc cs row w = (Inr r, w')" and "plain_users (db w)"
    and "row = [] \<or> (\<exists>u. row_of_user (db w) u row \<and> (inc \<or> u_deleted u = None))"
  shows "db w' = db w \<and> (r = [] \<or> (\<exists>u. row_of_user (db w) u r \<and> (inc \<or> u_deleted u = None)))"
  using assms
proof (induction inc cs row arbitrary: w rule: find_candidate.induct)
  case (1 inc row)
  then show ?case by simp
next
  case (2 inc c cs row)
  show ?case
  proof (cases "row \<noteq> [] \<or> c = []")
    case True
    with 2 show ?thesis by auto
  next
    case False
    with "2.prems"(1) obtain row1 w1 where
      f: "first_row (invite_user_row (WhereUsername c) inc) w = (Inr row1, w1)"
      and rest: "find_candidate inc cs row1 w1 = (Inr r, w')" by (auto simp: act_bind_Inr)
    from first_row_Inr [OF f] have db: "db w1 = db w"
      and r1: "row1 = first_row_of (psql_text (invite_user_row (WhereUsername c) inc (db w)))" by auto
    have "row1 = [] \<or> (\<exists>u. row_of_user (db w) u row1 \<and> (inc \<or> u_deleted u = None))"
      using first_row_invite_user [OF "2.prems"(2) r1] by blast
    with "2.IH"(2) [OF False rest] "2.prems"(2) db show ?thesis by simp
  qed
qed

lemma check_key_owner_Inr:
  assumes "check_key_owner kid row w = (Inr r, w')"
  shows "r = row \<and> db w' = db w"
  using assms by (auto simp: check_key_owner_def act_bind_Inr split: if_splits dest!: first_row_Inr)

definition resolved_to ::
  "sync_env \<Rightarrow> pystr \<Rightarrow> pystr list \<Rightarrow> bool \<Rightarrow> bool \<Rightarrow> world \<Rightarrow> world \<Rightarrow> pystr list \<Rightarrow> user_row \<Rightarrow> bool" where
  "resolved_to env uuid exps inc ab w w' row u \<longleftrightarrow>
     (\<exists>fp. invite_owner_fingerprint env uuid = Inr fp \<and> row_of_user (db w') u row \<and>
        owned_by (db w') u fp \<and> (inc \<or> u_deleted u = None) \<and>
        (owned_by (db w) u fp \<and> db w' = db w
         \<or> ab \<and> owner_of (db w) (u_id u) = [] \<and> take 100 (u_username u) \<in> set exps \<and>
           db w' = (db w)\<lparr>owners := owners (db w) @ [(u_id u, fp)]\<rparr>))"

lemma bind_then_check:
  assumes env: "digest_env env" and plain: "plain_users (db w)" and db1: "db w1 = db w"
    and row1: "row1 = [] \<or> (\<exists>u. row_of_user (db w) u row1 \<and> P u \<and> (inc \<or> u_deleted u = None))"
    and b: "bind_or_validate env row1 uuid exps ab w1 = (Inr r2, w2)"
    and c: "check_key_owner kid r2 w2 = (Inr row, w')" and ne: "row \<noteq> []"
  shows "\<exists>u. P u \<and> resolved_to env uuid exps inc ab w w' row u"
proof -
  have r2: "row = r2" "db w' = db w2" using check_key_owner_Inr [OF c] by auto
  have "row1 \<noteq> []" using b r2 ne by auto
  then obtain u where u: "row_of_user (db w1) u row1" "P u" "inc \<or> u_deleted u = None"
    using row1 db1 by auto
  have "plain_users (db w1)" using plain db1 by simp
  from bind_or_validate_Inr [OF env this u(1) b] obtain fp where
    "invite_owner_fingerprint env uuid = Inr fp" "row_of_user (db w2) u r2" "owned_by (db w2) u fp"
    "owned_by (db w) u fp \<and> db w2 = db w
     \<or> ab \<and> owner_of (db w) (u_id u) = [] \<and> take 100 (u_username u) \<in> set exps
        \<and> db w2 = (db w)\<lparr>owners := owners (db w) @ [(u_id u, fp)]\<rparr>"
    unfolding db1 by blast
  with u(2,3) r2 show ?thesis unfolding resolved_to_def by auto
qed

lemma resolve_invite_user_Inr:
  assumes env: "digest_env env" and plain: "plain_users (db w)"
    and run: "resolve_invite_user env uuid legacy_username username user_id api_key_id inc ab w = (Inr row, w')"
    and ne: "row \<noteq> []"
  shows "\<exists>u. (user_id > 0 \<longrightarrow> u_id u = user_id) \<and>
    resolved_to env uuid [legacy_username, username] inc ab w w' row u"
proof -
  let ?exps = "[legacy_username, username]"
  consider "user_id > 0" | "\<not> user_id > 0" "\<not> ab" | "\<not> user_id > 0" "ab" by blast
  then show ?thesis
  proof cases
    case 1
    from run 1 obtain row1 w1 r2 w2 where
      f: "first_row (invite_user_row (WhereId user_id) inc) w = (Inr row1, w1)"
      and b: "bind_or_validate env row1 uuid ?exps ab w1 = (Inr r2, w2)"
      and c: "check_key_owner api_key_id r2 w2 = (Inr row, w')"
      by (auto simp: resolve_invite_user_def Let_def act_bind_Inr split: if_splits)
    from first_row_Inr [OF f] have db: "db w1 = db w"
      and r1: "row1 = first_row_of (psql_text (invite_user_row (WhereId user_id) inc (db w)))" by auto
    have "row1 = [] \<or> (\<exists>u. row_of_user (db w) u row1 \<and> u_id u = user_id \<and> (inc \<or> u_deleted u = None))"
      using first_row_invite_user [OF plain r1] by (auto simp: user_matches_def)
    from bind_then_check [OF env plain db this b c ne] show ?thesis by blast
  next
    case 2
    from run 2 obtain fp w0 row1 w1 r2 w2 where
      f: "first_row (owned_invite_user_row fp inc) w = (Inr row1, w1)"
      and b: "bind_or_validate env row1 uuid ?exps False w1 = (Inr r2, w2)"
      and c: "check_key_owner api_key_id r2 w2 = (Inr row, w')"
      by (auto simp: resolve_invite_user_def Let_def act_bind_Inr split: if_splits)
    from first_row_Inr [OF f] have db: "db w1 = db w"
      and r1: "row1 = first_row_of (psql_text (owned_invite_user_row fp inc (db w)))" by auto
    have "row1 = [] \<or> (\<exists>u. row_of_user (db w) u row1 \<and> True \<and> (inc \<or> u_deleted u = None))"
      using first_row_owned_invite_user [OF plain r1] by auto
    from bind_then_check [OF env plain db this b c ne] 2 show ?thesis by auto
  next
    case 3
    from run 3 obtain row0 w0 row1 w1 r2 w2 where
      f: "find_candidate inc [username, legacy_username] [] w = (Inr row0, w0)"
      and g: "(if row0 = [] \<and> api_key_id > 0
              then first_row (invite_user_row (WhereKeyOwner api_key_id) inc)
              else act_return row0) w0 = (Inr row1, w1)"
      and b: "bind_or_validate env row1 uuid ?exps ab w1 = (Inr r2, w2)"
      and c: "check_key_owner api_key_id r2 w2 = (Inr row, w')"
      by (auto simp: resolve_invite_user_def Let_def act_bind_Inr simp del: find_candidate.simps)
    have r0: "db w0 = db w" "row0 = [] \<or> (\<exists>u. row_of_user (db w) u row0 \<and> (inc \<or> u_deleted u = None))"
      using find_candidate_Inr [OF f plain] by auto
    have "db w1 = db w \<and> (row1 = [] \<or> (\<exists>u. row_of_user (db w) u row1 \<and> True \<and> (inc \<or> u_deleted u = None)))"
    proof (cases "row0 = [] \<and> api_key_id > 0")
      case True
      with g have "first_row (invite_user_row (WhereKeyOwner api_key_id) inc) w0 = (Inr row1, w1)" by simp
      from first_row_Inr [OF this] r0(1) first_row_invite_user [OF plain] show ?thesis by metis
    next
      case False
      with g r0 show ?thesis by auto
    qed
    then have db: "db w1 = db w" and
      r1: "row1 = [] \<or> (\<exists>u. row_of_user (db w) u row1 \<and> True \<and> (inc \<or> u_deleted u = None))" by auto
    from bind_then_check [OF env plain db r1 b c ne] 3 show ?thesis by auto
  qed
qed

text \<open>
  C2. The account a request is resolved to belongs to the request's invite. If
  resolve_invite_user answers with a row, it is the row of one account, with role user
  (never an administrator), whose stored owner fingerprint is now the HMAC of the
  request's UUID; a deleted account only when the caller asked for deleted ones. Either
  the account already carried this fingerprint and nothing was written, or binding was
  allowed, the account had no owner, it carries one of the two usernames of the request,
  and the one change is the new owner row.
\<close>

theorem resolve_invite_user_owned:
  assumes "digest_env env" and "plain_users (db w)"
    and "resolve_invite_user env uuid legacy_username username user_id api_key_id
           include_deleted allow_bind w = (Inr row, w')"
    and "row \<noteq> []"
  shows "\<exists>u fp. invite_owner_fingerprint env uuid = Inr fp \<and> row_of_user (db w') u row \<and>
    owned_by (db w') u fp \<and> (include_deleted \<or> u_deleted u = None) \<and>
    (owned_by (db w) u fp \<and> db w' = db w
     \<or> allow_bind \<and> owner_of (db w) (u_id u) = [] \<and>
       take 100 (u_username u) \<in> {legacy_username, username} \<and>
       db w' = (db w)\<lparr>owners := owners (db w) @ [(u_id u, fp)]\<rparr>)"
  using resolve_invite_user_Inr [OF assms] unfolding resolved_to_def by auto

text \<open>A small world for the witnesses: an administrator, a bound account and an unbound one.\<close>

definition example_fingerprint :: pystr where
  "example_fingerprint = replicate 64 (CHR ''a'')"

definition example_env :: sync_env where
  "example_env = \<lparr>environ = (\<lambda>n. if n = ''SUB2API_SYNC_SECRET'' then Some (replicate 32 (CHR ''k'')) else None),
     hmac_hex = (\<lambda>k m. example_fingerprint), crypt_bf = (\<lambda>p. ''$2a$06$hash''),
     py_float = (\<lambda>t. Inr (PyFloat t False (Trunc 0))), violates = (\<lambda>_. None),
     collate = map of_char, stamp = ''2026-01-01T00:00:00Z''\<rparr>"

definition example_user :: "int \<Rightarrow> pystr \<Rightarrow> pystr \<Rightarrow> user_row" where
  "example_user i role name =
     \<lparr>u_id = i, u_email = name @ ''@x.org'', u_pwhash = ''h'', u_role = role, u_balance = 100,
      u_concurrency = 5, u_status = ''active'', u_username = name, u_notes = name,
      u_deleted = None, u_updated = 0\<rparr>"

definition example_database :: database where
  "example_database = empty_database\<lparr>
     users := [example_user 1 ''admin'' ''root'', example_user 2 ''user'' ''alice'',
               example_user 3 ''user'' ''bob''],
     owners := [(2, example_fingerprint)], next_user := 4\<rparr>"

lemma example_digest_env: "digest_env example_env"
  by (simp add: digest_env_def example_env_def hex_digest_def example_fingerprint_def list_all_iff
      is_hex_def)

lemma example_plain_users: "plain_users example_database"
  by code_simp

theorem resolve_invite_user_owned_witness:
  "\<exists>u fp. owned_by example_database u fp \<and> u_id u = 2"
proof -
  let ?run = "resolve_invite_user example_env example_uuid ''u7c484f746d9'' ''alice'' 0 0 False True
      (quiet_world example_database)"
  have r: "?run = (Inr [''2'', ''alice'', ''user'', example_fingerprint, ''alice@x.org'', ''h'', ''active''],
      quiet_world example_database)" by code_simp
  have "plain_users (db (quiet_world example_database))"
    using example_plain_users by (simp add: quiet_world_def)
  from resolve_invite_user_owned [OF example_digest_env this r] have
    "\<exists>u fp. owned_by (db (quiet_world example_database)) u fp" by auto
  then obtain u fp where "owned_by example_database u fp" by (auto simp: quiet_world_def)
  moreover from this have "u_id u = 2"
    by (simp add: owned_by_def owner_of_def example_database_def empty_database_def split: if_splits)
  ultimately show ?thesis by blast
qed

end
