(* ===== verification/Provision.thy ===== *)
theory Provision
  imports Invite
begin

text \<open>
  The \<open>provision\<close> action of \<open>sub2api_sync.py\<close> and what it calls: groups
  (\<open>ensure_group\<close>, \<open>resolve_provision_groups\<close>, the cached group catalog), subscription
  plans and subscriptions, and the API keys of an account (\<open>sync_user_keys\<close>,
  \<open>get_user_keys\<close>). Facts about them are in \<open>Provision_Facts\<close>.
\<close>

section \<open>Groups\<close>

definition lookup_active_group_id :: "pystr \<Rightarrow> int option act" where
  "lookup_active_group_id grp =
     act_bind (act_lift (validate_group_name (PStr grp))) (\<lambda>name.
     act_bind (first_row (active_group_id name)) (\<lambda>row.
       if row = [] then act_return None
       else act_bind (act_lift (text_int (row ! 0))) (\<lambda>i. act_return (Some i))))"

definition ensure_group :: "sync_env \<Rightarrow> pystr \<Rightarrow> int act" where
  "ensure_group env grp =
     act_bind (act_lift (validate_group_name (PStr grp))) (\<lambda>name.
       let (platform, description) = group_profile name in
       act_bind (psql_run env [insert_group name description platform, refresh_group name description]) (\<lambda>_.
       act_bind (lookup_active_group_id name) (\<lambda>group_id. case group_id of
           None \<Rightarrow> act_raise (RuntimeError ''sub2api group not found'')
         | Some i \<Rightarrow> (if i = 0 then act_raise (RuntimeError ''sub2api group not found'')
                      else act_return i))))"

definition ensure_groups :: "sync_env \<Rightarrow> (pystr \<times> int) list act" where
  "ensure_groups env =
     act_each (\<lambda>grp. act_bind (ensure_group env grp) (\<lambda>i. act_return (grp, i)))
       (configured_groups (environ env))"

definition resolve_provision_groups :: "sync_env \<Rightarrow> pydict \<Rightarrow> (pystr \<times> int) list act" where
  "resolve_provision_groups env payload =
     act_bind (act_lift (requested_groups (environ env) payload)) (\<lambda>requested.
       let configured = configured_groups (environ env) in
       if requested = configured then ensure_groups env
       else act_each (\<lambda>name.
              if name \<in> set configured
              then act_bind (ensure_group env name) (\<lambda>i. act_return (name, i))
              else act_bind (lookup_active_group_id name) (\<lambda>group_id. case group_id of
                  None \<Rightarrow> act_raise (ValueError ''unknown_group'')
                | Some i \<Rightarrow> act_return (name, i))) requested)"

section \<open>The group catalog and its cache\<close>

text \<open>Readings of the monotonic clock are in milliseconds.\<close>

definition GROUP_CATALOG_TTL_SECONDS :: int where "GROUP_CATALOG_TTL_SECONDS = 30"

fun catalog_loop :: "pystr list list \<Rightarrow> pystr list \<Rightarrow> catalog_entry list \<Rightarrow> catalog_entry list res" where
  "catalog_loop [] seen cat = Inr cat"
| "catalog_loop (row # rs) seen cat =
     (if length cat \<ge> MAX_GROUP_CATALOG then Inr cat
      else case validate_group_name (PStr (if length row > 1 then row ! 1 else [])) of
          Inl _ \<Rightarrow> catalog_loop rs seen cat
        | Inr name \<Rightarrow>
            (if name \<in> set seen then catalog_loop rs seen cat
             else res_bind (column row 0) (\<lambda>c0. res_bind (text_int c0) (\<lambda>i.
               catalog_loop rs (name # seen)
                 (cat @ [\<lparr>c_id = i, c_name = name,
                          c_platform = take 32 (if length row > 2 then row ! 2 else [])\<rparr>])))))"

definition load_group_catalog :: "sync_env \<Rightarrow> bool \<Rightarrow> catalog_entry list act" where
  "load_group_catalog env force =
     act_bind read_mono (\<lambda>now.
     act_bind (act_get catalog) (\<lambda>cached.
       case (if force then None else cached) of
         Some (expires_at, groups) \<Rightarrow>
           if expires_at > now then act_return groups
           else act_bind (rows (catalog_rows (collate env))) (\<lambda>group_rows.
             act_bind (act_lift (catalog_loop group_rows [] [])) (\<lambda>cat.
             act_bind read_mono (\<lambda>later.
             act_bind (act_put (\<lambda>w. w\<lparr>catalog := Some (later + GROUP_CATALOG_TTL_SECONDS * 1000, cat)\<rparr>)) (\<lambda>_.
               act_return cat))))
       | None \<Rightarrow> act_bind (rows (catalog_rows (collate env))) (\<lambda>group_rows.
             act_bind (act_lift (catalog_loop group_rows [] [])) (\<lambda>cat.
             act_bind read_mono (\<lambda>later.
             act_bind (act_put (\<lambda>w. w\<lparr>catalog := Some (later + GROUP_CATALOG_TTL_SECONDS * 1000, cat)\<rparr>)) (\<lambda>_.
               act_return cat))))))"

definition catalog_value :: "catalog_entry \<Rightarrow> pyval" where
  "catalog_value c =
     PDict [(''id'', PInt (c_id c)), (''name'', PStr (c_name c)), (''platform'', PStr (c_platform c))]"

definition list_groups :: "sync_env \<Rightarrow> pydict act" where
  "list_groups env =
     act_bind (with_transaction DEFAULT_DB_STATEMENT_TIMEOUT_MS (load_group_catalog env False)) (\<lambda>groups.
       act_return [(''ok'', PBool True), (''action'', PStr ''list_groups''),
         (''groups'', PList (map catalog_value groups)), (''syncedAt'', PStr (stamp env))])"

section \<open>Plans and subscriptions\<close>

definition plan_name :: "environ \<Rightarrow> pystr" where
  "plan_name vars =
     (let n = take 100 (env_get vars ''SUB2API_SYNC_DEFAULT_PLAN_NAME'' ''Default'')
      in if n = [] then ''Default'' else n)"

definition ensure_subscription_plan :: "sync_env \<Rightarrow> int \<Rightarrow> unit act" where
  "ensure_subscription_plan env group_id =
     (let days = subscription_days (environ env); name = plan_name (environ env)
      in psql_run env [insert_plan group_id name days, refresh_plan group_id name days])"

definition ensure_default_subscription :: "sync_env \<Rightarrow> int \<Rightarrow> int \<Rightarrow> unit act" where
  "ensure_default_subscription env user_id group_id =
     psql_run env [upsert_subscription user_id group_id (subscription_days (environ env))]"

section \<open>API keys\<close>

definition float_or_zero :: "sync_env \<Rightarrow> pystr \<Rightarrow> pyval res" where
  "float_or_zero env s =
     (if s = [] then Inr (PFloat (PyFloat ''0.0'' True (Trunc 0)))
      else res_bind (py_float env s) (\<lambda>f. Inr (PFloat f)))"

definition key_value :: "sync_env \<Rightarrow> pystr list \<Rightarrow> pyval res" where
  "key_value env row =
     res_bind (text_int (row ! 0)) (\<lambda>kid.
     res_bind (float_or_zero env (row ! 4)) (\<lambda>quota.
     res_bind (float_or_zero env (row ! 5)) (\<lambda>used.
       Inr (PDict
         [(''apiKeyId'', PInt kid), (''tokenId'', PInt kid), (''name'', PStr (row ! 1)),
          (''apiKey'', PStr (row ! 2)), (''tokenKey'', PStr (row ! 2)),
          (''status'', PInt (if row ! 3 = ''active'' then 1 else 0)),
          (''quota'', quota), (''quotaUsed'', used),
          (''groupName'', PStr (if length row \<ge> 7 then row ! 6 else []))]))))"

definition get_user_keys :: "sync_env \<Rightarrow> int \<Rightarrow> pyval list act" where
  "get_user_keys env user_id =
     act_bind (rows (user_key_rows user_id)) (\<lambda>key_rows.
       if length key_rows > MAX_USER_API_KEYS
       then act_raise (RuntimeError ''api_key_limit_exceeded'')
       else act_lift (res_map (key_value env) (filter (\<lambda>row. length row \<ge> 6) key_rows)))"

definition token_group_id :: "int \<Rightarrow> token \<Rightarrow> int act" where
  "token_group_id group_id tk =
     (let name = strip (case tk_group tk of None \<Rightarrow> [] | Some g \<Rightarrow> g)
      in if name = [] then act_return group_id
         else act_bind (lookup_active_group_id name) (\<lambda>found. case found of
             None \<Rightarrow> act_return group_id
           | Some i \<Rightarrow> act_return (if i = 0 then group_id else i)))"

text \<open>The body of the loop: the id of the key's row after it is written.\<close>

definition sync_one_key :: "sync_env \<Rightarrow> int \<Rightarrow> int \<Rightarrow> token \<Rightarrow> int act" where
  "sync_one_key env user_id group_id tk =
     act_bind (token_group_id group_id tk) (\<lambda>gid.
     act_bind (first_row (key_by_text (tk_key tk))) (\<lambda>existing.
       if existing \<noteq> [] then
         act_bind (act_lift (text_int (existing ! 0))) (\<lambda>kid.
         act_bind (act_lift (column existing 1)) (\<lambda>c1.
         act_bind (act_lift (text_int c1)) (\<lambda>key_user_id.
           let key_deleted_at = (if length existing \<ge> 3 then existing ! 2 else [])
           in if key_user_id \<noteq> user_id \<and> key_deleted_at = []
              then act_raise (RuntimeError ''api_key_conflict'')
              else act_bind (psql_run env [update_key kid user_id (tk_key tk) (tk_name tk) gid]) (\<lambda>_.
                   act_return kid))))
       else
         act_bind (psql_run env [insert_key user_id (tk_key tk) (tk_name tk) gid]) (\<lambda>_.
         act_bind (first_row (key_id_by_text (tk_key tk))) (\<lambda>row.
         act_bind (act_lift (column row 0)) (\<lambda>c0.
           act_lift (text_int c0))))))"

fun sync_keys_loop ::
  "sync_env \<Rightarrow> int \<Rightarrow> int \<Rightarrow> token list \<Rightarrow> int list \<Rightarrow> int \<Rightarrow> pystr \<Rightarrow> (int list \<times> int \<times> pystr) act" where
  "sync_keys_loop env user_id group_id [] active primary_id primary_key =
     act_return (active, primary_id, primary_key)"
| "sync_keys_loop env user_id group_id (tk # tks) active primary_id primary_key =
     act_bind (sync_one_key env user_id group_id tk) (\<lambda>kid.
       if primary_id \<le> 0 then sync_keys_loop env user_id group_id tks (active @ [kid]) kid (tk_key tk)
       else sync_keys_loop env user_id group_id tks (active @ [kid]) primary_id primary_key)"

definition sync_user_keys :: "sync_env \<Rightarrow> int \<Rightarrow> int \<Rightarrow> token list \<Rightarrow> (int \<times> pystr) act" where
  "sync_user_keys env user_id group_id tokens =
     act_bind (sync_keys_loop env user_id group_id tokens [] 0 []) (\<lambda>(active, primary_id, primary_key).
     act_bind (if active \<noteq> [] then psql_run env [retire_keys_except user_id active]
               else psql_run env [retire_user_keys user_id]) (\<lambda>_.
       act_return (primary_id, primary_key)))"

section \<open>provision\<close>

definition password_fits :: "pystr \<Rightarrow> bool" where
  "password_fits p \<longleftrightarrow> 8 \<le> length p \<and> length p \<le> 64"

definition password_or_new :: "pystr \<Rightarrow> pystr act" where
  "password_or_new p = (if password_fits p then act_return p else login_password)"

definition check_email_owner :: "pydict \<Rightarrow> pystr \<Rightarrow> pystr list \<Rightarrow> unit act" where
  "check_email_owner payload email user =
     (if strip (str_or_empty (dget payload ''email'')) = [] then act_return ()
      else act_bind (first_row (email_owner_row email)) (\<lambda>email_owner.
           act_bind (if user = [] then act_return 0 else act_lift (text_int (user ! 0))) (\<lambda>current.
             if email_owner = [] then act_return ()
             else act_bind (act_lift (text_int (email_owner ! 0))) (\<lambda>owner.
                  if owner \<noteq> current then act_raise (RuntimeError ''email_conflict'')
                  else act_return ()))))"

text \<open>The account is updated, or created and bound to the invite: its id and the password.\<close>

definition write_user ::
  "sync_env \<Rightarrow> pystr list \<Rightarrow> pystr \<Rightarrow> pystr \<Rightarrow> pystr \<Rightarrow> pystr \<Rightarrow> pystr \<Rightarrow> pystr \<Rightarrow> bool \<Rightarrow> (int \<times> pystr) act" where
  "write_user env user uuid legacy_username username email display_name password reset =
     (if user \<noteq> [] then
        act_bind (act_lift (text_int (user ! 0))) (\<lambda>user_id.
          if reset \<or> \<not> password_fits password then
            act_bind (password_or_new password) (\<lambda>pw.
            act_bind (psql_run env
              [update_user user_id email (Some (crypt_bf env (sql_text pw))) username display_name]) (\<lambda>_.
              act_return (user_id, pw)))
          else
            act_bind (psql_run env [update_user user_id email None username display_name]) (\<lambda>_.
              act_return (user_id, password)))
      else
        act_bind (password_or_new password) (\<lambda>pw.
        act_bind (psql_run env
          [insert_user email (crypt_bf env (sql_text pw)) username display_name]) (\<lambda>_.
        act_bind (first_row (user_id_by_username username)) (\<lambda>row.
        act_bind (act_lift (column row 0)) (\<lambda>c0.
        act_bind (act_lift (text_int c0)) (\<lambda>user_id.
        act_bind (bind_or_validate env [int_str user_id, username, ''user'', []] uuid
                    [legacy_username, username] True) (\<lambda>_.
          act_return (user_id, pw))))))))"

definition grant_groups :: "sync_env \<Rightarrow> int \<Rightarrow> (pystr \<times> int) list \<Rightarrow> unit list act" where
  "grant_groups env user_id groups =
     act_each (\<lambda>(_, group_id).
       act_bind (psql_run env [allow_group user_id group_id]) (\<lambda>_.
         ensure_default_subscription env user_id group_id)) groups"

definition provision_tokens :: "pydict \<Rightarrow> token list act" where
  "provision_tokens payload =
     act_bind (act_lift (requested_tokens payload)) (\<lambda>tokens.
       if \<not> dhas payload ''tokens'' \<and> tokens = []
       then act_bind api_key (\<lambda>k. act_return [\<lparr>tk_key = k, tk_name = DEFAULT_KEY_NAME, tk_group = None\<rparr>])
       else act_return tokens)"

definition provision_body :: "sync_env \<Rightarrow> pydict \<Rightarrow> pydict act" where
  "provision_body env payload =
     act_bind (act_lift (payload_identity payload)) (\<lambda>(uuid, legacy_username, username).
       let display_name = take 80 (strip (py_str (py_or (dget payload ''name'') (PStr username))));
           email = default_email username (dget payload ''email'');
           password = strip (str_or_empty (dget payload ''loginPassword''));
           reset = truthy (dget payload ''resetLoginPassword'')
       in
       act_bind (act_lift (payload_user_id payload)) (\<lambda>requested_user_id.
       act_bind (resolve_invite_user env uuid legacy_username username
                   (if requested_user_id > 0 then requested_user_id else 0) 0 True True) (\<lambda>user.
       act_bind (check_email_owner payload email user) (\<lambda>_.
       act_bind (resolve_provision_groups env payload) (\<lambda>groups.
       act_bind (act_lift (case groups of [] \<Rightarrow> Inl IndexError | (_, g) # _ \<Rightarrow> Inr g)) (\<lambda>primary_group_id.
       act_bind (act_each (\<lambda>(_, g). ensure_subscription_plan env g) groups) (\<lambda>_.
       act_bind (write_user env user uuid legacy_username username email display_name password reset) (\<lambda>(user_id, pw).
       act_bind (grant_groups env user_id groups) (\<lambda>_.
       act_bind (provision_tokens payload) (\<lambda>tokens.
       act_bind (sync_user_keys env user_id primary_group_id tokens) (\<lambda>(kid, key).
       act_bind (first_row (password_hash_row user_id)) (\<lambda>hash_row.
       act_bind (act_lift (password_hash_fingerprint env (if hash_row = [] then [] else hash_row ! 0))) (\<lambda>fingerprint.
       act_bind (get_user_keys env user_id) (\<lambda>keys.
         act_return
           [(''ok'', PBool True), (''action'', PStr ''provision''), (''uuid'', PStr uuid),
            (''username'', PStr username), (''email'', PStr email), (''userId'', PInt user_id),
            (''apiKeyId'', PInt kid), (''tokenId'', PInt kid), (''apiKey'', PStr key),
            (''tokenKey'', PStr key),
            (''loginUrl'', PStr (env_get (environ env) ''SUB2API_LOGIN_URL'' ''https://api.example.com'')),
            (''loginPassword'', PStr pw), (''passwordHashFingerprint'', PStr fingerprint),
            (''tokens'', PList keys), (''allowedGroups'', PList (map (\<lambda>(n, _). PStr n) groups)),
            (''baseUrl'', PStr (env_get (environ env) ''SUB2API_PUBLIC_BASE_URL'' ''https://api.example.com/v1'')),
            (''syncedAt'', PStr (stamp env))]))))))))))))))"

definition provision :: "sync_env \<Rightarrow> pydict \<Rightarrow> pydict act" where
  "provision env payload =
     with_transaction DEFAULT_DB_STATEMENT_TIMEOUT_MS (provision_body env payload)"

end
