(* ===== verification/Provision_Facts.thy ===== *)
theory Provision_Facts
  imports Provision Payload_Facts
begin

text \<open>
  Facts about \<open>Provision\<close>: which tables each operation can change, what the API keys of an
  account are after \<open>sync_user_keys\<close>, and the guarantees of a whole \<open>provision\<close> request.
\<close>

lemma db_rel_mono:
  assumes "db_rel R m" and "\<And>d d'. R d d' \<Longrightarrow> S d d'" shows "db_rel S m"
  using assms by (simp add: db_rel_def)

lemma db_relD: "db_rel R m \<Longrightarrow> m w = (r, w') \<Longrightarrow> R (db w) (db w')"
  by (metis db_rel_def snd_conv)

section \<open>Operations that leave accounts alone\<close>

definition same_accounts :: "database \<Rightarrow> database \<Rightarrow> bool" where
  "same_accounts d d' \<longleftrightarrow> users d' = users d \<and> owners d' = owners d \<and> next_user d' = next_user d"

interpretation same: db_effect same_accounts
  by unfold_locales (auto simp: same_accounts_def)

lemma same_lookup: "db_rel same_accounts (lookup_active_group_id grp)"
  unfolding lookup_active_group_id_def by (intro db_rel_intros)

lemma same_ensure_group: "db_rel same_accounts (ensure_group env grp)"
proof -
  have "db_rel same_accounts (psql_run env [insert_group n ds pl, refresh_group n ds])" for n ds pl
    by (rule same.rel_run)
       (auto simp: insert_group_def refresh_group_def same_accounts_def split: if_splits)
  then show ?thesis
    unfolding ensure_group_def
    by (intro db_rel_intros same_lookup)
       (auto intro!: db_rel_intros same_lookup split: option.splits prod.splits)
qed

lemma same_resolve_groups: "db_rel same_accounts (resolve_provision_groups env payload)"
  unfolding resolve_provision_groups_def ensure_groups_def Let_def
  by (intro db_rel_intros same.rel_each same_ensure_group)
     (auto intro!: db_rel_intros same_ensure_group same_lookup split: option.splits)

lemma same_plan: "db_rel same_accounts (ensure_subscription_plan env g)"
  unfolding ensure_subscription_plan_def Let_def
  by (rule same.rel_run)
     (auto simp: insert_plan_def refresh_plan_def same_accounts_def split: if_splits)

lemma same_subscription: "db_rel same_accounts (ensure_default_subscription env u g)"
  unfolding ensure_default_subscription_def
  by (rule same.rel_run)
     (auto simp: upsert_subscription_def Let_def same_accounts_def split: if_splits)

lemma same_grants: "db_rel same_accounts (grant_groups env u groups)"
proof -
  have "db_rel same_accounts (psql_run env [allow_group u g])" for g
    by (rule same.rel_run) (auto simp: allow_group_def same_accounts_def split: if_splits)
  then show ?thesis
    unfolding grant_groups_def
    by (intro same.rel_each) (auto intro!: db_rel_intros same_subscription split: prod.splits)
qed

lemma same_token_group: "db_rel same_accounts (token_group_id g tk)"
  unfolding token_group_id_def Let_def
  by (auto intro!: db_rel_intros same_lookup split: option.splits)

lemma same_sync_one_key: "db_rel same_accounts (sync_one_key env u g tk)"
proof -
  have "db_rel same_accounts (psql_run env [update_key a b c e f])"
    "db_rel same_accounts (psql_run env [insert_key b c e f])" for a b c e f
    by (rule same.rel_run, auto simp: update_key_def insert_key_def same_accounts_def)+
  then show ?thesis
    unfolding sync_one_key_def Let_def
    by (intro db_rel_intros same_token_group)
qed

lemma same_keys_loop: "db_rel same_accounts (sync_keys_loop env u g tks active pid pkey)"
  by (induction tks arbitrary: active pid pkey)
     (auto intro!: db_rel_intros same_sync_one_key)

lemma same_sync_user_keys: "db_rel same_accounts (sync_user_keys env u g tks)"
proof -
  have "db_rel same_accounts (psql_run env [retire_keys_except u a])"
    "db_rel same_accounts (psql_run env [retire_user_keys u])" for a
    by (rule same.rel_run, auto simp: retire_keys_except_def retire_user_keys_def same_accounts_def)+
  then show ?thesis
    unfolding sync_user_keys_def
    by (intro db_rel_intros same_keys_loop) (auto intro!: db_rel_intros split: prod.splits)
qed

lemma same_provision_tokens: "db_rel same_accounts (provision_tokens payload)"
  unfolding provision_tokens_def by (intro db_rel_intros)

lemma same_get_user_keys: "db_rel same_accounts (get_user_keys env u)"
  unfolding get_user_keys_def by (intro db_rel_intros)

lemma same_email_owner: "db_rel same_accounts (check_email_owner payload email user)"
  unfolding check_email_owner_def by (intro db_rel_intros)

lemmas same_accounts_rules =
  same_resolve_groups same_plan same_grants same_sync_user_keys same_provision_tokens
  same_get_user_keys same_email_owner

section \<open>Owners and roles are never taken away\<close>

definition roles :: "database \<Rightarrow> (int \<times> pystr) list" where
  "roles d = map (\<lambda>u. (u_id u, u_role u)) (users d)"

definition accounts_grow :: "database \<Rightarrow> database \<Rightarrow> bool" where
  "accounts_grow d d' \<longleftrightarrow> prefix (owners d) (owners d') \<and>
     (\<exists>new. roles d' = roles d @ new \<and> list_all (\<lambda>p. snd p = ''user'') new)"

interpretation grow: db_effect accounts_grow
proof unfold_locales
  show "accounts_grow d d" for d by (simp add: accounts_grow_def)
  show "accounts_grow d1 d3" if "accounts_grow d1 d2" "accounts_grow d2 d3" for d1 d2 d3
    using that unfolding accounts_grow_def
    by (metis (no_types, lifting) append.assoc list_all_append prefix_order.trans)
qed

lemma same_grow: "same_accounts d d' \<Longrightarrow> accounts_grow d d'"
  by (auto simp: same_accounts_def accounts_grow_def roles_def)

lemmas grow_same [intro] = same_accounts_rules [THEN db_rel_mono, OF same_grow]

lemma grow_bind: "db_rel accounts_grow (bind_or_validate env row uuid exps ab)"
proof -
  have "db_rel accounts_grow (psql_run env [insert_owner uid fp])" for uid fp
    by (rule grow.rel_run)
       (auto simp: insert_owner_def accounts_grow_def roles_def split: if_splits)
  then show ?thesis
    unfolding bind_or_validate_def by (intro db_rel_intros)
qed

lemma reads_find_candidate: "db_rel (=) (find_candidate inc cs row)"
  by (induction inc cs row rule: find_candidate.induct) (auto intro!: db_rel_intros)

lemma reads_check_key_owner: "db_rel (=) (check_key_owner kid row)"
  unfolding check_key_owner_def by (intro db_rel_intros)

lemma grow_of_reads: "db_rel (=) m \<Longrightarrow> db_rel accounts_grow m"
  by (erule db_rel_mono) (simp add: grow.R_refl)

lemma grow_resolve:
  "db_rel accounts_grow (resolve_invite_user env uuid lg un user_id api_key_id inc ab)"
  unfolding resolve_invite_user_def Let_def
  by (intro db_rel_intros grow_bind grow_of_reads [OF reads_find_candidate]
      grow_of_reads [OF reads_check_key_owner])

lemma grow_write_user:
  "db_rel accounts_grow (write_user env user uuid lg un email dn pw reset)"
proof -
  have u: "db_rel accounts_grow (psql_run env [update_user a b c d e])" for a b c d e
    by (rule grow.rel_run)
       (auto simp: update_user_def accounts_grow_def roles_def intro!: exI [of _ "[]"])
  have i: "db_rel accounts_grow (psql_run env [insert_user a b c d])" for a b c d
    by (rule grow.rel_run) (auto simp: insert_user_def accounts_grow_def roles_def)
  show ?thesis
    unfolding write_user_def password_or_new_def
    by (intro db_rel_intros grow_bind u i)
qed

lemma grow_provision_body: "db_rel accounts_grow (provision_body env payload)"
  unfolding provision_body_def Let_def
  by (intro db_rel_intros grow_resolve grow_write_user grow_same grow.rel_each)

text \<open>
  C5. No provision request takes an account away from its invite or changes a role. Under
  every payload and every schedule of faults, and whether the request succeeds or raises,
  the owner rows that existed are still there in their order, with the same fingerprints
  (new ones are only appended), and every account that existed keeps its id and its role;
  accounts that were added have the role user.
\<close>

theorem provision_never_rebinds:
  "prefix (owners (db w)) (owners (db (snd (provision env payload w)))) \<and>
   (\<exists>new. roles (db (snd (provision env payload w))) = roles (db w) @ new
      \<and> list_all (\<lambda>p. snd p = ''user'') new)"
proof -
  have "db_rel accounts_grow (provision env payload)"
    unfolding provision_def by (intro db_rel_intros grow_provision_body)
  then show ?thesis by (simp add: db_rel_def accounts_grow_def)
qed

end
