(* ===== verification/Key_Sync.thy ===== *)
theory Key_Sync
  imports Provision_Facts
begin

text \<open>
  What \<open>sync_user_keys\<close> leaves in the tables: the live keys of the account are exactly the
  requested ones, and no other account's live keys change.
\<close>

definition keys_ok :: "database \<Rightarrow> bool" where
  "keys_ok d \<longleftrightarrow> distinct (map k_id (api_keys d)) \<and> distinct (map k_key (api_keys d))
     \<and> (\<forall>r \<in> set (api_keys d). 0 < k_id r \<and> k_id r < next_key d) \<and> 0 < next_key d"

definition key_row_for :: "database \<Rightarrow> int \<Rightarrow> token \<Rightarrow> int \<Rightarrow> bool" where
  "key_row_for d uid tk kid \<longleftrightarrow> (\<exists>r \<in> set (api_keys d). k_id r = kid \<and> k_user r = uid
     \<and> k_key r = tk_key tk \<and> k_name r = sql_text_n 100 (tk_name tk) \<and> k_status r = ''active''
     \<and> k_expires r = None \<and> k_deleted r = None)"

section \<open>Reading identifiers back\<close>

lemma int_of_text_int_str: "int_of_text (int_str i) = Some j \<Longrightarrow> j = i"
proof -
  assume a: "int_of_text (int_str i) = Some j"
  have sp: "strip (int_str i) = int_str i"
    using int_str_plain [of i] by (intro strip_no_space) (simp add: list_all_iff)
  have d: "int_digits (nat_str n) = Some m \<Longrightarrow> m = n" for n m
  proof -
    have "CHR ''_'' \<notin> set (nat_str n)" using nat_str_digits [of n] by (auto simp: is_digit_def)
    then have "split_on (CHR ''_'') (nat_str n) = [nat_str n]" by (rule split_on_no_sep)
    then show "int_digits (nat_str n) = Some m \<Longrightarrow> m = n"
      by (auto simp: int_digits_def Let_def split: if_splits)
  qed
  show "j = i"
  proof (cases "i < 0")
    case True
    then have "int_str i = CHR ''-'' # nat_str (nat (- i))" by (simp add: int_str_def)
    with a sp have "\<exists>m. int_digits (nat_str (nat (- i))) = Some m \<and> j = - int m"
      by (auto simp: int_of_text_def)
    with d True show ?thesis by fastforce
  next
    case False
    then have s: "int_str i = nat_str (nat i)" by (simp add: int_str_def)
    obtain c cs where c: "nat_str (nat i) = c # cs" by (cases "nat_str (nat i)") auto
    have "is_digit c" using nat_str_digits [of "nat i"] c by simp
    then have "c \<noteq> CHR ''-''" "c \<noteq> CHR ''+''" by (auto simp: is_digit_def)
    with a sp s c have "\<exists>m. int_digits (nat_str (nat i)) = Some m \<and> j = int m"
      by (auto simp: int_of_text_def)
    with d False show ?thesis by fastforce
  qed
qed

lemma text_int_int_str_Inr: "text_int (int_str i) = Inr j \<Longrightarrow> j = i"
  by (auto simp: text_int_def split: option.splits dest: int_of_text_int_str)

lemma int_str_ends: "\<not> is_space (hd (int_str i))" "\<not> is_space (last (int_str i))" "int_str i \<noteq> []"
  using int_str_plain [of i] by (auto simp: list_all_iff)

lemma first_row_of_ids:
  "c = [] \<or> (\<exists>t. c = int_str t) \<Longrightarrow>
   first_row_of (psql_text [[int_str a, int_str b, c]]) =
     (if c = [] then [int_str a, int_str b] else [int_str a, int_str b, c])"
proof -
  assume c: "c = [] \<or> (\<exists>t. c = int_str t)"
  have p2: "plain_row [int_str a, int_str b]"
    using int_str_plain int_str_ends by (simp add: plain_row_def)
  show ?thesis
  proof (cases "c = []")
    case True
    have "is_space TAB" by (simp add: is_space_def)
    then have "strip (s @ [TAB]) = strip s" if "s \<noteq> []" "\<not> is_space (hd s)" for s
      using that by (cases s) (auto simp: strip_def lstrip_def rstrip_def)
    then have "psql_text [[int_str a, int_str b, []]] = psql_text [[int_str a, int_str b]]"
      using int_str_ends [of a] by (simp add: psql_text_def flip: append_assoc append_Cons)
    with first_row_of_plain [OF p2] True show ?thesis by simp
  next
    case False
    with c obtain t where "c = int_str t" by blast
    then have "plain_row [int_str a, int_str b, c]"
      using int_str_plain int_str_ends by (simp add: plain_row_def)
    with False show ?thesis by (simp add: first_row_of_plain)
  qed
qed

lemma first_row_of_id: "first_row_of (psql_text [[int_str a]]) = [int_str a]"
  using int_str_plain int_str_ends by (intro first_row_of_plain) (simp add: plain_row_def)

lemma valid_key_text:
  assumes "valid_api_key k" shows "sql_text_n 128 k = k"
proof -
  have "c \<noteq> backslash \<and> c \<noteq> NUL" if "c \<in> set k" for c
  proof -
    obtain t where k: "k = ''sk-'' @ t" using assms by (auto simp: valid_api_key_def prefix_def)
    then have "list_all is_alnum t" using assms by (simp add: valid_api_key_def)
    then have "c \<in> set ''sk-'' \<or> is_alnum c"
      using that k by (auto simp: list_all_iff)
    moreover have "\<not> is_alnum backslash" "\<not> is_alnum NUL" by code_simp+
    moreover have "backslash \<notin> set ''sk-''" "NUL \<notin> set ''sk-''" by simp_all
    ultimately show ?thesis by metis
  qed
  then have "sql_value False k = k" by (intro sql_value_plain) auto
  with assms show ?thesis by (simp add: sql_text_n_def valid_api_key_def)
qed

lemma filter_map_same:
  "\<forall>x \<in> set xs. f x = x \<or> (\<not> P x \<and> \<not> P (f x)) \<Longrightarrow> filter P (map f xs) = filter P xs"
  by (induction xs) auto

lemma distinct_map_eq: "distinct (map f xs) \<Longrightarrow> x \<in> set xs \<Longrightarrow> y \<in> set xs \<Longrightarrow> f x = f y \<Longrightarrow> x = y"
  by (auto simp: distinct_map inj_on_def)

lemma find_snoc: "\<forall>y \<in> set xs. \<not> P y \<Longrightarrow> P x \<Longrightarrow> find P (xs @ [x]) = Some x"
  by (induction xs) auto

section \<open>One key\<close>

text \<open>What the loop keeps: well-formed key rows, the other accounts' live keys, and the rows
  already written for other keys.\<close>

definition key_step :: "int \<Rightarrow> pystr \<Rightarrow> database \<Rightarrow> database \<Rightarrow> bool" where
  "key_step uid key d d' \<longleftrightarrow> keys_ok d' \<and> (\<forall>v. v \<noteq> uid \<longrightarrow> live_keys v d' = live_keys v d)
     \<and> (\<forall>tk kid. tk_key tk \<noteq> key \<longrightarrow> key_row_for d uid tk kid \<longrightarrow> key_row_for d' uid tk kid)"

lemma update_key_step:
  assumes ok: "keys_ok d" and vk: "valid_api_key (tk_key tk)"
    and r: "r \<in> set (api_keys d)" "k_key r = tk_key tk"
    and owner: "k_user r = uid \<or> k_deleted r \<noteq> None"
    and d': "update_key (k_id r) uid (tk_key tk) (tk_name tk) gid now d = Inr d'"
  shows "key_step uid (tk_key tk) d d' \<and> key_row_for d' uid tk (k_id r)"
proof -
  let ?new = "\<lambda>r. r\<lparr>k_user := uid, k_key := tk_key tk, k_name := sql_text_n 100 (tk_name tk),
      k_group := gid, k_status := ''active'', k_quota := ''0'', k_expires := None,
      k_deleted := None, k_updated := now\<rparr>"
  let ?f = "\<lambda>x. if k_id x = k_id r then ?new x else x"
  have d'': "d' = d\<lparr>api_keys := map ?f (api_keys d)\<rparr>"
    using d' unfolding update_key_def valid_key_text [OF vk] by simp
  have ids: "distinct (map k_id (api_keys d))" and texts: "distinct (map k_key (api_keys d))"
    using ok by (auto simp: keys_ok_def)
  have only: "x = r" if "x \<in> set (api_keys d)" "k_id x = k_id r" for x
    using distinct_map_eq [OF ids that(1) r(1) that(2)] .
  have id: "map k_id (map ?f (api_keys d)) = map k_id (api_keys d)" by simp
  have tx: "map k_key (map ?f (api_keys d)) = map k_key (api_keys d)"
    using only r(2) by (auto simp del: r(2)) (metis r(2))
  have ak: "api_keys d' = map ?f (api_keys d)" "next_key d' = next_key d" by (simp_all add: d'')
  have "distinct (map k_id (api_keys d'))" unfolding ak(1) id by (rule ids)
  moreover have "distinct (map k_key (api_keys d'))" unfolding ak(1) tx by (rule texts)
  moreover have "(\<forall>x \<in> set (api_keys d'). 0 < k_id x \<and> k_id x < next_key d') \<and> 0 < next_key d'"
    using ok by (auto simp: keys_ok_def ak)
  ultimately have "keys_ok d'" by (simp add: keys_ok_def)
  moreover have "live_keys v d' = live_keys v d" if "v \<noteq> uid" for v
    unfolding live_keys_def d'' using only owner that
    by (simp, intro filter_map_same) auto
  moreover have "key_row_for d' uid tk' kid" if "tk_key tk' \<noteq> tk_key tk" "key_row_for d uid tk' kid" for tk' kid
  proof -
    from that(2) obtain x where x: "x \<in> set (api_keys d)" "k_id x = kid" "k_user x = uid"
      "k_key x = tk_key tk'" "k_name x = sql_text_n 100 (tk_name tk')" "k_status x = ''active''"
      "k_expires x = None" "k_deleted x = None" by (auto simp: key_row_for_def)
    have "x \<noteq> r" using that(1) x(4) r(2) by auto
    then have "?f x = x" using only [OF x(1)] by auto
    then have "x \<in> set (api_keys d')" using x(1) by (force simp: d'')
    with x show ?thesis by (auto simp: key_row_for_def)
  qed
  moreover have "key_row_for d' uid tk (k_id r)"
    unfolding key_row_for_def using r(1) by (intro bexI [of _ "?f r"]) (auto simp: d'')
  ultimately show ?thesis by (simp add: key_step_def)
qed

lemma insert_key_step:
  assumes ok: "keys_ok d" and vk: "valid_api_key (tk_key tk)"
    and fresh: "\<forall>r \<in> set (api_keys d). k_key r \<noteq> tk_key tk"
    and d': "insert_key uid (tk_key tk) (tk_name tk) gid now d = Inr d'"
  shows "key_step uid (tk_key tk) d d' \<and> key_row_for d' uid tk (next_key d)
    \<and> key_id_by_text (tk_key tk) d' = [[int_str (next_key d)]]"
proof -
  let ?r = "\<lparr>k_id = next_key d, k_user = uid, k_key = tk_key tk, k_name = sql_text_n 100 (tk_name tk),
          k_group = gid, k_status = ''active'', k_quota = ''0'', k_quota_used = ''0'',
          k_expires = None, k_deleted = None, k_updated = now\<rparr>"
  have d'': "d' = d\<lparr>api_keys := api_keys d @ [?r], next_key := next_key d + 1\<rparr>"
    using d' by (simp add: insert_key_def valid_key_text [OF vk])
  have "keys_ok d'"
    using ok fresh unfolding keys_ok_def d'' by (auto simp: less_le_not_le)
  moreover have "live_keys v d' = live_keys v d" if "v \<noteq> uid" for v
    using that by (simp add: live_keys_def d'')
  moreover have "key_row_for d' uid tk' kid" if "key_row_for d uid tk' kid" for tk' kid
    using that by (auto simp: key_row_for_def d'')
  moreover have "key_row_for d' uid tk (next_key d)"
    by (simp add: key_row_for_def d'')
  moreover have "find (\<lambda>r. k_key r = tk_key tk) (api_keys d @ [?r]) = Some ?r"
    using fresh by (intro find_snoc) auto
  ultimately show ?thesis
    by (simp add: key_step_def key_id_by_text_def valid_key_text [OF vk] d'')
qed

lemma sync_one_key_Inr:
  assumes run: "sync_one_key env uid gid tk w = (Inr kid, w')"
    and ok: "keys_ok (db w)" and vk: "valid_api_key (tk_key tk)"
  shows "key_step uid (tk_key tk) (db w) (db w') \<and> key_row_for (db w') uid tk kid"
proof -
  from run obtain g w1 existing w2 where tg: "token_group_id gid tk w = (Inr g, w1)"
    and ex: "first_row (key_by_text (tk_key tk)) w1 = (Inr existing, w2)"
    and rest: "(if existing \<noteq> [] then
         act_bind (act_lift (text_int (existing ! 0))) (\<lambda>kid.
         act_bind (act_lift (column existing 1)) (\<lambda>c1.
         act_bind (act_lift (text_int c1)) (\<lambda>key_user_id.
           let key_deleted_at = (if length existing \<ge> 3 then existing ! 2 else [])
           in if key_user_id \<noteq> uid \<and> key_deleted_at = []
              then act_raise (RuntimeError ''api_key_conflict'')
              else act_bind (psql_run env [update_key kid uid (tk_key tk) (tk_name tk) g]) (\<lambda>_.
                   act_return kid))))
       else
         act_bind (psql_run env [insert_key uid (tk_key tk) (tk_name tk) g]) (\<lambda>_.
         act_bind (first_row (key_id_by_text (tk_key tk))) (\<lambda>row.
         act_bind (act_lift (column row 0)) (\<lambda>c0.
           act_lift (text_int c0))))) w2 = (Inr kid, w')"
    unfolding sync_one_key_def by (elim act_bind_InrE)
  have w1: "db w1 = db w"
    using tg by (auto simp: token_group_id_def lookup_active_group_id_def Let_def act_bind_Inr
        split: if_splits option.splits dest!: first_row_Inr)
  let ?found = "find (\<lambda>r. k_key r = tk_key tk) (api_keys (db w))"
  have e: "existing = first_row_of (psql_text (key_by_text (tk_key tk) (db w)))" and w2: "db w2 = db w"
    using first_row_Inr [OF ex] w1 by auto
  show ?thesis
  proof (cases ?found)
    case None
    then have "existing = []" by (simp add: e key_by_text_def valid_key_text [OF vk])
    with rest obtain u w3 row w4 c0 where
      ins: "psql_run env [insert_key uid (tk_key tk) (tk_name tk) g] w2 = (Inr u, w3)"
      and sel: "first_row (key_id_by_text (tk_key tk)) w3 = (Inr row, w4)"
      and c0: "column row 0 = Inr c0" "text_int c0 = Inr kid" "w' = w4"
      by (auto simp: act_bind_Inr)
    from psql_run_Inr [OF ins] w2 have i: "insert_key uid (tk_key tk) (tk_name tk) g (pg_now w2) (db w) = Inr (db w3)"
      by (auto simp: insert_key_def)
    have fresh: "\<forall>r \<in> set (api_keys (db w)). k_key r \<noteq> tk_key tk"
      using None by (auto simp: find_None_iff)
    from insert_key_step [OF ok vk fresh i] have
      s: "key_step uid (tk_key tk) (db w) (db w3)" "key_row_for (db w3) uid tk (next_key (db w))"
      and k: "key_id_by_text (tk_key tk) (db w3) = [[int_str (next_key (db w))]]" by auto
    from first_row_Inr [OF sel] k have "row = [int_str (next_key (db w))]" "db w4 = db w3"
      by (simp_all add: first_row_of_id)
    with c0 have "kid = next_key (db w)" by (auto simp: column_def dest: text_int_int_str_Inr)
    with s c0(3) \<open>db w4 = db w3\<close> show ?thesis by simp
  next
    case (Some r)
    then have r: "r \<in> set (api_keys (db w))" "k_key r = tk_key tk" by (auto simp: find_Some_iff)
    let ?del = "case k_deleted r of None \<Rightarrow> [] | Some t \<Rightarrow> int_str t"
    have del: "?del = [] \<longleftrightarrow> k_deleted r = None"
      using int_str_ends(3) by (auto split: option.splits)
    have delv: "?del = [] \<or> (\<exists>t. ?del = int_str t)" by (cases "k_deleted r") auto
    have "key_by_text (tk_key tk) (db w) = [[int_str (k_id r), int_str (k_user r), ?del]]"
      using Some by (simp add: key_by_text_def valid_key_text [OF vk])
    then have ee: "existing = (if ?del = [] then [int_str (k_id r), int_str (k_user r)]
        else [int_str (k_id r), int_str (k_user r), ?del])"
      unfolding e using first_row_of_ids [OF delv] by simp
    then have ne: "existing \<noteq> []" "existing ! 0 = int_str (k_id r)" "column existing 1 = Inr (int_str (k_user r))"
      "(if length existing \<ge> 3 then existing ! 2 else []) = ?del"
      by (auto simp: column_def)
    from rest ne obtain kid0 uid0 w3 u where t: "text_int (int_str (k_id r)) = Inr kid0"
      "text_int (int_str (k_user r)) = Inr uid0"
      and c: "\<not> (uid0 \<noteq> uid \<and> ?del = [])"
      and up: "psql_run env [update_key kid0 uid (tk_key tk) (tk_name tk) g] w2 = (Inr u, w3)"
      and fin: "kid = kid0" "w' = w3"
      by (auto simp: act_bind_Inr Let_def split: if_splits)
    have "kid0 = k_id r" "uid0 = k_user r" using t text_int_int_str_Inr by auto
    moreover have "update_key kid0 uid (tk_key tk) (tk_name tk) g (pg_now w2) (db w) = Inr (db w3)"
      using psql_run_Inr [OF up] w2 by (auto simp: update_key_def)
    ultimately show ?thesis
      using update_key_step [OF ok vk r, of uid g "pg_now w2" "db w3"] c del fin by auto
  qed
qed

section \<open>All keys\<close>

lemma key_row_pos: "keys_ok d \<Longrightarrow> key_row_for d uid tk kid \<Longrightarrow> 0 < kid"
  by (auto simp: keys_ok_def key_row_for_def)

lemma sync_keys_loop_Inr:
  assumes "sync_keys_loop env uid gid tks active pid pkey w = (Inr (active', pid', pkey'), w')"
    and "keys_ok (db w)" and "\<forall>tk \<in> set tks. valid_api_key (tk_key tk)"
    and "distinct (map tk_key tks)"
  shows "\<exists>ids. active' = active @ ids \<and> keys_ok (db w')
    \<and> list_all2 (key_row_for (db w') uid) tks ids
    \<and> (\<forall>v. v \<noteq> uid \<longrightarrow> live_keys v (db w') = live_keys v (db w))
    \<and> (\<forall>tk kid. tk_key tk \<notin> tk_key ` set tks \<longrightarrow> key_row_for (db w) uid tk kid
          \<longrightarrow> key_row_for (db w') uid tk kid)
    \<and> (pid', pkey') = (if pid > 0 \<or> tks = [] then (pid, pkey) else (hd ids, tk_key (hd tks)))"
  using assms
proof (induction tks arbitrary: active pid pkey w)
  case Nil
  then show ?case by auto
next
  case (Cons tk tks)
  let ?pid = "\<lambda>kid. if pid \<le> 0 then kid else pid"
  let ?pkey = "if pid \<le> 0 then tk_key tk else pkey"
  from Cons.prems(1) obtain kid w1 where one: "sync_one_key env uid gid tk w = (Inr kid, w1)"
    and rest: "sync_keys_loop env uid gid tks (active @ [kid]) (?pid kid) ?pkey w1
      = (Inr (active', pid', pkey'), w')"
    by (auto simp: act_bind_Inr split: if_splits)
  have "valid_api_key (tk_key tk)" using Cons.prems(3) by simp
  from sync_one_key_Inr [OF one Cons.prems(2) this]
  have s: "key_step uid (tk_key tk) (db w) (db w1)" and k: "key_row_for (db w1) uid tk kid" by auto
  then have ok1: "keys_ok (db w1)" by (simp add: key_step_def)
  have kpos: "0 < kid" using key_row_pos [OF ok1 k] .
  have v: "\<forall>tk \<in> set tks. valid_api_key (tk_key tk)" and dk: "distinct (map tk_key tks)"
    and fresh: "tk_key tk \<notin> tk_key ` set tks" using Cons.prems(3,4) by auto
  from Cons.IH [OF rest ok1 v dk] obtain ids where ids: "active' = (active @ [kid]) @ ids"
    "keys_ok (db w')" "list_all2 (key_row_for (db w') uid) tks ids"
    "\<forall>v. v \<noteq> uid \<longrightarrow> live_keys v (db w') = live_keys v (db w1)"
    "\<forall>tk kid. tk_key tk \<notin> tk_key ` set tks \<longrightarrow> key_row_for (db w1) uid tk kid
          \<longrightarrow> key_row_for (db w') uid tk kid"
    "(pid', pkey') = (if ?pid kid > 0 \<or> tks = [] then (?pid kid, ?pkey) else (hd ids, tk_key (hd tks)))"
    by blast
  show ?case
    by (intro exI [of _ "kid # ids"]) (use ids s k fresh kpos in \<open>auto simp: key_step_def\<close>)
qed

lemma filter_retire:
  "filter (\<lambda>r. k_user r = v \<and> k_deleted r = None)
     (map (\<lambda>r. if k_user r = uid \<and> Q r \<and> k_deleted r = None then retire_key now r else r) rs)
   = filter (\<lambda>r. k_user r = v \<and> k_deleted r = None \<and> (v = uid \<longrightarrow> \<not> Q r)) rs"
  by (induction rs) (auto simp: retire_key_def)

lemma live_keys_retire:
  assumes "api_keys d' = map (\<lambda>r. if k_user r = uid \<and> Q r \<and> k_deleted r = None
      then retire_key now r else r) (api_keys d)"
  shows "live_keys uid d' = filter (\<lambda>r. \<not> Q r) (live_keys uid d)"
    "v \<noteq> uid \<Longrightarrow> live_keys v d' = live_keys v d"
  unfolding live_keys_def assms filter_retire by (simp_all add: conj_commute conj_left_commute)

lemma keys_ok_retire:
  assumes "keys_ok d" and "next_key d' = next_key d"
    and "api_keys d' = map (\<lambda>r. if P r then retire_key now r else r) (api_keys d)"
  shows "keys_ok d'"
proof -
  have "map k_id (api_keys d') = map k_id (api_keys d)" "map k_key (api_keys d') = map k_key (api_keys d)"
    unfolding assms(3) by (auto simp: retire_key_def)
  moreover have "0 < k_id r \<and> k_id r < next_key d'" if "r \<in> set (api_keys d')" for r
    using that assms by (auto simp: keys_ok_def retire_key_def)
  ultimately show ?thesis using assms(1,2) by (auto simp: keys_ok_def)
qed

lemma live_keys_distinct: "keys_ok d \<Longrightarrow> distinct (map k_key (live_keys uid d))"
  unfolding keys_ok_def live_keys_def by (simp add: distinct_map_filter)

lemma list_all2_left: "list_all2 P xs ys \<Longrightarrow> x \<in> set xs \<Longrightarrow> \<exists>y \<in> set ys. P x y"
  by (induction xs ys rule: list_all2_induct) auto

lemma list_all2_right: "list_all2 P xs ys \<Longrightarrow> y \<in> set ys \<Longrightarrow> \<exists>x \<in> set xs. P x y"
  by (induction xs ys rule: list_all2_induct) auto

text \<open>The final step, from the rows the loop wrote: only they stay live.\<close>

lemma retire_rest:
  assumes ok: "keys_ok d" and rows: "list_all2 (key_row_for d uid) tks ids"
    and d': "run_changes now [if ids \<noteq> [] then retire_keys_except uid ids else retire_user_keys uid] d = Inr d'"
  shows "keys_ok d' \<and> k_key ` set (live_keys uid d') = tk_key ` set tks
    \<and> (\<forall>tk \<in> set tks. \<exists>kid \<in> set ids. key_row_for d' uid tk kid)
    \<and> (\<forall>v. v \<noteq> uid \<longrightarrow> live_keys v d' = live_keys v d)
    \<and> (tks \<noteq> [] \<longrightarrow> key_row_for d' uid (hd tks) (hd ids))"
proof -
  have api: "api_keys d' = map (\<lambda>r. if k_user r = uid \<and> k_id r \<notin> set ids \<and> k_deleted r = None
      then retire_key now r else r) (api_keys d)" and nk: "next_key d' = next_key d"
    using d' by (auto simp: retire_keys_except_def retire_user_keys_def split: if_splits)
  note lv = live_keys_retire [OF api]
  have ok': "keys_ok d'" using keys_ok_retire [OF ok nk api] .
  have stay: "key_row_for d' uid tk kid" if "key_row_for d uid tk kid" "kid \<in> set ids" for tk kid
    using that unfolding key_row_for_def api by (auto intro!: bexI)
  have "tk_key ` set tks \<subseteq> k_key ` set (live_keys uid d')"
  proof
    fix k assume "k \<in> tk_key ` set tks"
    then obtain tk kid where t: "k = tk_key tk" "kid \<in> set ids" "key_row_for d uid tk kid"
      using list_all2_left [OF rows] by blast
    then obtain r where "r \<in> set (live_keys uid d')" "k_key r = k"
      using stay [OF t(3,2)] by (auto simp: key_row_for_def live_keys_def)
    then show "k \<in> k_key ` set (live_keys uid d')" by auto
  qed
  moreover have "k_key r \<in> tk_key ` set tks" if "r \<in> set (live_keys uid d')" for r
  proof -
    from that have r: "r \<in> set (api_keys d)" "k_id r \<in> set ids" unfolding lv(1) by (auto simp: live_keys_def)
    then obtain tk where t: "tk \<in> set tks" "key_row_for d uid tk (k_id r)"
      using list_all2_right [OF rows] by blast
    then obtain r' where "r' \<in> set (api_keys d)" "k_id r' = k_id r" "k_key r' = tk_key tk"
      by (auto simp: key_row_for_def)
    moreover have "distinct (map k_id (api_keys d))" using ok by (simp add: keys_ok_def)
    ultimately have "r' = r" using r(1) distinct_map_eq by metis
    with \<open>k_key r' = tk_key tk\<close> t(1) show ?thesis by auto
  qed
  ultimately have keys: "k_key ` set (live_keys uid d') = tk_key ` set tks" by blast
  have each: "\<exists>kid \<in> set ids. key_row_for d' uid tk kid" if "tk \<in> set tks" for tk
    using list_all2_left [OF rows that] stay by blast
  have "key_row_for d' uid (hd tks) (hd ids)" if "tks \<noteq> []"
    using that rows stay by (cases ids; cases tks) auto
  with keys ok' each lv(2) show ?thesis by blast
qed

lemma sync_user_keys_Inr:
  assumes "sync_user_keys env uid gid tokens w = (Inr (kid, key), w')"
    and "keys_ok (db w)" and "\<forall>tk \<in> set tokens. valid_token tk" and "distinct (map tk_key tokens)"
  shows "k_key ` set (live_keys uid (db w')) = tk_key ` set tokens
    \<and> length (live_keys uid (db w')) = length tokens
    \<and> (\<forall>tk \<in> set tokens. \<exists>i. key_row_for (db w') uid tk i)
    \<and> keys_ok (db w') \<and> (\<forall>v. v \<noteq> uid \<longrightarrow> live_keys v (db w') = live_keys v (db w))
    \<and> (case tokens of [] \<Rightarrow> kid = 0 \<and> key = [] | tk # _ \<Rightarrow> key = tk_key tk \<and> key_row_for (db w') uid tk kid)"
proof -
  from assms(1) obtain ids pid pkey w1 u where
    loop: "sync_keys_loop env uid gid tokens [] 0 [] w = (Inr (ids, pid, pkey), w1)"
    and ret: "(if ids \<noteq> [] then psql_run env [retire_keys_except uid ids]
               else psql_run env [retire_user_keys uid]) w1 = (Inr u, w')"
    and fin: "kid = pid" "key = pkey"
    by (auto simp: sync_user_keys_def act_bind_Inr)
  have "\<forall>tk \<in> set tokens. valid_api_key (tk_key tk)" using assms(3) by (auto simp: valid_token_def)
  from sync_keys_loop_Inr [OF loop assms(2) this assms(4)] have l: "keys_ok (db w1)"
    "list_all2 (key_row_for (db w1) uid) tokens ids"
    "\<forall>v. v \<noteq> uid \<longrightarrow> live_keys v (db w1) = live_keys v (db w)"
    "(pid, pkey) = (if tokens = [] then (0, []) else (hd ids, tk_key (hd tokens)))" by auto
  have "run_changes (pg_now w1) [if ids \<noteq> [] then retire_keys_except uid ids else retire_user_keys uid]
      (db w1) = Inr (db w')"
    using ret by (cases "ids = []") (auto dest!: psql_run_Inr)
  from retire_rest [OF l(1,2) this] have r: "keys_ok (db w')"
    "k_key ` set (live_keys uid (db w')) = tk_key ` set tokens"
    "\<forall>tk \<in> set tokens. \<exists>kid \<in> set ids. key_row_for (db w') uid tk kid"
    "\<forall>v. v \<noteq> uid \<longrightarrow> live_keys v (db w') = live_keys v (db w1)"
    "tokens \<noteq> [] \<longrightarrow> key_row_for (db w') uid (hd tokens) (hd ids)" by auto
  have "length (live_keys uid (db w')) = card (k_key ` set (live_keys uid (db w')))"
    using distinct_card [OF live_keys_distinct [OF r(1), of uid]] by simp
  also have "\<dots> = length tokens" unfolding r(2) using distinct_card [OF assms(4)] by simp
  finally have "length (live_keys uid (db w')) = length tokens" .
  moreover have "case tokens of [] \<Rightarrow> kid = 0 \<and> key = []
      | tk # _ \<Rightarrow> key = tk_key tk \<and> key_row_for (db w') uid tk kid"
    using l(4) r(5) fin by (cases tokens) auto
  ultimately show ?thesis using r l(3) by auto
qed

text \<open>
  C4. After sync_user_keys the live keys of the account are exactly the requested ones.
  When it returns normally for distinct, canonical keys, from tables whose key ids and key
  texts are unique, every requested key is a live, active row of the account under its
  requested name, the account has no other live key and no key twice, the tables still
  have unique ids and texts, no live key of any other account changed, and the primary key
  returned is the first requested one with the id of its row.
\<close>

theorem sync_user_keys_exact:
  assumes "sync_user_keys env uid gid tokens w = (Inr (kid, key), w')"
    and "keys_ok (db w)" and "\<forall>tk \<in> set tokens. valid_token tk" and "distinct (map tk_key tokens)"
  shows "k_key ` set (live_keys uid (db w')) = tk_key ` set tokens
    \<and> length (live_keys uid (db w')) = length tokens
    \<and> (\<forall>tk \<in> set tokens. \<exists>i. key_row_for (db w') uid tk i)
    \<and> keys_ok (db w') \<and> (\<forall>v. v \<noteq> uid \<longrightarrow> live_keys v (db w') = live_keys v (db w))
    \<and> (case tokens of [] \<Rightarrow> kid = 0 \<and> key = [] | tk # _ \<Rightarrow> key = tk_key tk \<and> key_row_for (db w') uid tk kid)"
  using sync_user_keys_Inr [OF assms] .

definition example_key :: "int \<Rightarrow> int \<Rightarrow> pystr \<Rightarrow> key_row" where
  "example_key i uid key =
     \<lparr>k_id = i, k_user = uid, k_key = key, k_name = ''old'', k_group = 1, k_status = ''active'',
      k_quota = ''0'', k_quota_used = ''0'', k_expires = None, k_deleted = None, k_updated = 0\<rparr>"

text \<open>Account 2 has two keys, account 3 has one.\<close>

definition example_keys :: database where
  "example_keys = example_database\<lparr>api_keys := [example_key 1 2 ''sk-aa11'', example_key 2 2 ''sk-old1'',
     example_key 3 3 ''sk-bob1''], next_key := 4\<rparr>"

definition example_tokens :: "token list" where
  "example_tokens = [\<lparr>tk_key = ''sk-aa11'', tk_name = ''main'', tk_group = None\<rparr>,
     \<lparr>tk_key = ''sk-new1'', tk_name = ''spare'', tk_group = None\<rparr>]"

theorem sync_user_keys_exact_witness:
  "\<exists>w'. sync_user_keys example_env 2 1 example_tokens (quiet_world example_keys) = (Inr (1, ''sk-aa11''), w')
     \<and> k_key ` set (live_keys 2 (db w')) = {''sk-aa11'', ''sk-new1''}
     \<and> live_keys 3 (db w') = [example_key 3 3 ''sk-bob1'']"
proof -
  let ?run = "sync_user_keys example_env 2 1 example_tokens (quiet_world example_keys)"
  obtain r w' where x: "?run = (r, w')" by (rule prod.exhaust)
  have "fst ?run = Inr (1, ''sk-aa11'')" by code_simp
  with x have run: "?run = (Inr (1, ''sk-aa11''), w')" by simp
  have ok: "keys_ok (db (quiet_world example_keys))" by code_simp
  have "\<forall>tk \<in> set example_tokens. valid_token tk" "distinct (map tk_key example_tokens)" by code_simp+
  from sync_user_keys_exact [OF run ok this] have
    "k_key ` set (live_keys 2 (db w')) = tk_key ` set example_tokens"
    "live_keys 3 (db w') = live_keys 3 (db (quiet_world example_keys))" by auto
  moreover have "live_keys 3 (db (quiet_world example_keys)) = [example_key 3 3 ''sk-bob1'']" by code_simp
  ultimately show ?thesis using run by (auto simp: example_tokens_def)
qed

end
