(* ===== verification/Provision_Result.thy ===== *)
theory Provision_Result
  imports Key_Sync
begin

text \<open>
  What a successful \<open>provision\<close> request has achieved: the account it answers with belongs to
  the request's invite, is active, and its live API keys are the requested ones.
\<close>

section \<open>Steps that leave the API keys alone\<close>

definition same_keys :: "database \<Rightarrow> database \<Rightarrow> bool" where
  "same_keys d d' \<longleftrightarrow> api_keys d' = api_keys d \<and> next_key d' = next_key d"

interpretation skeys: db_effect same_keys
  by unfold_locales (auto simp: same_keys_def)

lemma skeys_of_reads: "db_rel (=) m \<Longrightarrow> db_rel same_keys m"
  by (erule db_rel_mono) (simp add: skeys.R_refl)

lemma skeys_lookup: "db_rel same_keys (lookup_active_group_id grp)"
  unfolding lookup_active_group_id_def by (intro db_rel_intros)

lemma skeys_ensure_group: "db_rel same_keys (ensure_group env grp)"
proof -
  have "db_rel same_keys (psql_run env [insert_group n ds pl, refresh_group n ds])" for n ds pl
    by (rule skeys.rel_run) (auto simp: insert_group_def refresh_group_def same_keys_def split: if_splits)
  then show ?thesis unfolding ensure_group_def by (intro db_rel_intros skeys_lookup) (auto intro!: db_rel_intros skeys_lookup)
qed

lemma skeys_resolve_groups: "db_rel same_keys (resolve_provision_groups env payload)"
  unfolding resolve_provision_groups_def ensure_groups_def Let_def
  by (intro db_rel_intros skeys.rel_each skeys_ensure_group skeys_lookup)

lemma skeys_plan: "db_rel same_keys (ensure_subscription_plan env g)"
  unfolding ensure_subscription_plan_def Let_def
  by (rule skeys.rel_run) (auto simp: insert_plan_def refresh_plan_def same_keys_def split: if_splits)

lemma skeys_grants: "db_rel same_keys (grant_groups env u groups)"
proof -
  have "db_rel same_keys (psql_run env [allow_group u g])" for g
    by (rule skeys.rel_run) (auto simp: allow_group_def same_keys_def split: if_splits)
  moreover have "db_rel same_keys (ensure_default_subscription env u g)" for g
    unfolding ensure_default_subscription_def
    by (rule skeys.rel_run) (auto simp: upsert_subscription_def Let_def same_keys_def split: if_splits)
  ultimately show ?thesis
    unfolding grant_groups_def by (intro skeys.rel_each db_rel_intros)
qed

lemma skeys_bind: "db_rel same_keys (bind_or_validate env row uuid exps ab)"
proof -
  have "db_rel same_keys (psql_run env [insert_owner uid fp])" for uid fp
    by (rule skeys.rel_run) (auto simp: insert_owner_def same_keys_def split: if_splits)
  then show ?thesis unfolding bind_or_validate_def by (intro db_rel_intros)
qed

lemma skeys_resolve: "db_rel same_keys (resolve_invite_user env uuid lg un user_id kid inc ab)"
  unfolding resolve_invite_user_def Let_def
  by (intro db_rel_intros skeys_bind skeys_of_reads [OF reads_find_candidate]
      skeys_of_reads [OF reads_check_key_owner])

lemma skeys_write_user: "db_rel same_keys (write_user env user uuid lg un email dn pw reset)"
proof -
  have "db_rel same_keys (psql_run env [update_user a b c d e])" for a b c d e
    by (rule skeys.rel_run) (auto simp: update_user_def same_keys_def)
  moreover have "db_rel same_keys (psql_run env [insert_user a b c d])" for a b c d
    by (rule skeys.rel_run) (auto simp: insert_user_def same_keys_def)
  ultimately show ?thesis
    unfolding write_user_def password_or_new_def by (intro db_rel_intros skeys_bind)
qed

section \<open>The account that is written\<close>

definition account_active :: "database \<Rightarrow> int \<Rightarrow> pystr \<Rightarrow> pystr \<Rightarrow> bool" where
  "account_active d uid fp username \<longleftrightarrow>
     (\<exists>u. owned_by d u fp \<and> u_id u = uid \<and> u_deleted u = None \<and> u_status u = ''active''
        \<and> u_username u = username)"

lemma account_active_same: "same_accounts d d' \<Longrightarrow> account_active d uid fp un \<longleftrightarrow> account_active d' uid fp un"
  by (simp add: account_active_def owned_by_def same_accounts_def)

definition username_text :: "pystr \<Rightarrow> bool" where
  "username_text un \<longleftrightarrow> un \<noteq> [] \<and> length un \<le> 100
     \<and> list_all (\<lambda>c. is_lower c \<or> is_digit c \<or> c \<in> set ''._-'') un"

lemma username_text_sql:
  assumes "username_text un" shows "sql_text un = un" "sql_text_n 100 un = un" "take 100 un = un"
proof -
  have c: "\<not> (is_lower c \<or> is_digit c \<or> c \<in> set ''._-'')" if "c = backslash \<or> c = NUL" for c
    using that by (elim disjE) (simp_all add: is_lower_def is_digit_def)
  then have "backslash \<notin> set un" "NUL \<notin> set un"
    using assms by (auto simp: username_text_def list_all_iff)
  then have "sql_value False un = un" by (rule sql_value_plain)
  with assms show "sql_text un = un" "sql_text_n 100 un = un" "take 100 un = un"
    by (simp_all add: sql_text_def sql_text_n_def username_text_def)
qed

text \<open>The binding of a new account, whose row the caller builds itself.\<close>

definition plain_owners :: "database \<Rightarrow> bool" where
  "plain_owners d \<longleftrightarrow>
     (\<forall>(uid, fp) \<in> set (owners d). plain_field fp \<and> fp \<noteq> [] \<and> list_all (\<lambda>c. \<not> is_space c) fp)"

lemma bind_new_Inr:
  assumes env: "digest_env env" and plain: "plain_owners (db w)"
    and run: "bind_or_validate env [int_str uid, un, ''user'', []] uuid exps True w = (Inr r, w')"
  shows "\<exists>fp. invite_owner_fingerprint env uuid = Inr fp \<and> (uid, fp) \<in> set (owners (db w'))
    \<and> users (db w') = users (db w)"
proof -
  from run obtain fp uid0 u w1 owner w2 where fp: "invite_owner_fingerprint env uuid = Inr fp"
    and tid: "text_int (int_str uid) = Inr uid0"
    and ins: "psql_run env [insert_owner uid0 fp] w = (Inr u, w1)"
    and sel: "first_row (owner_fingerprint uid0) w1 = (Inr owner, w2)"
    and chk: "owner \<noteq> []" "compare_digest (owner ! 0) fp = Inr True" "w' = w2"
    by (auto simp: bind_or_validate_def act_bind_Inr split: if_splits)
  have uid: "uid0 = uid" using text_int_int_str_Inr [OF tid] .
  note hd = hex_digest_facts [OF fingerprint_digest [OF env fp]]
  have d1: "insert_owner uid fp (pg_now w) (db w) = Inr (db w1)"
    using psql_run_Inr [OF ins] uid by (auto split: sum.splits)
  then have "db w1 = db w \<or> db w1 = (db w)\<lparr>owners := owners (db w) @ [(uid, fp)]\<rparr>"
    using hd(2) by (auto simp: insert_owner_def split: if_splits)
  then have plain1: "plain_owners (db w1)" and us: "users (db w1) = users (db w)"
    using plain hd by (auto simp: plain_owners_def)
  have d2: "owner = first_row_of (psql_text (owner_fingerprint uid (db w1)))" "db w2 = db w1"
    using first_row_Inr [OF sel] uid by auto
  obtain q where q: "map_of (owners (db w1)) uid = Some q"
    using d2(1) chk(1) by (cases "map_of (owners (db w1)) uid") (auto simp: owner_fingerprint_def)
  then have in_o: "(uid, q) \<in> set (owners (db w1))" by (rule map_of_SomeD)
  then have "plain_field q" "q \<noteq> []" "list_all (\<lambda>c. \<not> is_space c) q"
    using plain1 by (auto simp: plain_owners_def)
  then have "plain_row [q]" by (auto simp: plain_row_def list_all_iff)
  then have "owner = [q]" using d2(1) q by (simp add: owner_fingerprint_def first_row_of_plain)
  then have "q = fp" using chk(2) by (auto simp: compare_digest_def split: if_splits)
  with in_o fp us d2(2) chk(3) show ?thesis by auto
qed

lemma plain_users_owners: "plain_users d \<Longrightarrow> plain_owners d"
  by (auto simp: plain_users_def plain_owners_def)

lemma nil_update: "[] = xs[i := x] \<longleftrightarrow> xs = []"
  by (metis list_update_nonempty)

text \<open>Finding nobody means that no account carries the username.\<close>

lemma resolve_none:
  assumes "plain_users (db w)" and "username_text un"
    and "resolve_invite_user env uuid lg un 0 0 True True w = (Inr [], w')"
  shows "db w' = db w \<and> (\<forall>u \<in> set (users (db w)). u_username u \<noteq> un)"
proof -
  from assms(3) obtain row w1 row' w2 where
    f: "find_candidate True [un, lg] [] w = (Inr row, w1)"
    and b: "bind_or_validate env row uuid [lg, un] True w1 = (Inr row', w2)"
    and c: "check_key_owner 0 row' w2 = (Inr [], w')"
    by (auto simp: resolve_invite_user_def Let_def act_bind_Inr simp del: find_candidate.simps)
  have row': "row' = []" "w' = w2" using c by (auto simp: check_key_owner_def)
  have "db w1 = db w \<and> (row = [] \<or> (\<exists>u. row_of_user (db w) u row))"
    using find_candidate_Inr [OF f assms(1)] by auto
  then have db1: "db w1 = db w" and len: "row = [] \<or> length row = 7"
    by (auto simp: row_of_user_def invite_columns_nth)
  have row: "row = []"
  proof (rule ccontr)
    assume "row \<noteq> []"
    with len b row'(1) show False
      by (auto simp: bind_or_validate_def act_bind_Inr nil_update split: if_splits)
  qed
  then have "w2 = w1" using b by simp
  from f row assms(2) obtain w3 where
    "first_row (invite_user_row (WhereUsername un) True) w = (Inr [], w3)"
    by (auto simp: username_text_def act_bind_Inr split: if_splits)
  from first_row_Inr [OF this] have
    "first_row_of (psql_text (invite_user_row (WhereUsername un) True (db w))) = []" by simp
  moreover have "invite_user_row (WhereUsername un) True (db w) = []"
  proof (cases "find (\<lambda>u. user_matches (db w) (WhereUsername un) u) (users (db w))")
    case (Some u)
    then have u: "u \<in> set (users (db w))" by (auto simp: find_Some_iff)
    have "plain_row (invite_columns u (owner_of (db w) (u_id u)))"
      using assms(1) u owner_of_plain by (intro plain_invite_columns) (auto simp: plain_users_def)
    with calculation Some show ?thesis
      by (simp add: invite_user_row_def first_row_of_plain invite_columns_nth)
  qed (simp add: invite_user_row_def)
  ultimately have "\<forall>u \<in> set (users (db w)). u_username u \<noteq> un"
    using username_text_sql(2) [OF assms(2)]
    by (auto simp: invite_user_row_def user_matches_def find_None_iff split: option.splits)
  with db1 row'(2) \<open>w2 = w1\<close> show ?thesis by simp
qed

lemma update_user_active:
  assumes "run_changes now [update_user uid email h un dn] d = Inr d'" and "username_text un"
    and "owned_by d u fp" and "u_id u = uid"
  shows "account_active d' uid fp un"
proof -
  let ?f = "\<lambda>u. if u_id u = uid
        then u\<lparr>u_email := sql_text_n 255 email,
               u_pwhash := (case h of None \<Rightarrow> u_pwhash u | Some h \<Rightarrow> h),
               u_username := un, u_notes := sql_text_n 240 dn,
               u_status := ''active'', u_balance := DEFAULT_USER_BALANCE, u_deleted := None,
               u_updated := now\<rparr> else u"
  have d': "d' = d\<lparr>users := map ?f (users d)\<rparr>"
    using assms(1) unfolding run_changes.simps update_user_def username_text_sql(2) [OF assms(2)]
    by simp
  have "owned_by d' (?f u) fp" using assms(3,4) by (auto simp: owned_by_def d')
  then show ?thesis
    unfolding account_active_def using assms(4) by (intro exI [of _ "?f u"]) simp
qed

lemma write_user_Inr:
  assumes env: "digest_env env" and un: "username_text un" and plain: "plain_owners (db w)"
    and old: "user \<noteq> [] \<Longrightarrow> \<exists>u fp. invite_owner_fingerprint env uuid = Inr fp \<and>
          user ! 0 = int_str (u_id u) \<and> owned_by (db w) u fp"
    and new: "user = [] \<Longrightarrow> \<forall>u \<in> set (users (db w)). u_username u \<noteq> un"
    and run: "write_user env user uuid lg un email dn pw reset w = (Inr (uid, pw'), w')"
  shows "\<exists>fp. invite_owner_fingerprint env uuid = Inr fp \<and> account_active (db w') uid fp un"
proof (cases "user = []")
  case False
  with old obtain u fp where fp: "invite_owner_fingerprint env uuid = Inr fp"
    and u: "user ! 0 = int_str (u_id u)" "owned_by (db w) u fp" by auto
  from run False obtain uid0 w1 h v where t: "text_int (user ! 0) = Inr uid0"
    and pwd: "db w1 = db w"
    and up: "psql_run env [update_user uid0 email h un dn] w1 = (Inr v, w')" "uid = uid0"
    by (auto simp: write_user_def act_bind_Inr password_or_new_def login_password_def
        split: if_splits dest!: draws_Inr)
  have "uid0 = u_id u" using t u(1) text_int_int_str_Inr by simp
  moreover have "run_changes (pg_now w1) [update_user uid0 email h un dn] (db w) = Inr (db w')"
    using psql_run_Inr [OF up(1)] pwd by simp
  ultimately have "account_active (db w') uid fp un"
    using update_user_active [OF _ un u(2)] up(2) by blast
  with fp show ?thesis by blast
next
  case True
  from run True obtain w1 h v w2 row w3 c0 r where pwd: "db w1 = db w"
    and ins: "psql_run env [insert_user email h un dn] w1 = (Inr v, w2)"
    and sel: "first_row (user_id_by_username un) w2 = (Inr row, w3)"
    and c0: "column row 0 = Inr c0" "text_int c0 = Inr uid"
    and b: "bind_or_validate env [int_str uid, un, ''user'', []] uuid [lg, un] True w3 = (Inr r, w')"
    by (auto simp: write_user_def act_bind_Inr password_or_new_def login_password_def
        split: if_splits dest!: draws_Inr)
  let ?new = "\<lparr>u_id = next_user (db w), u_email = sql_text_n 255 email, u_pwhash = h,
          u_role = ''user'', u_balance = DEFAULT_USER_BALANCE, u_concurrency = 5,
          u_status = ''active'', u_username = un, u_notes = sql_text_n 240 dn,
          u_deleted = None, u_updated = pg_now w1\<rparr>"
  have d2: "db w2 = (db w)\<lparr>users := users (db w) @ [?new], next_user := next_user (db w) + 1\<rparr>"
    using psql_run_Inr [OF ins] pwd
    unfolding run_changes.simps insert_user_def username_text_sql(2) [OF un] by simp
  have "find (\<lambda>u. u_username u = un \<and> u_deleted u = None) (users (db w2)) = Some ?new"
    unfolding d2 using new [OF True] by (simp, intro find_snoc) auto
  then have "user_id_by_username un (db w2) = [[int_str (next_user (db w))]]"
    by (simp add: user_id_by_username_def username_text_sql(1) [OF un])
  with first_row_Inr [OF sel] have row: "row = [int_str (next_user (db w))]" "db w3 = db w2"
    by (simp_all add: first_row_of_id)
  have uid: "uid = next_user (db w)" using c0 row by (auto simp: column_def dest: text_int_int_str_Inr)
  have "plain_owners (db w3)" using plain row(2) by (simp add: plain_owners_def d2)
  from bind_new_Inr [OF env this b] obtain fp where fp: "invite_owner_fingerprint env uuid = Inr fp"
    "(uid, fp) \<in> set (owners (db w'))" "users (db w') = users (db w3)" by auto
  then have "account_active (db w') uid fp un"
    unfolding account_active_def owned_by_def
    by (intro exI [of _ ?new]) (simp add: row(2) d2 uid)
  with fp(1) show ?thesis by blast
qed

section \<open>The tokens\<close>

lemma api_key_Inr: "api_key w = (Inr k, w') \<Longrightarrow> valid_api_key k \<and> db w' = db w"
proof -
  assume "api_key w = (Inr k, w')"
  then obtain ds where ds: "act_each draw (replicate 64 16) w = (Inr ds, w')"
    and k: "k = ''sk-'' @ map hex_digit ds"
    by (auto simp: api_key_def token_hex_def act_bind_Inr)
  from draws_Inr [OF ds] have d: "db w' = db w" "length ds = 64" "\<forall>x \<in> set ds. x < 16" by auto
  have "is_alnum (hex_digit n)" if "n < 16" for n
    using that by (simp add: is_alnum_def is_digit_def is_lower_def hex_digit_def)
  with d k show ?thesis by (auto simp: valid_api_key_def list_all_iff)
qed

lemma provision_tokens_Inr:
  assumes "provision_tokens payload w = (Inr ts, w')"
  shows "db w' = db w \<and> distinct (map tk_key ts) \<and> (\<forall>t \<in> set ts. valid_token t)
    \<and> (dhas payload ''tokens'' \<longrightarrow> requested_tokens payload = Inr ts)"
proof -
  from assms obtain ts0 where r: "requested_tokens payload = Inr ts0"
    and t: "(if \<not> dhas payload ''tokens'' \<and> ts0 = []
       then act_bind api_key (\<lambda>k. act_return [\<lparr>tk_key = k, tk_name = DEFAULT_KEY_NAME, tk_group = None\<rparr>])
       else act_return ts0) w = (Inr ts, w')"
    by (auto simp: provision_tokens_def act_bind_Inr)
  show ?thesis
  proof (cases "\<not> dhas payload ''tokens'' \<and> ts0 = []")
    case True
    with t obtain k where "api_key w = (Inr k, w')"
      "ts = [\<lparr>tk_key = k, tk_name = DEFAULT_KEY_NAME, tk_group = None\<rparr>]"
      by (auto simp: act_bind_Inr)
    with True api_key_Inr show ?thesis by (auto simp: valid_token_def DEFAULT_KEY_NAME_def)
  next
    case False
    with t have "ts = ts0" "w' = w" by auto
    with requested_tokens_Inr [OF r] r show ?thesis by auto
  qed
qed

lemma resolve_by_id_found:
  assumes "plain_users (db w)" and "rid > 0"
    and "resolve_invite_user env uuid lg un rid 0 inc ab w = (Inr user, w')"
  shows "user \<noteq> []"
proof
  assume "user = []"
  with assms(2,3) obtain row w1 w2 where
    f: "first_row (invite_user_row (WhereId rid) inc) w = (Inr row, w1)" and ne: "row \<noteq> []"
    and b: "bind_or_validate env row uuid [lg, un] ab w1 = (Inr [], w2)"
    by (auto simp: resolve_invite_user_def Let_def act_bind_Inr check_key_owner_def split: if_splits)
  from first_row_Inr [OF f] have "row = first_row_of (psql_text (invite_user_row (WhereId rid) inc (db w)))"
    by simp
  from first_row_invite_user [OF assms(1) this] ne have "length row = 7"
    by (auto simp: row_of_user_def invite_columns_nth)
  with b ne show False by (auto simp: bind_or_validate_def act_bind_Inr nil_update split: if_splits)
qed

section \<open>The whole request\<close>

lemma with_transaction_Inr:
  assumes "with_transaction t body w = (Inr a, w')"
  shows "\<exists>w1 w2. db w1 = db w \<and> body w1 = (Inr a, w2) \<and> db w' = db w2"
proof -
  obtain f w1 where f: "next_fault (w\<lparr>session := Some t\<rparr>) = (Inr f, w1)" and w1: "db w1 = db w"
    by (rule next_fault_cases [of "w\<lparr>session := Some t\<rparr>"]) simp
  obtain b w2 where b: "body w1 = (b, w2)" by (metis surj_pair)
  obtain g w3 where g: "next_fault w2 = (Inr g, w3)" and w3: "db w3 = db w2"
    by (rule next_fault_cases)
  have "b = Inr a \<and> db w' = db w2"
    using assms f b g w3
    by (auto simp: with_transaction_def Let_def split: fault.splits sum.splits if_splits)
  with b w1 show ?thesis by blast
qed

lemma grow_owned: "accounts_grow d d' \<Longrightarrow> set (owners d) \<subseteq> set (owners d')"
  by (auto simp: accounts_grow_def prefix_def)

lemma provision_body_Inr:
  assumes env: "digest_env env" and plain: "plain_users (db w)" and ok: "keys_ok (db w)"
    and run: "provision_body env payload w = (Inr reply, w')"
  shows "\<exists>uuid lg un uid fp ts. payload_identity payload = Inr (uuid, lg, un)
    \<and> invite_owner_fingerprint env uuid = Inr fp \<and> dget reply ''userId'' = PInt uid
    \<and> account_active (db w') uid fp un
    \<and> k_key ` set (live_keys uid (db w')) = tk_key ` set ts
    \<and> (dhas payload ''tokens'' \<longrightarrow> requested_tokens payload = Inr ts)
    \<and> keys_ok (db w') \<and> (\<forall>v. v \<noteq> uid \<longrightarrow> live_keys v (db w') = live_keys v (db w))"
proof -
  obtain uuid lg un where ident: "payload_identity payload = Inr (uuid, lg, un)"
    using run by (auto simp: provision_body_def act_bind_Inr)
  let ?dn = "take 80 (strip (py_str (py_or (dget payload ''name'') (PStr un))))"
  let ?email = "default_email un (dget payload ''email'')"
  let ?pw = "strip (str_or_empty (dget payload ''loginPassword''))"
  let ?reset = "truthy (dget payload ''resetLoginPassword'')"
  from run ident obtain rid user w1 w2 groups w3 gid w4 plans w5 uid pw w6 grants w7 ts w8 kid key w9
      hash_row w10 fpr w11 keys where
    res: "resolve_invite_user env uuid lg un (if rid > 0 then rid else 0) 0 True True w = (Inr user, w1)"
    and em: "check_email_owner payload ?email user w1 = (Inr (), w2)"
    and gr: "resolve_provision_groups env payload w2 = (Inr groups, w3)" and w34: "w4 = w3"
    and pl: "act_each (\<lambda>(_, g). ensure_subscription_plan env g) groups w4 = (Inr plans, w5)"
    and wu: "write_user env user uuid lg un ?email ?dn ?pw ?reset w5 = (Inr (uid, pw), w6)"
    and gg: "grant_groups env uid groups w6 = (Inr grants, w7)"
    and tk: "provision_tokens payload w7 = (Inr ts, w8)"
    and sk: "sync_user_keys env uid gid ts w8 = (Inr (kid, key), w9)"
    and hr: "first_row (password_hash_row uid) w9 = (Inr hash_row, w10)" and w11: "w11 = w10"
    and gk: "get_user_keys env uid w11 = (Inr keys, w')"
    and rep: "dget reply ''userId'' = PInt uid"
    unfolding provision_body_def Let_def
    by (fastforce simp: act_bind_Inr dget_def split: prod.splits)
  have un: "username_text un" using payload_identity_Inr [OF ident] by (simp add: username_text_def)
  have sa: "same_accounts (db w1) (db w5)"
  proof -
    have plr: "db_rel same_accounts (act_each (\<lambda>(_, g). ensure_subscription_plan env g) groups)"
      by (intro same.rel_each db_rel_intros same_plan)
    then show ?thesis
      using db_relD [OF same_email_owner em] db_relD [OF same_resolve_groups gr] db_relD [OF plr pl] w34
        same.R_trans by metis
  qed
  have sk5: "same_keys (db w) (db w7)"
  proof -
    have emr: "db_rel same_keys (check_email_owner payload ?email user)"
      unfolding check_email_owner_def by (intro db_rel_intros)
    then have a: "same_keys (db w) (db w3)"
      using db_relD [OF skeys_resolve res] db_relD [OF emr em] db_relD [OF skeys_resolve_groups gr]
        skeys.R_trans by metis
    have plr: "db_rel same_keys (act_each (\<lambda>(_, g). ensure_subscription_plan env g) groups)"
      by (intro skeys.rel_each db_rel_intros skeys_plan)
    then show ?thesis
      using a db_relD [OF plr pl] db_relD [OF skeys_write_user wu] db_relD [OF skeys_grants gg] w34
        skeys.R_trans by metis
  qed
  have plain5: "plain_owners (db w5)"
  proof (cases "user = []")
    case True
    then have r0: "\<not> rid > 0" using res resolve_by_id_found [OF plain] by (metis if_True)
    show ?thesis
      using resolve_none [OF plain un, of env uuid lg w1] res True r0 plain_users_owners [OF plain] sa
      by (simp add: plain_owners_def same_accounts_def)
  next
    case False
    from resolve_invite_user_Inr [OF env plain res False] obtain u where
      "resolved_to env uuid [lg, un] True True w w1 user u" by blast
    then obtain fp where fp: "invite_owner_fingerprint env uuid = Inr fp"
      "db w1 = db w \<or> db w1 = (db w)\<lparr>owners := owners (db w) @ [(u_id u, fp)]\<rparr>"
      by (auto simp: resolved_to_def)
    then show ?thesis
      using sa plain_users_owners [OF plain] hex_digest_facts [OF fingerprint_digest [OF env fp(1)]]
      by (auto simp: plain_owners_def same_accounts_def)
  qed
  have "\<exists>fp. invite_owner_fingerprint env uuid = Inr fp \<and> account_active (db w6) uid fp un"
  proof (rule write_user_Inr [OF env un plain5 _ _ wu])
    assume "user \<noteq> []"
    from resolve_invite_user_Inr [OF env plain res this] obtain u where
      "resolved_to env uuid [lg, un] True True w w1 user u" by blast
    then show "\<exists>u fp. invite_owner_fingerprint env uuid = Inr fp \<and>
          user ! 0 = int_str (u_id u) \<and> owned_by (db w5) u fp"
      using sa by (auto simp: resolved_to_def row_of_user_def invite_columns_nth owned_by_def same_accounts_def)
  next
    assume e: "user = []"
    then have "\<not> rid > 0" using res resolve_by_id_found [OF plain] by (metis if_True)
    with resolve_none [OF plain un, of env uuid lg w1] res e sa
    show "\<forall>u \<in> set (users (db w5)). u_username u \<noteq> un" by (simp add: same_accounts_def)
  qed
  then obtain fp where fp: "invite_owner_fingerprint env uuid = Inr fp" "account_active (db w6) uid fp un"
    by blast
  have t: "db w8 = db w7" "distinct (map tk_key ts)" "\<forall>t \<in> set ts. valid_token t"
    "dhas payload ''tokens'' \<longrightarrow> requested_tokens payload = Inr ts"
    using provision_tokens_Inr [OF tk] by auto
  have w9: "db w' = db w9"
    using first_row_Inr [OF hr] gk w11
    by (auto simp: get_user_keys_def act_bind_Inr split: if_splits dest!: rows_Inr)
  have "keys_ok (db w8)" using ok sk5 t(1) by (simp add: keys_ok_def same_keys_def)
  from sync_user_keys_Inr [OF sk this t(3,2)] have k:
    "k_key ` set (live_keys uid (db w9)) = tk_key ` set ts" "keys_ok (db w9)"
    "\<forall>v. v \<noteq> uid \<longrightarrow> live_keys v (db w9) = live_keys v (db w8)" by auto
  have "live_keys v (db w8) = live_keys v (db w)" for v
    using sk5 t(1) by (simp add: live_keys_def same_keys_def)
  moreover have "same_accounts (db w6) (db w')"
    using db_relD [OF same_grants gg] db_relD [OF same_sync_user_keys sk] t(1) w9 same.R_trans by metis
  ultimately have a: "account_active (db w') uid fp un"
    and v: "\<forall>v. v \<noteq> uid \<longrightarrow> live_keys v (db w') = live_keys v (db w)"
    using fp(2) account_active_same k(3) w9 by simp_all
  show ?thesis
    by (rule exI [of _ uuid], rule exI [of _ lg], rule exI [of _ un], rule exI [of _ uid],
        rule exI [of _ fp], rule exI [of _ ts]) (use ident fp(1) rep a k t(4) w9 v in simp)
qed


definition example_request :: pydict where
  "example_request = [(''uuid'', PStr example_uuid), (''name'', PStr ''Alice''),
     (''tokens'', PList [PDict [(''tokenKey'', PStr ''sk-new1'')]])]"


end
