(* ===== verification/Lifecycle.thy ===== *)
theory Lifecycle
  imports Provision
begin

text \<open>
  The other account actions of \<open>sub2api_sync.py\<close>: \<open>status\<close>, \<open>deprovision\<close>, \<open>purge\<close>, and
  the two that also call the gateway, \<open>login\<close> and \<open>test_api_key\<close>, with the sanitizers of
  what the gateway answers and the deadline of an action. Facts are in \<open>Lifecycle_Facts\<close>.
\<close>

section \<open>status\<close>

definition status_body :: "sync_env \<Rightarrow> pydict \<Rightarrow> pydict act" where
  "status_body env payload =
     act_bind (act_lift (payload_identity payload)) (\<lambda>(uuid, legacy_username, username).
     act_bind (act_lift (payload_user_id payload)) (\<lambda>requested.
     act_bind (resolve_invite_user env uuid legacy_username username
                 (if requested > 0 then requested else 0) 0 False True) (\<lambda>user.
       if user = [] then
         act_return [(''ok'', PBool True), (''action'', PStr ''status''), (''uuid'', PStr uuid),
           (''exists'', PBool False), (''tokens'', PList []), (''syncedAt'', PStr (stamp env))]
       else
         act_bind (act_lift (text_int (user ! 0))) (\<lambda>user_id.
         act_bind (act_lift (column user 4)) (\<lambda>email.
         act_bind (act_lift (column user 5)) (\<lambda>pwhash.
         act_bind (act_lift (password_hash_fingerprint env pwhash)) (\<lambda>fingerprint.
         act_bind (act_lift (column user 6)) (\<lambda>state.
         act_bind (get_user_keys env user_id) (\<lambda>keys.
           act_return
             [(''ok'', PBool True), (''action'', PStr ''status''), (''uuid'', PStr uuid),
              (''exists'', PBool True), (''username'', PStr (user ! 1)), (''email'', PStr email),
              (''userId'', PInt user_id), (''passwordHashFingerprint'', PStr fingerprint),
              (''status'', PInt (if state = ''active'' then 1 else 0)), (''tokens'', PList keys),
              (''loginUrl'', PStr (env_get (environ env) ''SUB2API_LOGIN_URL'' ''https://api.example.com'')),
              (''baseUrl'', PStr (env_get (environ env) ''SUB2API_PUBLIC_BASE_URL'' ''https://api.example.com/v1'')),
              (''syncedAt'', PStr (stamp env))])))))))))"

definition status :: "sync_env \<Rightarrow> pydict \<Rightarrow> pydict act" where
  "status env payload = with_transaction DEFAULT_DB_STATEMENT_TIMEOUT_MS (status_body env payload)"

section \<open>deprovision and purge\<close>

text \<open>Both decide in the same way whether the request is about one key only.\<close>

definition is_token_only :: "pydict \<Rightarrow> pystr \<Rightarrow> pystr list \<Rightarrow> int \<Rightarrow> int \<Rightarrow> bool" where
  "is_token_only payload legacy_username user requested_user_id api_key_id \<longleftrightarrow>
     user \<noteq> [] \<and> requested_user_id \<le> 0 \<and> api_key_id > 0
     \<and> normalize_username (dget payload ''username'') = []
     \<and> normalize_username (dget payload ''name'') = []
     \<and> user ! 1 \<noteq> legacy_username"

definition removal_reply :: "sync_env \<Rightarrow> pystr \<Rightarrow> pystr \<Rightarrow> pystr \<Rightarrow> int \<Rightarrow> int \<Rightarrow> pydict" where
  "removal_reply env action uuid username user_id api_key_id =
     [(''ok'', PBool True), (''action'', PStr action), (''uuid'', PStr uuid),
      (''username'', PStr username), (''userId'', PInt user_id), (''apiKeyId'', PInt api_key_id),
      (''tokenId'', PInt api_key_id), (''syncedAt'', PStr (stamp env))]"

definition deprovision_body :: "sync_env \<Rightarrow> pydict \<Rightarrow> pydict act" where
  "deprovision_body env payload =
     act_bind (act_lift (payload_identity payload)) (\<lambda>(uuid, legacy_username, username).
     act_bind (act_lift (payload_user_id payload)) (\<lambda>requested_user_id.
     act_bind (act_lift (payload_token_id payload)) (\<lambda>api_key_id.
     act_bind (resolve_invite_user env uuid legacy_username username requested_user_id api_key_id
                 False False) (\<lambda>user.
     act_bind (if user = [] then act_return 0 else act_lift (text_int (user ! 0))) (\<lambda>user_id.
     act_bind
       (if is_token_only payload legacy_username user requested_user_id api_key_id then
          psql_run env [retire_one_key api_key_id user_id]
        else if user_id > 0 then
          act_bind (psql_run env [retire_user_keys user_id]) (\<lambda>_.
          act_bind (psql_run env [cancel_subscriptions user_id]) (\<lambda>_.
          act_bind (psql_run env [disallow_groups user_id]) (\<lambda>_.
            psql_run env [disable_user user_id])))
        else act_return ()) (\<lambda>_.
       act_return (removal_reply env ''deprovision'' uuid username user_id api_key_id)))))))"

definition deprovision :: "sync_env \<Rightarrow> pydict \<Rightarrow> pydict act" where
  "deprovision env payload =
     with_transaction DEFAULT_DB_STATEMENT_TIMEOUT_MS (deprovision_body env payload)"

definition purge_body :: "sync_env \<Rightarrow> pydict \<Rightarrow> pydict act" where
  "purge_body env payload =
     act_bind (act_lift (payload_identity payload)) (\<lambda>(uuid, legacy_username, username).
     act_bind (act_lift (payload_user_id payload)) (\<lambda>requested_user_id.
     act_bind (act_lift (payload_token_id payload)) (\<lambda>api_key_id.
     act_bind (resolve_invite_user env uuid legacy_username username requested_user_id api_key_id
                 True False) (\<lambda>user.
     act_bind (if user = [] then act_return 0 else act_lift (text_int (user ! 0))) (\<lambda>user_id.
     act_bind
       (if is_token_only payload legacy_username user requested_user_id api_key_id then
          psql_run env [delete_one_key api_key_id user_id]
        else if user_id > 0 then
          psql_run env [delete_user_keys user_id, delete_subscriptions user_id,
            disallow_groups user_id, delete_owner user_id, delete_user user_id]
        else act_return ()) (\<lambda>_.
       act_return (removal_reply env ''purge'' uuid username user_id api_key_id)))))))"

definition purge :: "sync_env \<Rightarrow> pydict \<Rightarrow> pydict act" where
  "purge env payload = with_transaction DEFAULT_DB_STATEMENT_TIMEOUT_MS (purge_body env payload)"

section \<open>The deadline of an action\<close>

definition LOGIN_ACTION_TIMEOUT_SECONDS :: int where "LOGIN_ACTION_TIMEOUT_SECONDS = 8"
definition HEALTH_ACTION_TIMEOUT_SECONDS :: int where "HEALTH_ACTION_TIMEOUT_SECONDS = 2"
definition KEY_TEST_ACTION_TIMEOUT_SECONDS :: int where "KEY_TEST_ACTION_TIMEOUT_SECONDS = 3"
definition DEFAULT_ACTION_TIMEOUT_SECONDS :: int where "DEFAULT_ACTION_TIMEOUT_SECONDS = 4"

text \<open>\<open>action_deadline\<close> on entry: the deadline in force inside the block, from the one in
  force outside; leaving restores the outer one. Milliseconds of the monotonic clock.\<close>

definition action_timeout :: "pystr \<Rightarrow> int" where
  "action_timeout action =
     (if action = ''login'' then LOGIN_ACTION_TIMEOUT_SECONDS
      else if action = ''health'' then HEALTH_ACTION_TIMEOUT_SECONDS
      else if action = ''test_api_key'' then KEY_TEST_ACTION_TIMEOUT_SECONDS
      else DEFAULT_ACTION_TIMEOUT_SECONDS)"

definition action_deadline :: "pystr \<Rightarrow> int option \<Rightarrow> int option \<Rightarrow> int act" where
  "action_deadline action started_at previous =
     act_bind (case started_at of None \<Rightarrow> read_mono | Some s \<Rightarrow> act_return s) (\<lambda>start.
       let deadline = start + action_timeout action * 1000
       in act_return (case previous of None \<Rightarrow> deadline | Some p \<Rightarrow> min deadline p))"

definition remaining_timeout :: "int option \<Rightarrow> int \<Rightarrow> int act" where
  "remaining_timeout deadline maximum =
     (case deadline of
        None \<Rightarrow> act_return maximum
      | Some d \<Rightarrow> act_bind read_mono (\<lambda>now.
          let remaining = d - now
          in if remaining \<le> 0 then act_raise SubprocessTimeout
             else act_return (min maximum remaining)))"

section \<open>The gateway\<close>

text \<open>
  What \<open>urlopen\<close> does for a request: it raises, or gives the status, the content-length
  header (\<open>''''\<close> when absent) and the result of reading the whole body. The two endpoints
  and \<open>json.loads(body.decode())\<close> are parameters.
\<close>

datatype http_reply =
    HttpRaises pyexn
  | HttpReply (reply_status: int) (reply_length: pystr) (reply_body: "bytes res")

text \<open>What \<open>urlsplit\<close> finds in a URL; an absent user name or password is \<open>None\<close>.\<close>

record url_parts =
  url_scheme :: pystr
  url_netloc :: pystr
  url_path :: pystr
  url_query :: pystr
  url_fragment :: pystr
  url_username :: "pystr option"
  url_password :: "pystr option"
  url_hostname :: "pystr option"

record upstream =
  post_login :: "bytes \<Rightarrow> int \<Rightarrow> http_reply"
  get_models :: "pystr \<Rightarrow> pystr \<Rightarrow> int \<Rightarrow> http_reply"
  json_loads :: "bytes \<Rightarrow> pyval res"
  urlsplit :: "pystr \<Rightarrow> url_parts res"

definition MAX_LOGIN_RESPONSE_BYTES :: nat where "MAX_LOGIN_RESPONSE_BYTES = 65536"
definition MAX_LOGIN_AUTH_TOKEN_BYTES :: nat where "MAX_LOGIN_AUTH_TOKEN_BYTES = 4096"
definition MAX_LOGIN_AUTH_RESPONSE_BYTES :: nat where "MAX_LOGIN_AUTH_RESPONSE_BYTES = 14336"
definition MAX_LOGIN_USER_FIELD_BYTES :: nat where "MAX_LOGIN_USER_FIELD_BYTES = 512"
definition MAX_KEY_TEST_RESPONSE_BYTES :: nat where "MAX_KEY_TEST_RESPONSE_BYTES = 16384"
definition LOGIN_UPSTREAM_TIMEOUT_SECONDS :: int where "LOGIN_UPSTREAM_TIMEOUT_SECONDS = 5"
definition KEY_TEST_UPSTREAM_TIMEOUT_SECONDS :: int where "KEY_TEST_UPSTREAM_TIMEOUT_SECONDS = 2"

definition LOGIN_USER_FIELDS :: "pystr list" where
  "LOGIN_USER_FIELDS = [''id'', ''username'', ''name'', ''email'', ''role'', ''status'',
     ''balance'', ''avatar'', ''created_at'', ''updated_at'']"

section \<open>login\<close>

definition login_invalid :: pyexn where
  "login_invalid = RuntimeError ''sub2api_login_response_invalid''"

text \<open>The value kept for one field of the user, if any.\<close>

fun user_field_ok :: "pyval \<Rightarrow> bool" where
  "user_field_ok (PBool _) = True"
| "user_field_ok (PInt i) = (\<bar>i\<bar> \<le> MAX_SAFE_IDENTIFIER)"
| "user_field_ok (PStr s) = (length (utf8 s) \<le> MAX_LOGIN_USER_FIELD_BYTES)"
| "user_field_ok _ = False"

definition user_summary :: "pydict \<Rightarrow> pydict" where
  "user_summary user =
     List.map_filter
       (\<lambda>f. if dhas user f \<and> user_field_ok (dget user f) then Some (f, dget user f) else None)
       LOGIN_USER_FIELDS"

definition access_part :: "pydict \<Rightarrow> pydict res" where
  "access_part v =
     (case dget v ''access_token'' of
        PStr t \<Rightarrow> (if t = [] \<or> length (utf8 t) > MAX_LOGIN_AUTH_TOKEN_BYTES then Inl login_invalid
                  else Inr [(''access_token'', PStr t)])
      | _ \<Rightarrow> Inl login_invalid)"

definition refresh_part :: "pydict \<Rightarrow> pydict res" where
  "refresh_part v =
     (if \<not> dhas v ''refresh_token'' then Inr []
      else case dget v ''refresh_token'' of
        PStr t \<Rightarrow> (if length (utf8 t) > MAX_LOGIN_AUTH_TOKEN_BYTES then Inl login_invalid
                  else Inr [(''refresh_token'', PStr t)])
      | _ \<Rightarrow> Inl login_invalid)"

definition expires_part :: "pydict \<Rightarrow> pydict res" where
  "expires_part v =
     (if \<not> dhas v ''expires_in'' then Inr []
      else case dget v ''expires_in'' of
        PInt i \<Rightarrow> (if 0 \<le> i \<and> i \<le> 31536000 then Inr [(''expires_in'', PInt i)] else Inl login_invalid)
      | _ \<Rightarrow> Inl login_invalid)"

definition user_part :: "pydict \<Rightarrow> pydict res" where
  "user_part v =
     (if \<not> dhas v ''user'' then Inr []
      else case dget v ''user'' of
        PDict u \<Rightarrow> Inr [(''user'', PDict (user_summary u))]
      | _ \<Rightarrow> Inl login_invalid)"

definition sanitize_login_auth :: "pyval \<Rightarrow> pydict res" where
  "sanitize_login_auth value =
     (case value of
        PDict v \<Rightarrow>
          res_bind (access_part v) (\<lambda>a.
          res_bind (refresh_part v) (\<lambda>r.
          res_bind (expires_part v) (\<lambda>e.
          res_bind (user_part v) (\<lambda>u.
            let auth = a @ r @ e @ u
            in if length (json_dumps (PDict auth)) > MAX_LOGIN_AUTH_RESPONSE_BYTES
               then Inl login_invalid else Inr auth))))
      | _ \<Rightarrow> Inl login_invalid)"

text \<open>\<open>code != 0\<close>: \<open>False\<close> and \<open>0.0\<close> equal zero in Python.\<close>

fun is_zero :: "pyval \<Rightarrow> bool" where
  "is_zero (PInt i) = (i = 0)"
| "is_zero (PBool b) = (\<not> b)"
| "is_zero (PFloat f) = float_zero f"
| "is_zero _ = False"

definition read_login_reply :: "upstream \<Rightarrow> http_reply \<Rightarrow> pyval res" where
  "read_login_reply up reply =
     (case reply of
        HttpRaises (HttpStatusError code) \<Rightarrow>
          Inl (RuntimeError (if code = 429 then ''sub2api_login_rate_limited'' else ''sub2api_login_rejected''))
      | HttpRaises e \<Rightarrow> Inl e
      | HttpReply _ declared body \<Rightarrow>
          (if declared \<noteq> [] \<and> int_of_text declared = None
           then Inl (RuntimeError ''sub2api_login_response_invalid_length'')
           else if declared \<noteq> [] \<and> the (int_of_text declared) > int MAX_LOGIN_RESPONSE_BYTES
           then Inl (RuntimeError ''sub2api_login_response_too_large'')
           else res_bind body (\<lambda>b.
             (let response_body = take (MAX_LOGIN_RESPONSE_BYTES + 1) b
              in if length response_body > MAX_LOGIN_RESPONSE_BYTES
                 then Inl (RuntimeError ''sub2api_login_response_too_large'')
                 else json_loads up response_body))))"

text \<open>What login makes of the decoded answer, for the account it resolved.\<close>

definition check_login_reply :: "int \<Rightarrow> pyval \<Rightarrow> pydict res" where
  "check_login_reply user_id answer =
     (case answer of
        PDict d \<Rightarrow>
          if \<not> is_zero (dget d ''code'') then Inl (RuntimeError ''sub2api_login_rejected'')
          else res_bind (sanitize_login_auth (dget d ''data'')) (\<lambda>auth.
            case dget auth ''user'' of
              PDict u \<Rightarrow>
                (case dget u ''id'' of
                   PInt i \<Rightarrow> (if i = user_id then Inr auth
                             else Inl (RuntimeError ''sub2api_login_response_identity_mismatch''))
                 | _ \<Rightarrow> Inl (RuntimeError ''sub2api_login_response_identity_mismatch''))
            | _ \<Rightarrow> Inl (RuntimeError ''sub2api_login_response_identity_mismatch''))
      | _ \<Rightarrow> Inl (RuntimeError ''sub2api_login_rejected''))"

definition login_user :: "sync_env \<Rightarrow> pystr \<Rightarrow> pystr \<Rightarrow> pystr \<Rightarrow> int \<Rightarrow> pystr \<Rightarrow> int act" where
  "login_user env uuid legacy_username username user_id email =
     act_bind (resolve_invite_user env uuid legacy_username username user_id 0 False (user_id > 0)) (\<lambda>user.
       if user = [] then act_raise identity_mismatch
       else act_bind (act_lift (column user 4)) (\<lambda>stored.
         if lower (strip stored) \<noteq> lower email then act_raise identity_mismatch
         else act_lift (text_int (user ! 0))))"

definition login :: "sync_env \<Rightarrow> upstream \<Rightarrow> int option \<Rightarrow> pydict \<Rightarrow> pydict act" where
  "login env up deadline payload =
     act_bind (act_lift (payload_identity payload)) (\<lambda>(uuid, legacy_username, username).
       let email = strip (str_or_empty (dget payload ''email''));
           password = strip (str_or_empty (dget payload ''loginPassword''))
       in if email = [] \<or> password = [] then act_raise (ValueError ''missing login credentials'')
       else
         act_bind (act_lift (payload_user_id payload)) (\<lambda>requested.
         act_bind (with_transaction DEFAULT_DB_STATEMENT_TIMEOUT_MS
                     (login_user env uuid legacy_username username requested email)) (\<lambda>user_id.
         act_bind (remaining_timeout deadline (LOGIN_UPSTREAM_TIMEOUT_SECONDS * 1000)) (\<lambda>timeout.
         act_bind (act_lift (read_login_reply up
                     (post_login up (json_dumps (PDict [(''email'', PStr email), (''password'', PStr password)]))
                        timeout))) (\<lambda>answer.
         act_bind (act_lift (check_login_reply user_id answer)) (\<lambda>auth.
           act_return [(''ok'', PBool True), (''action'', PStr ''login''), (''uuid'', PStr uuid),
             (''auth'', PDict auth), (''syncedAt'', PStr (stamp env))]))))))"

section \<open>test_api_key\<close>

definition host_label :: "pystr \<Rightarrow> bool" where
  "host_label h \<longleftrightarrow> h \<noteq> [] \<and> length h \<le> 63
     \<and> list_all (\<lambda>c. is_lower c \<or> is_digit c \<or> c = CHR ''-'') h
     \<and> hd h \<noteq> CHR ''-'' \<and> last h \<noteq> CHR ''-''"

definition internal_models_url :: "sync_env \<Rightarrow> upstream \<Rightarrow> pystr res" where
  "internal_models_url env up =
     res_bind (urlsplit up (env_get (environ env) ''SUB2API_INTERNAL_LOGIN_URL''
                 ''http://127.0.0.1:8080/api/v1/auth/login'')) (\<lambda>parsed.
       let bad = Inl (ValueError ''invalid_internal_login_url'');
           hostname = lower (case url_hostname parsed of None \<Rightarrow> [] | Some h \<Rightarrow> h)
       in if url_scheme parsed \<notin> {''http'', ''https''} then bad
          else if url_path parsed \<noteq> ''/api/v1/auth/login'' \<or> url_query parsed \<noteq> [] \<or> url_fragment parsed \<noteq> []
          then bad
          else if url_username parsed \<notin> {None, Some []} \<or> url_password parsed \<notin> {None, Some []} then bad
          else if hostname \<notin> {''127.0.0.1'', ''localhost''} \<and> \<not> host_label hostname then bad
          else Inr (url_scheme parsed @ ''://'' @ url_netloc parsed @ ''/v1/models''))"

definition key_test_error_code :: "int \<Rightarrow> pystr" where
  "key_test_error_code code =
     (if code = 401 then ''unauthorized''
      else if code = 403 then ''forbidden''
      else if code = 404 then ''not_found''
      else if code = 429 then ''rate_limited''
      else if 500 \<le> code \<and> code \<le> 599 then ''upstream_error''
      else ''request_failed'')"

text \<open>\<open>^[A-Za-z0-9._:/-]{1,128}$\<close>.\<close>

definition model_id_ok :: "pystr \<Rightarrow> bool" where
  "model_id_ok s \<longleftrightarrow> s \<noteq> [] \<and> length s \<le> 128 \<and> list_all (\<lambda>c. is_alnum c \<or> c \<in> set ''._:/-'') s"

fun probe_loop :: "pyval list \<Rightarrow> int \<Rightarrow> pystr \<Rightarrow> int \<times> pystr" where
  "probe_loop [] count model_id = (count, model_id)"
| "probe_loop (PDict item # items) count model_id =
     (case dget item ''id'' of
        PStr ident \<Rightarrow>
          (if \<not> model_id_ok ident then probe_loop items count model_id
           else probe_loop items (count + 1) (if model_id = [] then take 128 ident else model_id))
      | _ \<Rightarrow> probe_loop items count model_id)"
| "probe_loop (_ # items) count model_id = probe_loop items count model_id"

definition sanitize_models_probe :: "pyval \<Rightarrow> int \<times> pystr" where
  "sanitize_models_probe payload =
     (case payload of
        PDict d \<Rightarrow> (case dget d ''data'' of PList items \<Rightarrow> probe_loop (take 256 items) 0 [] | _ \<Rightarrow> (0, []))
      | _ \<Rightarrow> (0, []))"

text \<open>The fields of the result that the probe fills in, besides the latency.\<close>

record probe =
  pr_tested :: bool
  pr_status :: int
  pr_error :: pystr
  pr_count :: int
  pr_model :: pystr

definition no_probe :: probe where
  "no_probe = \<lparr>pr_tested = False, pr_status = 0, pr_error = [], pr_count = 0, pr_model = []\<rparr>"

definition probe_raised :: "pyexn \<Rightarrow> probe res" where
  "probe_raised e =
     (case e of
        HttpStatusError code \<Rightarrow> Inr (no_probe\<lparr>pr_status := code, pr_error := key_test_error_code code\<rparr>)
      | UrlError timed_out \<Rightarrow> Inr (no_probe\<lparr>pr_error := if timed_out then ''timeout'' else ''upstream_unavailable''\<rparr>)
      | TimeoutError \<Rightarrow> Inr (no_probe\<lparr>pr_error := ''timeout''\<rparr>)
      | SubprocessTimeout \<Rightarrow> Inr (no_probe\<lparr>pr_error := ''timeout''\<rparr>)
      | _ \<Rightarrow> Inl e)"

definition probe_reply :: "upstream \<Rightarrow> http_reply \<Rightarrow> probe res" where
  "probe_reply up reply =
     (case reply of
        HttpRaises e \<Rightarrow> probe_raised e
      | HttpReply st declared body \<Rightarrow>
          (let code = (if st = 0 then 200 else st);
               seen = no_probe\<lparr>pr_status := code\<rparr>
           in if declared \<noteq> [] \<and> int_of_text declared = None
              then Inr (seen\<lparr>pr_error := ''invalid_response''\<rparr>)
              else if declared \<noteq> [] \<and> the (int_of_text declared) > int MAX_KEY_TEST_RESPONSE_BYTES
              then Inr (seen\<lparr>pr_error := ''response_too_large''\<rparr>)
              else case body of
                  Inl e \<Rightarrow> probe_raised e
                | Inr b \<Rightarrow>
                    (if length (take (MAX_KEY_TEST_RESPONSE_BYTES + 1) b) > MAX_KEY_TEST_RESPONSE_BYTES
                     then Inr (seen\<lparr>pr_error := ''response_too_large''\<rparr>)
                     else case json_loads up (take (MAX_KEY_TEST_RESPONSE_BYTES + 1) b) of
                         Inl e \<Rightarrow> (if is_value_error e then Inr (seen\<lparr>pr_error := ''invalid_response''\<rparr>)
                                  else probe_raised e)
                       | Inr v \<Rightarrow>
                           (let (count, model_id) = sanitize_models_probe v
                            in Inr (seen\<lparr>pr_tested := (code = 200), pr_count := count,
                                         pr_model := model_id\<rparr>)))))"

definition tested_key :: "sync_env \<Rightarrow> pystr \<Rightarrow> pystr \<Rightarrow> pystr \<Rightarrow> int \<Rightarrow> int \<Rightarrow> (int \<times> pystr) act" where
  "tested_key env uuid legacy_username username user_id api_key_id =
     act_bind (resolve_invite_user env uuid legacy_username username user_id api_key_id False False) (\<lambda>user.
       if user = [] then act_raise identity_mismatch
       else act_bind (act_lift (text_int (user ! 0))) (\<lambda>owner_id.
       act_bind (if api_key_id > 0 then first_row (testable_key_by_id api_key_id owner_id)
                 else first_row (first_testable_key owner_id)) (\<lambda>key_row.
         if key_row = [] then act_raise (ValueError ''api_key_not_found'')
         else act_bind (act_lift (text_int (key_row ! 0))) (\<lambda>kid.
              act_bind (act_lift (column key_row 1)) (\<lambda>tok.
                if \<not> is_api_key (PStr tok) then act_raise (ValueError ''api_key_not_found'')
                else act_return (kid, tok))))))"

text \<open>A time-out before the request is sent is handled like one of the request.\<close>

definition probe_models :: "upstream \<Rightarrow> int option \<Rightarrow> pystr \<Rightarrow> pystr \<Rightarrow> probe act" where
  "probe_models up deadline url tok w =
     (case remaining_timeout deadline (KEY_TEST_UPSTREAM_TIMEOUT_SECONDS * 1000) w of
        (Inl e, w') \<Rightarrow> act_lift (probe_raised e) w'
      | (Inr timeout, w') \<Rightarrow> act_lift (probe_reply up (get_models up url tok timeout)) w')"

definition test_api_key :: "sync_env \<Rightarrow> upstream \<Rightarrow> int option \<Rightarrow> pydict \<Rightarrow> pydict act" where
  "test_api_key env up deadline payload =
     act_bind (act_lift (payload_identity payload)) (\<lambda>(uuid, legacy_username, username).
     act_bind (act_lift (payload_user_id payload)) (\<lambda>user_id.
     act_bind (act_lift (payload_token_id payload)) (\<lambda>requested_key.
     act_bind (with_transaction DEFAULT_DB_STATEMENT_TIMEOUT_MS
                 (tested_key env uuid legacy_username username user_id requested_key)) (\<lambda>(kid, tok).
     act_bind read_mono (\<lambda>started.
     act_bind (act_lift (internal_models_url env up)) (\<lambda>url.
     act_bind (probe_models up deadline url tok) (\<lambda>pr.
     act_bind read_mono (\<lambda>ended.
       act_return
         [(''ok'', PBool True), (''action'', PStr ''test_api_key''), (''uuid'', PStr uuid),
          (''apiKeyId'', PInt kid), (''tokenId'', PInt kid), (''tested'', PBool (pr_tested pr)),
          (''httpStatus'', PInt (pr_status pr)), (''errorCode'', PStr (pr_error pr)),
          (''modelCount'', PInt (pr_count pr)), (''modelId'', PStr (pr_model pr)),
          (''latencyMs'', PInt (ended - started)), (''syncedAt'', PStr (stamp env))]))))))))"

end
