(* ===== verification/Lifecycle_Facts.thy ===== *)
theory Lifecycle_Facts
  imports Lifecycle Provision_Result
begin

text \<open>
  Facts about \<open>Lifecycle\<close>: what \<open>deprovision\<close> and \<open>purge\<close> remove and whose rows they can
  touch, and what the sanitizers let through to the client.
\<close>

section \<open>One account's rows\<close>

definition account :: "database \<Rightarrow> int \<Rightarrow>
    user_row list \<times> key_row list \<times> sub_row list \<times> (int \<times> int) list \<times> (int \<times> pystr) list" where
  "account d uid =
     (filter (\<lambda>u. u_id u = uid) (users d), filter (\<lambda>r. k_user r = uid) (api_keys d),
      filter (\<lambda>s. s_user s = uid) (subs d), filter (\<lambda>p. fst p = uid) (allowed d),
      filter (\<lambda>p. fst p = uid) (owners d))"

text \<open>\<open>only_account uid\<close>: at most the rows of \<open>uid\<close> differ.\<close>

definition only_account :: "int \<Rightarrow> database \<Rightarrow> database \<Rightarrow> bool" where
  "only_account uid d d' \<longleftrightarrow> (\<forall>v. v \<noteq> uid \<longrightarrow> account d' v = account d v)
     \<and> grps d' = grps d \<and> plans d' = plans d"

interpretation only: db_effect "only_account uid" for uid
  by unfold_locales (auto simp: only_account_def)

lemma filter_map_other:
  "(\<And>x. P (f x) = P x) \<Longrightarrow> (\<And>x. P x \<Longrightarrow> f x = x) \<Longrightarrow> filter P (map f xs) = filter P xs"
  by (induction xs) auto

lemma filter_filter_other: "(\<And>x. P x \<Longrightarrow> Q x) \<Longrightarrow> filter P (filter Q xs) = filter P xs"
  by (induction xs) auto

lemma only_changes:
  "retire_user_keys uid now d = Inr d' \<Longrightarrow> only_account uid d d'"
  "retire_one_key kid uid now d = Inr d' \<Longrightarrow> only_account uid d d'"
  "cancel_subscriptions uid now d = Inr d' \<Longrightarrow> only_account uid d d'"
  "disallow_groups uid now d = Inr d' \<Longrightarrow> only_account uid d d'"
  "disable_user uid now d = Inr d' \<Longrightarrow> only_account uid d d'"
  "delete_one_key kid uid now d = Inr d' \<Longrightarrow> only_account uid d d'"
  "delete_user_keys uid now d = Inr d' \<Longrightarrow> only_account uid d d'"
  "delete_subscriptions uid now d = Inr d' \<Longrightarrow> only_account uid d d'"
  "delete_owner uid now d = Inr d' \<Longrightarrow> only_account uid d d'"
  "delete_user uid now d = Inr d' \<Longrightarrow> only_account uid d d'"
  by (auto simp: change_defs only_account_def account_def retire_key_def
      simp del: filter_filter intro!: filter_map_other filter_filter_other)

section \<open>The common shape of deprovision and purge\<close>

definition removal_with ::
  "sync_env \<Rightarrow> bool \<Rightarrow> (pystr \<Rightarrow> pystr list \<Rightarrow> int \<Rightarrow> int \<Rightarrow> int \<Rightarrow> unit act) \<Rightarrow> pystr \<Rightarrow> pydict \<Rightarrow> pydict act" where
  "removal_with env inc remove action payload =
     act_bind (act_lift (payload_identity payload)) (\<lambda>(uuid, legacy_username, username).
     act_bind (act_lift (payload_user_id payload)) (\<lambda>requested_user_id.
     act_bind (act_lift (payload_token_id payload)) (\<lambda>api_key_id.
     act_bind (resolve_invite_user env uuid legacy_username username requested_user_id api_key_id
                 inc False) (\<lambda>user.
     act_bind (if user = [] then act_return 0 else act_lift (text_int (user ! 0))) (\<lambda>user_id.
     act_bind (remove legacy_username user requested_user_id api_key_id user_id) (\<lambda>_.
       act_return (removal_reply env action uuid username user_id api_key_id)))))))"

definition deprovision_writes ::
  "sync_env \<Rightarrow> pydict \<Rightarrow> pystr \<Rightarrow> pystr list \<Rightarrow> int \<Rightarrow> int \<Rightarrow> int \<Rightarrow> unit act" where
  "deprovision_writes env payload lg user rid kid uid =
     (if is_token_only payload lg user rid kid then psql_run env [retire_one_key kid uid]
      else if uid > 0 then
        act_bind (psql_run env [retire_user_keys uid]) (\<lambda>_.
        act_bind (psql_run env [cancel_subscriptions uid]) (\<lambda>_.
        act_bind (psql_run env [disallow_groups uid]) (\<lambda>_.
          psql_run env [disable_user uid])))
      else act_return ())"

definition purge_writes ::
  "sync_env \<Rightarrow> pydict \<Rightarrow> pystr \<Rightarrow> pystr list \<Rightarrow> int \<Rightarrow> int \<Rightarrow> int \<Rightarrow> unit act" where
  "purge_writes env payload lg user rid kid uid =
     (if is_token_only payload lg user rid kid then psql_run env [delete_one_key kid uid]
      else if uid > 0 then
        psql_run env [delete_user_keys uid, delete_subscriptions uid, disallow_groups uid,
          delete_owner uid, delete_user uid]
      else act_return ())"

lemma deprovision_body_shape:
  "deprovision_body env payload = removal_with env False (deprovision_writes env payload) ''deprovision'' payload"
  unfolding deprovision_body_def removal_with_def deprovision_writes_def ..

lemma purge_body_shape:
  "purge_body env payload = removal_with env True (purge_writes env payload) ''purge'' payload"
  unfolding purge_body_def removal_with_def purge_writes_def ..

lemma only_one_change:
  assumes "\<And>now d d'. ch now d = Inr d' \<Longrightarrow> only_account uid d d'"
  shows "db_rel (only_account uid) (psql_run env [ch])"
  by (rule only.rel_run) (use assms in auto)

lemma only_deprovision_writes:
  "db_rel (only_account uid) (deprovision_writes env payload lg user rid kid uid)"
  unfolding deprovision_writes_def
  by (intro db_rel_intros only_one_change only_changes)

lemma only_purge_writes:
  "db_rel (only_account uid) (purge_writes env payload lg user rid kid uid)"
proof -
  have "db_rel (only_account uid) (psql_run env [delete_user_keys uid, delete_subscriptions uid,
      disallow_groups uid, delete_owner uid, delete_user uid])"
    by (rule only.rel_run) (auto dest: only_changes)
  then show ?thesis
    unfolding purge_writes_def by (intro db_rel_intros only_one_change only_changes)
qed

lemma reads_bind: "db_rel (=) (bind_or_validate env row uuid exps False)"
  unfolding bind_or_validate_def not_False_eq_True if_True by (intro db_rel_intros)

lemma reads_resolve: "db_rel (=) (resolve_invite_user env uuid lg un rid kid inc False)"
  unfolding resolve_invite_user_def Let_def
  by (auto intro!: db_rel_intros reads_bind reads_check_key_owner)

lemma reads_state: "db_rel (=) m \<Longrightarrow> m w = (r, w') \<Longrightarrow> db w' = db w"
  using db_relD [of "(=)" m w r w'] by simp

text \<open>
  Every outcome of a removal: no change at all, or changes to the rows of the one account
  that carries the fingerprint of the request.
\<close>

lemma removal_outcome:
  assumes env: "digest_env env" and plain: "plain_users (db w)"
    and only: "\<And>lg user rid kid uid. db_rel (only_account uid) (remove lg user rid kid uid)"
    and none: "\<And>lg rid kid. db_rel (=) (remove lg [] rid kid 0)"
    and run: "removal_with env inc remove action payload w = (r, w')"
  shows "db w' = db w \<or> (\<exists>uuid lg un fp uid. payload_identity payload = Inr (uuid, lg, un)
    \<and> invite_owner_fingerprint env uuid = Inr fp \<and> (uid, fp) \<in> set (owners (db w))
    \<and> only_account uid (db w) (db w'))"
proof (cases "payload_identity payload")
  case (Inl e)
  then show ?thesis using run by (simp add: removal_with_def act_raise_def)
next
  case (Inr p)
  obtain uuid lg un where p: "payload_identity payload = Inr (uuid, lg, un)" using Inr by (cases p) auto
  show ?thesis
  proof (cases "payload_user_id payload")
    case (Inl e)
    then show ?thesis using run p by (simp add: removal_with_def act_raise_def)
  next
    case (Inr rid)
    note rid = this
    show ?thesis
    proof (cases "payload_token_id payload")
      case (Inl e)
      then show ?thesis using run p rid by (simp add: removal_with_def act_raise_def)
    next
      case (Inr kid)
      let ?res = "resolve_invite_user env uuid lg un rid kid inc False"
      let ?tail = "\<lambda>user uid. act_bind (remove lg user rid kid uid) (\<lambda>_.
          act_return (removal_reply env action uuid un uid kid))"
      obtain ur w1 where res: "?res w = (ur, w1)" by (rule prod.exhaust)
      have db1: "db w1 = db w" using reads_state [OF reads_resolve res] .
      have run': "(case ur of Inl e \<Rightarrow> (Inl e, w1) | Inr user \<Rightarrow>
          act_bind (if user = [] then act_return 0 else act_lift (text_int (user ! 0))) (?tail user) w1) = (r, w')"
        using run p rid Inr res by (simp add: removal_with_def act_bind_def [of ?res])
      show ?thesis
      proof (cases ur)
        case (Inl e)
        then show ?thesis using run' db1 by simp
      next
        case (Inr user)
        show ?thesis
        proof (cases "user = []")
          case True
          have "db_rel (=) (?tail [] 0)" by (intro db_rel_intros none)
          from reads_state [OF this, of w1 r w'] show ?thesis using run' Inr True db1 by simp
        next
          case False
          from resolve_invite_user_Inr [OF env plain res [unfolded Inr] False] obtain u where
            rt: "resolved_to env uuid [lg, un] inc False w w1 user u" by blast
          then obtain fp where fp: "invite_owner_fingerprint env uuid = Inr fp"
            and row: "row_of_user (db w1) u user" and own: "owned_by (db w) u fp"
            unfolding resolved_to_def by auto
          have idx: "user ! 0 = int_str (u_id u)" and o: "(u_id u, fp) \<in> set (owners (db w))"
            using row own by (auto simp: row_of_user_def owned_by_def invite_columns_nth)
          show ?thesis
          proof (cases "text_int (user ! 0)")
            case (Inl e)
            then show ?thesis using run' \<open>ur = Inr user\<close> False db1 by (simp add: act_raise_def)
          next
            case (Inr uid)
            then have uid: "uid = u_id u" using idx text_int_int_str_Inr by simp
            have "db_rel (only_account uid) (?tail user uid)" by (intro db_rel_intros only)
            from db_relD [OF this, of w1 r w'] have "only_account uid (db w) (db w')"
              using run' \<open>ur = Inr user\<close> False Inr db1 by simp
            with p fp o uid show ?thesis by blast
          qed
        qed
      qed
    qed
  qed
qed

lemma transaction_outcome:
  assumes "with_transaction t body w = (r, w')"
  shows "db w' = db w \<or> (\<exists>w1 r2 w2. db w1 = db w \<and> body w1 = (r2, w2) \<and> db w' = db w2)"
proof -
  obtain f w1 where f: "next_fault (w\<lparr>session := Some t\<rparr>) = (Inr f, w1)" and w1: "db w1 = db w"
    by (rule next_fault_cases [of "w\<lparr>session := Some t\<rparr>"]) simp
  obtain b w2 where b: "body w1 = (b, w2)" by (rule prod.exhaust)
  obtain g w3 where g: "next_fault w2 = (Inr g, w3)" and w3: "db w3 = db w2"
    by (rule next_fault_cases)
  have "db w' = db w \<or> db w' = db w2"
    using assms f b g w3 w1
    by (auto simp: with_transaction_def Let_def split: fault.splits sum.splits if_splits)
  with b w1 show ?thesis by blast
qed

lemma removal_with_Inr:
  assumes "removal_with env inc remove action payload w = (Inr reply, w')"
  shows "\<exists>uuid lg un rid kid user uid w1. payload_identity payload = Inr (uuid, lg, un)
    \<and> payload_user_id payload = Inr rid \<and> payload_token_id payload = Inr kid \<and> db w1 = db w
    \<and> (user = [] \<longrightarrow> uid = 0)
    \<and> remove lg user rid kid uid w1 = (Inr (), w') \<and> reply = removal_reply env action uuid un uid kid"
proof -
  from assms obtain uuid lg un rid kid user w1 uid w2 where
    p: "payload_identity payload = Inr (uuid, lg, un)" "payload_user_id payload = Inr rid"
      "payload_token_id payload = Inr kid"
    and res: "resolve_invite_user env uuid lg un rid kid inc False w = (Inr user, w1)"
    and uid: "(if user = [] then act_return 0 else act_lift (text_int (user ! 0))) w1 = (Inr uid, w2)"
    and rm: "remove lg user rid kid uid w2 = (Inr (), w')"
    and rep: "reply = removal_reply env action uuid un uid kid"
    by (auto simp: removal_with_def act_bind_Inr)
  have "db w1 = db w" using reads_state [OF reads_resolve res] .
  moreover have "w2 = w1" "user = [] \<longrightarrow> uid = 0" using uid by (auto split: if_splits)
  ultimately show ?thesis using p rm rep by blast
qed

section \<open>What is left\<close>

lemma reply_user_id: "dget (removal_reply env action uuid un uid kid) ''userId'' = PInt uid"
  by (simp add: removal_reply_def dget_def)

text \<open>
  C10. deprovision and purge reach one account only. Whatever they answer or raise, and
  under every schedule of faults, an account whose owner row does not carry the fingerprint
  of the request's UUID keeps all its rows: its user row, its API keys (live or retired),
  its subscriptions, its group grants and its owner row.
\<close>

theorem removal_touches_only_owned:
  assumes "digest_env env" and "plain_users (db w)"
    and "payload_identity payload = Inr (uuid, lg, un)" and "invite_owner_fingerprint env uuid = Inr fp"
    and "(v, fp) \<notin> set (owners (db w))"
  shows "account (db (snd (deprovision env payload w))) v = account (db w) v \<and>
         account (db (snd (purge env payload w))) v = account (db w) v"
proof -
  have key: "account (db w') v = account (db w) v"
    if run: "with_transaction DEFAULT_DB_STATEMENT_TIMEOUT_MS (removal_with env inc remove action payload) w = (r, w')"
    and only: "\<And>lg user rid kid uid. db_rel (only_account uid) (remove lg user rid kid uid)"
    and none: "\<And>lg rid kid. db_rel (=) (remove lg [] rid kid 0)" for r w' inc remove action
  proof -
    consider "db w' = db w" | w1 r2 w2 where "db w1 = db w" "db w' = db w2"
        "removal_with env inc remove action payload w1 = (r2, w2)"
      using transaction_outcome [OF run] by blast
    then show ?thesis
    proof cases
      case 2
      have "plain_users (db w1)" using assms(2) 2(1) by simp
      from removal_outcome [OF assms(1) this only none 2(3)] assms(3,4) 2(1,2)
      consider "db w' = db w" | uid where "(uid, fp) \<in> set (owners (db w))" "only_account uid (db w) (db w')"
        by auto
      then show ?thesis
      proof cases
        case (2 uid)
        then have "v \<noteq> uid" using assms(5) by auto
        with 2(2) show ?thesis by (simp add: only_account_def)
      qed simp
    qed simp
  qed
  have n1: "db_rel (=) (deprovision_writes env payload lg [] rid kid 0)" for lg rid kid
    unfolding deprovision_writes_def is_token_only_def by (simp add: reads.rel_return)
  have n2: "db_rel (=) (purge_writes env payload lg [] rid kid 0)" for lg rid kid
    unfolding purge_writes_def is_token_only_def by (simp add: reads.rel_return)
  show ?thesis
    using key [of False "deprovision_writes env payload" "''deprovision''"
        "fst (deprovision env payload w)" "snd (deprovision env payload w)"]
      key [of True "purge_writes env payload" "''purge''" "fst (purge env payload w)" "snd (purge env payload w)"]
      only_deprovision_writes only_purge_writes n1 n2
    by (simp add: deprovision_def purge_def deprovision_body_shape purge_body_shape)
qed

theorem removal_touches_only_owned_witness:
  "account (db (snd (purge example_env [(''uuid'', PStr example_uuid)] (quiet_world example_keys)))) 3
     = account example_keys 3"
proof -
  have p: "payload_identity [(''uuid'', PStr example_uuid)] = Inr (example_uuid, ''u7c484f746d9'', ''u7c484f746d9'')"
    by code_simp
  have f: "invite_owner_fingerprint example_env example_uuid = Inr example_fingerprint" by code_simp
  have d: "plain_users (db (quiet_world example_keys))" by code_simp
  have "(3, example_fingerprint) \<notin> set (owners (db (quiet_world example_keys)))"
    by (simp add: quiet_world_def example_keys_def example_database_def)
  from removal_touches_only_owned [OF example_digest_env d p f this] show ?thesis
    by (simp add: quiet_world_def)
qed

lemma list_all_map: "(\<And>x. P (f x)) \<Longrightarrow> list_all P (map f xs)"
  by (simp add: list_all_iff)

lemma filter_map_none: "(\<And>x. \<not> P (f x)) \<Longrightarrow> filter P (map f xs) = []"
  by (induction xs) auto

text \<open>
  C11. A deprovision request that names no API key and answers normally for an account has
  disabled all of it: the account has no live key, no live subscription and no group
  grant, every user row of the account is disabled and marked deleted, and the owner rows
  are as before, so that the account stays bound to its invite.
\<close>

theorem deprovision_disables_account:
  assumes "deprovision env payload w = (Inr reply, w')" and "payload_token_id payload = Inr 0"
    and "dget reply ''userId'' = PInt uid" and "uid > 0"
  shows "live_keys uid (db w') = [] \<and> filter (\<lambda>s. s_user s = uid \<and> s_deleted s = None) (subs (db w')) = []
    \<and> filter (\<lambda>p. fst p = uid) (allowed (db w')) = []
    \<and> list_all (\<lambda>u. u_id u = uid \<longrightarrow> u_status u = ''disabled'' \<and> u_deleted u \<noteq> None) (users (db w'))
    \<and> owners (db w') = owners (db w)"
proof -
  obtain w1 w2 where b: "db w1 = db w" "deprovision_body env payload w1 = (Inr reply, w2)" "db w' = db w2"
    using with_transaction_Inr [OF assms(1) [unfolded deprovision_def]] by blast
  from removal_with_Inr [OF b(2) [unfolded deprovision_body_shape]] obtain lg user rid kid uuid un uid0 w3 where
    kid: "payload_token_id payload = Inr kid" and db3: "db w3 = db w1"
    and wr: "deprovision_writes env payload lg user rid kid uid0 w3 = (Inr (), w2)"
    and rep: "reply = removal_reply env ''deprovision'' uuid un uid0 kid" by (elim exE conjE) (rule that)
  have uid: "uid0 = uid" using rep assms(3) by (simp add: reply_user_id)
  have "kid = 0" using kid assms(2) by simp
  from wr assms(4) uid this obtain w4 w5 w6 where
    a: "psql_run env [retire_user_keys uid] w3 = (Inr (), w4)"
    and c: "psql_run env [cancel_subscriptions uid] w4 = (Inr (), w5)"
    and g: "psql_run env [disallow_groups uid] w5 = (Inr (), w6)"
    and d: "psql_run env [disable_user uid] w6 = (Inr (), w2)"
    by (auto simp: deprovision_writes_def is_token_only_def act_bind_Inr)
  let ?d1 = "(db w)\<lparr>api_keys := map (\<lambda>r. if k_user r = uid \<and> k_deleted r = None
        then retire_key (pg_now w3) r else r) (api_keys (db w))\<rparr>"
  let ?d2 = "?d1\<lparr>subs := map (\<lambda>s. if s_user s = uid \<and> s_deleted s = None
        then s\<lparr>s_status := ''cancelled'', s_deleted := Some (pg_now w4), s_updated := pg_now w4\<rparr> else s)
        (subs (db w))\<rparr>"
  let ?d3 = "?d2\<lparr>allowed := filter (\<lambda>(u, g). u \<noteq> uid) (allowed (db w))\<rparr>"
  let ?d4 = "?d3\<lparr>users := map (\<lambda>u. if u_id u = uid
        then u\<lparr>u_status := ''disabled'', u_deleted := Some (pg_now w6), u_updated := pg_now w6\<rparr> else u)
        (users (db w))\<rparr>"
  have "db w4 = ?d1" using psql_run_Inr [OF a] db3 b(1) by (simp add: retire_user_keys_def)
  then have "db w5 = ?d2" using psql_run_Inr [OF c] by (simp add: cancel_subscriptions_def)
  then have "db w6 = ?d3" using psql_run_Inr [OF g] by (simp add: disallow_groups_def)
  then have d': "db w' = ?d4" using psql_run_Inr [OF d] b(3) by (simp add: disable_user_def)
  have "live_keys uid (db w') = []"
    unfolding live_keys_def d' by (simp, intro filter_map_none) (simp add: retire_key_def)
  moreover have "filter (\<lambda>s. s_user s = uid \<and> s_deleted s = None) (subs (db w')) = []"
    unfolding d' by (simp, intro filter_map_none) simp
  moreover have "filter (\<lambda>p. fst p = uid) (allowed (db w')) = []"
    unfolding d' by (auto simp: filter_empty_conv)
  moreover have "list_all (\<lambda>u. u_id u = uid \<longrightarrow> u_status u = ''disabled'' \<and> u_deleted u \<noteq> None) (users (db w'))"
  proof -
    have us: "users (db w') = map (\<lambda>u. if u_id u = uid
        then u\<lparr>u_status := ''disabled'', u_deleted := Some (pg_now w6), u_updated := pg_now w6\<rparr> else u)
        (users (db w))" unfolding d' by simp
    show ?thesis unfolding us by (rule list_all_map) simp
  qed
  moreover have "owners (db w') = owners (db w)" unfolding d' by simp
  ultimately show ?thesis by blast
qed

definition example_removal :: pydict where
  "example_removal = [(''uuid'', PStr example_uuid), (''userId'', PInt 2)]"

theorem deprovision_disables_account_witness:
  "live_keys 2 (db (snd (deprovision example_env example_removal (quiet_world example_keys)))) = []"
proof -
  let ?run = "deprovision example_env example_removal (quiet_world example_keys)"
  obtain r w' where x: "?run = (r, w')" by (rule prod.exhaust)
  have "case fst ?run of Inl _ \<Rightarrow> False | Inr reply \<Rightarrow> dget reply ''userId'' = PInt 2" by code_simp
  with x obtain reply where run: "?run = (Inr reply, w')" "dget reply ''userId'' = PInt 2" by (cases r) auto
  have "payload_token_id example_removal = Inr 0" by code_simp
  from deprovision_disables_account [OF run(1) this run(2)] run(1) show ?thesis by simp
qed

text \<open>
  C30. A purge request that names no API key and answers normally for an account leaves no
  row of it: no user row, no API key, live or retired, no subscription, no group grant and
  no owner row, so that the invite is free to be provisioned again.
\<close>

theorem purge_leaves_nothing:
  assumes "purge env payload w = (Inr reply, w')" and "payload_token_id payload = Inr 0"
    and "dget reply ''userId'' = PInt uid" and "uid > 0"
  shows "account (db w') uid = ([], [], [], [], [])"
proof -
  obtain w1 w2 where b: "db w1 = db w" "purge_body env payload w1 = (Inr reply, w2)" "db w' = db w2"
    using with_transaction_Inr [OF assms(1) [unfolded purge_def]] by blast
  from removal_with_Inr [OF b(2) [unfolded purge_body_shape]] obtain lg user rid kid uuid un uid0 w3 where
    kid: "payload_token_id payload = Inr kid" and db3: "db w3 = db w1"
    and wr: "purge_writes env payload lg user rid kid uid0 w3 = (Inr (), w2)"
    and rep: "reply = removal_reply env ''purge'' uuid un uid0 kid" by (elim exE conjE) (rule that)
  have uid: "uid0 = uid" using rep assms(3) by (simp add: reply_user_id)
  have "kid = 0" using kid assms(2) by simp
  from wr assms(4) uid this have "psql_run env [delete_user_keys uid, delete_subscriptions uid,
      disallow_groups uid, delete_owner uid, delete_user uid] w3 = (Inr (), w2)"
    by (simp add: purge_writes_def is_token_only_def)
  from psql_run_Inr [OF this] have "db w2 = (db w3)\<lparr>
      api_keys := filter (\<lambda>r. k_user r \<noteq> uid) (api_keys (db w3)),
      subs := filter (\<lambda>s. s_user s \<noteq> uid) (subs (db w3)),
      allowed := filter (\<lambda>(u, g). u \<noteq> uid) (allowed (db w3)),
      owners := filter (\<lambda>(u, fp). u \<noteq> uid) (owners (db w3)),
      users := filter (\<lambda>u. u_id u \<noteq> uid) (users (db w3))\<rparr>"
    by (simp add: delete_user_keys_def delete_subscriptions_def disallow_groups_def delete_owner_def
        delete_user_def)
  then show ?thesis unfolding b(3) by (simp add: account_def filter_empty_conv split_beta)
qed

theorem purge_leaves_nothing_witness:
  "account (db (snd (purge example_env example_removal (quiet_world example_keys)))) 2 = ([], [], [], [], [])"
proof -
  let ?run = "purge example_env example_removal (quiet_world example_keys)"
  obtain r w' where x: "?run = (r, w')" by (rule prod.exhaust)
  have "case fst ?run of Inl _ \<Rightarrow> False | Inr reply \<Rightarrow> dget reply ''userId'' = PInt 2" by code_simp
  with x obtain reply where run: "?run = (Inr reply, w')" "dget reply ''userId'' = PInt 2" by (cases r) auto
  have "payload_token_id example_removal = Inr 0" by code_simp
  from purge_leaves_nothing [OF run(1) this run(2)] run(1) show ?thesis by simp
qed

section \<open>What reaches the client of a login\<close>

lemma user_summary_fields:
  "fst ` set (user_summary u) \<subseteq> set LOGIN_USER_FIELDS \<and> list_all (\<lambda>p. user_field_ok (snd p)) (user_summary u)"
proof -
  have "fst ` set (List.map_filter (\<lambda>f. if dhas u f \<and> user_field_ok (dget u f) then Some (f, dget u f) else None) fs)
      \<subseteq> set fs
    \<and> list_all (\<lambda>p. user_field_ok (snd p))
        (List.map_filter (\<lambda>f. if dhas u f \<and> user_field_ok (dget u f) then Some (f, dget u f) else None) fs)" for fs
    by (induction fs) (auto simp: map_filter_simps)
  then show ?thesis by (simp add: user_summary_def)
qed

lemma access_part_Inr:
  "access_part v = Inr a \<Longrightarrow> \<exists>t. a = [(''access_token'', PStr t)] \<and> t \<noteq> [] \<and> length (utf8 t) \<le> 4096"
  by (auto simp: access_part_def MAX_LOGIN_AUTH_TOKEN_BYTES_def split: pyval.splits if_splits)

lemma refresh_part_Inr:
  "refresh_part v = Inr a \<Longrightarrow> a = [] \<or> (\<exists>t. a = [(''refresh_token'', PStr t)] \<and> length (utf8 t) \<le> 4096)"
  by (auto simp: refresh_part_def MAX_LOGIN_AUTH_TOKEN_BYTES_def split: pyval.splits if_splits)

lemma expires_part_Inr:
  "expires_part v = Inr a \<Longrightarrow> a = [] \<or> (\<exists>i. a = [(''expires_in'', PInt i)] \<and> 0 \<le> i \<and> i \<le> 31536000)"
  by (auto simp: expires_part_def split: pyval.splits if_splits)

lemma user_part_Inr:
  "user_part v = Inr a \<Longrightarrow> a = [] \<or> (\<exists>u. a = [(''user'', PDict (user_summary u))])"
  by (auto simp: user_part_def split: pyval.splits if_splits)



lemma check_login_reply_Inr:
  assumes "check_login_reply uid answer = Inr auth"
  shows "\<exists>u. dget auth ''user'' = PDict u \<and> dget u ''id'' = PInt uid"
proof (cases answer)
  case (PDict d)
  with assms obtain a where a: "(case dget a ''user'' of
              PDict u \<Rightarrow>
                (case dget u ''id'' of
                   PInt i \<Rightarrow> (if i = uid then Inr a
                             else Inl (RuntimeError ''sub2api_login_response_identity_mismatch''))
                 | _ \<Rightarrow> Inl (RuntimeError ''sub2api_login_response_identity_mismatch''))
            | _ \<Rightarrow> Inl (RuntimeError ''sub2api_login_response_identity_mismatch'')) = Inr auth"
    by (auto simp: check_login_reply_def res_bind_eq_Inr split: if_splits)
  then obtain u where u: "dget a ''user'' = PDict u" by (cases "dget a ''user''") auto
  with a show ?thesis by (cases "dget u ''id''") (auto split: if_splits)
qed (use assms in \<open>simp_all add: check_login_reply_def\<close>)

text \<open>A code equation for evaluation: the bound of the body as an integer.\<close>

lemma read_login_reply_code [code]:
  "read_login_reply up reply =
     (case reply of
        HttpRaises (HttpStatusError code) \<Rightarrow>
          Inl (RuntimeError (if code = 429 then ''sub2api_login_rate_limited'' else ''sub2api_login_rejected''))
      | HttpRaises e \<Rightarrow> Inl e
      | HttpReply _ declared body \<Rightarrow>
          (if declared \<noteq> [] \<and> int_of_text declared = None
           then Inl (RuntimeError ''sub2api_login_response_invalid_length'')
           else if declared \<noteq> [] \<and> the (int_of_text declared) > 65536
           then Inl (RuntimeError ''sub2api_login_response_too_large'')
           else res_bind body (\<lambda>b.
             if int (length b) > 65536 then Inl (RuntimeError ''sub2api_login_response_too_large'')
             else json_loads up b)))"
proof -
  have eq: "(let rb = take (65536 + 1) b
      in if length rb > 65536 then Inl (RuntimeError ''sub2api_login_response_too_large'')
         else json_loads up rb) =
     (if int (length b) > 65536 then Inl (RuntimeError ''sub2api_login_response_too_large'')
      else json_loads up b)" for b by (auto simp: Let_def min_def)
  show ?thesis unfolding read_login_reply_def MAX_LOGIN_RESPONSE_BYTES_def eq of_nat_numeral ..
qed

text \<open>
  C12. The account of a login is the account of the invite. If login answers normally, the
  gateway's answer has code zero and names as its user the very account that the database
  lookup resolved for the request, and that account, with role user, carries the
  fingerprint of the request's UUID and an e-mail address that equals the submitted one up
  to case. A gateway that authenticates another user is refused.
\<close>

theorem login_binds_identity:
  assumes "digest_env env" and "plain_users (db w)" and "login env up deadline payload w = (Inr reply, w')"
  shows "\<exists>uuid lg un fp u auth summary. payload_identity payload = Inr (uuid, lg, un)
    \<and> invite_owner_fingerprint env uuid = Inr fp \<and> owned_by (db w') u fp \<and> u_deleted u = None
    \<and> dget reply ''auth'' = PDict auth \<and> dget auth ''user'' = PDict summary
    \<and> dget summary ''id'' = PInt (u_id u)
    \<and> lower (strip (take 255 (u_email u))) = lower (strip (str_or_empty (dget payload ''email'')))"
proof -
  let ?email = "strip (str_or_empty (dget payload ''email''))"
  from assms(3) obtain uuid lg un rid uid w1 tmo w2 answer auth where
    p: "payload_identity payload = Inr (uuid, lg, un)"
    and tr: "with_transaction DEFAULT_DB_STATEMENT_TIMEOUT_MS (login_user env uuid lg un rid ?email) w = (Inr uid, w1)"
    and rt: "remaining_timeout deadline (LOGIN_UPSTREAM_TIMEOUT_SECONDS * 1000) w1 = (Inr tmo, w2)"
    and ck: "check_login_reply uid answer = Inr auth" and w': "w' = w2"
    and rep: "dget reply ''auth'' = PDict auth"
    by (auto simp: login_def act_bind_Inr Let_def dget_def split: if_splits)
  have "db w2 = db w1"
    using rt by (auto simp: remaining_timeout_def act_bind_Inr Let_def read_mono_def
        split: option.splits if_splits list.splits)
  obtain wa wb where tb: "db wa = db w" "login_user env uuid lg un rid ?email wa = (Inr uid, wb)" "db w1 = db wb"
    using with_transaction_Inr [OF tr] by blast
  from tb(2) obtain user wc email where
    res: "resolve_invite_user env uuid lg un rid 0 False (rid > 0) wa = (Inr user, wc)"
    and ne: "user \<noteq> []" and col: "column user 4 = Inr email" and same: "lower (strip email) = lower ?email"
    and tid: "text_int (user ! 0) = Inr uid" and wb: "wb = wc"
    by (auto simp: login_user_def act_bind_Inr split: if_splits)
  have "plain_users (db wa)" using assms(2) tb(1) by simp
  from resolve_invite_user_Inr [OF assms(1) this res ne] obtain u where
    "resolved_to env uuid [lg, un] False (rid > 0) wa wc user u" by blast
  then obtain fp where fp: "invite_owner_fingerprint env uuid = Inr fp" and row: "row_of_user (db wc) u user"
    and own: "owned_by (db wc) u fp" and live: "u_deleted u = None"
    unfolding resolved_to_def by auto
  have "user ! 0 = int_str (u_id u)" "email = take 255 (u_email u)"
    using row col by (auto simp: row_of_user_def invite_columns_nth column_def)
  then have uid: "uid = u_id u" "lower (strip (take 255 (u_email u))) = lower ?email"
    using tid same text_int_int_str_Inr by auto
  from ck obtain summary where "dget auth ''user'' = PDict summary" "dget summary ''id'' = PInt uid"
    using check_login_reply_Inr by blast
  with p fp own live rep uid show ?thesis
    unfolding w' \<open>db w2 = db w1\<close> tb(3) wb by blast
qed

definition example_upstream :: upstream where
  "example_upstream = \<lparr>post_login = (\<lambda>body t. HttpReply 200 [] (Inr [])),
     get_models = (\<lambda>url tok t. HttpRaises TimeoutError),
     json_loads = (\<lambda>b. Inr (PDict [(''code'', PInt 0), (''data'', PDict [(''access_token'', PStr ''t''),
        (''user'', PDict [(''id'', PInt 2)])])])),
     urlsplit = (\<lambda>u. Inl (ValueError []))\<rparr>"

definition example_login :: pydict where
  "example_login = [(''uuid'', PStr example_uuid), (''email'', PStr ''Alice@X.org''), (''loginPassword'', PStr ''secret'')]"

theorem login_binds_identity_witness:
  "\<exists>u auth summary. \<exists>w' :: world. owned_by (db w') u example_fingerprint \<and> dget auth ''user'' = PDict summary
     \<and> dget summary ''id'' = PInt (u_id u)"
proof -
  let ?run = "login example_env example_upstream None example_login (quiet_world example_keys)"
  obtain r w' where x: "?run = (r, w')" by (rule prod.exhaust)
  have "case fst ?run of Inl _ \<Rightarrow> False | Inr _ \<Rightarrow> True" by code_simp
  with x obtain reply where run: "?run = (Inr reply, w')" by (cases r) auto
  have plain: "plain_users (db (quiet_world example_keys))" by code_simp
  obtain uuid lg un fp u auth summary where
    "payload_identity example_login = Inr (uuid, lg, un)" "invite_owner_fingerprint example_env uuid = Inr fp"
    "owned_by (db w') u fp" "dget auth ''user'' = PDict summary" "dget summary ''id'' = PInt (u_id u)"
    using login_binds_identity [OF example_digest_env plain run] by (elim exE conjE) (rule that)
  moreover have "payload_identity example_login = Inr (example_uuid, ''u7c484f746d9'', ''u7c484f746d9'')"
    "invite_owner_fingerprint example_env example_uuid = Inr example_fingerprint" by code_simp+
  ultimately have "owned_by (db w') u example_fingerprint" "dget auth ''user'' = PDict summary"
    "dget summary ''id'' = PInt (u_id u)" by auto
  then show ?thesis by blast
qed

end
