(* ===== verification/Redis_Wire.thy ===== *)
theory Redis_Wire
  imports Psql_Rows
begin

text \<open>
  The Redis protocol as \<open>sub2api_sync.py\<close> (\<open>_redis_write\<close>, \<open>_redis_read\<close>) and
  \<open>migrate-redis-allowlist.py\<close> (\<open>encode_command\<close>, \<open>_read_reply\<close>) speak it, over a socket
  that is read without a buffer: one \<open>read\<close> is one \<open>recv\<close> and may return less than it was
  asked for. \<open>decode_command\<close>, a reader of the protocol's command frames, is the
  specification of the writers.
\<close>

section \<open>The unbuffered stream\<close>

text \<open>\<open>stream.read(n)\<close>: at the end of the stream it returns nothing, again and again; a
  silent peer is a time-out.\<close>

fun raw_read :: "nat \<Rightarrow> pipe_event list \<Rightarrow> bytes res \<times> pipe_event list" where
  "raw_read n [] = (if n = 0 then (Inr [], []) else (Inl TimeoutError, []))"
| "raw_read n (NotReady # evs) = (if n = 0 then (Inr [], NotReady # evs) else (Inl TimeoutError, NotReady # evs))"
| "raw_read n (EndOfFile # evs) = (Inr [], EndOfFile # evs)"
| "raw_read n (Chunk b # evs) =
     (if n = 0 then (Inr [], Chunk b # evs)
      else if b = [] then raw_read n evs
      else (Inr (take n b), (if drop n b = [] then evs else Chunk (drop n b) # evs)))"

definition events_size :: "pipe_event list \<Rightarrow> nat" where
  "events_size evs = length evs + length (concat (map (\<lambda>e. case e of Chunk b \<Rightarrow> b | _ \<Rightarrow> []) evs))"

lemma raw_read_size:
  "raw_read n evs = (Inr b, evs') \<Longrightarrow> b \<noteq> [] \<Longrightarrow> events_size evs' < events_size evs"
proof (induction n evs rule: raw_read.induct)
  case (4 n b' evs)
  show ?case
  proof (cases "n = 0 \<or> b' = []")
    case True
    with 4 show ?thesis by (auto simp: events_size_def split: if_splits)
  next
    case False
    with 4 have b: "b = take n b'" "evs' = (if drop n b' = [] then evs else Chunk (drop n b') # evs)"
      by simp_all
    have "length (drop n b') < length b'" using False by (cases b') auto
    with b show ?thesis by (auto simp: events_size_def)
  qed
qed (auto split: if_splits)

text \<open>\<open>stream.readline()\<close> of an unbuffered stream reads byte by byte, up to and with the
  line feed, or to the end of the stream, or to the limit.\<close>

function raw_readline :: "nat option \<Rightarrow> bytes \<Rightarrow> pipe_event list \<Rightarrow> bytes res \<times> pipe_event list" where
  "raw_readline limit acc evs =
     (if limit = Some (length acc) then (Inr acc, evs)
      else case raw_read 1 evs of
        (Inl e, evs') \<Rightarrow> (Inl e, evs')
      | (Inr b, evs') \<Rightarrow>
          (if b = [] then (Inr acc, evs')
           else if hd b = LF then (Inr (acc @ b), evs')
           else raw_readline limit (acc @ b) evs'))"
  by pat_completeness auto
termination
  by (relation "measure (\<lambda>(limit, acc, evs). events_size evs)") (auto dest: raw_read_size [OF sym])

declare raw_readline.simps [simp del]

section \<open>Frames\<close>

definition CRLF :: bytes where "CRLF = [CR, LF]"

definition resp_bulk :: "bytes \<Rightarrow> bytes" where
  "resp_bulk p = CHR ''$'' # nat_str (length p) @ CRLF @ p @ CRLF"

definition resp_array :: "bytes list \<Rightarrow> bytes" where
  "resp_array ps = CHR ''*'' # nat_str (length ps) @ CRLF @ concat (map resp_bulk ps)"

text \<open>\<open>_redis_write\<close>: the parts are texts; the time to live is written as a number.\<close>

definition redis_write :: "pystr list \<Rightarrow> bytes" where
  "redis_write parts = resp_array (map utf8 parts)"

text \<open>\<open>encode_command\<close> takes bytes, text and integers; anything else is a \<open>TypeError\<close>.\<close>

datatype command_arg = ArgBytes bytes | ArgText pystr | ArgInt int | ArgOther

fun encode_part :: "command_arg \<Rightarrow> bytes res" where
  "encode_part (ArgBytes b) = Inr b"
| "encode_part (ArgText s) = Inr (utf8 s)"
| "encode_part (ArgInt i) = Inr (int_str i)"
| "encode_part ArgOther = Inl TypeError"

definition encode_command :: "command_arg list \<Rightarrow> bytes res" where
  "encode_command parts = res_bind (res_map encode_part parts) (\<lambda>encoded. Inr (resp_array encoded))"

text \<open>The specification: how a server cuts a command frame.\<close>

definition number_line :: "bytes \<Rightarrow> (nat \<times> bytes) option" where
  "number_line s =
     (case partition_on CR s of
        (ds, True, c # rest) \<Rightarrow>
          if c = LF \<and> ds \<noteq> [] \<and> list_all is_digit ds then Some (digits_val ds, rest) else None
      | _ \<Rightarrow> None)"

definition cut_bulk :: "bytes \<Rightarrow> (bytes \<times> bytes) option" where
  "cut_bulk s =
     (case s of
        c # cs \<Rightarrow>
          if c \<noteq> CHR ''$'' then None
          else (case number_line cs of
             None \<Rightarrow> None
           | Some (n, rest) \<Rightarrow>
               if n + 2 \<le> length rest \<and> take 2 (drop n rest) = CRLF
               then Some (take n rest, drop (n + 2) rest) else None)
      | [] \<Rightarrow> None)"

fun cut_bulks :: "nat \<Rightarrow> bytes \<Rightarrow> (bytes list \<times> bytes) option" where
  "cut_bulks 0 s = Some ([], s)"
| "cut_bulks (Suc n) s =
     (case cut_bulk s of
        None \<Rightarrow> None
      | Some (p, rest) \<Rightarrow> (case cut_bulks n rest of None \<Rightarrow> None | Some (ps, r) \<Rightarrow> Some (p # ps, r)))"

definition decode_command :: "bytes \<Rightarrow> (bytes list \<times> bytes) option" where
  "decode_command s =
     (case s of
        c # cs \<Rightarrow> if c \<noteq> CHR ''*'' then None
                  else (case number_line cs of None \<Rightarrow> None | Some (n, rest) \<Rightarrow> cut_bulks n rest)
      | [] \<Rightarrow> None)"

lemma number_line_nat_str: "number_line (nat_str n @ CRLF @ rest) = Some (n, rest)"
proof -
  have "CR \<notin> set (nat_str n)" using nat_str_digits [of n] by (auto simp: is_digit_def)
  then have "partition_on CR (nat_str n @ CR # LF # rest) = (nat_str n, True, LF # rest)"
    by (rule partition_on_sep)
  then show ?thesis
    using nat_str_digits [of n] by (simp add: number_line_def CRLF_def list_all_iff)
qed

lemma cut_bulk_resp: "cut_bulk (resp_bulk p @ rest) = Some (p, rest)"
  using number_line_nat_str [of "length p" "p @ CRLF @ rest"]
  by (simp add: cut_bulk_def resp_bulk_def) (simp add: CRLF_def)

lemma cut_bulks_resp: "cut_bulks (length ps) (concat (map resp_bulk ps) @ rest) = Some (ps, rest)"
  by (induction ps) (simp_all add: cut_bulk_resp)

lemma decode_resp_array: "decode_command (resp_array ps @ rest) = Some (ps, rest)"
  using number_line_nat_str [of "length ps" "concat (map resp_bulk ps) @ rest"] cut_bulks_resp
  by (simp add: decode_command_def resp_array_def)

text \<open>
  A command is read by the server as exactly the parts it was built from. For every
  list of parts, whatever bytes they hold (line ends, dollar signs, whole frames), the
  frame that _redis_write sends decodes to these parts, and what follows on the connection
  is untouched, so no user name, password or key can smuggle in a second command.
\<close>

theorem redis_write_roundtrip:
  "decode_command (redis_write parts @ rest) = Some (map utf8 parts, rest)"
  by (simp add: redis_write_def decode_resp_array)

text \<open>
  The same for the migration's encode_command: whenever it accepts its arguments (bytes,
  text and integers), the frame decodes to their encodings one by one, and it refuses any
  list that holds an argument of another type.
\<close>

theorem encode_command_roundtrip:
  "(case encode_command parts of
      Inr frame \<Rightarrow> decode_command (frame @ rest) =
        Some (map (\<lambda>a. case a of ArgBytes b \<Rightarrow> b | ArgText s \<Rightarrow> utf8 s | ArgInt i \<Rightarrow> int_str i | ArgOther \<Rightarrow> []) parts, rest)
    | Inl e \<Rightarrow> e = TypeError \<and> ArgOther \<in> set parts)"
proof -
  let ?enc = "\<lambda>a. case a of ArgBytes b \<Rightarrow> b | ArgText s \<Rightarrow> utf8 s | ArgInt i \<Rightarrow> int_str i | ArgOther \<Rightarrow> []"
  have "res_map encode_part parts = (if ArgOther \<in> set parts then Inl TypeError else Inr (map ?enc parts))"
    by (induction parts) (auto split: command_arg.splits, (metis encode_part.simps command_arg.exhaust)?)
  then show ?thesis by (simp add: encode_command_def decode_resp_array)
qed

section \<open>Reading a reply in the sync service\<close>

datatype redis_value = RedisNil | RedisText pystr | RedisInt int

definition rstrip_crlf :: "bytes \<Rightarrow> bytes" where
  "rstrip_crlf line = rev (dropWhile (\<lambda>c. c = CR \<or> c = LF) (rev line))"

text \<open>\<open>decode\<close> is \<open>bytes.decode()\<close>, strict UTF-8.\<close>

definition redis_read ::
  "(bytes \<Rightarrow> pystr res) \<Rightarrow> pipe_event list \<Rightarrow> redis_value res \<times> pipe_event list" where
  "redis_read decode evs =
     (case raw_read 1 evs of
        (Inl e, evs1) \<Rightarrow> (Inl e, evs1)
      | (Inr marker, evs1) \<Rightarrow>
        (case raw_readline None [] evs1 of
           (Inl e, evs2) \<Rightarrow> (Inl e, evs2)
         | (Inr raw, evs2) \<Rightarrow>
           (let line = rstrip_crlf raw in
            if marker = ''+'' then (res_bind (decode line) (\<lambda>t. Inr (RedisText t)), evs2)
            else if marker = ''$'' then
              (case int_of_text line of
                 None \<Rightarrow> (Inl (ValueError ''invalid literal''), evs2)
               | Some n \<Rightarrow>
                   if n < 0 then (Inr RedisNil, evs2)
                   else (case raw_read (nat n) evs2 of
                      (Inl e, evs3) \<Rightarrow> (Inl e, evs3)
                    | (Inr v, evs3) \<Rightarrow>
                      (case raw_read 2 evs3 of
                         (Inl e, evs4) \<Rightarrow> (Inl e, evs4)
                       | (Inr _, evs4) \<Rightarrow> (res_bind (decode v) (\<lambda>t. Inr (RedisText t)), evs4))))
            else if marker = '':'' then
              (case int_of_text line of
                 None \<Rightarrow> (Inl (ValueError ''invalid literal''), evs2)
               | Some n \<Rightarrow> (Inr (RedisInt n), evs2))
            else if marker = ''-'' then (Inl (RuntimeError ''redis_command_failed''), evs2)
            else (Inl (RuntimeError ''redis_protocol_error''), evs2))))"

section \<open>Reading a reply in the migration\<close>

datatype reply = ReplyNil | ReplyBytes bytes | ReplyInt int | ReplyList "reply list"

definition MAX_DUMP_BYTES :: int where "MAX_DUMP_BYTES = 16777216"
definition MAX_KEYS :: int where "MAX_KEYS = 500000"

text \<open>A migration error, with its message. The connection is the stream and, for each check
  of the deadline, whether it has passed.\<close>

definition migration_error :: "pystr \<Rightarrow> pyexn" where
  "migration_error msg = RuntimeError msg"

type_synonym conn = "pipe_event list \<times> bool list"

definition check_deadline :: "conn \<Rightarrow> unit res \<times> conn" where
  "check_deadline c =
     (case snd c of
        True # ls \<Rightarrow> (Inl (migration_error ''Redis migration deadline exceeded''), (fst c, ls))
      | False # ls \<Rightarrow> (Inr (), (fst c, ls))
      | [] \<Rightarrow> (Inr (), c))"

text \<open>\<open>_readline\<close>: the limit is one MiB, and the line must end in CR LF.\<close>

definition reply_line :: "nat \<Rightarrow> pipe_event list \<Rightarrow> bytes res \<times> pipe_event list" where
  "reply_line limit evs =
     (case raw_readline (Some (limit + 1)) [] evs of
        (Inl e, evs') \<Rightarrow> (Inl e, evs')
      | (Inr line, evs') \<Rightarrow>
          (if line = [] \<or> length line > limit \<or> \<not> suffix CRLF line
           then (Inl (migration_error ''invalid Redis response''), evs')
           else (Inr (take (length line - 2) line), evs')))"

text \<open>\<open>[self._read_reply() for _ in range(n)]\<close>.\<close>

fun read_many :: "(conn \<Rightarrow> 'a res \<times> conn) \<Rightarrow> nat \<Rightarrow> conn \<Rightarrow> 'a list res \<times> conn" where
  "read_many rd 0 c = (Inr [], c)"
| "read_many rd (Suc n) c =
     (case rd c of
        (Inl e, c1) \<Rightarrow> (Inl e, c1)
      | (Inr r, c1) \<Rightarrow>
          (case read_many rd n c1 of (Inl e, c2) \<Rightarrow> (Inl e, c2) | (Inr rs, c2) \<Rightarrow> (Inr (r # rs), c2)))"

definition number_reply ::
  "nat \<Rightarrow> pystr \<Rightarrow> pipe_event list \<Rightarrow> int res \<times> pipe_event list" where
  "number_reply limit msg evs =
     (case reply_line limit evs of
        (Inl e, evs') \<Rightarrow> (Inl e, evs')
      | (Inr line, evs') \<Rightarrow>
          (case int_of_text line of None \<Rightarrow> (Inl (migration_error msg), evs') | Some i \<Rightarrow> (Inr i, evs')))"

definition bulk_reply :: "int \<Rightarrow> pipe_event list \<Rightarrow> reply res \<times> pipe_event list" where
  "bulk_reply n evs =
     (if n = -1 then (Inr ReplyNil, evs)
      else if n < 0 \<or> n > MAX_DUMP_BYTES
      then (Inl (migration_error ''Redis value exceeds the migration limit''), evs)
      else (case raw_read (nat n) evs of
         (Inl e, evs1) \<Rightarrow> (Inl e, evs1)
       | (Inr v, evs1) \<Rightarrow>
         (case raw_read 2 evs1 of
            (Inl e, evs2) \<Rightarrow> (Inl e, evs2)
          | (Inr trailer, evs2) \<Rightarrow>
              (if int (length v) \<noteq> n \<or> trailer \<noteq> CRLF
               then (Inl (migration_error ''truncated Redis bulk response''), evs2)
               else (Inr (ReplyBytes v), evs2)))))"

text \<open>The first argument is how much of Python's recursion limit is left; nesting deeper than
  that raises \<open>RecursionError\<close>, a \<open>RuntimeError\<close>. \<open>limit\<close> is the line limit, 1024 * 1024.\<close>

fun read_reply :: "nat \<Rightarrow> nat \<Rightarrow> conn \<Rightarrow> reply res \<times> conn" where
  "read_reply limit 0 c = (Inl (RuntimeError ''maximum recursion depth exceeded''), c)"
| "read_reply limit (Suc k) c =
     (case check_deadline c of
        (Inl e, c0) \<Rightarrow> (Inl e, c0)
      | (Inr _, (evs, late)) \<Rightarrow>
        (case raw_read 1 evs of
           (Inl e, evs1) \<Rightarrow> (Inl e, (evs1, late))
         | (Inr marker, evs1) \<Rightarrow>
           (if marker = ''+'' then
              (case reply_line limit evs1 of
                 (Inl e, evs2) \<Rightarrow> (Inl e, (evs2, late))
               | (Inr l, evs2) \<Rightarrow> (Inr (ReplyBytes l), (evs2, late)))
            else if marker = ''-'' then
              (case reply_line limit evs1 of
                 (Inl e, evs2) \<Rightarrow> (Inl e, (evs2, late))
               | (Inr _, evs2) \<Rightarrow> (Inl (migration_error ''Redis command was rejected''), (evs2, late)))
            else if marker = '':'' then
              (case number_reply limit ''invalid Redis integer response'' evs1 of
                 (Inl e, evs2) \<Rightarrow> (Inl e, (evs2, late))
               | (Inr i, evs2) \<Rightarrow> (Inr (ReplyInt i), (evs2, late)))
            else if marker = ''$'' then
              (case number_reply limit ''invalid Redis bulk response'' evs1 of
                 (Inl e, evs2) \<Rightarrow> (Inl e, (evs2, late))
               | (Inr n, evs2) \<Rightarrow>
                   (case bulk_reply n evs2 of (r, evs3) \<Rightarrow> (r, (evs3, late))))
            else if marker = ''*'' then
              (case number_reply limit ''invalid Redis array response'' evs1 of
                 (Inl e, evs2) \<Rightarrow> (Inl e, (evs2, late))
               | (Inr n, evs2) \<Rightarrow>
                   (if n = -1 then (Inr ReplyNil, (evs2, late))
                    else if n < 0 \<or> n > MAX_KEYS + 16
                    then (Inl (migration_error ''Redis array response exceeds the migration limit''), (evs2, late))
                    else (case read_many (read_reply limit k) (nat n) (evs2, late) of
                       (Inl e, c2) \<Rightarrow> (Inl e, c2)
                     | (Inr rs, c2) \<Rightarrow> (Inr (ReplyList rs), c2))))
            else (Inl (migration_error ''unsupported Redis response''), (evs1, late)))))"

section \<open>Round trips\<close>

definition all_chunks :: "bytes list \<Rightarrow> bool" where
  "all_chunks bs \<longleftrightarrow> (\<forall>b \<in> set bs. b \<noteq> [])"

lemma raw_read_one:
  assumes "concat bs = c # s" and "all_chunks bs"
  shows "\<exists>bs'. raw_read (Suc 0) (map Chunk bs @ tail) = (Inr [c], map Chunk bs' @ tail)
    \<and> concat bs' = s \<and> all_chunks bs'"
proof -
  obtain b bs1 where bs: "bs = b # bs1" using assms(1) by (cases bs) auto
  then obtain b1 where b: "b = c # b1" using assms by (cases b) (auto simp: all_chunks_def)
  show ?thesis
    by (rule exI [of _ "if b1 = [] then bs1 else b1 # bs1"])
       (use assms bs b in \<open>auto simp: all_chunks_def\<close>)
qed

lemma raw_readline_chunks:
  assumes "concat bs = line @ LF # rest" and "all_chunks bs" and "LF \<notin> set line"
    and "case limit of None \<Rightarrow> True | Some n \<Rightarrow> length acc + length line < n"
  shows "\<exists>bs'. raw_readline limit acc (map Chunk bs @ tail) = (Inr (acc @ line @ [LF]), map Chunk bs' @ tail)
    \<and> concat bs' = rest \<and> all_chunks bs'"
  using assms
proof (induction line arbitrary: acc bs)
  case Nil
  then have "concat bs = LF # rest" by simp
  from raw_read_one [OF this Nil.prems(2), of tail] Nil.prems(4) show ?case
    by (auto simp: raw_readline.simps [of _ acc])
next
  case (Cons c line)
  from Cons.prems(1) have "concat bs = c # (line @ LF # rest)" by simp
  from raw_read_one [OF this Cons.prems(2), of tail] obtain bs1 where
    r: "raw_read (Suc 0) (map Chunk bs @ tail) = (Inr [c], map Chunk bs1 @ tail)"
    and bs1: "concat bs1 = line @ LF # rest" "all_chunks bs1" by blast
  have "LF \<notin> set line" "case limit of None \<Rightarrow> True | Some n \<Rightarrow> length (acc @ [c]) + length line < n"
    using Cons.prems(3,4) by (auto split: option.splits)
  from Cons.IH [OF bs1 this] obtain bs' where
    "raw_readline limit (acc @ [c]) (map Chunk bs1 @ tail) = (Inr ((acc @ [c]) @ line @ [LF]), map Chunk bs' @ tail)"
    "concat bs' = rest" "all_chunks bs'" by blast
  then show ?case
    using r Cons.prems(3,4) by (intro exI [of _ bs']) (auto simp: raw_readline.simps [of _ acc])
qed

text \<open>The replies that fit on a line, as the server sends them.\<close>

datatype line_reply = LineText bytes | LineInt int | LineNil | LineError bytes

fun encode_line :: "line_reply \<Rightarrow> bytes" where
  "encode_line (LineText t) = CHR ''+'' # t @ CRLF"
| "encode_line (LineInt i) = CHR '':'' # int_str i @ CRLF"
| "encode_line LineNil = ''$-1'' @ CRLF"
| "encode_line (LineError t) = CHR ''-'' # t @ CRLF"

lemma rstrip_crlf_line: "CR \<notin> set t \<Longrightarrow> LF \<notin> set t \<Longrightarrow> rstrip_crlf (t @ [CR, LF]) = t"
proof -
  assume "CR \<notin> set t" "LF \<notin> set t"
  then have "\<forall>c \<in> set t. \<not> (c = CR \<or> c = LF)" by auto
  then have "dropWhile (\<lambda>c. c = CR \<or> c = LF) (rev t) = rev t" by (cases "rev t") (auto simp: rev_eq_Cons_iff)
  then show ?thesis by (simp add: rstrip_crlf_def)
qed

lemma length_nat_str: "n < 10 ^ k \<Longrightarrow> 0 < k \<Longrightarrow> length (nat_str n) \<le> k"
proof (induction k arbitrary: n)
  case 0
  then show ?case by simp
next
  case (Suc k)
  show ?case
  proof (cases "n < 10")
    case True
    then show ?thesis by (simp add: nat_str.simps [of n])
  next
    case False
    then have "k \<noteq> 0" using Suc.prems by (cases k) auto
    moreover have "n div 10 < 10 ^ k" using Suc.prems by (simp add: less_mult_imp_div_less mult.commute)
    ultimately have "length (nat_str (n div 10)) \<le> k" using Suc.IH by simp
    then show ?thesis using False by (simp add: nat_str.simps [of n])
  qed
qed

lemma int_str_length: "\<bar>i\<bar> < 2 ^ 63 \<Longrightarrow> length (int_str i) \<le> 20"
proof -
  assume "\<bar>i\<bar> < 2 ^ 63"
  then have "nat \<bar>i\<bar> < 10 ^ 19" by simp
  from length_nat_str [OF this] show ?thesis by (auto simp: int_str_def)
qed

lemma int_str_chars: "c \<in> set (int_str i) \<Longrightarrow> is_digit c \<or> c = CHR ''-''"
  using nat_str_digits by (auto simp: int_str_def split: if_splits)

lemma int_str_no_crlf: "CR \<notin> set (int_str i)" "LF \<notin> set (int_str i)"
  using int_str_chars [of CR i] int_str_chars [of LF i] by (auto simp: is_digit_def)

lemma int_of_text_int_str_exact:
  assumes "\<bar>i\<bar> < 2 ^ 63" shows "int_of_text (int_str i) = Some i"
proof -
  have sp: "strip (int_str i) = int_str i"
    using int_str_chars digit_not_space by (intro strip_no_space) (fastforce simp: is_space_def)
  have len: "length (nat_str (nat \<bar>i\<bar>)) \<le> 4300"
  proof -
    have "nat \<bar>i\<bar> < 10 ^ 19" using assms by simp
    from length_nat_str [OF this] show ?thesis by simp
  qed
  show ?thesis
  proof (cases "i < 0")
    case True
    then have s: "int_str i = CHR ''-'' # nat_str (nat (- i))" by (simp add: int_str_def)
    have "list_all is_digit (nat_str (nat (- i)))" using nat_str_digits by (simp add: list_all_iff)
    then have "int_digits (nat_str (nat (- i))) = Some (digits_val (nat_str (nat (- i))))"
      using len True by (intro int_digits_plain) simp_all
    with s sp True show ?thesis by (simp add: int_of_text_def)
  next
    case False
    then have s: "int_str i = nat_str (nat i)" by (simp add: int_str_def)
    with False len int_of_text_nat_str [of "nat i"] show ?thesis by simp
  qed
qed

definition line_ok :: "line_reply \<Rightarrow> bool" where
  "line_ok r = (case r of
      LineText t \<Rightarrow> CR \<notin> set t \<and> LF \<notin> set t
    | LineInt i \<Rightarrow> \<bar>i\<bar> < 2 ^ 63
    | LineNil \<Rightarrow> True
    | LineError t \<Rightarrow> CR \<notin> set t \<and> LF \<notin> set t)"

definition line_value :: "(bytes \<Rightarrow> pystr res) \<Rightarrow> line_reply \<Rightarrow> redis_value res" where
  "line_value decode r = (case r of
      LineText t \<Rightarrow> res_bind (decode t) (\<lambda>x. Inr (RedisText x))
    | LineInt i \<Rightarrow> Inr (RedisInt i)
    | LineNil \<Rightarrow> Inr RedisNil
    | LineError _ \<Rightarrow> Inl (RuntimeError ''redis_command_failed''))"

definition line_parts :: "line_reply \<Rightarrow> char \<times> bytes" where
  "line_parts r = (case r of
      LineText t \<Rightarrow> (CHR ''+'', t)
    | LineInt i \<Rightarrow> (CHR '':'', int_str i)
    | LineNil \<Rightarrow> (CHR ''$'', ''-1'')
    | LineError t \<Rightarrow> (CHR ''-'', t))"

lemma encode_line_parts: "encode_line r = fst (line_parts r) # snd (line_parts r) @ CRLF"
  by (cases r) (simp_all add: line_parts_def)

lemma line_parts_ok: "line_ok r \<Longrightarrow> CR \<notin> set (snd (line_parts r)) \<and> LF \<notin> set (snd (line_parts r))"
  by (cases r) (auto simp: line_ok_def line_parts_def int_str_no_crlf)

text \<open>
  A reply that fits on a line is understood however the network cuts it. For every
  status text, error, 64-bit integer or nil reply of the server, and every way its bytes,
  and those of what follows, arrive in pieces, _redis_read returns the value (or raises for
  an error reply) and leaves exactly what follows on the stream.
\<close>

theorem redis_read_line_reply:
  assumes "concat bs = encode_line r @ rest" and "all_chunks bs" and "line_ok r"
  shows "\<exists>bs'. redis_read decode (map Chunk bs @ tail) = (line_value decode r, map Chunk bs' @ tail)
    \<and> concat bs' = rest"
proof -
  obtain m t where p: "line_parts r = (m, t)" by (rule prod.exhaust)
  have t: "CR \<notin> set t" "LF \<notin> set t" using line_parts_ok [OF assms(3)] p by auto
  have "concat bs = m # (t @ [CR]) @ LF # rest"
    using assms(1) p by (simp add: encode_line_parts CRLF_def)
  from raw_read_one [OF this assms(2), of tail] obtain bs1 where
    r1: "raw_read (Suc 0) (map Chunk bs @ tail) = (Inr [m], map Chunk bs1 @ tail)"
    and bs1: "concat bs1 = (t @ [CR]) @ LF # rest" "all_chunks bs1" by blast
  have "LF \<notin> set (t @ [CR])" using t by simp
  from raw_readline_chunks [OF bs1 this, where limit = None and acc = "[]" and tail = tail] obtain bs2 where
    r2: "raw_readline None [] (map Chunk bs1 @ tail) = (Inr (t @ [CR, LF]), map Chunk bs2 @ tail)"
    and bs2: "concat bs2 = rest" by auto
  have line: "rstrip_crlf (t @ [CR, LF]) = t" using rstrip_crlf_line [OF t] .
  have minus: "int_of_text ''-1'' = Some (-1)" by code_simp
  have "redis_read decode (map Chunk bs @ tail) = (line_value decode r, map Chunk bs2 @ tail)"
    using p assms(3) int_of_text_int_str_exact
    by (cases r) (auto simp: redis_read_def r1 r2 line line_parts_def line_value_def line_ok_def minus Let_def)
  with bs2 show ?thesis by blast
qed

theorem redis_read_line_reply_witness:
  "\<exists>bs'. redis_read Inr (map Chunk [''+'', ''O'', ''K'' @ [CR], [LF, CHR ''$'']] @ [])
     = (Inr (RedisText ''OK''), map Chunk bs' @ []) \<and> concat bs' = ''$''"
proof -
  have "concat [''+'', ''O'', ''K'' @ [CR], [LF, CHR ''$'']] = encode_line (LineText ''OK'') @ ''$''"
    by (simp add: CRLF_def)
  moreover have "all_chunks [''+'', ''O'', ''K'' @ [CR], [LF, CHR ''$'']]" by (simp add: all_chunks_def)
  moreover have "line_ok (LineText ''OK'')" by (simp add: line_ok_def)
  ultimately have "\<exists>bs'. redis_read Inr (map Chunk [''+'', ''O'', ''K'' @ [CR], [LF, CHR ''$'']] @ [])
     = (line_value Inr (LineText ''OK''), map Chunk bs' @ []) \<and> concat bs' = ''$''"
    by (rule redis_read_line_reply)
  then show ?thesis by (simp add: line_value_def)
qed

text \<open>
  A bulk reply is not: when its bytes arrive in two pieces the unbuffered read returns
  the first piece, and _redis_read answers with the truncated text, without an error, having
  dropped two more bytes. The migration's reader refuses the same bytes as truncated.
\<close>

theorem redis_read_truncates_bulk:
  "redis_read Inr [Chunk (''$5'' @ [CR, LF]), Chunk ''he'', Chunk (''llo'' @ [CR, LF])]
     = (Inr (RedisText ''he''), [Chunk (''o'' @ [CR, LF])]) \<and>
   fst (read_reply 100 5 ([Chunk (''$5'' @ [CR, LF]), Chunk ''he'', Chunk (''llo'' @ [CR, LF])], []))
     = Inl (migration_error ''truncated Redis bulk response'')"
  by code_simp

section \<open>Nested replies\<close>

text \<open>The bytes \<open>rest\<close> of a chunk, before the events \<open>evs\<close>.\<close>

definition push :: "bytes \<Rightarrow> pipe_event list \<Rightarrow> pipe_event list" where
  "push rest evs = (if rest = [] then evs else Chunk rest # evs)"

fun encode_reply :: "reply \<Rightarrow> bytes" where
  "encode_reply ReplyNil = ''$-1'' @ CRLF"
| "encode_reply (ReplyBytes b) = resp_bulk b"
| "encode_reply (ReplyInt i) = CHR '':'' # int_str i @ CRLF"
| "encode_reply (ReplyList rs) = CHR ''*'' # nat_str (length rs) @ CRLF @ concat (map encode_reply rs)"

text \<open>What the reader accepts: nesting within its recursion limit, sizes within its bounds.\<close>

fun reply_fits :: "nat \<Rightarrow> reply \<Rightarrow> bool" where
  "reply_fits 0 r = False"
| "reply_fits (Suc k) r = (case r of
      ReplyNil \<Rightarrow> True
    | ReplyBytes b \<Rightarrow> int (length b) \<le> MAX_DUMP_BYTES
    | ReplyInt i \<Rightarrow> \<bar>i\<bar> < 2 ^ 63
    | ReplyList rs \<Rightarrow> int (length rs) \<le> MAX_KEYS + 16 \<and> list_all (reply_fits k) rs)"

lemma raw_read_push: "raw_read (Suc 0) (push (c # s) evs) = (Inr [c], push s evs)"
  by (simp add: push_def)

lemma raw_read_zero [simp]: "raw_read 0 evs = (Inr [], evs)"
  by (cases evs) (auto intro: pipe_event.exhaust simp: raw_read.simps, metis pipe_event.exhaust raw_read.simps)

lemma raw_read_push_n: "s \<noteq> [] \<Longrightarrow> raw_read (length v) (push (v @ s) evs) = (Inr v, push s evs)"
  by (cases "v = []") (simp_all add: push_def)

lemma raw_readline_push:
  "LF \<notin> set line \<Longrightarrow> length acc + length line < n \<Longrightarrow>
   raw_readline (Some n) acc (push (line @ LF # rest) evs) = (Inr (acc @ line @ [LF]), push rest evs)"
proof (induction line arbitrary: acc)
  case Nil
  then show ?case by (simp add: raw_readline.simps [of _ acc] raw_read_push)
next
  case (Cons c line)
  then show ?case by (auto simp: raw_readline.simps [of _ acc] raw_read_push)
qed

lemma reply_line_push:
  assumes "LF \<notin> set t" and "length t + 2 \<le> limit"
  shows "reply_line limit (push (t @ CRLF @ rest) evs) = (Inr t, push rest evs)"
proof -
  have "raw_readline (Some (limit + 1)) [] (push ((t @ [CR]) @ LF # rest) evs)
      = (Inr ([] @ (t @ [CR]) @ [LF]), push rest evs)"
    using assms by (intro raw_readline_push) auto
  then have "raw_readline (Some (limit + 1)) [] (push (t @ CRLF @ rest) evs) = (Inr (t @ CRLF), push rest evs)"
    by (simp add: CRLF_def)
  then show ?thesis using assms by (simp add: reply_line_def) (simp add: CRLF_def suffix_def)
qed

lemma number_reply_push:
  assumes "\<bar>i\<bar> < 2 ^ 63" and "22 \<le> limit"
  shows "number_reply limit msg (push (int_str i @ CRLF @ rest) evs) = (Inr i, push rest evs)"
proof -
  have "length (int_str i) + 2 \<le> limit" using int_str_length [OF assms(1)] assms(2) by simp
  from reply_line_push [OF int_str_no_crlf(2) this] int_of_text_int_str_exact [OF assms(1)]
  show ?thesis by (simp add: number_reply_def)
qed

lemma bulk_reply_push:
  assumes "int (length b) \<le> MAX_DUMP_BYTES"
  shows "bulk_reply (int (length b)) (push (b @ CRLF @ rest) evs) = (Inr (ReplyBytes b), push rest evs)"
proof -
  have "raw_read (length b) (push (b @ CRLF @ rest) evs) = (Inr b, push (CRLF @ rest) evs)"
    by (rule raw_read_push_n) (simp add: CRLF_def)
  moreover have "raw_read 2 (push (CRLF @ rest) evs) = (Inr CRLF, push rest evs)"
    by (simp add: CRLF_def push_def)
  ultimately show ?thesis using assms by (simp add: bulk_reply_def)
qed

lemma read_many_push:
  assumes "\<And>r rest. r \<in> set rs \<Longrightarrow> rd (push (encode_reply r @ rest) evs, []) = (Inr r, (push rest evs, []))"
  shows "read_many rd (length rs) (push (concat (map encode_reply rs) @ rest) evs, [])
    = (Inr rs, (push rest evs, []))"
  using assms by (induction rs) simp_all

lemma read_reply_push:
  "reply_fits k r \<Longrightarrow> 22 \<le> limit \<Longrightarrow>
   read_reply limit k (push (encode_reply r @ rest) evs, []) = (Inr r, (push rest evs, []))"
proof (induction k arbitrary: r rest)
  case 0
  then show ?case by simp
next
  case (Suc k)
  note lim = \<open>22 \<le> limit\<close>
  show ?case
  proof (cases r)
    case ReplyNil
    have "int_str (-1) = ''-1''" by code_simp
    with number_reply_push [of "-1" limit "''invalid Redis bulk response''" rest evs] lim
    have "number_reply limit ''invalid Redis bulk response'' (push (''-1'' @ CRLF @ rest) evs) = (Inr (-1), push rest evs)"
      by simp
    then show ?thesis using ReplyNil by (simp add: check_deadline_def raw_read_push bulk_reply_def)
  next
    case (ReplyBytes b)
    then have b: "int (length b) \<le> MAX_DUMP_BYTES" using Suc.prems by simp
    then have "\<bar>int (length b)\<bar> < 2 ^ 63" by (simp add: MAX_DUMP_BYTES_def)
    from number_reply_push [OF this lim, of "''invalid Redis bulk response''" "b @ CRLF @ rest" evs]
    have "number_reply limit ''invalid Redis bulk response'' (push (nat_str (length b) @ CRLF @ b @ CRLF @ rest) evs)
        = (Inr (int (length b)), push (b @ CRLF @ rest) evs)" by (simp add: int_str_def)
    then show ?thesis using ReplyBytes bulk_reply_push [OF b]
      by (simp add: check_deadline_def raw_read_push resp_bulk_def)
  next
    case (ReplyInt i)
    then have "\<bar>i\<bar> < 2 ^ 63" using Suc.prems by simp
    from number_reply_push [OF this lim] show ?thesis
      using ReplyInt by (simp add: check_deadline_def raw_read_push)
  next
    case (ReplyList rs)
    then have n: "int (length rs) \<le> MAX_KEYS + 16" and rs: "\<And>r. r \<in> set rs \<Longrightarrow> reply_fits k r"
      using Suc.prems by (auto simp: list_all_iff)
    from n have "\<bar>int (length rs)\<bar> < 2 ^ 63" by (simp add: MAX_KEYS_def)
    from number_reply_push [OF this lim, of "''invalid Redis array response''" "concat (map encode_reply rs) @ rest" evs]
    have "number_reply limit ''invalid Redis array response''
        (push (nat_str (length rs) @ CRLF @ concat (map encode_reply rs) @ rest) evs)
        = (Inr (int (length rs)), push (concat (map encode_reply rs) @ rest) evs)" by (simp add: int_str_def)
    moreover have "read_many (read_reply limit k) (length rs) (push (concat (map encode_reply rs) @ rest) evs, [])
        = (Inr rs, (push rest evs, []))"
      using Suc.IH [OF rs lim] by (intro read_many_push) blast
    ultimately show ?thesis using ReplyList n
      by (simp add: check_deadline_def raw_read_push)
  qed
qed



end
