(* ===== verification/Auth.thy ===== *)
theory Auth
  imports Invite Redis_Wire
begin

text \<open>
  The authentication of requests in \<open>sub2api_sync.py\<close>: the HMAC signature over time stamp,
  nonce and body, the clock window, and the nonce that Redis remembers
  (\<open>verify_request\<close>, \<open>claim_nonce\<close>, \<open>redis_command\<close>). The Redis server is behind the
  interface \<open>nonce_server\<close>: what a \<open>SET ... NX EX\<close> promises.
\<close>

definition SIGNATURE_MAX_SKEW_SECONDS :: int where "SIGNATURE_MAX_SKEW_SECONDS = 300"

definition NONCE_TTL_SECONDS :: int where
  "NONCE_TTL_SECONDS = SIGNATURE_MAX_SKEW_SECONDS * 2 + 1"

section \<open>One Redis session\<close>

text \<open>\<open>redis_command\<close> on a fresh connection: the frames it writes, in order, and what it
  returns. The stream of the connection is \<open>evs\<close>.\<close>

definition redis_login_frames :: "environ \<Rightarrow> pystr list list" where
  "redis_login_frames env =
     (let username = env_get env ''SUB2API_SYNC_REDIS_USERNAME'' [];
          password = env_get env ''SUB2API_SYNC_REDIS_PASSWORD'' [];
          database = env_int env ''SUB2API_SYNC_REDIS_DB'' 0
      in (if password = [] then []
          else if username \<noteq> [] then [[''AUTH'', username, password]] else [[''AUTH'', password]])
         @ (if database \<noteq> 0 then [[''SELECT'', int_str database]] else []))"

fun redis_exchange ::
  "(bytes \<Rightarrow> pystr res) \<Rightarrow> pystr list list \<Rightarrow> pystr list \<Rightarrow> pipe_event list \<Rightarrow> redis_value res \<times> pystr list list" where
  "redis_exchange decode [] parts evs = (fst (redis_read decode evs), [parts])"
| "redis_exchange decode (f # fs) parts evs =
     (case redis_read decode evs of
        (Inl e, _) \<Rightarrow> (Inl e, [f])
      | (Inr _, evs') \<Rightarrow> (case redis_exchange decode fs parts evs' of (r, sent) \<Rightarrow> (r, f # sent)))"

definition redis_command ::
  "environ \<Rightarrow> (bytes \<Rightarrow> pystr res) \<Rightarrow> pystr list \<Rightarrow> pipe_event list \<Rightarrow> redis_value res \<times> pystr list list" where
  "redis_command env decode parts evs =
     (if env_get env ''SUB2API_SYNC_REDIS_USERNAME'' [] \<noteq> []
         \<and> env_get env ''SUB2API_SYNC_REDIS_PASSWORD'' [] = []
      then (Inl (RuntimeError ''redis_configuration_invalid''), [])
      else redis_exchange decode (redis_login_frames env) parts evs)"

lemma redis_exchange_sent:
  "redis_exchange decode fs parts evs = (r, sent) \<Longrightarrow>
   sent = fs @ [parts] \<or> (prefix sent fs \<and> (\<exists>e. r = Inl e))"
proof (induction fs arbitrary: evs r sent)
  case (Cons f fs)
  then show ?case by (fastforce split: prod.splits sum.splits)
qed auto

text \<open>
  A Redis command is sent only on a session that was set up: what redis_command writes
  on the connection is either the AUTH frame (when a password is configured) and the SELECT
  frame (when a database is configured) followed by the command itself, or a prefix of the
  set-up frames, and then it raises. So no command runs unauthenticated or in the wrong
  database.
\<close>

theorem redis_command_after_setup:
  "snd (redis_command env decode parts evs) = redis_login_frames env @ [parts] \<or>
   (prefix (snd (redis_command env decode parts evs)) (redis_login_frames env)
    \<and> (\<exists>e. fst (redis_command env decode parts evs) = Inl e))"
  using redis_exchange_sent [OF surjective_pairing] by (auto simp: redis_command_def)

section \<open>The nonce store\<close>

text \<open>
  The interface of the Redis server, as far as the service relies on it. \<open>redis t cmd s\<close> is
  the command executed at time \<open>t\<close> (milliseconds of the server's clock) in state \<open>s\<close>, or a
  failure of the connection before or after it; \<open>until s k\<close> is when the key \<open>k\<close> expires.
\<close>

definition set_nonce :: "pystr \<Rightarrow> pystr list" where
  "set_nonce k = [''SET'', k, ''1'', ''NX'', ''EX'', int_str NONCE_TTL_SECONDS]"

locale nonce_server =
  fixes redis :: "int \<Rightarrow> pystr list \<Rightarrow> 's \<Rightarrow> redis_value res \<times> 's"
    and until :: "'s \<Rightarrow> pystr \<Rightarrow> int option"
  assumes set_free: "redis t (set_nonce k) s = (Inr (RedisText ''OK''), s') \<Longrightarrow>
      until s k = Some u \<Longrightarrow> u \<le> t"
    and set_expiry: "redis t (set_nonce k) s = (Inr (RedisText ''OK''), s') \<Longrightarrow>
      until s' k = Some (t + NONCE_TTL_SECONDS * 1000)"
    and set_keeps: "redis t (set_nonce k') s = (r, s') \<Longrightarrow>
      until s k = Some u \<Longrightarrow> t < u \<Longrightarrow> until s' k = Some u"

definition claim_nonce ::
  "(bytes \<Rightarrow> pystr) \<Rightarrow> (pystr list \<Rightarrow> 's \<Rightarrow> redis_value res \<times> 's) \<Rightarrow> pystr \<Rightarrow> 's \<Rightarrow> bool res \<times> 's" where
  "claim_nonce sha256_hex redis nonce s =
     (let nonce_key = ''sub2api-sync:nonce:'' @ sha256_hex (utf8 nonce)
      in case redis (set_nonce nonce_key) s of
           (Inl e, s') \<Rightarrow> (Inl e, s')
         | (Inr v, s') \<Rightarrow> (Inr (v = RedisText ''OK''), s'))"

section \<open>verify_request\<close>

text \<open>\<open>[1-9][0-9]{9,12}\<close>, \<open>[0-9a-f]{32}\<close> and \<open>[0-9a-f]{64}\<close>.\<close>

definition is_timestamp :: "pystr \<Rightarrow> bool" where
  "is_timestamp s \<longleftrightarrow> is_positive_decimal s \<and> 10 \<le> length s \<and> length s \<le> 13"

definition is_nonce :: "pystr \<Rightarrow> bool" where
  "is_nonce s \<longleftrightarrow> length s = 32 \<and> list_all is_hex s"

definition is_signature :: "pystr \<Rightarrow> bool" where
  "is_signature s \<longleftrightarrow> length s = 64 \<and> list_all is_hex s"

definition signed_message :: "pystr \<Rightarrow> pystr \<Rightarrow> bytes \<Rightarrow> bytes" where
  "signed_message timestamp nonce body = utf8 timestamp @ ''.'' @ utf8 nonce @ ''.'' @ body"

type_synonym headers = "pystr \<Rightarrow> pystr option"

definition header_or_empty :: "headers \<Rightarrow> pystr \<Rightarrow> pystr" where
  "header_or_empty h name = (case h name of None \<Rightarrow> [] | Some v \<Rightarrow> v)"

text \<open>\<open>clock\<close> is \<open>time.time()\<close> in milliseconds.\<close>

definition verify_request ::
  "sync_env \<Rightarrow> (bytes \<Rightarrow> pystr) \<Rightarrow> (pystr list \<Rightarrow> 's \<Rightarrow> redis_value res \<times> 's) \<Rightarrow> headers \<Rightarrow> bytes \<Rightarrow> int
    \<Rightarrow> 's \<Rightarrow> bool res \<times> 's" where
  "verify_request env sha256_hex redis headers body clock s =
     (case get_secret env of
        Inl e \<Rightarrow> (Inl e, s)
      | Inr secret \<Rightarrow>
          (let timestamp = header_or_empty headers ''x-sub2api-sync-timestamp'';
               nonce = header_or_empty headers ''x-sub2api-sync-nonce'';
               signature = header_or_empty headers ''x-sub2api-sync-signature''
           in if \<not> is_timestamp timestamp \<or> \<not> is_nonce nonce \<or> \<not> is_signature signature
              then (Inr False, s)
              else let now = clock div 1000; request_time = int (digits_val timestamp)
              in if \<bar>now - request_time\<bar> > SIGNATURE_MAX_SKEW_SECONDS then (Inr False, s)
                 else let expected = hmac_hex env secret (signed_message timestamp nonce body)
                 in case compare_digest expected signature of
                      Inl e \<Rightarrow> (Inl e, s)
                    | Inr same \<Rightarrow>
                        if \<not> same then (Inr False, s)
                        else claim_nonce sha256_hex redis nonce s))"

text \<open>What an accepted request has shown.\<close>

definition request_signed :: "sync_env \<Rightarrow> headers \<Rightarrow> bytes \<Rightarrow> int \<Rightarrow> bool" where
  "request_signed env headers body clock \<longleftrightarrow>
     (\<exists>secret. get_secret env = Inr secret \<and>
       is_timestamp (header_or_empty headers ''x-sub2api-sync-timestamp'') \<and>
       is_nonce (header_or_empty headers ''x-sub2api-sync-nonce'') \<and>
       \<bar>clock div 1000 - int (digits_val (header_or_empty headers ''x-sub2api-sync-timestamp''))\<bar> \<le> 300 \<and>
       header_or_empty headers ''x-sub2api-sync-signature'' =
         hmac_hex env secret (signed_message (header_or_empty headers ''x-sub2api-sync-timestamp'')
           (header_or_empty headers ''x-sub2api-sync-nonce'') body))"

lemma verify_request_accepts:
  assumes "verify_request env sha redis h body clock s = (Inr True, s')"
  shows "request_signed env h body clock \<and>
    claim_nonce sha redis (header_or_empty h ''x-sub2api-sync-nonce'') s = (Inr True, s')"
  using assms
  by (auto simp: verify_request_def request_signed_def Let_def SIGNATURE_MAX_SKEW_SECONDS_def
      compare_digest_def split: sum.splits if_splits)

lemma claim_nonce_state:
  "claim_nonce sha redis nonce s = (r, s') \<Longrightarrow>
   \<exists>v. redis (set_nonce (''sub2api-sync:nonce:'' @ sha (utf8 nonce))) s = (v, s')
     \<and> (r = Inr True \<longrightarrow> v = Inr (RedisText ''OK''))"
  by (auto simp: claim_nonce_def Let_def split: prod.splits sum.splits)

text \<open>Every outcome of a verification: no command reached Redis, or one claim of the nonce.\<close>

lemma verify_request_state:
  assumes "verify_request env sha redis h body clock s = (r, s')"
  shows "(s' = s \<and> r \<noteq> Inr True) \<or>
    claim_nonce sha redis (header_or_empty h ''x-sub2api-sync-nonce'') s = (r, s')"
  using assms by (auto simp: verify_request_def Let_def split: sum.splits if_splits)

section \<open>A history of requests\<close>

text \<open>One request: its headers and body, the wall clock when its signature is checked and
  the server's clock when its nonce reaches Redis. \<open>verify_all\<close> is the service over a
  history, in the order in which Redis executes the claims.\<close>

record attempt =
  at_headers :: headers
  at_body :: bytes
  at_clock :: int
  at_redis :: int

fun verify_all ::
  "sync_env \<Rightarrow> (bytes \<Rightarrow> pystr) \<Rightarrow> (int \<Rightarrow> pystr list \<Rightarrow> 's \<Rightarrow> redis_value res \<times> 's) \<Rightarrow> attempt list \<Rightarrow> 's
    \<Rightarrow> bool res list" where
  "verify_all env sha redis [] s = []"
| "verify_all env sha redis (a # as) s =
     (case verify_request env sha (redis (at_redis a)) (at_headers a) (at_body a) (at_clock a) s of
        (r, s') \<Rightarrow> r # verify_all env sha redis as s')"

definition nonce_key_of :: "(bytes \<Rightarrow> pystr) \<Rightarrow> attempt \<Rightarrow> pystr" where
  "nonce_key_of sha a =
     ''sub2api-sync:nonce:'' @ sha (utf8 (header_or_empty (at_headers a) ''x-sub2api-sync-nonce''))"

lemma length_verify_all [simp]: "length (verify_all env sha redis as s) = length as"
  by (induction as arbitrary: s) (auto split: prod.splits)

context nonce_server
begin

lemma verify_keeps:
  assumes "verify_request env sha (redis t) h body clock s = (r, s')" and "until s k = Some u" and "t < u"
  shows "until s' k = Some u"
  using verify_request_state [OF assms(1)] assms(2,3)
  by (auto dest!: claim_nonce_state intro: set_keeps)

lemma held_until:
  assumes "until s k = Some u" and "sorted (map at_redis as)" and "j < length as"
    and "verify_all env sha redis as s ! j = Inr True" and "nonce_key_of sha (as ! j) = k"
  shows "u \<le> at_redis (as ! j)"
  using assms
proof (induction as arbitrary: s j)
  case (Cons a as)
  obtain r s' where v: "verify_request env sha (redis (at_redis a)) (at_headers a) (at_body a) (at_clock a) s = (r, s')"
    by (rule prod.exhaust)
  show ?case
  proof (cases "u \<le> at_redis a")
    case True
    have "at_redis a \<le> at_redis ((a # as) ! j)" using Cons.prems(2,3) by (cases j) auto
    with True show ?thesis by simp
  next
    case False
    show ?thesis
    proof (cases j)
      case 0
      then have "r = Inr True" using Cons.prems(4) v by simp
      then have "redis (at_redis a) (set_nonce k) s = (Inr (RedisText ''OK''), s')"
        using verify_request_accepts [of env sha "redis (at_redis a)"] v claim_nonce_state Cons.prems(5) 0
        by (fastforce simp: nonce_key_of_def)
      from set_free [OF this Cons.prems(1)] False show ?thesis by simp
    next
      case (Suc i)
      have "until s' k = Some u" using verify_keeps [OF v Cons.prems(1)] False by simp
      from Cons.IH [OF this, of i] Cons.prems(2,3,4,5) v Suc show ?thesis by simp
    qed
  qed
qed simp

lemma claims_apart:
  assumes "sorted (map at_redis as)" and "i < j" and "j < length as"
    and "verify_all env sha redis as s ! i = Inr True" and "verify_all env sha redis as s ! j = Inr True"
    and "nonce_key_of sha (as ! i) = nonce_key_of sha (as ! j)"
  shows "at_redis (as ! i) + NONCE_TTL_SECONDS * 1000 \<le> at_redis (as ! j)"
  using assms
proof (induction as arbitrary: s i j)
  case (Cons a as)
  obtain r s' where v: "verify_request env sha (redis (at_redis a)) (at_headers a) (at_body a) (at_clock a) s = (r, s')"
    by (rule prod.exhaust)
  obtain j' where j: "j = Suc j'" using Cons.prems(2) by (cases j) auto
  show ?case
  proof (cases i)
    case 0
    then have "r = Inr True" using Cons.prems(4) v by simp
    then have "redis (at_redis a) (set_nonce (nonce_key_of sha a)) s = (Inr (RedisText ''OK''), s')"
      using verify_request_accepts [of env sha "redis (at_redis a)"] v claim_nonce_state
      by (fastforce simp: nonce_key_of_def)
    from set_expiry [OF this] have
      "until s' (nonce_key_of sha a) = Some (at_redis a + NONCE_TTL_SECONDS * 1000)" .
    from held_until [OF this, of as j' env] Cons.prems v j 0 show ?thesis by simp
  next
    case (Suc i')
    from Cons.IH [of i' j' s'] Cons.prems v j Suc show ?thesis by simp
  qed
qed simp

end

section \<open>The server of the deployment\<close>

text \<open>Redis as the service uses it: keys with a value and an expiry in milliseconds, and
  the faults of the next connections in order (\<open>Fails\<close>: the command did not run,
  \<open>AnswerLost\<close>: it ran and its reply was lost).\<close>

record redis_store =
  rs_entries :: "pystr \<Rightarrow> (pystr \<times> int option) option"
  rs_faults :: "fault list"

definition redis_live :: "int \<Rightarrow> redis_store \<Rightarrow> pystr \<Rightarrow> bool" where
  "redis_live t s k \<longleftrightarrow>
     (case rs_entries s k of None \<Rightarrow> False | Some (_, None) \<Rightarrow> True | Some (_, Some u) \<Rightarrow> t < u)"

fun redis_run :: "int \<Rightarrow> pystr list \<Rightarrow> redis_store \<Rightarrow> redis_value res \<times> redis_store" where
  "redis_run t [cmd, k, v, opt, ex, secs] s =
     (if cmd = ''SET'' \<and> opt = ''NX'' \<and> ex = ''EX'' then
        if redis_live t s k then (Inr RedisNil, s)
        else (Inr (RedisText ''OK''),
              s\<lparr>rs_entries := (rs_entries s)(k \<mapsto> (v, Some (t + int (digits_val secs) * 1000)))\<rparr>)
      else (Inl (RuntimeError ''redis_command_failed''), s))"
| "redis_run t cmd s = (Inl (RuntimeError ''redis_command_failed''), s)"

definition redis_server :: "int \<Rightarrow> pystr list \<Rightarrow> redis_store \<Rightarrow> redis_value res \<times> redis_store" where
  "redis_server t cmd s =
     (case rs_faults s of
        [] \<Rightarrow> redis_run t cmd s
      | f # fs \<Rightarrow>
          (let s1 = s\<lparr>rs_faults := fs\<rparr>
           in case f of
                Works \<Rightarrow> redis_run t cmd s1
              | Fails e \<Rightarrow> (Inl e, s1)
              | AnswerLost e \<Rightarrow> (Inl e, snd (redis_run t cmd s1))))"

definition redis_until :: "redis_store \<Rightarrow> pystr \<Rightarrow> int option" where
  "redis_until s k = (case rs_entries s k of None \<Rightarrow> None | Some (_, u) \<Rightarrow> u)"

lemma nonce_ttl_text: "int_str NONCE_TTL_SECONDS = ''601''"
  by (simp add: NONCE_TTL_SECONDS_def SIGNATURE_MAX_SKEW_SECONDS_def) code_simp

lemma nonce_ttl_digits: "int (digits_val (int_str NONCE_TTL_SECONDS)) = NONCE_TTL_SECONDS"
  unfolding nonce_ttl_text by (simp add: NONCE_TTL_SECONDS_def SIGNATURE_MAX_SKEW_SECONDS_def) code_simp

lemma nonce_ttl_value: "NONCE_TTL_SECONDS = 601"
  by (simp add: NONCE_TTL_SECONDS_def SIGNATURE_MAX_SKEW_SECONDS_def)

lemma redis_run_set_nonce:
  "redis_run t (set_nonce k) s =
     (if redis_live t s k then (Inr RedisNil, s)
      else (Inr (RedisText ''OK''), s\<lparr>rs_entries := (rs_entries s)(k \<mapsto> (''1'', Some (t + NONCE_TTL_SECONDS * 1000)))\<rparr>))"
  by (simp add: set_nonce_def nonce_ttl_digits)

lemma redis_run_cases:
  assumes "redis_server t cmd s = (r, s')"
  obtains fs where "(r, s') = redis_run t cmd (s\<lparr>rs_faults := fs\<rparr>)"
  | fs e where "r = Inl e" "s' = s\<lparr>rs_faults := fs\<rparr>"
  | fs e where "r = Inl e" "s' = snd (redis_run t cmd (s\<lparr>rs_faults := fs\<rparr>))"
proof -
  show thesis
  proof (cases "rs_faults s")
    case Nil
    then have eq: "s\<lparr>rs_faults := []\<rparr> = s" by simp
    show thesis using assms Nil by (intro that(1) [of "[]", unfolded eq]) (simp add: redis_server_def)
  next
    case (Cons f fs)
    show thesis
    proof (cases f)
      case Works
      with assms Cons show thesis by (intro that(1) [of fs]) (simp add: redis_server_def)
    next
      case (Fails e)
      with assms Cons show thesis by (intro that(2) [of e fs]) (simp_all add: redis_server_def)
    next
      case (AnswerLost e)
      with assms Cons show thesis by (intro that(3) [of e fs]) (simp_all add: redis_server_def)
    qed
  qed
qed

interpretation rds: nonce_server redis_server redis_until
proof unfold_locales
  fix t k s s' u
  assume run: "redis_server t (set_nonce k) s = (Inr (RedisText ''OK''), s')"
  show "redis_until s k = Some u \<Longrightarrow> u \<le> t"
    by (rule redis_run_cases [OF run])
      (auto simp: redis_run_set_nonce redis_until_def redis_live_def split: if_splits option.splits prod.splits)
  show "redis_until s' k = Some (t + NONCE_TTL_SECONDS * 1000)"
    by (rule redis_run_cases [OF run])
      (auto simp: redis_run_set_nonce redis_until_def split: if_splits option.splits prod.splits)
next
  fix t k' s r s' k u
  assume run: "redis_server t (set_nonce k') s = (r, s')" and u: "redis_until s k = Some u" "t < u"
  then show "redis_until s' k = Some u"
    by - (rule redis_run_cases [OF run];
      auto simp: redis_run_set_nonce redis_until_def redis_live_def split: if_splits option.splits prod.splits)
qed


section \<open>What an accepted request has shown\<close>


text \<open>
  C8. A nonce is accepted at most once in 601 seconds. In every history of requests, with
  every schedule of lost connections and lost answers, two accepted requests whose nonces have
  the same key are at least 601 seconds apart on the clock of Redis.
\<close>

theorem nonce_accepted_once:
  assumes "sorted (map at_redis as)" and "i < j" and "j < length as"
    and "verify_all env sha redis_server as s ! i = Inr True"
    and "verify_all env sha redis_server as s ! j = Inr True"
    and "nonce_key_of sha (as ! i) = nonce_key_of sha (as ! j)"
  shows "at_redis (as ! i) + 601000 \<le> at_redis (as ! j)"
  using rds.claims_apart [OF assms] by (simp add: nonce_ttl_value)

lemma verify_all_signed:
  "i < length as \<Longrightarrow> verify_all env sha redis as s ! i = Inr True \<Longrightarrow>
   request_signed env (at_headers (as ! i)) (at_body (as ! i)) (at_clock (as ! i))"
proof (induction as arbitrary: s i)
  case (Cons a as)
  obtain r s' where v: "verify_request env sha (redis (at_redis a)) (at_headers a) (at_body a) (at_clock a) s = (r, s')"
    by (rule prod.exhaust)
  show ?case
  proof (cases i)
    case 0
    with Cons.prems v have "r = Inr True" by simp
    with v verify_request_accepts [of env sha "redis (at_redis a)" "at_headers a" "at_body a" "at_clock a" s s'] 0
    show ?thesis by simp
  next
    case (Suc i')
    with Cons v show ?thesis by simp
  qed
qed simp

text \<open>
  A replayed request is refused. When a request has been accepted, every later request
  with the same time stamp and nonce is refused, as long as its claim reaches Redis before the
  end of its window (301 seconds after the time stamp; the clock of Redis is the service's,
  and a claim reaches Redis after the clock was read).
\<close>

theorem replay_refused:
  assumes "sorted (map at_redis as)" and "i < j" and "j < length as"
    and "verify_all env sha redis_server as s ! i = Inr True"
    and "header_or_empty (at_headers (as ! j)) ''x-sub2api-sync-nonce'' =
         header_or_empty (at_headers (as ! i)) ''x-sub2api-sync-nonce''"
    and "header_or_empty (at_headers (as ! i)) ''x-sub2api-sync-timestamp'' = ts"
    and "at_clock (as ! i) \<le> at_redis (as ! i)"
    and "at_redis (as ! j) < (int (digits_val ts) + 301) * 1000"
  shows "verify_all env sha redis_server as s ! j \<noteq> Inr True"
proof
  assume "verify_all env sha redis_server as s ! j = Inr True"
  then have "at_redis (as ! i) + 601000 \<le> at_redis (as ! j)"
    using rds.claims_apart [OF assms(1-4)] assms(5) by (simp add: nonce_key_of_def nonce_ttl_value)
  moreover have "int (digits_val ts) - 300 \<le> at_clock (as ! i) div 1000"
    using verify_all_signed [OF _ assms(4)] assms(2,3,6) by (auto simp: request_signed_def)
  moreover have "at_clock (as ! i) div 1000 * 1000 \<le> at_clock (as ! i)" by simp
  ultimately show False using assms(7,8) by (simp add: algebra_simps)
qed

lemma dot_separated:
  assumes "CHR ''.'' \<notin> set a" and "CHR ''.'' \<notin> set a'" and "a @ ''.'' @ b = a' @ ''.'' @ b'"
  shows "a = a' \<and> b = b'"
  using assms
proof (induction a arbitrary: a')
  case Nil
  then show ?case by (cases a') auto
next
  case (Cons c a)
  then show ?case by (cases a') auto
qed

lemma no_dot: "is_timestamp t \<Longrightarrow> CHR ''.'' \<notin> set t" "is_nonce n \<Longrightarrow> CHR ''.'' \<notin> set n"
  by (auto simp: is_timestamp_def is_positive_decimal_def is_nonce_def list_all_iff is_hex_def is_digit_def)

lemma field_ascii: "is_timestamp t \<Longrightarrow> is_ascii t" "is_nonce n \<Longrightarrow> is_ascii n"
  by (fastforce simp: is_timestamp_def is_positive_decimal_def is_nonce_def is_ascii_def list_all_iff
      is_hex_def is_digit_def)+

text \<open>
  The signed text is unambiguous: well-formed time stamps and nonces and any bodies give
  the same signed message only when they are the same, so a signature covers exactly one
  request.
\<close>

theorem signed_message_unambiguous:
  assumes "is_timestamp t" and "is_nonce n" and "is_timestamp t'" and "is_nonce n'"
    and "signed_message t n b = signed_message t' n' b'"
  shows "t = t' \<and> n = n' \<and> b = b'"
proof -
  have "utf8 t = t" "utf8 t' = t'" "utf8 n = n" "utf8 n' = n'"
    using assms(1-4) by (simp_all add: utf8_ascii field_ascii)
  with assms(5) have "t @ ''.'' @ n @ ''.'' @ b = t' @ ''.'' @ n' @ ''.'' @ b'"
    by (simp add: signed_message_def)
  from dot_separated [OF no_dot(1) [OF assms(1)] no_dot(1) [OF assms(3)] this]
  have "t = t'" "n @ ''.'' @ b = n' @ ''.'' @ b'" by auto
  with dot_separated [OF no_dot(2) [OF assms(2)] no_dot(2) [OF assms(4)]] show ?thesis by blast
qed

section \<open>Witnesses\<close>

definition example_headers :: headers where
  "example_headers n =
     (if n = ''x-sub2api-sync-timestamp'' then Some ''1700000300''
      else if n = ''x-sub2api-sync-nonce'' then Some (replicate 32 (CHR ''a''))
      else if n = ''x-sub2api-sync-signature'' then Some example_fingerprint else None)"

definition example_attempt :: "int \<Rightarrow> int \<Rightarrow> attempt" where
  "example_attempt clock at = \<lparr>at_headers = example_headers, at_body = ''{}'', at_clock = clock, at_redis = at\<rparr>"

definition empty_redis :: redis_store where
  "empty_redis = \<lparr>rs_entries = (\<lambda>k. None), rs_faults = []\<rparr>"

lemma example_timestamp: "digits_val ''1700000300'' = 1700000300"
  by (simp add: digits_val_def digit_val_def)

lemma example_request:
  "verify_request example_env sha redis example_headers b clock s =
     (if \<bar>clock div 1000 - 1700000300\<bar> > 300 then (Inr False, s)
      else claim_nonce sha redis (replicate 32 (CHR ''a'')) s)"
proof -
  have "is_timestamp ''1700000300''" "is_nonce (replicate 32 (CHR ''a''))" "is_signature example_fingerprint"
    "compare_digest example_fingerprint example_fingerprint = Inr True"
    "get_secret example_env = Inr (replicate 32 (CHR ''k''))"
    by code_simp+
  moreover have "hmac_hex example_env k m = example_fingerprint" for k m
    by (simp add: example_env_def)
  ultimately show ?thesis
    by (auto simp: verify_request_def example_headers_def header_or_empty_def example_timestamp Let_def
        SIGNATURE_MAX_SKEW_SECONDS_def)
qed

lemma example_claim:
  "claim_nonce (\<lambda>_. ''d'') (redis_server t) n s =
     (case redis_server t (set_nonce ''sub2api-sync:nonce:d'') s of
        (Inl e, s') \<Rightarrow> (Inl e, s') | (Inr v, s') \<Rightarrow> (Inr (v = RedisText ''OK''), s'))"
  by (simp add: claim_nonce_def)

lemma example_server:
  "redis_server t (set_nonce k) \<lparr>rs_entries = m, rs_faults = []\<rparr> =
     (if redis_live t \<lparr>rs_entries = m, rs_faults = []\<rparr> k then (Inr RedisNil, \<lparr>rs_entries = m, rs_faults = []\<rparr>)
      else (Inr (RedisText ''OK''), \<lparr>rs_entries = m(k \<mapsto> (''1'', Some (t + 601000))), rs_faults = []\<rparr>))"
  by (simp add: redis_server_def redis_run_set_nonce nonce_ttl_value)

lemmas example_run = example_attempt_def empty_redis_def example_request example_claim example_server
  redis_live_def

text \<open>Signed 300 seconds ahead, accepted twice: the second claim reaches Redis when the nonce
  has just expired, although the clock was read before.\<close>

definition edge_history :: "attempt list" where
  "edge_history = [example_attempt 1700000000000 1700000000000, example_attempt 1700000600999 1700000601000]"

definition retry_history :: "attempt list" where
  "retry_history = [example_attempt 1700000200000 1700000200000, example_attempt 1700000201000 1700000201500]"


theorem nonce_accepted_once_witness:
  "verify_all example_env (\<lambda>_. ''d'') redis_server edge_history empty_redis = [Inr True, Inr True] \<and>
   at_redis (edge_history ! 0) + 601000 \<le> at_redis (edge_history ! 1)"
proof -
  have r: "verify_all example_env (\<lambda>_. ''d'') redis_server edge_history empty_redis = [Inr True, Inr True]"
    by (simp add: edge_history_def example_run)
  from r nonce_accepted_once [of edge_history 0 1 example_env "\<lambda>_. ''d''" empty_redis] show ?thesis
    by (simp add: edge_history_def example_attempt_def nonce_key_of_def)
qed

theorem replay_refused_witness:
  "verify_all example_env (\<lambda>_. ''d'') redis_server retry_history empty_redis ! 0 = Inr True \<and>
   verify_all example_env (\<lambda>_. ''d'') redis_server retry_history empty_redis ! 1 \<noteq> Inr True"
proof -
  have r: "verify_all example_env (\<lambda>_. ''d'') redis_server retry_history empty_redis ! 0 = Inr True"
    by (simp add: retry_history_def example_run)
  from r replay_refused [of retry_history 0 1 example_env "\<lambda>_. ''d''" empty_redis "''1700000300''"]
  show ?thesis
    by (simp add: retry_history_def example_attempt_def example_headers_def header_or_empty_def example_timestamp)
qed

text \<open>
  The life of a nonce ends with the acceptance window of its time stamp, not after it.
  A request signed 300 seconds ahead of the clock is accepted, and accepted again at the end of
  its window when its second claim reaches Redis one millisecond after the clock was read: the
  601 seconds have no margin for the time between the check of the clock and the claim.
\<close>

theorem replay_at_window_edge:
  "verify_all example_env (\<lambda>_. ''d'') redis_server edge_history empty_redis = [Inr True, Inr True]
   \<and> map at_headers edge_history = [example_headers, example_headers]
   \<and> map (\<lambda>a. at_redis a - at_clock a) edge_history = [0, 1]"
  by (simp add: edge_history_def example_run)

theorem signed_message_unambiguous_witness:
  "signed_message ''1700000300'' (replicate 32 (CHR ''a'')) ''{}'' \<noteq>
   signed_message ''1700000300'' (replicate 32 (CHR ''a'')) ''{1}''"
proof -
  have t: "is_timestamp ''1700000300''" and n: "is_nonce (replicate 32 (CHR ''a''))" by code_simp+
  from signed_message_unambiguous [OF t n t n, of "''{}''" "''{1}''"] show ?thesis by auto
qed

end
