(* ===== verification/Usage.thy ===== *)
theory Usage
  imports Payload Sync_World
begin

text \<open>
  The usage log of the sync service: \<open>usage_metadata.py\<close> (filters, the SELECT it builds, what
  it keeps of a row, paging, the list of models) and the two actions of \<open>sub2api_sync.py\<close>
  that call it. What PostgreSQL answers to a statement of these, the JSON reader, and
  \<open>datetime.fromisoformat\<close> with \<open>strftime\<close> are parameters. \<open>Usage_Facts\<close> has the properties.
\<close>

section \<open>Constants\<close>

definition PAGE_DEFAULT :: int where "PAGE_DEFAULT = 25"
definition PAGE_MAX :: int where "PAGE_MAX = 100"
definition MAX_RANGE_SECONDS :: int where "MAX_RANGE_SECONDS = 30 * 24 * 60 * 60"
definition MODEL_CACHE_SECONDS :: int where "MODEL_CACHE_SECONDS = 5 * 60"
definition MAX_SAFE_ID :: int where "MAX_SAFE_ID = 9007199254740991"
definition USAGE_DB_STATEMENT_TIMEOUT_MS :: int where "USAGE_DB_STATEMENT_TIMEOUT_MS = 2000"

text \<open>SQL text, with \<open>~\<close> for the single quote.\<close>

definition sq :: "pystr \<Rightarrow> pystr" where
  "sq s = map (\<lambda>c. if c = CHR ''~'' then quote else c) s"

definition USAGE_SEARCH_EXPRESSION :: pystr where
  "USAGE_SEARCH_EXPRESSION =
     sq (''(COALESCE(request_id, ~~) || ~ ~ || COALESCE(model, ~~) || ~ ~ || ''
         @ ''COALESCE(requested_model, ~~) || ~ ~ || ''
         @ ''COALESCE(inbound_endpoint, ~~))'')"

definition TEXT_FIELD_LIMITS :: "(pystr \<times> nat) list" where
  "TEXT_FIELD_LIMITS =
     [(''requestId'', 128), (''model'', 128), (''requestedModel'', 128), (''totalCost'', 64),
      (''actualCost'', 64), (''requestType'', 32), (''inboundEndpoint'', 256), (''createdAt'', 64)]"

definition FIELDS :: "pystr list" where
  "FIELDS =
     [''id'', ''requestId'', ''model'', ''requestedModel'', ''inputTokens'', ''outputTokens'',
      ''cacheCreationTokens'', ''cacheReadTokens'', ''totalCost'', ''actualCost'', ''durationMs'',
      ''stream'', ''requestType'', ''inboundEndpoint'', ''createdAt'']"

definition DEFAULTS :: pydict where
  "DEFAULTS =
     [(''id'', PInt 0), (''requestId'', PStr []), (''model'', PStr []), (''requestedModel'', PStr []),
      (''inputTokens'', PInt 0), (''outputTokens'', PInt 0), (''cacheCreationTokens'', PInt 0),
      (''cacheReadTokens'', PInt 0), (''totalCost'', PStr ''0''), (''actualCost'', PStr ''0''),
      (''durationMs'', PInt 0), (''stream'', PBool False), (''requestType'', PStr []),
      (''inboundEndpoint'', PStr []), (''createdAt'', PStr [])]"

section \<open>Parameters\<close>

text \<open>What \<open>fromisoformat\<close> reads: microseconds of the written wall time since year 1, and
  the offset from UTC when one is written.\<close>

record iso_time =
  iso_micros :: int
  iso_offset :: "int option"

record usage_env =
  fromisoformat :: "pystr \<Rightarrow> iso_time res"
  strftime_utc :: "int \<Rightarrow> pystr"
  usage_answer :: "pystr \<Rightarrow> pystr"
  json_of_text :: "pystr \<Rightarrow> pyval res"

section \<open>Reading numbers and times of a request\<close>

definition clamp_int :: "pyval \<Rightarrow> int \<Rightarrow> int \<Rightarrow> int \<Rightarrow> int res" where
  "clamp_int value dflt minimum maximum =
     (let clamp = (\<lambda>number. max minimum (min number maximum))
      in case py_int value of
           Inr number \<Rightarrow> Inr (clamp number)
         | Inl e \<Rightarrow> (if e = TypeError \<or> is_value_error e then Inr (clamp dflt) else Inl e))"

text \<open>\<open>str.isdigit\<close> also holds of the superscripts two, three and one.\<close>

definition clamp_identifier :: "pyval \<Rightarrow> int \<Rightarrow> int \<Rightarrow> int res" where
  "clamp_identifier value dflt minimum =
     (let bounded = (\<lambda>number. if minimum \<le> number \<and> number \<le> MAX_SAFE_ID then number else dflt)
      in case value of
           PInt number \<Rightarrow> Inr (bounded number)
         | PStr s \<Rightarrow> (if str_isdigit s then res_bind (py_int (PStr s)) (\<lambda>number. Inr (bounded number))
                     else Inr dflt)
         | _ \<Rightarrow> Inr dflt)"

text \<open>The moments a \<open>datetime\<close> can hold: years 1 to 9999.\<close>

definition datetime_limit :: int where
  "datetime_limit = 3652059 * 86400 * 1000000"

definition sql_timestamp :: "usage_env \<Rightarrow> pyval \<Rightarrow> pystr res" where
  "sql_timestamp ue value =
     (let text = strip (str_or_empty value)
      in if text = [] then Inr []
         else case fromisoformat ue (replace_char (CHR ''Z'') ''+00:00'' text) of
                Inl e \<Rightarrow> (if is_value_error e then Inr [] else Inl e)
              | Inr parsed \<Rightarrow>
                  (let utc = iso_micros parsed - (case iso_offset parsed of None \<Rightarrow> 0 | Some d \<Rightarrow> d)
                   in if 0 \<le> utc \<and> utc < datetime_limit then Inr (strftime_utc ue (utc div 1000000))
                      else Inl OverflowError))"

section \<open>The WHERE clause\<close>

definition range_presets :: "pystr \<Rightarrow> int option" where
  "range_presets = map_of [(''1h'', 3600), (''1d'', 86400), (''7d'', 604800), (''30d'', 2592000)]"

definition search_text :: "pydict \<Rightarrow> pystr \<Rightarrow> nat \<Rightarrow> pystr" where
  "search_text payload field limit = take limit (strip (str_or_empty (dget payload field)))"

definition range_seconds :: "pydict \<Rightarrow> int" where
  "range_seconds payload =
     (let preset = lower (strip (py_str (py_or (dget payload ''timePreset'') (PStr ''1h''))))
      in case range_presets preset of None \<Rightarrow> MAX_RANGE_SECONDS | Some n \<Rightarrow> n)"

definition timestamptz :: "pystr \<Rightarrow> pystr" where
  "timestamptz t = sql_quote (PStr t) None @ ''::timestamptz''"

definition query_clauses :: "pystr \<Rightarrow> pystr list" where
  "query_clauses query =
     (if query = [] then []
      else [USAGE_SEARCH_EXPRESSION @ '' ILIKE '' @ ilike_contains (PStr query) 120])"

definition request_clauses :: "pystr \<Rightarrow> pystr list" where
  "request_clauses request_id =
     (if request_id = [] then []
      else [sq ''COALESCE(request_id, ~~) ILIKE '' @ ilike_contains (PStr request_id) 64])"

definition model_clauses :: "pystr \<Rightarrow> pystr list" where
  "model_clauses model =
     (if model = [] then []
      else [''(model ILIKE '' @ ilike_contains (PStr model) 100
            @ sq '' OR COALESCE(requested_model, ~~) ILIKE '' @ ilike_contains (PStr model) 100 @ '')''])"

definition range_clause :: "int \<Rightarrow> pystr" where
  "range_clause seconds = sq ''created_at >= now() - interval ~'' @ int_str seconds @ sq '' seconds~''"

definition date_clauses :: "pystr \<Rightarrow> pystr \<Rightarrow> pystr list" where
  "date_clauses date_from date_to =
     (if date_from = [] then [] else [''created_at >= '' @ timestamptz date_from])
     @ (if date_to = [] then [] else [''created_at <= '' @ timestamptz date_to])"

definition cursor_clauses :: "int \<Rightarrow> pystr \<Rightarrow> pystr list" where
  "cursor_clauses cursor_id cursor_created_at =
     (if cursor_id \<noteq> 0 \<and> cursor_created_at \<noteq> [] then
        [''(created_at,id) < ('' @ timestamptz cursor_created_at @ '','' @ int_str cursor_id @ '')'']
      else if cursor_id \<noteq> 0 then [''id < '' @ int_str cursor_id]
      else [])"

definition usage_log_filters :: "usage_env \<Rightarrow> pydict \<Rightarrow> (pystr \<times> bool \<times> pystr) res" where
  "usage_log_filters ue payload =
     (let query = search_text payload ''query'' 120
      in res_bind (sql_timestamp ue (dget payload ''dateFrom'')) (\<lambda>date_from.
         res_bind (sql_timestamp ue (dget payload ''dateTo'')) (\<lambda>date_to.
         res_bind (clamp_identifier (dget payload ''cursorId'') 0 0) (\<lambda>cursor_id.
         res_bind (sql_timestamp ue (dget payload ''cursorCreatedAt'')) (\<lambda>cursor_created_at.
           let clauses = query_clauses query
                 @ request_clauses (search_text payload ''requestId'' 64)
                 @ model_clauses (search_text payload ''model'' 100)
                 @ [range_clause (range_seconds payload)]
                 @ date_clauses date_from date_to
                 @ cursor_clauses cursor_id cursor_created_at
           in Inr (query, False, ''WHERE '' @ join_with '' AND '' clauses))))))"

section \<open>Rows\<close>

definition text_limit :: "pystr \<Rightarrow> nat option" where
  "text_limit = map_of TEXT_FIELD_LIMITS"

definition sanitize_usage_item :: "pyval \<Rightarrow> pydict option" where
  "sanitize_usage_item item =
     (case item of
        PDict d \<Rightarrow>
          Some (map (\<lambda>field.
            let value = dget_or d field (dget DEFAULTS field)
            in (field, case text_limit field of
                         None \<Rightarrow> value
                       | Some limit \<Rightarrow> PStr (take limit (str_or_empty value)))) FIELDS)
      | _ \<Rightarrow> None)"

definition left :: "pystr \<Rightarrow> pystr \<Rightarrow> pystr" where
  "left field expression =
     ''LEFT('' @ expression @ '','' @ nat_str (the (text_limit field)) @ '')''"

definition usage_log_select :: "pystr \<Rightarrow> int \<Rightarrow> pystr" where
  "usage_log_select where_clause limit =
     sq ''SELECT COALESCE(json_agg(item ORDER BY created_at DESC,id DESC), ~[]~::json)::text FROM (''
     @ ''SELECT id,created_at,json_build_object(''
     @ sq ''~id~,id,~requestId~,'' @ left ''requestId'' (sq ''COALESCE(request_id,~~)'')
     @ sq '',~model~,'' @ left ''model'' (sq ''COALESCE(model,~~)'')
     @ sq '',~requestedModel~,'' @ left ''requestedModel'' (sq ''COALESCE(requested_model,~~)'')
     @ sq '',~inputTokens~,input_tokens,~outputTokens~,output_tokens,''
     @ sq ''~cacheCreationTokens~,cache_creation_tokens,~cacheReadTokens~,cache_read_tokens,''
     @ sq ''~totalCost~,'' @ left ''totalCost'' ''total_cost::text''
     @ sq '',~actualCost~,'' @ left ''actualCost'' ''actual_cost::text''
     @ sq '',~durationMs~,COALESCE(duration_ms,0),~stream~,stream,''
     @ sq ''~requestType~,'' @ left ''requestType'' (sq ''COALESCE(request_type::text,~~)'')
     @ sq '',~inboundEndpoint~,'' @ left ''inboundEndpoint'' (sq ''COALESCE(inbound_endpoint,~~)'')
     @ sq '',~createdAt~,'' @ left ''createdAt'' ''created_at::text''
     @ '') AS item FROM usage_logs '' @ where_clause
     @ '' ORDER BY created_at DESC,id DESC LIMIT '' @ int_str limit @ '') rows;''"

text \<open>What a \<open>for\<close> loop over a decoded value visits, and \<open>value[0]\<close> of a true one.\<close>

fun iter_values :: "pyval \<Rightarrow> pyval list res" where
  "iter_values (PList xs) = Inr xs"
| "iter_values (PDict d) = Inr (map (\<lambda>(k, _). PStr k) d)"
| "iter_values (PStr s) = Inr (map (\<lambda>c. PStr [c]) s)"
| "iter_values _ = Inl TypeError"

fun item_zero :: "pyval \<Rightarrow> pyval res" where
  "item_zero (PList (x # _)) = Inr x"
| "item_zero (PStr (c # _)) = Inr (PStr [c])"
| "item_zero (PDict _) = Inl KeyError"
| "item_zero _ = Inl TypeError"

definition query_json_value :: "usage_env \<Rightarrow> pystr \<Rightarrow> pyval act" where
  "query_json_value ue sql =
     act_bind (psql_query USAGE_DB_STATEMENT_TIMEOUT_MS (\<lambda>_. [[usage_answer ue sql]])) (\<lambda>output.
       if output = [] then act_return PNone else act_lift (json_of_text ue output))"

section \<open>The models of the filter\<close>

definition models_select :: "int \<Rightarrow> pystr" where
  "models_select limit =
     sq ''SELECT COALESCE(json_agg(model ORDER BY latest DESC), ~[]~::json)::text FROM (SELECT ''
     @ left ''model'' (sq ''COALESCE(model,~~)'') @ '' AS model, MAX(created_at) latest FROM usage_logs ''
     @ sq ''WHERE created_at >= now() - interval ~'' @ int_str MAX_RANGE_SECONDS
     @ sq '' seconds~ GROUP BY '' @ left ''model'' (sq ''COALESCE(model,~~)'')
     @ '' ORDER BY latest DESC LIMIT '' @ int_str limit @ '') models;''"

definition list_usage_models :: "(pystr \<Rightarrow> pyval act) \<Rightarrow> pystr list act" where
  "list_usage_models query_json =
     act_bind read_mono (\<lambda>now.
     act_bind (act_get model_cache) (\<lambda>(expires_at, items).
       if expires_at > now then act_return items
       else
         act_bind (act_lift (clamp_int (PInt 24) 24 1 100)) (\<lambda>limit.
         act_bind (query_json (models_select limit)) (\<lambda>answer.
         act_bind (act_lift (iter_values (py_or answer (PList [])))) (\<lambda>values.
           let found = map (take 128 \<circ> py_str) (filter (\<lambda>v. strip (str_or_empty v) \<noteq> []) values)
           in act_bind read_mono (\<lambda>later.
              act_bind (act_put (\<lambda>w. w\<lparr>model_cache := (later + MODEL_CACHE_SECONDS * 1000, found)\<rparr>)) (\<lambda>_.
                act_return found)))))))"

section \<open>The two actions\<close>

definition text_value :: "pydict \<Rightarrow> pystr \<Rightarrow> nat \<Rightarrow> pyval" where
  "text_value payload field limit = PStr (take limit (str_or_empty (dget payload field)))"

definition visible_items :: "int \<Rightarrow> pyval list \<Rightarrow> pydict list \<times> bool" where
  "visible_items page_size found =
     (let items = List.map_filter sanitize_usage_item found
      in (take (nat page_size) items, int (length items) > page_size))"

definition usage_page :: "sync_env \<Rightarrow> pydict \<Rightarrow> int \<Rightarrow> pystr \<Rightarrow> pydict list \<times> bool \<Rightarrow> pystr list \<Rightarrow> pydict" where
  "usage_page env payload page_size query page models =
     (let (visible, has_more) = page;
          cursor = (\<lambda>field dflt. if has_more \<and> visible \<noteq> [] then dget (last visible) field else dflt)
      in [(''ok'', PBool True), (''action'', PStr ''usage_logs_list''),
          (''items'', PList (map PDict visible)), (''query'', PStr query),
          (''filters'', PDict
             [(''requestId'', text_value payload ''requestId'' 64), (''model'', text_value payload ''model'' 100),
              (''timePreset'', PStr (take 8 (py_str (py_or (dget payload ''timePreset'') (PStr ''1h''))))),
              (''dateFrom'', text_value payload ''dateFrom'' 40), (''dateTo'', text_value payload ''dateTo'' 40)]),
          (''page'', PDict
             [(''pageSize'', PInt page_size), (''hasMore'', PBool has_more),
              (''nextCursor'', cursor ''id'' (PInt 0)),
              (''nextCursorCreatedAt'', cursor ''createdAt'' (PStr []))]),
          (''modelOptions'', PList (map PStr models)), (''syncedAt'', PStr (stamp env))])"

definition metadata_usage_logs ::
  "sync_env \<Rightarrow> usage_env \<Rightarrow> (pystr \<Rightarrow> pyval act) \<Rightarrow> pydict \<Rightarrow> pydict act" where
  "metadata_usage_logs env ue query_json payload =
     act_bind (act_lift (clamp_int (dget payload ''pageSize'') PAGE_DEFAULT 1 PAGE_MAX)) (\<lambda>page_size.
     act_bind (act_lift (usage_log_filters ue payload)) (\<lambda>(query, only_failed, where_clause).
     act_bind (query_json (usage_log_select where_clause (page_size + 1))) (\<lambda>answer.
     act_bind (act_lift (iter_values (py_or answer (PList [])))) (\<lambda>found.
     act_bind (list_usage_models query_json) (\<lambda>models.
       act_return (usage_page env payload page_size query (visible_items page_size found) models))))))"

definition detail_where :: "int \<Rightarrow> pystr" where
  "detail_where usage_id =
     ''WHERE id='' @ int_str usage_id @ sq '' AND created_at >= now() - interval ~''
     @ int_str MAX_RANGE_SECONDS @ sq '' seconds~''"

definition metadata_usage_log_detail ::
  "sync_env \<Rightarrow> (pystr \<Rightarrow> pyval act) \<Rightarrow> pydict \<Rightarrow> pydict act" where
  "metadata_usage_log_detail env query_json payload =
     act_bind (act_lift (clamp_identifier (dget payload ''id'') 0 1)) (\<lambda>usage_id.
     act_bind (query_json (usage_log_select (detail_where usage_id) 1)) (\<lambda>answer.
     act_bind (if truthy answer then act_lift (res_bind (item_zero answer) (\<lambda>r. Inr (sanitize_usage_item r)))
               else act_return None) (\<lambda>found.
       case found of
         None \<Rightarrow> act_raise (ValueError ''usage log not found'')
       | Some item \<Rightarrow> act_return
           [(''ok'', PBool True), (''action'', PStr ''usage_log_detail''), (''item'', PDict item),
            (''items'', PList [PDict item]), (''syncedAt'', PStr (stamp env))])))"

definition list_usage_logs :: "sync_env \<Rightarrow> usage_env \<Rightarrow> pydict \<Rightarrow> pydict act" where
  "list_usage_logs env ue payload =
     with_transaction USAGE_DB_STATEMENT_TIMEOUT_MS
       (metadata_usage_logs env ue (query_json_value ue) payload)"

definition get_usage_log_detail :: "sync_env \<Rightarrow> usage_env \<Rightarrow> pydict \<Rightarrow> pydict act" where
  "get_usage_log_detail env ue payload =
     metadata_usage_log_detail env (query_json_value ue) payload"

end
