(* ===== verification/Usage_Facts.thy ===== *)
theory Usage_Facts
  imports Usage Invite
begin

text \<open>
  Properties of the usage log: client text never becomes syntax of the statement, what an
  answer may hold, when a detail is found, the cache of model names, and what becomes of the
  cursor between two pages.
\<close>

section \<open>The syntax of the WHERE clause\<close>

text \<open>\<open>free esc s t\<close>: the piece of SQL \<open>s\<close> has only whole literals and its skeleton is \<open>t\<close>,
  whatever follows; \<open>closed esc s t\<close>: whatever follows that does not start with a quote.\<close>

definition free :: "bool \<Rightarrow> pystr \<Rightarrow> pystr \<Rightarrow> bool" where
  "free esc s t \<longleftrightarrow> (\<forall>r. skeleton esc False (s @ r) = map_option (append t) (skeleton esc False r))"

definition closed :: "bool \<Rightarrow> pystr \<Rightarrow> pystr \<Rightarrow> bool" where
  "closed esc s t \<longleftrightarrow>
     (\<forall>r. (r = [] \<or> hd r \<noteq> quote) \<longrightarrow>
        skeleton esc False (s @ r) = map_option (append t) (skeleton esc False r))"

lemma append_fun: "(@) (s @ t) = (\<lambda>x. s @ t @ x)"
  by (rule ext) simp

lemma free_closed: "free esc s t \<Longrightarrow> closed esc s t"
  by (simp add: free_def closed_def)

lemma free_append: "free esc a s \<Longrightarrow> free esc b t \<Longrightarrow> free esc (a @ b) (s @ t)"
  by (simp add: free_def option.map_comp comp_def append_fun)

lemma free_then_closed: "free esc a s \<Longrightarrow> closed esc b t \<Longrightarrow> closed esc (a @ b) (s @ t)"
  by (simp add: free_def closed_def option.map_comp comp_def append_fun)

lemma closed_then_free:
  assumes "closed esc a s" and "free esc b t" and "b \<noteq> []" and "hd b \<noteq> quote"
  shows "free esc (a @ b) (s @ t)"
  unfolding free_def
proof
  fix r :: pystr
  have "skeleton esc False (a @ (b @ r)) = map_option (append s) (skeleton esc False (b @ r))"
    using assms(1,3,4) unfolding closed_def by (cases b) auto
  with assms(2) show "skeleton esc False ((a @ b) @ r) = map_option (append (s @ t)) (skeleton esc False r)"
    unfolding free_def by (simp add: option.map_comp comp_def append_fun)
qed

lemma closed_then_closed:
  assumes "closed esc a s" and "closed esc b t" and "b \<noteq> []" and "hd b \<noteq> quote"
  shows "closed esc (a @ b) (s @ t)"
  unfolding closed_def
proof (intro allI impI)
  fix r :: pystr
  assume r: "r = [] \<or> hd r \<noteq> quote"
  have "skeleton esc False (a @ (b @ r)) = map_option (append s) (skeleton esc False (b @ r))"
    using assms(1,3,4) unfolding closed_def by (cases b) auto
  moreover have "skeleton esc False (b @ r) = map_option (append t) (skeleton esc False r)"
    using assms(2) r unfolding closed_def by blast
  ultimately show "skeleton esc False ((a @ b) @ r) = map_option (append (s @ t)) (skeleton esc False r)"
    by (simp add: option.map_comp comp_def append_fun)
qed

lemma closed_whole: "closed esc s t \<Longrightarrow> skeleton esc False s = Some t"
  unfolding closed_def by (drule spec [of _ "[]"]) simp

lemma freeI:
  assumes "\<And>r. skeleton esc False (s @ r) = map_option (\<lambda>x. t @ x) (skeleton esc False r)"
  shows "free esc s t"
  using assms by (simp add: free_def)

lemma free_plain: "quote \<notin> set a \<Longrightarrow> free esc a a"
  by (simp add: free_def skeleton_outside_append)

lemma closed_quote: "closed esc (sql_quote v n) [quote, quote]"
  by (simp add: closed_def skeleton_quote)

lemma free_number: "free esc (int_str n) (int_str n)"
  by (rule free_plain) (auto simp: int_str_def is_digit_def dest!: bspec [OF nat_str_digits])

section \<open>The pieces of the clause\<close>

lemma closed_ilike: "closed esc (ilike_contains v n) (sq ''~~ ESCAPE ~~'')"
proof -
  have "free esc ('' ESCAPE '') ('' ESCAPE '')" by (rule free_plain) simp
  moreover have "closed esc ([quote] @ ''!'' @ [quote]) [quote, quote]"
    using closed_quote [of esc "PStr ''!''" None] by (simp add: sql_quote_PStr)
  ultimately have "closed esc ('' ESCAPE '' @ [quote] @ ''!'' @ [quote]) ('' ESCAPE '' @ [quote, quote])"
    by (rule free_then_closed)
  from closed_then_closed [OF closed_quote this] show ?thesis
    by (simp add: ilike_contains_def Let_def sq_def)
qed

lemma closed_timestamptz: "free esc (timestamptz t) (sq ''~~::timestamptz'')"
proof -
  have "free esc ''::timestamptz'' ''::timestamptz''" by (rule free_plain) simp
  from closed_then_free [OF closed_quote this] show ?thesis by (simp add: timestamptz_def sq_def)
qed

lemma closed_join:
  assumes "list_all2 (closed esc) (c # cs) (t # ts)"
  shows "closed esc (join_with '' AND '' (c # cs)) (join_with '' AND '' (t # ts))"
  using assms
proof (induction cs arbitrary: c t ts)
  case Nil
  then show ?case by simp
next
  case (Cons d cs)
  then obtain u us where ts: "ts = u # us" by (cases ts) auto
  have "free esc '' AND '' '' AND ''" by (rule free_plain) simp
  from free_then_closed [OF this Cons.IH [of d u us]] Cons.prems ts
  have "closed esc ('' AND '' @ join_with '' AND '' (d # cs)) ('' AND '' @ join_with '' AND '' (u # us))"
    by simp
  with Cons.prems ts closed_then_closed [of esc c t, OF _ this] show ?case by simp
qed

lemma closed_join_ne:
  assumes "list_all2 (closed esc) cs ts" and "cs \<noteq> []"
  shows "closed esc (join_with '' AND '' cs) (join_with '' AND '' ts)"
proof -
  obtain c cs' where c: "cs = c # cs'" using assms(2) by (cases cs) auto
  with assms(1) obtain t ts' where t: "ts = t # ts'" by (cases ts) auto
  from closed_join assms(1) show ?thesis unfolding c t by blast
qed

section \<open>The skeleton of the clause\<close>

definition blank :: pystr where "blank = sq ''~~ ESCAPE ~~''"

definition query_shape :: "bool \<Rightarrow> pystr list" where
  "query_shape present =
     (if present then
        [sq ''(COALESCE(request_id, ~~) || ~~ || COALESCE(model, ~~) || ~~ || COALESCE(requested_model, ~~) || ~~ || COALESCE(inbound_endpoint, ~~)) ILIKE ''
         @ blank] else [])"

definition request_shape :: "bool \<Rightarrow> pystr list" where
  "request_shape present = (if present then [sq ''COALESCE(request_id, ~~) ILIKE '' @ blank] else [])"

definition model_shape :: "bool \<Rightarrow> pystr list" where
  "model_shape present =
     (if present then [''(model ILIKE '' @ blank @ sq '' OR COALESCE(requested_model, ~~) ILIKE '' @ blank @ '')''] else [])"

definition date_shape :: "bool \<Rightarrow> bool \<Rightarrow> pystr list" where
  "date_shape from_present to_present =
     (if from_present then [sq ''created_at >= ~~::timestamptz''] else [])
     @ (if to_present then [sq ''created_at <= ~~::timestamptz''] else [])"

definition cursor_shape :: "int \<Rightarrow> bool \<Rightarrow> pystr list" where
  "cursor_shape cursor_id present =
     (if cursor_id \<noteq> 0 \<and> present then
        [sq ''(created_at,id) < (~~::timestamptz,'' @ int_str cursor_id @ '')'']
      else if cursor_id \<noteq> 0 then [''id < '' @ int_str cursor_id] else [])"

definition usage_shape :: "bool \<Rightarrow> bool \<Rightarrow> bool \<Rightarrow> bool \<Rightarrow> bool \<Rightarrow> int \<Rightarrow> bool \<Rightarrow> pystr" where
  "usage_shape query request model from_present to_present cursor_id cursor_time =
     ''WHERE '' @ join_with '' AND ''
       (query_shape query @ request_shape request @ model_shape model
        @ [sq ''created_at >= now() - interval ~~'']
        @ date_shape from_present to_present @ cursor_shape cursor_id cursor_time)"

lemma query_closed: "list_all2 (closed esc) (query_clauses q) (query_shape (q \<noteq> []))"
proof -
  have "free esc (USAGE_SEARCH_EXPRESSION @ '' ILIKE '')
    (sq ''(COALESCE(request_id, ~~) || ~~ || COALESCE(model, ~~) || ~~ || COALESCE(requested_model, ~~) || ~~ || COALESCE(inbound_endpoint, ~~)) ILIKE '')"
    by (rule freeI) (simp add: USAGE_SEARCH_EXPRESSION_def sq_def option.map_comp comp_def)
  from free_then_closed [OF this closed_ilike] show ?thesis
    by (simp add: query_clauses_def query_shape_def blank_def)
qed

lemma request_closed: "list_all2 (closed esc) (request_clauses q) (request_shape (q \<noteq> []))"
proof -
  have "free esc (sq ''COALESCE(request_id, ~~) ILIKE '') (sq ''COALESCE(request_id, ~~) ILIKE '')"
    by (rule freeI) (simp add: sq_def option.map_comp comp_def)
  from free_then_closed [OF this closed_ilike] show ?thesis
    by (simp add: request_clauses_def request_shape_def blank_def)
qed

lemma model_closed: "list_all2 (closed esc) (model_clauses q) (model_shape (q \<noteq> []))"
proof -
  have a: "free esc ''(model ILIKE '' ''(model ILIKE ''" by (rule free_plain) simp
  have b: "free esc (sq '' OR COALESCE(requested_model, ~~) ILIKE '') (sq '' OR COALESCE(requested_model, ~~) ILIKE '')"
    by (rule freeI) (simp add: sq_def option.map_comp comp_def)
  have c: "free esc '')'' '')''" by (rule free_plain) simp
  have "free esc (ilike_contains (PStr q) 100 @ '')'') (blank @ '')'')"
    using closed_then_free [OF closed_ilike c] by (simp add: blank_def)
  from free_append [OF b this] have
    "free esc (ilike_contains (PStr q) 100 @ sq '' OR COALESCE(requested_model, ~~) ILIKE ''
        @ ilike_contains (PStr q) 100 @ '')'')
      (blank @ sq '' OR COALESCE(requested_model, ~~) ILIKE '' @ blank @ '')'')"
    using closed_then_free [OF closed_ilike] by (simp add: blank_def sq_def)
  from free_closed [OF free_append [OF a this]] show ?thesis
    by (simp add: model_clauses_def model_shape_def)
qed

lemma range_closed: "closed esc (range_clause n) (sq ''created_at >= now() - interval ~~'')"
proof -
  have "free esc ''created_at >= now() - interval '' ''created_at >= now() - interval ''" by (rule free_plain) simp
  from free_then_closed [OF this closed_quote [of esc "PStr (int_str n @ '' seconds'')" None]]
  have "closed esc (''created_at >= now() - interval '' @ [quote] @ sql_escape (int_str n @ '' seconds'') @ [quote])
     (sq ''created_at >= now() - interval ~~'')"
    by (simp add: sql_quote_PStr sq_def)
  moreover have "sql_escape (int_str n @ '' seconds'') = int_str n @ '' seconds''"
  proof -
    have "quote \<notin> set (int_str n)" "backslash \<notin> set (int_str n)" "NUL \<notin> set (int_str n)"
      by (auto simp: int_str_def is_digit_def dest!: bspec [OF nat_str_digits] split: if_splits)
    then show ?thesis by (simp add: sql_escape_def replace_char_id)
  qed
  ultimately show ?thesis by (simp add: range_clause_def sq_def)
qed

lemma date_closed: "list_all2 (closed esc) (date_clauses f t) (date_shape (f \<noteq> []) (t \<noteq> []))"
proof -
  have a: "free esc ''created_at >= '' ''created_at >= ''" and b: "free esc ''created_at <= '' ''created_at <= ''"
    by (rule free_plain, simp)+
  from free_closed [OF free_append [OF a closed_timestamptz]] free_closed [OF free_append [OF b closed_timestamptz]]
  show ?thesis by (simp add: date_clauses_def date_shape_def sq_def)
qed

lemma cursor_closed: "list_all2 (closed esc) (cursor_clauses i t) (cursor_shape i (t \<noteq> []))"
proof -
  have a: "free esc ''(created_at,id) < ('' ''(created_at,id) < (''" and b: "free esc '','' '',''"
    and c: "free esc '')'' '')''" and d: "free esc ''id < '' ''id < ''"
    by (rule free_plain, simp)+
  from free_append [OF a free_append [OF closed_timestamptz free_append [OF b free_append [OF free_number c]]]]
    free_append [OF d free_number]
  have "closed esc (''(created_at,id) < ('' @ timestamptz t @ '','' @ int_str i @ '')'')
      (sq ''(created_at,id) < (~~::timestamptz,'' @ int_str i @ '')'')"
    "closed esc (''id < '' @ int_str i) (''id < '' @ int_str i)"
    by (auto simp: sq_def intro: free_closed)
  then show ?thesis by (simp add: cursor_clauses_def cursor_shape_def)
qed

lemma clauses_closed:
  "list_all2 (closed esc)
     (query_clauses q @ request_clauses r @ model_clauses m @ [range_clause n] @ date_clauses f t
        @ cursor_clauses i c)
     (query_shape (q \<noteq> []) @ request_shape (r \<noteq> []) @ model_shape (m \<noteq> [])
        @ [sq ''created_at >= now() - interval ~~''] @ date_shape (f \<noteq> []) (t \<noteq> []) @ cursor_shape i (c \<noteq> []))"
  by (intro list_all2_appendI query_closed request_closed model_closed date_closed cursor_closed)
    (simp add: range_closed)

lemma usage_log_filters_Inr:
  assumes "usage_log_filters ue payload = Inr (query, failed, w)"
  obtains f t i c where
    "sql_timestamp ue (dget payload ''dateFrom'') = Inr f" "sql_timestamp ue (dget payload ''dateTo'') = Inr t"
    "clamp_identifier (dget payload ''cursorId'') 0 0 = Inr i"
    "sql_timestamp ue (dget payload ''cursorCreatedAt'') = Inr c"
    "query = search_text payload ''query'' 120"
    "w = ''WHERE '' @ join_with '' AND '' (query_clauses query
       @ request_clauses (search_text payload ''requestId'' 64)
       @ model_clauses (search_text payload ''model'' 100) @ [range_clause (range_seconds payload)]
       @ date_clauses f t @ cursor_clauses i c)"
  using assms by (auto simp: usage_log_filters_def Let_def elim!: res_bind_InrE)

text \<open>
  C28. The text of a client never becomes syntax of the usage statement. The WHERE clause that
  usage_log_filters builds, with the contents of its string literals blanked, is a fixed text
  that depends only on which filters are present and on the cursor number; this holds in both
  literal modes of PostgreSQL, so no search text, request id, model name or date can close its
  literal.
\<close>

theorem usage_filters_keep_syntax:
  assumes "usage_log_filters ue payload = Inr (query, failed, w)"
  shows "\<exists>from_time to_time cursor_id cursor_time.
    sql_timestamp ue (dget payload ''dateFrom'') = Inr from_time \<and>
    sql_timestamp ue (dget payload ''dateTo'') = Inr to_time \<and>
    clamp_identifier (dget payload ''cursorId'') 0 0 = Inr cursor_id \<and>
    sql_timestamp ue (dget payload ''cursorCreatedAt'') = Inr cursor_time \<and>
    sql_skeleton esc w = Some (usage_shape
      (search_text payload ''query'' 120 \<noteq> []) (search_text payload ''requestId'' 64 \<noteq> [])
      (search_text payload ''model'' 100 \<noteq> []) (from_time \<noteq> []) (to_time \<noteq> []) cursor_id (cursor_time \<noteq> []))"
  using assms
proof (rule usage_log_filters_Inr)
  fix f t i c
  assume p: "sql_timestamp ue (dget payload ''dateFrom'') = Inr f" "sql_timestamp ue (dget payload ''dateTo'') = Inr t"
    "clamp_identifier (dget payload ''cursorId'') 0 0 = Inr i"
    "sql_timestamp ue (dget payload ''cursorCreatedAt'') = Inr c"
    and q: "query = search_text payload ''query'' 120"
    and w: "w = ''WHERE '' @ join_with '' AND '' (query_clauses query
       @ request_clauses (search_text payload ''requestId'' 64)
       @ model_clauses (search_text payload ''model'' 100) @ [range_clause (range_seconds payload)]
       @ date_clauses f t @ cursor_clauses i c)"
  let ?cs = "query_clauses query @ request_clauses (search_text payload ''requestId'' 64)
       @ model_clauses (search_text payload ''model'' 100) @ [range_clause (range_seconds payload)]
       @ date_clauses f t @ cursor_clauses i c"
  let ?ts = "query_shape (query \<noteq> []) @ request_shape (search_text payload ''requestId'' 64 \<noteq> [])
       @ model_shape (search_text payload ''model'' 100 \<noteq> []) @ [sq ''created_at >= now() - interval ~~'']
       @ date_shape (f \<noteq> []) (t \<noteq> []) @ cursor_shape i (c \<noteq> [])"
  have all: "list_all2 (closed esc) ?cs ?ts" by (rule clauses_closed)
  have "closed esc (join_with '' AND '' ?cs) (join_with '' AND '' ?ts)"
    by (rule closed_join_ne [OF all]) simp
  moreover have "free esc ''WHERE '' ''WHERE ''" by (rule free_plain) simp
  ultimately have "closed esc w (''WHERE '' @ join_with '' AND '' ?ts)"
    unfolding w by (intro free_then_closed)
  then have "sql_skeleton esc w = Some (''WHERE '' @ join_with '' AND '' ?ts)"
    using closed_whole by (simp only: sql_skeleton_def)
  with p q show ?thesis unfolding usage_shape_def by blast
qed

section \<open>The actions read only\<close>

lemma reads_query_json: "db_rel (=) (query_json_value ue sql)"
  unfolding query_json_value_def
  by (intro reads.rel_bind reads.rel_query reads.rel_if reads.rel_return reads.rel_lift)

lemma reads_models:
  assumes "\<And>sql. db_rel (=) (query_json sql)"
  shows "db_rel (=) (list_usage_models query_json)"
  unfolding list_usage_models_def Let_def
  by (intro reads.rel_bind reads.rel_prod reads.rel_if assms reads.rel_return reads.rel_lift reads.rel_get
      reads.rel_read_mono reads.rel_put) simp

lemma reads_list: "db_rel (=) (list_usage_logs env ue payload)"
  unfolding list_usage_logs_def metadata_usage_logs_def
  by (intro reads.rel_transaction reads.rel_bind reads.rel_prod reads.rel_lift reads_query_json reads_models
      reads.rel_return)

lemma reads_detail: "db_rel (=) (get_usage_log_detail env ue payload)"
  unfolding get_usage_log_detail_def metadata_usage_log_detail_def
  by (intro reads.rel_bind reads.rel_lift reads_query_json reads.rel_if reads.rel_option reads.rel_raise
      reads.rel_return)

text \<open>
  Reading the usage log changes no table: on every payload, every answer of the server
  and every schedule of faults, list_usage_logs and get_usage_log_detail leave the database
  as it was.
\<close>

theorem usage_reads_only:
  "db (snd (list_usage_logs env ue payload w)) = db w \<and>
   db (snd (get_usage_log_detail env ue payload w)) = db w"
  using reads_list [of env ue payload] reads_detail [of env ue payload] by (simp add: db_rel_def)

section \<open>What an answer may hold\<close>

definition usage_item_ok :: "pydict \<Rightarrow> bool" where
  "usage_item_ok d \<longleftrightarrow> map fst d = FIELDS \<and>
     list_all (\<lambda>(f, n). case dget d f of PStr s \<Rightarrow> length s \<le> n | _ \<Rightarrow> False) TEXT_FIELD_LIMITS"

lemma sanitized_ok: "sanitize_usage_item v = Some d \<Longrightarrow> usage_item_ok d"
  by (cases v)
    (auto simp: sanitize_usage_item_def usage_item_ok_def FIELDS_def TEXT_FIELD_LIMITS_def text_limit_def
      dget_def)

lemma sanitized_all: "list_all usage_item_ok (List.map_filter sanitize_usage_item vs)"
  by (induction vs) (auto simp: List.map_filter_simps dest: sanitized_ok split: option.splits)

lemma clamp_int_bounds: "lo \<le> hi \<Longrightarrow> clamp_int v d lo hi = Inr n \<Longrightarrow> lo \<le> n \<and> n \<le> hi"
  by (auto simp: clamp_int_def split: sum.splits if_splits)

lemma with_transaction_result:
  "with_transaction t body w = (Inr a, w') \<Longrightarrow> \<exists>w1 w2. body w1 = (Inr a, w2)"
  by (auto simp: with_transaction_def Let_def split: if_splits prod.splits sum.splits fault.splits)

text \<open>
  A page of the usage log is bounded and consistent. Whatever the database answers, the
  reply holds at most pageSize items, pageSize is between 1 and 100, every item has exactly
  the listed fields with each text field within its limit, and when the reply says that there
  is more, its cursor is the id and the time of the last item shown.
\<close>

theorem usage_page_bounded:
  assumes "list_usage_logs env ue payload w = (Inr reply, w')"
  shows "\<exists>page_size visible has_more.
    1 \<le> page_size \<and> page_size \<le> 100 \<and> int (length visible) \<le> page_size \<and>
    dget reply ''items'' = PList (map PDict visible) \<and> list_all usage_item_ok visible \<and>
    (if has_more then int (length visible) = page_size \<and>
       dget reply ''page'' = PDict [(''pageSize'', PInt page_size), (''hasMore'', PBool True),
         (''nextCursor'', dget (last visible) ''id''), (''nextCursorCreatedAt'', dget (last visible) ''createdAt'')]
     else dget reply ''page'' = PDict [(''pageSize'', PInt page_size), (''hasMore'', PBool False),
         (''nextCursor'', PInt 0), (''nextCursorCreatedAt'', PStr [])])"
proof -
  obtain w1 w2 where "metadata_usage_logs env ue (query_json_value ue) payload w1 = (Inr reply, w2)"
    using with_transaction_result [OF assms [unfolded list_usage_logs_def]] by blast
  then obtain n query vs models where n: "clamp_int (dget payload ''pageSize'') PAGE_DEFAULT 1 PAGE_MAX = Inr n"
    and reply: "reply = usage_page env payload n query (visible_items n vs) models"
    unfolding metadata_usage_logs_def by (auto elim!: act_bind_InrE)
  have b: "1 \<le> n \<and> n \<le> 100" using clamp_int_bounds [OF _ n] by (simp add: PAGE_MAX_def)
  let ?items = "List.map_filter sanitize_usage_item vs"
  let ?visible = "take (nat n) ?items"
  have ok: "list_all usage_item_ok ?visible"
    using sanitized_all by (auto simp: list_all_iff dest: in_set_takeD)
  show ?thesis
    using b ok
    by (intro exI [of _ n] exI [of _ ?visible] exI [of _ "int (length ?items) > n"])
      (auto simp: reply usage_page_def visible_items_def dget_def Let_def)
qed

text \<open>
  The list of models is asked for at most once in five minutes. When list_usage_models has
  answered, every later call before the cache expires, whatever the database would answer,
  returns the same list without a statement; and the expiry is at most 300 seconds after the
  clock of the call.
\<close>

theorem models_cached:
  assumes "list_usage_models q w = (Inr found, w1)" and "read_mono w2 = (Inr now, w3)"
    and "model_cache w2 = model_cache w1" and "now < fst (model_cache w1)"
    and "fst (model_cache w) \<le> mono w + 300000"
  shows "list_usage_models q2 w2 = (Inr found, w3) \<and> fst (model_cache w1) \<le> mono w1 + 300000"
proof -
  have frame: "model_cache v' = model_cache v \<and> mono v \<le> mono v' \<and> mono v' = n" if "read_mono v = (Inr n, v')" for v v' n
    using that by (auto simp: read_mono_def split: list.splits)
  obtain n0 w0 where r: "read_mono w = (Inr n0, w0)"
    and b: "(case model_cache w0 of (expires_at, items) \<Rightarrow>
       if expires_at > n0 then act_return items
       else
         act_bind (act_lift (clamp_int (PInt 24) 24 1 100)) (\<lambda>limit.
         act_bind (q (models_select limit)) (\<lambda>answer.
         act_bind (act_lift (iter_values (py_or answer (PList [])))) (\<lambda>values.
           let found = map (take 128 \<circ> py_str) (filter (\<lambda>v. strip (str_or_empty v) \<noteq> []) values)
           in act_bind read_mono (\<lambda>later.
              act_bind (act_put (\<lambda>w. w\<lparr>model_cache := (later + MODEL_CACHE_SECONDS * 1000, found)\<rparr>)) (\<lambda>_.
                act_return found)))))) w0 = (Inr found, w1)"
    using assms(1) unfolding list_usage_models_def by (auto simp: act_bind_Inr)
  have "snd (model_cache w1) = found \<and> fst (model_cache w1) \<le> mono w1 + 300000"
  proof (cases "fst (model_cache w0) > n0")
    case True
    with b have "found = snd (model_cache w0)" "w1 = w0" by (auto simp: split_beta)
    then show ?thesis using frame [OF r] assms(5) by auto
  next
    case False
    with b obtain later v v' where "read_mono v = (Inr later, v')"
      "w1 = v'\<lparr>model_cache := (later + MODEL_CACHE_SECONDS * 1000, found)\<rparr>"
      by (auto simp: act_bind_Inr Let_def split_beta)
    then show ?thesis using frame [of v later v'] by (auto simp: MODEL_CACHE_SECONDS_def)
  qed
  moreover have "model_cache w3 = model_cache w2" using frame [OF assms(2)] by simp
  ultimately show ?thesis
    using assms(2,3,4)
    by (auto simp: list_usage_models_def act_bind_def act_get_def split_beta)
qed

section \<open>Numbers of a request\<close>

text \<open>
  The numbers of a usage request are bounded, but reading them is not total: a cursor or
  id outside its range becomes the default, but a text that holds a superscript digit counts
  as digits and then raises, as does a page size of infinity, which clamp_int does not catch.
\<close>

theorem usage_numbers_bounded:
  "(case clamp_identifier v 0 m of Inr n \<Rightarrow> n \<in> insert 0 {m..MAX_SAFE_ID} | Inl e \<Rightarrow> is_value_error e) \<and>
   clamp_identifier (PStr [char_of (178 :: nat)]) 0 0 = Inl (ValueError ''invalid literal'') \<and>
   clamp_int (PFloat (PyFloat ''inf'' False Infinite)) PAGE_DEFAULT 1 PAGE_MAX = Inl OverflowError"
proof -
  have "str_isdigit [char_of (178 :: nat)]" by (simp add: str_isdigit_def)
  moreover have "int_of_text [char_of (178 :: nat)] = None" by code_simp
  ultimately have "clamp_identifier (PStr [char_of (178 :: nat)]) 0 0 = Inl (ValueError ''invalid literal'')"
    by (simp add: clamp_identifier_def)
  moreover have "clamp_int (PFloat (PyFloat ''inf'' False Infinite)) PAGE_DEFAULT 1 PAGE_MAX = Inl OverflowError"
    by (simp add: clamp_int_def)
  moreover have "case clamp_identifier v 0 m of Inr n \<Rightarrow> n \<in> insert 0 {m..MAX_SAFE_ID} | Inl e \<Rightarrow> is_value_error e"
    by (cases v) (auto simp: clamp_identifier_def Let_def split: option.splits)
  ultimately show ?thesis by blast
qed

section \<open>The cursor between two pages\<close>

text \<open>Which rows \<open>(created_at,id) < (cursor time, cursor id)\<close> selects; times of rows in
  microseconds, the time of the cursor in the seconds that \<open>strftime\<close> writes.\<close>

definition after_cursor :: "int \<Rightarrow> int \<Rightarrow> int \<times> int \<Rightarrow> bool" where
  "after_cursor seconds i r \<longleftrightarrow> fst r < seconds * 1000000 \<or> fst r = seconds * 1000000 \<and> snd r < i"

text \<open>
  A page can skip rows. The cursor of a page is the time of its last row, but
  sql_timestamp writes it in whole seconds. Every row of that same second that comes after the
  last row in the order of the list, and has a fraction of a second, is older than the last
  row, yet it is not selected by the cursor of the next page, so no page shows it.
\<close>

theorem usage_paging_skips_second:
  assumes "fromisoformat ue (replace_char (CHR ''Z'') ''+00:00'' (strip text)) = Inr \<lparr>iso_micros = t, iso_offset = Some 0\<rparr>"
    and "strip text \<noteq> []" and "0 \<le> t" and "t < datetime_limit"
    and "t' < t" and "t' div 1000000 = t div 1000000" and "0 < t' mod 1000000"
  shows "sql_timestamp ue (PStr text) = Inr (strftime_utc ue (t div 1000000)) \<and>
    \<not> after_cursor (t div 1000000) i (t', i')"
proof -
  have "t' = t div 1000000 * 1000000 + t' mod 1000000"
    using assms(6) div_mult_mod_eq [of t' 1000000] by simp
  with assms show ?thesis by (auto simp: sql_timestamp_def after_cursor_def Let_def)
qed

section \<open>Witnesses\<close>

definition example_usage_env :: usage_env where
  "example_usage_env =
     \<lparr>fromisoformat = (\<lambda>t. if t = ''2026-01-01T00:00:00.9+00:00'' then Inr \<lparr>iso_micros = 900000, iso_offset = Some 0\<rparr>
          else Inl (ValueError ''Invalid isoformat string'')),
      strftime_utc = (\<lambda>s. ''2026-01-01 00:00:00+00''), usage_answer = (\<lambda>_. ''[]''),
      json_of_text = (\<lambda>_. Inr (PList [PDict [(''id'', PInt 7)], PDict [(''id'', PInt 6)]]))\<rparr>"

definition hostile_usage_query :: pydict where
  "hostile_usage_query = [(''query'', PStr [CHR ''x'', quote, CHR ''-'', CHR ''-'']), (''cursorId'', PInt 7)]"

theorem usage_filters_keep_syntax_witness:
  "\<exists>w. usage_log_filters example_usage_env hostile_usage_query = Inr ([CHR ''x'', quote, CHR ''-'', CHR ''-''], False, w) \<and>
     sql_skeleton True w = Some (usage_shape True False False False False 7 False)"
proof -
  have r: "\<exists>w. usage_log_filters example_usage_env hostile_usage_query = Inr ([CHR ''x'', quote, CHR ''-'', CHR ''-''], False, w)"
    by (simp add: usage_log_filters_def hostile_usage_query_def dget_def sql_timestamp_def search_text_def
        clamp_identifier_def MAX_SAFE_ID_def strip_def lstrip_def rstrip_def is_space_def Let_def)
  then obtain w where w: "usage_log_filters example_usage_env hostile_usage_query = Inr ([CHR ''x'', quote, CHR ''-'', CHR ''-''], False, w)"
    by blast
  from usage_filters_keep_syntax [OF this, of True] w show ?thesis
    by (auto simp: hostile_usage_query_def dget_def sql_timestamp_def search_text_def
        clamp_identifier_def MAX_SAFE_ID_def strip_def lstrip_def rstrip_def is_space_def)
qed

lemma example_query_json:
  "session w = Some 2000 \<Longrightarrow> faults w = [] \<Longrightarrow>
   query_json_value example_usage_env sql w = (Inr (PList [PDict [(''id'', PInt 7)], PDict [(''id'', PInt 6)]]), w)"
  by (simp add: query_json_value_def psql_query_def check_session_def next_fault_def act_bind_def act_get_def
      USAGE_DB_STATEMENT_TIMEOUT_MS_def psql_text_def example_usage_env_def act_return_def
      strip_def lstrip_def rstrip_def is_space_def)

lemma example_filters:
  "\<exists>q f s. usage_log_filters example_usage_env [(''pageSize'', PInt 1)] = Inr (q, f, s)"
  by (auto simp: usage_log_filters_def dget_def sql_timestamp_def clamp_identifier_def strip_def lstrip_def
      rstrip_def Let_def)

theorem usage_page_bounded_witness:
  "\<exists>reply w'. list_usage_logs example_env example_usage_env [(''pageSize'', PInt 1)] (quiet_world empty_database) = (Inr reply, w') \<and>
     (\<exists>visible. dget reply ''items'' = PList (map PDict visible) \<and> list_all usage_item_ok visible)"
proof -
  obtain q f s where f: "usage_log_filters example_usage_env [(''pageSize'', PInt 1)] = Inr (q, f, s)"
    using example_filters by blast
  have "\<exists>reply w'. list_usage_logs example_env example_usage_env [(''pageSize'', PInt 1)] (quiet_world empty_database) = (Inr reply, w')"
    by (simp add: list_usage_logs_def with_transaction_def quiet_world_def next_fault_def Let_def
        USAGE_DB_STATEMENT_TIMEOUT_MS_def metadata_usage_logs_def f act_bind_def clamp_int_def dget_def
        example_query_json list_usage_models_def act_get_def read_mono_def py_or_def act_put_def act_return_def
        act_lift_def PAGE_MAX_def PAGE_DEFAULT_def)
  then obtain reply w' where r: "list_usage_logs example_env example_usage_env [(''pageSize'', PInt 1)] (quiet_world empty_database) = (Inr reply, w')"
    by blast
  from usage_page_bounded [OF r] r show ?thesis by blast
qed

theorem usage_paging_skips_second_witness:
  "\<not> after_cursor 0 5 (400000, 4) \<and>
   sql_timestamp example_usage_env (PStr ''2026-01-01T00:00:00.9Z'') = Inr ''2026-01-01 00:00:00+00''"
  using usage_paging_skips_second [of example_usage_env "''2026-01-01T00:00:00.9Z''" 900000 400000 5 4]
  by (simp add: example_usage_env_def strip_def lstrip_def rstrip_def is_space_def replace_char_def
      datetime_limit_def)

theorem models_cached_witness:
  "\<exists>w1. list_usage_models (\<lambda>_. act_return (PList [PStr ''gpt''])) (quiet_world empty_database) = (Inr [''gpt''], w1) \<and>
     list_usage_models (\<lambda>_. act_raise TypeError) w1 = (Inr [''gpt''], w1)"
proof -
  let ?w1 = "(quiet_world empty_database)\<lparr>model_cache := (300000, [''gpt''])\<rparr>"
  have r: "list_usage_models (\<lambda>_. act_return (PList [PStr ''gpt''])) (quiet_world empty_database) = (Inr [''gpt''], ?w1)"
    by (simp add: list_usage_models_def act_bind_def act_get_def read_mono_def quiet_world_def clamp_int_def
        act_return_def act_lift_def act_put_def py_or_def strip_def lstrip_def rstrip_def is_space_def
        MODEL_CACHE_SECONDS_def Let_def)
  have "read_mono ?w1 = (Inr 0, ?w1)" by (simp add: read_mono_def quiet_world_def)
  from models_cached [OF r this, of "\<lambda>_. act_raise TypeError"] r show ?thesis by (simp add: quiet_world_def)
qed

end
