(* ===== verification/Diagnostics.thy ===== *)
theory Diagnostics
  imports Invite
begin

text \<open>
  The record of failed requests in \<open>sub2api_sync.py\<close>: \<open>record_failure_diagnostic\<close>,
  \<open>failure_diagnostic\<close> and the reading of a SQLSTATE from what psql prints. The bounded,
  expiring queue is shown to implement a plain history: what it answers is the latest of the
  last 256 recent failures.
\<close>

section \<open>Constants and patterns\<close>

definition MAX_DATABASE_ERROR_BYTES :: nat where "MAX_DATABASE_ERROR_BYTES = 128"
definition MAX_FAILURE_DIAGNOSTICS :: nat where "MAX_FAILURE_DIAGNOSTICS = 256"
definition FAILURE_DIAGNOSTIC_TTL_SECONDS :: int where "FAILURE_DIAGNOSTIC_TTL_SECONDS = 6 * 60 * 60"

definition SYNC_ACTIONS :: "pystr list" where
  "SYNC_ACTIONS = [''provision'', ''status'', ''login'', ''deprovision'', ''purge'', ''usage_logs_list'',
     ''usage_log_detail'', ''list_groups'', ''test_api_key'', ''diagnostics'']"

text \<open>\<open>[A-Za-z0-9._-]{1,64}\<close> and \<open>[0-9A-DF-HJ-Z][0-9A-Z]{4}\<close>.\<close>

definition request_id_ok :: "pystr \<Rightarrow> bool" where
  "request_id_ok s \<longleftrightarrow> s \<noteq> [] \<and> length s \<le> 64 \<and> list_all (\<lambda>c. is_alnum c \<or> c \<in> set ''._-'') s"

definition sqlstate_char :: "char \<Rightarrow> bool" where
  "sqlstate_char c \<longleftrightarrow> is_digit c \<or> is_upper c"

definition sqlstate_ok :: "pystr \<Rightarrow> bool" where
  "sqlstate_ok s \<longleftrightarrow> length s = 5 \<and> list_all sqlstate_char s \<and> hd s \<noteq> CHR ''E'' \<and> hd s \<noteq> CHR ''I''"

section \<open>The SQLSTATE of an error message\<close>

text \<open>\<open>SQLSTATE_MESSAGE_RE.search\<close>: one of the two words, white space, a SQLSTATE, and the
  end of a word; tried at every position. White space and the characters of a SQLSTATE are
  disjoint, so the match takes all the white space.\<close>

definition word_char :: "char \<Rightarrow> bool" where
  "word_char c \<longleftrightarrow> is_alnum c \<or> c = CHR ''_''"

fun after_word :: "pystr \<Rightarrow> pystr \<Rightarrow> pystr option" where
  "after_word [] s = Some s"
| "after_word (p # ps) [] = None"
| "after_word (p # ps) (c # cs) = (if p = c then after_word ps cs else None)"

definition sqlstate_after :: "pystr \<Rightarrow> pystr option" where
  "sqlstate_after s =
     (let r = dropWhile is_space s
      in if sqlstate_ok (take 5 r) \<and> (drop 5 r = [] \<or> \<not> word_char (hd (drop 5 r)))
         then Some (take 5 r) else None)"

definition sqlstate_here :: "pystr \<Rightarrow> pystr option" where
  "sqlstate_here s =
     (case after_word ''SQLSTATE'' s of
        Some r \<Rightarrow> sqlstate_after r
      | None \<Rightarrow> (case after_word ''ERROR:'' s of Some r \<Rightarrow> sqlstate_after r | None \<Rightarrow> None))"

fun sqlstate_search :: "pystr \<Rightarrow> pystr option" where
  "sqlstate_search [] = None"
| "sqlstate_search (c # cs) =
     (case sqlstate_here (c # cs) of Some s \<Rightarrow> Some s | None \<Rightarrow> sqlstate_search cs)"

text \<open>\<open>decode("ascii", errors="ignore")\<close> drops the other bytes.\<close>

definition database_error_sqlstate :: "bytes \<Rightarrow> pystr option" where
  "database_error_sqlstate stderr =
     sqlstate_search (filter (\<lambda>c. ord c < 128) (take MAX_DATABASE_ERROR_BYTES stderr))"

text \<open>\<open>DatabaseCommandError(sqlstate)\<close> keeps only a well-formed SQLSTATE.\<close>

definition database_command_error :: "pystr option \<Rightarrow> pyexn" where
  "database_command_error sqlstate =
     DatabaseCommandError (case sqlstate of None \<Rightarrow> None | Some s \<Rightarrow> (if sqlstate_ok s then Some s else None))"

lemma sqlstate_search_ok: "sqlstate_search s = Some x \<Longrightarrow> sqlstate_ok x"
  by (induction s) (auto simp: sqlstate_here_def sqlstate_after_def Let_def split: option.splits if_splits)

text \<open>
  Whatever psql prints, what is read from it as a SQLSTATE is None or a well-formed SQLSTATE of five
  characters, and the exception that carries it keeps it unchanged: no other text of the
  database reaches a log or a diagnostic through it.
\<close>

theorem database_error_keeps_sqlstate:
  "database_command_error (database_error_sqlstate stderr) = DatabaseCommandError (database_error_sqlstate stderr)
   \<and> (case database_error_sqlstate stderr of None \<Rightarrow> True | Some s \<Rightarrow> sqlstate_ok s)"
  using sqlstate_search_ok
  by (auto simp: database_error_sqlstate_def database_command_error_def split: option.splits)

section \<open>The queue\<close>

record diagnostic =
  d_request :: pystr
  d_action :: pystr
  d_category :: pystr
  d_sqlstate :: "pystr option"
  d_recorded :: int

text \<open>Times are milliseconds of \<open>time.time()\<close>.\<close>

definition expired :: "int \<Rightarrow> diagnostic \<Rightarrow> bool" where
  "expired now d \<longleftrightarrow> now - d_recorded d > FAILURE_DIAGNOSTIC_TTL_SECONDS * 1000"

definition prune :: "int \<Rightarrow> diagnostic list \<Rightarrow> diagnostic list" where
  "prune now ds = dropWhile (expired now) ds"

text \<open>\<open>append\<close> to a deque with \<open>maxlen\<close>.\<close>

definition deque_append :: "'a \<Rightarrow> 'a list \<Rightarrow> 'a list" where
  "deque_append x xs = (if length xs < MAX_FAILURE_DIAGNOSTICS then xs @ [x] else tl xs @ [x])"

definition safe_diagnostic :: "pystr \<Rightarrow> pystr \<Rightarrow> pystr \<Rightarrow> pystr option \<Rightarrow> int \<Rightarrow> diagnostic" where
  "safe_diagnostic request_id action category sqlstate now =
     \<lparr>d_request = request_id,
      d_action = (if action \<in> set SYNC_ACTIONS then action else ''unknown''),
      d_category = (if category \<in> {''redis_unavailable'', ''database_unavailable'', ''database_error'',
                      ''dependency_timeout''} then category else ''unknown''),
      d_sqlstate = (case sqlstate of None \<Rightarrow> None | Some s \<Rightarrow> (if sqlstate_ok s then Some s else None)),
      d_recorded = now\<rparr>"

definition record_failure_diagnostic ::
  "pystr \<Rightarrow> pystr \<Rightarrow> pystr \<Rightarrow> pystr option \<Rightarrow> int \<Rightarrow> diagnostic list \<Rightarrow> diagnostic list" where
  "record_failure_diagnostic request_id action category sqlstate now ds =
     (if \<not> request_id_ok request_id then ds
      else deque_append (safe_diagnostic request_id action category sqlstate now) (prune now ds))"

definition not_found :: pyexn where "not_found = ValueError ''diagnostic not found''"

text \<open>\<open>compare_digest\<close> of a string with a value of the payload.\<close>

definition compare_value :: "pystr \<Rightarrow> pyval \<Rightarrow> bool res" where
  "compare_value s v = (case v of PStr t \<Rightarrow> compare_digest s t | _ \<Rightarrow> Inl TypeError)"

definition diagnostic_reply :: "diagnostic \<Rightarrow> pydict" where
  "diagnostic_reply d =
     [(''requestId'', PStr (d_request d)), (''action'', PStr (d_action d)), (''category'', PStr (d_category d)),
      (''sqlstate'', case d_sqlstate d of None \<Rightarrow> PNone | Some s \<Rightarrow> PStr s),
      (''recordedAt'', PInt (d_recorded d div 1000))]"

fun find_diagnostic :: "pyval \<Rightarrow> diagnostic list \<Rightarrow> pydict res" where
  "find_diagnostic request_id [] = Inl not_found"
| "find_diagnostic request_id (d # ds) =
     (case compare_value (d_request d) request_id of
        Inl e \<Rightarrow> Inl e
      | Inr same \<Rightarrow> (if same then Inr (diagnostic_reply d) else find_diagnostic request_id ds))"

definition failure_diagnostic :: "pyval \<Rightarrow> int \<Rightarrow> diagnostic list \<Rightarrow> pydict res \<times> diagnostic list" where
  "failure_diagnostic request_id now ds =
     (if \<not> request_id_ok (str_or_empty request_id) then (Inl not_found, ds)
      else (find_diagnostic request_id (rev (prune now ds)), prune now ds))"

section \<open>A history of failures\<close>

text \<open>The specification keeps every recorded failure and never forgets one.\<close>

datatype diagnostic_op =
    RecordFailure pystr pystr pystr "pystr option"
  | AskDiagnostic pyval

fun diagnostic_step :: "int \<times> diagnostic_op \<Rightarrow> diagnostic list \<Rightarrow> pydict res option \<times> diagnostic list" where
  "diagnostic_step (now, RecordFailure i a c s) ds = (None, record_failure_diagnostic i a c s now ds)"
| "diagnostic_step (now, AskDiagnostic v) ds =
     (case failure_diagnostic v now ds of (r, ds') \<Rightarrow> (Some r, ds'))"

fun diagnostic_run :: "(int \<times> diagnostic_op) list \<Rightarrow> diagnostic list \<Rightarrow> pydict res option list" where
  "diagnostic_run [] ds = []"
| "diagnostic_run (op # ops) ds =
     (case diagnostic_step op ds of (r, ds') \<Rightarrow> r # diagnostic_run ops ds')"

definition lastn :: "'a list \<Rightarrow> 'a list" where
  "lastn xs = drop (length xs - MAX_FAILURE_DIAGNOSTICS) xs"

definition last_recent :: "int \<Rightarrow> diagnostic list \<Rightarrow> diagnostic list" where
  "last_recent now h =
     lastn (filter (\<lambda>d. \<not> expired now d) h)"

fun history_step :: "int \<times> diagnostic_op \<Rightarrow> diagnostic list \<Rightarrow> pydict res option \<times> diagnostic list" where
  "history_step (now, RecordFailure i a c s) h =
     (None, if request_id_ok i then h @ [safe_diagnostic i a c s now] else h)"
| "history_step (now, AskDiagnostic v) h =
     (Some (if request_id_ok (str_or_empty v) then find_diagnostic v (rev (last_recent now h)) else Inl not_found), h)"

fun history_run :: "(int \<times> diagnostic_op) list \<Rightarrow> diagnostic list \<Rightarrow> pydict res option list" where
  "history_run [] h = []"
| "history_run (op # ops) h = (case history_step op h of (r, h') \<Rightarrow> r # history_run ops h')"

text \<open>On a history in order of time the expired entries are at the front.\<close>

lemma expired_mono: "expired now d \<Longrightarrow> now \<le> now' \<Longrightarrow> expired now' d"
  by (simp add: expired_def)

lemma expired_older: "expired now d \<Longrightarrow> d_recorded d' \<le> d_recorded d \<Longrightarrow> expired now d'"
  by (simp add: expired_def)

lemma filter_fresh_sorted:
  "sorted (map d_recorded h) \<Longrightarrow> filter (\<lambda>d. \<not> expired now d) h = dropWhile (expired now) h"
proof (induction h)
  case (Cons d h)
  show ?case
  proof (cases "expired now d")
    case False
    with Cons.prems have "\<forall>x \<in> set h. \<not> expired now x" by (auto dest: expired_older)
    with False show ?thesis by simp
  qed (use Cons in simp)
qed simp

lemma dropWhile_drop:
  assumes "\<forall>y \<in> set (dropWhile P xs). \<not> P y"
  shows "dropWhile P (drop n xs) = drop (n - length (takeWhile P xs)) (dropWhile P xs)"
  using assms
proof (induction xs arbitrary: n)
  case (Cons x xs)
  show ?case
  proof (cases n)
    case (Suc m)
    show ?thesis
    proof (cases "P x")
      case True
      then have e: "dropWhile P (x # xs) = dropWhile P xs" by simp
      have "\<forall>y \<in> set (dropWhile P xs). \<not> P y" using Cons.prems unfolding e .
      from Cons.IH [OF this, of m] True Suc show ?thesis
        by (simp only: drop_Suc_Cons dropWhile.simps takeWhile.simps if_True list.size add_Suc_right add_0_right
            diff_Suc_Suc)
    next
      case False
      with Cons.prems have "\<forall>y \<in> set (drop m xs). \<not> P y" by (auto dest: in_set_dropD)
      then have "dropWhile P (drop m xs) = drop m xs" by (cases "drop m xs") simp_all
      with False Suc show ?thesis by simp
    qed
  qed simp
qed simp

lemma dropWhile_twice:
  "(\<And>x. P x \<Longrightarrow> Q x) \<Longrightarrow> dropWhile Q (dropWhile P xs) = dropWhile Q xs"
  by (induction xs) auto

lemma prune_last_recent:
  assumes "sorted (map d_recorded h)" and "t \<le> t'"
  shows "prune t' (last_recent t h) = last_recent t' h"
proof -
  let ?g = "dropWhile (expired t) h" and ?P = "expired t'"
  have g: "filter (\<lambda>d. \<not> expired t d) h = ?g" "filter (\<lambda>d. \<not> ?P d) h = dropWhile ?P h"
    using assms(1) by (auto intro: filter_fresh_sorted)
  have two: "dropWhile ?P ?g = dropWhile ?P h"
    using assms(2) by (intro dropWhile_twice) (auto intro: expired_mono)
  have "\<forall>y \<in> set (dropWhile ?P ?g). \<not> ?P y"
    unfolding two g(2) [symmetric] by simp
  then have "dropWhile ?P (drop (length ?g - 256) ?g) =
      drop (length ?g - 256 - length (takeWhile ?P ?g)) (dropWhile ?P ?g)"
    by (rule dropWhile_drop)
  moreover have "length (dropWhile ?P ?g) = length ?g - length (takeWhile ?P ?g)"
    by (metis add_diff_cancel_left' length_append takeWhile_dropWhile_id)
  ultimately show ?thesis
    using two by (simp add: prune_def last_recent_def lastn_def g MAX_FAILURE_DIAGNOSTICS_def add.commute)
qed

lemma deque_append_lastn: "deque_append x (lastn xs) = lastn (xs @ [x])"
proof (cases "length xs < 256")
  case True
  then show ?thesis by (simp add: deque_append_def lastn_def MAX_FAILURE_DIAGNOSTICS_def)
next
  case False
  then have "length xs + 1 - 256 = Suc (length xs - 256)" by simp
  with False show ?thesis
    by (simp add: deque_append_def lastn_def MAX_FAILURE_DIAGNOSTICS_def drop_Suc tl_drop)
qed

text \<open>The queue stands for the history at the time of the last operation.\<close>

definition stands_for :: "int \<Rightarrow> diagnostic list \<Rightarrow> diagnostic list \<Rightarrow> bool" where
  "stands_for now ds h \<longleftrightarrow>
     sorted (map d_recorded h) \<and> list_all (\<lambda>d. d_recorded d \<le> now) h \<and> (\<exists>t \<le> now. ds = last_recent t h)"

lemma stands_for_later: "stands_for now ds h \<Longrightarrow> now \<le> t \<Longrightarrow> stands_for t ds h"
  unfolding stands_for_def list_all_iff
  by (elim conjE exE, intro conjI exI) (auto intro: order_trans)

lemma stands_for_record:
  assumes "stands_for now ds h" and "d_recorded x = now"
  shows "stands_for now (deque_append x (prune now ds)) (h @ [x])"
proof -
  obtain t where t: "t \<le> now" "ds = last_recent t h" and h: "sorted (map d_recorded h)"
    "list_all (\<lambda>d. d_recorded d \<le> now) h"
    using assms(1) unfolding stands_for_def by blast
  have "prune now ds = last_recent now h" using prune_last_recent [OF h(1) t(1)] t(2) by simp
  moreover have "\<not> expired now x" using assms(2) by (simp add: expired_def FAILURE_DIAGNOSTIC_TTL_SECONDS_def)
  ultimately have "deque_append x (prune now ds) = last_recent now (h @ [x])"
    by (simp add: last_recent_def deque_append_lastn)
  moreover have "sorted (map d_recorded (h @ [x]))"
    using h assms(2) by (auto simp: sorted_append list_all_iff)
  moreover have "list_all (\<lambda>d. d_recorded d \<le> now) (h @ [x])" using h(2) assms(2) by simp
  ultimately show ?thesis unfolding stands_for_def by blast
qed

lemma stands_for_ask:
  assumes "stands_for now ds h"
  shows "prune now ds = last_recent now h \<and> stands_for now (prune now ds) h"
proof -
  obtain t where t: "t \<le> now" "ds = last_recent t h" and h: "sorted (map d_recorded h)"
    "list_all (\<lambda>d. d_recorded d \<le> now) h"
    using assms unfolding stands_for_def by blast
  have "prune now ds = last_recent now h" using prune_last_recent [OF h(1) t(1)] t(2) by simp
  with h show ?thesis unfolding stands_for_def by auto
qed

lemma diagnostic_simulation:
  assumes "stands_for t0 ds h" and "t0 \<le> fst op"
  shows "fst (diagnostic_step op ds) = fst (history_step op h) \<and>
    stands_for (fst op) (snd (diagnostic_step op ds)) (snd (history_step op h))"
proof (cases op)
  case (Pair now kind)
  then have s: "stands_for now ds h" using stands_for_later assms by simp
  show ?thesis
  proof (cases kind)
    case (RecordFailure i a c st)
    have "d_recorded (safe_diagnostic i a c st now) = now" by (simp add: safe_diagnostic_def)
    from stands_for_record [OF s this] s Pair RecordFailure show ?thesis
      by (simp add: record_failure_diagnostic_def)
  next
    case (AskDiagnostic v)
    have p: "prune now ds = last_recent now h" using stands_for_ask [OF s] by blast
    have q: "stands_for now (last_recent now h) h" using stands_for_ask [OF s] unfolding p by blast
    with p s Pair AskDiagnostic show ?thesis by (simp add: failure_diagnostic_def)
  qed
qed

text \<open>
  C20. The queue of failed requests implements the full history: in every sequence of records
  and questions in order of time, each question gets the answer computed from all failures
  ever recorded, restricted to the last 256 of those at most six hours old, the latest first.
  The bounded queue, its expiry at each operation and its dropped oldest entries lose nothing
  else.
\<close>

theorem diagnostics_refine_history:
  assumes "sorted (map fst ops)"
  shows "diagnostic_run ops [] = history_run ops []"
proof -
  have "diagnostic_run ops ds = history_run ops h" if "stands_for t ds h" "\<forall>op \<in> set ops. t \<le> fst op" for t ds h
    using that assms
  proof (induction ops arbitrary: t ds h)
    case (Cons op ops)
    note sim = diagnostic_simulation [OF Cons.prems(1), of op]
    from Cons.prems sim Cons.IH [of "fst op"] show ?case
      by (auto simp: split_beta)
  qed simp
  moreover have "stands_for t [] []" for t by (auto simp: stands_for_def last_recent_def lastn_def)
  moreover have "\<exists>t. \<forall>op \<in> set ops. t \<le> fst op"
    using assms by (cases ops) (auto intro: exI [of _ "fst (hd ops)"])
  ultimately show ?thesis by blast
qed

definition example_ops :: "(int \<times> diagnostic_op) list" where
  "example_ops = [(0, RecordFailure ''r1'' ''login'' ''database_error'' (Some ''40001'')),
     (5000, RecordFailure ''r2'' ''x'' ''y'' None), (9000, AskDiagnostic (PStr ''r1'')),
     (21601000, AskDiagnostic (PStr ''r1''))]"

theorem diagnostics_refine_history_witness:
  "diagnostic_run example_ops [] = history_run example_ops [] \<and> length (history_run example_ops []) = 4"
  using diagnostics_refine_history [of example_ops] by (simp add: example_ops_def)

text \<open>
  A recorded failure can be asked for: a failure recorded under a valid request id is
  what failure_diagnostic answers under that id for the next six hours, whatever the queue
  held before, with the action, category and SQLSTATE reduced to the known ones.
\<close>

theorem recorded_failure_found:
  assumes "request_id_ok i" and "now \<le> later" and "later \<le> now + FAILURE_DIAGNOSTIC_TTL_SECONDS * 1000"
  shows "fst (failure_diagnostic (PStr i) later (record_failure_diagnostic i a c st now ds)) =
    Inr (diagnostic_reply (safe_diagnostic i a c st now))"
proof -
  let ?x = "safe_diagnostic i a c st now"
  have fresh: "\<not> expired later ?x" using assms(3) by (simp add: expired_def safe_diagnostic_def)
  have "\<exists>ys. deque_append ?x zs = ys @ [?x]" for zs by (simp add: deque_append_def)
  then obtain ys where ys: "deque_append ?x (prune now ds) = ys @ [?x]" by blast
  have "\<exists>zs. prune later (ys @ [?x]) = zs @ [?x]"
    using fresh by (induction ys) (auto simp: prune_def)
  moreover have "is_ascii i"
    using assms(1) by (fastforce simp: request_id_ok_def is_ascii_def list_all_iff is_alnum_def is_digit_def
        is_upper_def is_lower_def)
  ultimately show ?thesis
    using assms(1) ys
    by (auto simp: record_failure_diagnostic_def failure_diagnostic_def compare_value_def compare_digest_def
        safe_diagnostic_def)
qed

theorem recorded_failure_found_witness:
  "fst (failure_diagnostic (PStr ''r1'') 9000 (record_failure_diagnostic ''r1'' ''login'' ''database_error'' None 0 [])) =
   Inr (diagnostic_reply (safe_diagnostic ''r1'' ''login'' ''database_error'' None 0))"
proof -
  have "request_id_ok ''r1''" by code_simp
  from recorded_failure_found [OF this, of 0 9000] show ?thesis by (simp add: FAILURE_DIAGNOSTIC_TTL_SECONDS_def)
qed

text \<open>
  A request id that is not a string passes the check of its text and then raises: with one
  recent failure in the queue, asking for the number 5 is a TypeError and not "not found".
\<close>

theorem diagnostic_of_number_raises:
  "fst (failure_diagnostic (PInt 5) 0 (record_failure_diagnostic ''r1'' ''login'' ''database_error'' None 0 [])) = Inl TypeError
   \<and> fst (failure_diagnostic (PInt 5) 0 []) = Inl not_found"
proof -
  have "request_id_ok ''r1''" "request_id_ok (str_or_empty (PInt 5))" by code_simp+
  then show ?thesis
    by (simp add: failure_diagnostic_def record_failure_diagnostic_def deque_append_def prune_def
        MAX_FAILURE_DIAGNOSTICS_def expired_def safe_diagnostic_def FAILURE_DIAGNOSTIC_TTL_SECONDS_def compare_value_def)
qed

end
