(* ===== verification/Http.thy ===== *)
theory Http
  imports Lifecycle Usage Diagnostics Auth
begin

text \<open>
  The HTTP service of \<open>sub2api_sync.py\<close>: \<open>Handler\<close> with its request checks, the dispatch of
  an action, the mapping of exceptions to answers, the log lines, and the admission of
  requests by \<open>SafeThreadingHTTPServer\<close>. A handler takes the request and the state of the
  service to the answer (\<open>None\<close> when an exception leaves the handler and the connection is
  closed without one), the log lines in order, and the new state. \<open>Http_Facts\<close> and
  \<open>Http_Server\<close> have the properties.
\<close>

section \<open>State, environment and requests\<close>

record 's service =
  sv_world :: world
  sv_redis :: 's
  sv_failures :: "diagnostic list"

record 's service_env =
  se_env :: sync_env
  se_up :: upstream
  se_usage :: usage_env
  se_sha256 :: "bytes \<Rightarrow> pystr"
  se_redis :: "pystr list \<Rightarrow> 's \<Rightarrow> redis_value res \<times> 's"

text \<open>
  A request: what the peer sends of the body, and what happens after it (\<open>None\<close>: it closes
  its side, \<open>Some e\<close>: reading raises). \<open>rq_clock\<close> and \<open>rq_later\<close> are \<open>time.time()\<close> in
  milliseconds when the signature is checked and when a failure is recorded or asked for.
\<close>

record request =
  rq_command :: pystr
  rq_path :: pystr
  rq_headers :: headers
  rq_sent :: bytes
  rq_end :: "pyexn option"
  rq_clock :: int
  rq_later :: int

record response =
  rs_status :: int
  rs_body :: pydict
  rs_extra :: "(pystr \<times> pystr) list"

type_synonym 's handled = "response option \<times> pydict list \<times> 's service"

definition MAX_BODY_BYTES :: int where "MAX_BODY_BYTES = 16384"
definition HEALTH_DEPENDENCY_TIMEOUT_SECONDS :: int where "HEALTH_DEPENDENCY_TIMEOUT_SECONDS = 1"

text \<open>\<open>rfile.read(n)\<close> on the buffered stream of the connection.\<close>

definition read_body :: "request \<Rightarrow> nat \<Rightarrow> bytes res" where
  "read_body rq n =
     (if n \<le> length (rq_sent rq) then Inr (take n (rq_sent rq))
      else case rq_end rq of None \<Rightarrow> Inr (rq_sent rq) | Some e \<Rightarrow> Inl e)"

definition on_world :: "'a act \<Rightarrow> 's service \<Rightarrow> 'a res \<times> 's service" where
  "on_world m sv = (case m (sv_world sv) of (r, w) \<Rightarrow> (r, sv\<lparr>sv_world := w\<rparr>))"

text \<open>\<open>request_id\<close>: the header when it is well formed, else 16 random hexadecimal digits.\<close>

definition request_id :: "headers \<Rightarrow> pystr act" where
  "request_id headers =
     (let value = header_or_empty headers ''x-request-id''
      in if request_id_ok value then act_return value else token_hex 8)"

definition path_route :: "pystr \<Rightarrow> pystr" where
  "path_route path =
     (if path = ''/provision'' then ''provision''
      else if path \<in> {''/health'', ''/healthz''} then ''health'' else ''not_found'')"

section \<open>Answers and log lines\<close>

definition log_line :: "pystr \<Rightarrow> pystr \<Rightarrow> pystr option \<Rightarrow> pystr \<Rightarrow> pydict" where
  "log_line level code action rid =
     [(''level'', PStr level), (''error_code'', PStr code)]
     @ (case action of None \<Rightarrow> [] | Some a \<Rightarrow> [(''action'', PStr a)])
     @ [(''request_id'', PStr rid)]"

definition error_payload :: "pystr \<Rightarrow> bool \<Rightarrow> pystr option \<Rightarrow> pystr \<Rightarrow> pydict" where
  "error_payload error retryable action rid =
     [(''ok'', PBool False), (''error'', PStr error), (''retryable'', PBool retryable), (''requestId'', PStr rid)]
     @ (case action of None \<Rightarrow> [] | Some a \<Rightarrow> (if a \<in> set SYNC_ACTIONS then [(''action'', PStr a)] else []))"

text \<open>\<open>respond\<close>: the answer and its log line. \<open>started\<close> is \<open>request_started_at\<close>, absent in
  \<open>_other_method\<close>; \<open>action\<close> is \<open>self.action\<close>.\<close>

definition respond ::
  "request \<Rightarrow> pystr \<Rightarrow> int option \<Rightarrow> pystr \<Rightarrow> int \<Rightarrow> pydict \<Rightarrow> (pystr \<times> pystr) list \<Rightarrow> pydict list
    \<Rightarrow> 's service \<Rightarrow> 's handled" where
  "respond rq rid started action st payload extra logs sv =
     (case (case started of None \<Rightarrow> (0, sv_world sv)
            | Some s \<Rightarrow> (case read_mono (sv_world sv) of
                (Inr now, w) \<Rightarrow> (max 0 (min 600000 (now - s)), w) | (Inl _, w) \<Rightarrow> (0, w))) of
        (elapsed_ms, w) \<Rightarrow>
          (Some \<lparr>rs_status = st, rs_body = payload, rs_extra = extra\<rparr>,
           logs @ [[(''level'', PStr ''info''), (''event'', PStr ''sync_response''),
             (''route'', PStr (path_route (rq_path rq))),
             (''action'', PStr (if action \<in> set SYNC_ACTIONS then action else ''none'')),
             (''status'', PInt st), (''latency_ms'', PInt elapsed_ms), (''request_id'', PStr rid)]],
           sv\<lparr>sv_world := w\<rparr>))"

text \<open>\<open>do_POST\<close> and the others answer errors through \<open>respond_error\<close>.\<close>

definition respond_error ::
  "request \<Rightarrow> pystr \<Rightarrow> int option \<Rightarrow> pystr \<Rightarrow> int \<Rightarrow> pystr \<Rightarrow> bool \<Rightarrow> pystr option \<Rightarrow> int option
    \<Rightarrow> (pystr \<times> pystr) list \<Rightarrow> pydict list \<Rightarrow> 's service \<Rightarrow> 's handled" where
  "respond_error rq rid started self_action st error retryable action retry_after extra logs sv =
     respond rq rid started self_action st (error_payload error retryable action rid)
       (extra @ (case retry_after of None \<Rightarrow> [] | Some n \<Rightarrow> [(''retry-after'', int_str n)])) logs sv"

text \<open>The bytes written for an answer; a \<open>HEAD\<close> request gets no body.\<close>

definition response_headers :: "pystr \<Rightarrow> response \<Rightarrow> (pystr \<times> pystr) list" where
  "response_headers rid r =
     [(''content-type'', ''application/json; charset=utf-8''), (''cache-control'', ''no-store''),
      (''x-content-type-options'', ''nosniff''), (''referrer-policy'', ''no-referrer''), (''x-request-id'', rid),
      (''content-security-policy'', sq ''default-src ~none~; frame-ancestors ~none~; base-uri ~none~'')]
     @ rs_extra r @ [(''content-length'', nat_str (length (json_dumps (PDict (rs_body r)))))]"

definition response_body :: "request \<Rightarrow> response \<Rightarrow> bytes" where
  "response_body rq r = (if rq_command rq = ''HEAD'' then [] else json_dumps (PDict (rs_body r)))"

section \<open>Exceptions of an action\<close>

text \<open>What a clause of the \<open>except\<close> chain does: the log line, the diagnostic it records
  (category and SQLSTATE), and the answer.\<close>

record failure =
  fl_log :: "(pystr \<times> pystr \<times> bool)"
  fl_record :: "(pystr \<times> pystr option) option"
  fl_status :: int
  fl_error :: pystr
  fl_retryable :: bool
  fl_named :: bool
  fl_retry_after :: "int option"

definition action_failed :: failure where
  "action_failed = \<lparr>fl_log = (''error'', ''sync_action_failed'', True), fl_record = None, fl_status = 500,
     fl_error = ''internal_error'', fl_retryable = False, fl_named = True, fl_retry_after = None\<rparr>"

definition json_invalid :: failure where
  "json_invalid = \<lparr>fl_log = (''warning'', ''sync_request_json_invalid'', False), fl_record = None,
     fl_status = 400, fl_error = ''invalid_json'', fl_retryable = False, fl_named = False, fl_retry_after = None\<rparr>"

definition value_failure :: "pystr \<Rightarrow> failure" where
  "value_failure message =
     (if message \<in> {''usage log not found'', ''diagnostic not found''} then
        \<lparr>fl_log = (''warning'', ''sync_resource_not_found'', True), fl_record = None, fl_status = 404,
         fl_error = ''not_found'', fl_retryable = False, fl_named = True, fl_retry_after = None\<rparr>
      else
        \<lparr>fl_log = (''warning'', ''sync_request_invalid'', True), fl_record = None, fl_status = 400,
         fl_error = ''invalid_request'', fl_retryable = False, fl_named = True, fl_retry_after = None\<rparr>)"

definition timeout_failure :: failure where
  "timeout_failure = \<lparr>fl_log = (''warning'', ''sync_dependency_timeout'', True),
     fl_record = Some (''dependency_timeout'', None), fl_status = 504, fl_error = ''dependency_timeout'',
     fl_retryable = True, fl_named = True, fl_retry_after = Some 1\<rparr>"

definition url_failure :: "bool \<Rightarrow> failure" where
  "url_failure timed_out =
     \<lparr>fl_log = (''warning'', if timed_out then ''sync_dependency_timeout'' else ''sync_upstream_unavailable'', True),
      fl_record = None, fl_status = (if timed_out then 504 else 502),
      fl_error = (if timed_out then ''dependency_timeout'' else ''upstream_unavailable''), fl_retryable = True,
      fl_named = True, fl_retry_after = (if timed_out then Some 1 else None)\<rparr>"

definition conflict_failure :: "pystr \<Rightarrow> pystr \<Rightarrow> (pystr \<times> pystr option) option \<Rightarrow> failure" where
  "conflict_failure code error recorded =
     \<lparr>fl_log = (''warning'', code, True), fl_record = recorded, fl_status = 409, fl_error = error,
      fl_retryable = False, fl_named = True, fl_retry_after = None\<rparr>"

definition database_failure :: "pystr \<Rightarrow> pystr option \<Rightarrow> failure" where
  "database_failure category sqlstate =
     \<lparr>fl_log = (''error'', ''sync_dependency_unavailable'', True), fl_record = Some (category, sqlstate),
      fl_status = 503, fl_error = ''dependency_unavailable'', fl_retryable = True, fl_named = True,
      fl_retry_after = Some 1\<rparr>"

definition login_failure :: "pystr \<Rightarrow> failure" where
  "login_failure code =
     (if code = ''sub2api_login_rate_limited'' then
        \<lparr>fl_log = (''warning'', ''sync_upstream_rate_limited'', True), fl_record = None, fl_status = 429,
         fl_error = ''upstream_rate_limited'', fl_retryable = True, fl_named = True, fl_retry_after = Some 1\<rparr>
      else
        \<lparr>fl_log = (''warning'', ''sync_upstream_invalid_response'', True), fl_record = None, fl_status = 502,
         fl_error = ''upstream_invalid_response'', fl_retryable = (code \<noteq> ''sub2api_login_rejected''),
         fl_named = True, fl_retry_after = None\<rparr>)"

definition starts_with :: "pystr \<Rightarrow> pystr \<Rightarrow> bool" where
  "starts_with p s \<longleftrightarrow> take (length p) s = p"

definition runtime_failure :: "pystr \<Rightarrow> failure" where
  "runtime_failure code =
     (if code = ''invite_identity_mismatch'' then conflict_failure ''sync_identity_conflict'' ''identity_conflict'' None
      else if code \<in> {''email_conflict'', ''api_key_conflict''} then conflict_failure ''sync_data_conflict'' code None
      else if code \<in> {''database_command_failed'', ''database_configuration_invalid''}
      then database_failure ''database_unavailable'' None
      else if starts_with ''sub2api_login_'' code then login_failure code
      else action_failed)"

fun failure_of :: "pyexn \<Rightarrow> failure" where
  "failure_of JSONDecodeError = json_invalid"
| "failure_of UnicodeDecodeError = json_invalid"
| "failure_of (ValueError message) = value_failure message"
| "failure_of TimeoutError = timeout_failure"
| "failure_of SubprocessTimeout = timeout_failure"
| "failure_of (UrlError timed_out) = url_failure timed_out"
| "failure_of (HttpStatusError _) = url_failure False"
| "failure_of (DatabaseCommandError sqlstate) =
     (if sqlstate = Some ''23505''
      then conflict_failure ''sync_data_conflict'' ''data_conflict'' (Some (''database_error'', sqlstate))
      else database_failure ''database_error'' sqlstate)"
| "failure_of (RuntimeError code) = runtime_failure code"
| "failure_of _ = action_failed"

definition respond_failure ::
  "request \<Rightarrow> pystr \<Rightarrow> int option \<Rightarrow> pystr \<Rightarrow> pystr \<Rightarrow> failure \<Rightarrow> 's service \<Rightarrow> 's handled" where
  "respond_failure rq rid started self_action action f sv =
     (let sv1 = (case fl_record f of None \<Rightarrow> sv
                 | Some (category, sqlstate) \<Rightarrow> sv\<lparr>sv_failures :=
                     record_failure_diagnostic rid action category sqlstate (rq_later rq) (sv_failures sv)\<rparr>)
      in case fl_log f of (level, code, named) \<Rightarrow>
           respond_error rq rid started self_action (fl_status f) (fl_error f) (fl_retryable f)
             (if fl_named f then Some action else None) (fl_retry_after f) []
             [log_line level code
               (if \<not> named then None else Some (if code = ''sync_action_failed'' then take 40 action else action))
               rid] sv1)"

section \<open>Dispatch\<close>

definition dispatch_action ::
  "'s service_env \<Rightarrow> pystr \<Rightarrow> pydict \<Rightarrow> int option \<Rightarrow> int \<Rightarrow> 's service \<Rightarrow> pydict res \<times> 's service" where
  "dispatch_action se action payload deadline now sv =
     (if action = ''provision'' then on_world (provision (se_env se) payload) sv
      else if action = ''status'' then on_world (status (se_env se) payload) sv
      else if action = ''login'' then on_world (login (se_env se) (se_up se) deadline payload) sv
      else if action = ''deprovision'' then on_world (deprovision (se_env se) payload) sv
      else if action = ''purge'' then on_world (purge (se_env se) payload) sv
      else if action = ''usage_logs_list'' then on_world (list_usage_logs (se_env se) (se_usage se) payload) sv
      else if action = ''usage_log_detail'' then on_world (get_usage_log_detail (se_env se) (se_usage se) payload) sv
      else if action = ''list_groups'' then on_world (list_groups (se_env se)) sv
      else if action = ''test_api_key'' then on_world (test_api_key (se_env se) (se_up se) deadline payload) sv
      else if action = ''diagnostics'' then
        (case failure_diagnostic (dget payload ''requestId'') now (sv_failures sv) of
           (r, ds) \<Rightarrow>
             (res_bind r (\<lambda>d. Inr [(''ok'', PBool True), (''action'', PStr ''diagnostics''), (''diagnostic'', PDict d)]),
              sv\<lparr>sv_failures := ds\<rparr>))
      else (Inl (ValueError ''invalid action''), sv))"

section \<open>POST\<close>

text \<open>From the decoded payload on.\<close>

definition run_action ::
  "'s service_env \<Rightarrow> request \<Rightarrow> pystr \<Rightarrow> int \<Rightarrow> pydict \<Rightarrow> 's service \<Rightarrow> 's handled" where
  "run_action se rq rid started payload sv =
     (let action = str_or_empty (dget payload ''action'')
      in if action \<notin> set SYNC_ACTIONS then
           respond_error rq rid (Some started) ''invalid'' 400 ''invalid_action'' False None None []
             [log_line ''warning'' ''sync_request_invalid_action'' (Some ''invalid'') rid] sv
         else
           (case on_world (action_deadline action (Some started) None) sv of
              (Inl e, sv1) \<Rightarrow> respond_failure rq rid (Some started) action action (failure_of e) sv1
            | (Inr deadline, sv1) \<Rightarrow>
                (case dispatch_action se action payload (Some deadline) (rq_later rq) sv1 of
                   (Inl e, sv2) \<Rightarrow> respond_failure rq rid (Some started) action action (failure_of e) sv2
                 | (Inr result, sv2) \<Rightarrow> respond rq rid (Some started) action 200 result [] [] sv2)))"

definition handle_error :: "pydict" where
  "handle_error = [(''level'', PStr ''error''), (''error_code'', PStr ''sync_request_failed'')]"

definition handle_body ::
  "'s service_env \<Rightarrow> request \<Rightarrow> pystr \<Rightarrow> int \<Rightarrow> bytes \<Rightarrow> 's service \<Rightarrow> 's handled" where
  "handle_body se rq rid started body sv =
     (case verify_request (se_env se) (se_sha256 se) (se_redis se) (rq_headers rq) body (rq_clock rq) (sv_redis sv) of
        (Inl e, r) \<Rightarrow>
          (let sv1 = sv\<lparr>sv_redis := r\<rparr>;
               recorded = (\<lambda>category. sv1\<lparr>sv_failures :=
                 record_failure_diagnostic rid ''unknown'' category None (rq_later rq) (sv_failures sv1)\<rparr>)
           in if is_timeout e then
                respond_error rq rid (Some started) [] 504 ''dependency_timeout'' True None (Some 1) [] []
                  (recorded ''dependency_timeout'')
              else if is_os_error e \<or> is_runtime_error e then
                respond_error rq rid (Some started) [] 503 ''dependency_unavailable'' True None (Some 1) [] []
                  (recorded ''redis_unavailable'')
              else (None, [handle_error], sv1))
      | (Inr False, r) \<Rightarrow>
          respond_error rq rid (Some started) [] 401 ''unauthorized'' False None None [] [] (sv\<lparr>sv_redis := r\<rparr>)
      | (Inr True, r) \<Rightarrow>
          (let sv1 = sv\<lparr>sv_redis := r\<rparr>
           in case json_loads (se_up se) body of
                Inl e \<Rightarrow> respond_failure rq rid (Some started) [] ''unknown'' (failure_of e) sv1
              | Inr (PDict payload) \<Rightarrow> run_action se rq rid started payload sv1
              | Inr _ \<Rightarrow> respond_failure rq rid (Some started) [] ''unknown''
                           (failure_of (ValueError ''invalid payload'')) sv1))"

definition content_type :: "headers \<Rightarrow> pystr" where
  "content_type headers = lower (strip (hd (split_on (CHR '';'') (header_or_empty headers ''content-type''))))"

text \<open>The checks of \<open>do_POST\<close> before the body is read: the length to read, or the answer.\<close>

definition check_request :: "request \<Rightarrow> nat + (int \<times> pystr \<times> (pystr \<times> pystr) list)" where
  "check_request rq =
     (if rq_path rq \<noteq> ''/provision'' then
        (if rq_path rq \<in> {''/health'', ''/healthz''} then Inr (405, ''method_not_allowed'', [(''allow'', ''GET'')])
         else Inr (404, ''not_found'', []))
      else if content_type (rq_headers rq) \<noteq> ''application/json'' then Inr (415, ''unsupported_media_type'', [])
      else case rq_headers rq ''content-length'' of
          None \<Rightarrow> Inr (411, ''length_required'', [])
        | Some raw_length \<Rightarrow>
            (case int_of_text raw_length of
               None \<Rightarrow> Inr (400, ''invalid_content_length'', [])
             | Some n \<Rightarrow>
                 if n \<le> 0 then Inr (400, ''invalid_body_size'', [])
                 else if n > MAX_BODY_BYTES then Inr (413, ''payload_too_large'', [])
                 else Inl (nat n)))"

definition begin_request :: "request \<Rightarrow> 's service \<Rightarrow> int \<times> pystr \<times> 's service" where
  "begin_request rq sv =
     (case on_world (act_bind read_mono (\<lambda>started. act_bind (request_id (rq_headers rq)) (\<lambda>rid.
             act_return (started, rid)))) sv of
        (Inr (started, rid), sv1) \<Rightarrow> (started, rid, sv1)
      | (Inl _, sv1) \<Rightarrow> (0, [], sv1))"

definition do_POST :: "'s service_env \<Rightarrow> request \<Rightarrow> 's service \<Rightarrow> 's handled" where
  "do_POST se rq sv0 =
     (case begin_request rq sv0 of (started, rid, sv) \<Rightarrow>
        (case check_request rq of
           Inr (st, error, extra) \<Rightarrow>
             respond_error rq rid (Some started) [] st error False None None extra [] sv
         | Inl n \<Rightarrow>
             (case read_body rq n of
                Inl TimeoutError \<Rightarrow>
                  respond_error rq rid (Some started) [] 408 ''request_timeout'' True None None []
                    [log_line ''warning'' ''sync_request_read_timeout'' None rid] sv
              | Inl _ \<Rightarrow> (None, [handle_error], sv)
              | Inr body \<Rightarrow>
                  if length body \<noteq> n then
                    respond_error rq rid (Some started) [] 400 ''incomplete_body'' False None None []
                      [log_line ''warning'' ''sync_request_body_incomplete'' None rid] sv
                  else handle_body se rq rid started body sv)))"

section \<open>GET and the other methods\<close>

definition health_check :: "int \<Rightarrow> unit act" where
  "health_check started =
     act_bind (action_deadline ''health'' (Some started) None) (\<lambda>deadline.
     act_bind (remaining_timeout (Some deadline) (HEALTH_DEPENDENCY_TIMEOUT_SECONDS * 1000)) (\<lambda>_.
     act_bind (psql_query 1000 (\<lambda>_. [])) (\<lambda>_.
     act_bind (remaining_timeout (Some deadline) (HEALTH_DEPENDENCY_TIMEOUT_SECONDS * 1000)) (\<lambda>_.
       act_return ()))))"

definition do_GET :: "'s service_env \<Rightarrow> request \<Rightarrow> 's service \<Rightarrow> 's handled" where
  "do_GET se rq sv0 =
     (case begin_request rq sv0 of (started, rid, sv) \<Rightarrow>
        if rq_path rq \<in> {''/health'', ''/healthz''} then
          (let unavailable = (\<lambda>e s. if is_os_error e \<or> is_runtime_error e \<or> e = SubprocessTimeout
                 then respond_error rq rid (Some started) [] 503 ''dependency_unavailable'' True None (Some 1) [] [] s
                 else (None, [handle_error], s))
           in case on_world (health_check started) sv of
                (Inl e, sv1) \<Rightarrow> unavailable e sv1
              | (Inr _, sv1) \<Rightarrow>
                  (case se_redis se [''PING''] (sv_redis sv1) of
                     (Inl e, r) \<Rightarrow> unavailable e (sv1\<lparr>sv_redis := r\<rparr>)
                   | (Inr _, r) \<Rightarrow>
                       respond rq rid (Some started) [] 200 [(''ok'', PBool True)] [] [] (sv1\<lparr>sv_redis := r\<rparr>)))
        else if rq_path rq = ''/provision'' then
          respond_error rq rid (Some started) [] 405 ''method_not_allowed'' False None None [(''allow'', ''POST'')] [] sv
        else respond_error rq rid (Some started) [] 404 ''not_found'' False None None [] [] sv)"

definition other_method :: "request \<Rightarrow> 's service \<Rightarrow> 's handled" where
  "other_method rq sv0 =
     (case on_world (request_id (rq_headers rq)) sv0 of
        (Inl _, sv) \<Rightarrow> (None, [handle_error], sv)
      | (Inr rid, sv) \<Rightarrow>
          if rq_path rq = ''/provision'' then
            respond_error rq rid None [] 405 ''method_not_allowed'' False None None [(''allow'', ''POST'')] [] sv
          else if rq_path rq \<in> {''/health'', ''/healthz''} then
            respond_error rq rid None [] 405 ''method_not_allowed'' False None None [(''allow'', ''GET'')] [] sv
          else respond_error rq rid None [] 404 ''not_found'' False None None [] [] sv)"

end
