(* ===== verification/Http_Facts.thy ===== *)
theory Http_Facts
  imports Http
begin

text \<open>
  Properties of the request handlers: nothing happens before a request is verified, every
  answer and every log line is from a fixed vocabulary, and two cases in which the answer is
  not the one the failure calls for.
\<close>

section \<open>What the pieces of a handler leave alone\<close>

abbreviation state_after :: "'s handled \<Rightarrow> 's service" where
  "state_after h \<equiv> snd (snd h)"

abbreviation tables :: "'s service \<Rightarrow> database" where
  "tables sv \<equiv> db (sv_world sv)"

lemma read_mono_db: "read_mono w = (r, w') \<Longrightarrow> db w' = db w"
  by (auto simp: read_mono_def split: list.splits)

lemma respond_tables [simp]: "tables (state_after (respond rq rid started a st p x l sv)) = tables sv"
  by (auto simp: respond_def split: option.splits prod.splits sum.splits dest: read_mono_db)

lemma respond_error_tables [simp]:
  "tables (state_after (respond_error rq rid started a st e t n ra x l sv)) = tables sv"
  by (simp add: respond_error_def)

lemma respond_failure_tables [simp]:
  "tables (state_after (respond_failure rq rid started a n f sv)) = tables sv"
  by (simp add: respond_failure_def Let_def split: option.splits prod.splits)

lemma reads_request_id: "db_rel (=) (request_id h)"
  unfolding request_id_def Let_def by (intro reads.rel_if reads.rel_return reads.rel_token_hex)

lemma begin_request_tables: "begin_request rq sv = (started, rid, sv') \<Longrightarrow> tables sv' = tables sv"
proof -
  have "db_rel (=) (act_bind read_mono (\<lambda>started. act_bind (request_id (rq_headers rq)) (\<lambda>rid. act_return (started, rid))))"
    by (intro reads.rel_bind reads.rel_read_mono reads_request_id reads.rel_return)
  then show "begin_request rq sv = (started, rid, sv') \<Longrightarrow> tables sv' = tables sv"
    by (auto simp: begin_request_def on_world_def db_rel_def split: prod.splits sum.splits)
      (metis snd_conv)+
qed

lemma handle_body_tables:
  "tables (state_after (handle_body se rq rid started body sv)) = tables sv \<or>
   fst (verify_request (se_env se) (se_sha256 se) (se_redis se) (rq_headers rq) body (rq_clock rq) (sv_redis sv)) = Inr True"
  by (auto simp: handle_body_def Let_def split: prod.splits sum.splits bool.splits)

lemma check_request_length: "check_request rq = Inl n \<Longrightarrow> 0 < n \<and> n \<le> 16384"
  by (auto simp: check_request_def MAX_BODY_BYTES_def split: if_splits option.splits)


section \<open>The vocabulary of answers and log lines\<close>

definition error_table :: "(int \<times> pystr \<times> bool) list" where
  "error_table =
     [(400, ''invalid_content_length'', False), (400, ''invalid_body_size'', False),
      (400, ''incomplete_body'', False), (400, ''invalid_action'', False), (400, ''invalid_json'', False),
      (400, ''invalid_request'', False), (401, ''unauthorized'', False), (404, ''not_found'', False),
      (405, ''method_not_allowed'', False), (408, ''request_timeout'', True),
      (409, ''identity_conflict'', False), (409, ''email_conflict'', False), (409, ''api_key_conflict'', False),
      (409, ''data_conflict'', False), (411, ''length_required'', False), (413, ''payload_too_large'', False),
      (415, ''unsupported_media_type'', False), (429, ''upstream_rate_limited'', True),
      (500, ''internal_error'', False), (502, ''upstream_unavailable'', True),
      (502, ''upstream_invalid_response'', True), (502, ''upstream_invalid_response'', False),
      (503, ''dependency_unavailable'', True), (504, ''dependency_timeout'', True)]"

definition log_words :: "pystr list" where
  "log_words = SYNC_ACTIONS @
     [''info'', ''warning'', ''error'', ''sync_response'', ''provision'', ''health'', ''not_found'', ''none'',
      ''unknown'', ''invalid'', ''sync_request_failed'', ''sync_action_failed'', ''sync_request_json_invalid'',
      ''sync_resource_not_found'', ''sync_request_invalid'', ''sync_dependency_timeout'',
      ''sync_upstream_unavailable'', ''sync_identity_conflict'', ''sync_data_conflict'',
      ''sync_dependency_unavailable'', ''sync_upstream_rate_limited'', ''sync_upstream_invalid_response'',
      ''sync_request_invalid_action'', ''sync_request_read_timeout'', ''sync_request_body_incomplete'']"

definition error_answer :: "pystr \<Rightarrow> response \<Rightarrow> int \<times> pystr \<times> bool \<Rightarrow> bool" where
  "error_answer rid r = (\<lambda>(status, error, retryable).
     rs_status r = status \<and>
     (rs_body r = error_payload error retryable None rid \<or>
      list_ex (\<lambda>a. rs_body r = error_payload error retryable (Some a) rid) SYNC_ACTIONS))"

definition answer_ok :: "pystr \<Rightarrow> response option \<Rightarrow> bool" where
  "answer_ok rid answer =
     (case answer of None \<Rightarrow> True
      | Some r \<Rightarrow> rs_status r = 200 \<or> list_ex (error_answer rid r) error_table)"

definition log_entry_ok :: "pystr \<Rightarrow> pystr \<times> pyval \<Rightarrow> bool" where
  "log_entry_ok rid = (\<lambda>(k, v). case v of
     PInt _ \<Rightarrow> k \<in> {''status'', ''latency_ms''}
   | PStr s \<Rightarrow> (k = ''request_id'' \<and> s = rid) \<or> s \<in> set log_words
   | _ \<Rightarrow> False)"

definition handled_ok :: "pystr \<Rightarrow> 's handled \<Rightarrow> bool" where
  "handled_ok rid h \<longleftrightarrow> answer_ok rid (fst h) \<and> list_all (list_all (log_entry_ok rid)) (fst (snd h))"

lemma respond_ok:
  assumes "list_all (list_all (log_entry_ok rid)) logs"
    and "st = 200 \<or> list_ex (error_answer rid \<lparr>rs_status = st, rs_body = payload, rs_extra = x\<rparr>) error_table"
  shows "handled_ok rid (respond rq rid started a st payload x logs sv)"
proof -
  have "path_route (rq_path rq) \<in> set log_words" by (simp add: path_route_def log_words_def)
  moreover have "set SYNC_ACTIONS \<subseteq> set log_words" by (auto simp: log_words_def)
  moreover have "''none'' \<in> set log_words" "''info'' \<in> set log_words" "''sync_response'' \<in> set log_words"
    by (simp_all add: log_words_def)
  ultimately show ?thesis
    using assms
    by (auto simp: respond_def handled_ok_def answer_ok_def log_entry_ok_def split: prod.splits)
qed

lemma error_payload_action:
  "a \<notin> set SYNC_ACTIONS \<Longrightarrow> error_payload e t (Some a) rid = error_payload e t None rid"
  by (simp add: error_payload_def)

lemma respond_error_ok:
  assumes "list_all (list_all (log_entry_ok rid)) logs" and "(st, error, retryable) \<in> set error_table"
  shows "handled_ok rid (respond_error rq rid started a st error retryable action ra x logs sv)"
proof -
  have "error_answer rid \<lparr>rs_status = st, rs_body = error_payload error retryable action rid, rs_extra = y\<rparr>
      (st, error, retryable)" for y
    by (cases "case action of None \<Rightarrow> False | Some a \<Rightarrow> a \<in> set SYNC_ACTIONS")
      (auto simp: error_answer_def list_ex_iff error_payload_action split: option.splits)
  then show ?thesis
    unfolding respond_error_def using assms by (intro respond_ok) (auto simp: list_ex_iff)
qed

lemma log_line_ok:
  "level \<in> set log_words \<Longrightarrow> code \<in> set log_words \<Longrightarrow> (case action of None \<Rightarrow> True | Some a \<Rightarrow> a \<in> set log_words) \<Longrightarrow>
   list_all (log_entry_ok rid) (log_line level code action rid)"
  by (auto simp: log_line_def log_entry_ok_def split: option.splits)

lemmas failure_defs = action_failed_def json_invalid_def value_failure_def timeout_failure_def url_failure_def
  conflict_failure_def database_failure_def login_failure_def runtime_failure_def

lemma failure_vocabulary:
  "(fl_status (failure_of e), fl_error (failure_of e), fl_retryable (failure_of e)) \<in> set error_table \<and>
   fst (fl_log (failure_of e)) \<in> set log_words \<and> fst (snd (fl_log (failure_of e))) \<in> set log_words"
  by (cases e) (auto simp: failure_defs error_table_def log_words_def)

lemma respond_failure_ok:
  assumes "action \<in> insert ''unknown'' (set SYNC_ACTIONS)"
  shows "handled_ok rid (respond_failure rq rid started a action (failure_of e) sv)"
proof -
  obtain level code named where l: "fl_log (failure_of e) = (level, code, named)" by (rule prod_cases3)
  have "action \<in> set log_words" "take 40 action \<in> set log_words"
    using assms by (auto simp: log_words_def SYNC_ACTIONS_def)
  then have "list_all (log_entry_ok rid) (log_line level code
      (if \<not> named then None else Some (if code = ''sync_action_failed'' then take 40 action else action)) rid)"
    using failure_vocabulary [of e] l by (intro log_line_ok) auto
  then show ?thesis
    using failure_vocabulary [of e] l by (simp add: respond_failure_def Let_def respond_error_ok)
qed

lemma word_ok: "w \<in> set log_words \<Longrightarrow> list_all (log_entry_ok rid) (log_line ''warning'' w None rid)"
  by (rule log_line_ok) (auto simp: log_words_def)

lemma unanswered_ok: "handled_ok rid (None, [handle_error], sv)"
  by (simp add: handled_ok_def answer_ok_def handle_error_def log_entry_ok_def log_words_def)

lemma run_action_ok: "handled_ok rid (run_action se rq rid started payload sv)"
proof -
  have "list_all (log_entry_ok rid) (log_line ''warning'' ''sync_request_invalid_action'' (Some ''invalid'') rid)"
    by (rule log_line_ok) (simp_all add: log_words_def)
  then show ?thesis
    by (auto simp: run_action_def Let_def error_table_def intro!: respond_error_ok respond_failure_ok respond_ok
        split: prod.splits sum.splits)
qed

lemma handle_body_ok: "handled_ok rid (handle_body se rq rid started body sv)"
  by (auto simp: handle_body_def Let_def error_table_def simp del: failure_of.simps
      intro!: respond_error_ok respond_failure_ok run_action_ok unanswered_ok
      split: prod.splits sum.splits bool.splits pyval.splits)

lemma do_POST_ok:
  assumes "begin_request rq sv0 = (started, rid, sv)"
  shows "handled_ok rid (do_POST se rq sv0)"
proof -
  have logs: "list_all (log_entry_ok rid) (log_line ''warning'' ''sync_request_read_timeout'' None rid)"
    "list_all (log_entry_ok rid) (log_line ''warning'' ''sync_request_body_incomplete'' None rid)"
    by (rule word_ok, simp add: log_words_def)+
  have "(st, e, False) \<in> set error_table" if "check_request rq = Inr (st, e, x)" for st e x
    using that by (auto simp: check_request_def error_table_def split: if_splits option.splits)
  with assms logs show ?thesis
    by (auto simp: do_POST_def error_table_def intro!: respond_error_ok handle_body_ok unanswered_ok
        split: sum.splits pyexn.splits)
qed

lemma draws_total: "\<exists>xs w'. act_each draw (replicate k n) w = (Inr xs, w')"
proof (induction k arbitrary: w)
  case 0
  then show ?case by (simp add: act_return_def)
next
  case (Suc k)
  obtain y w1 where d: "draw n w = (Inr y, w1)" by (cases "entropy w") (simp_all add: draw_def)
  from Suc.IH [of w1] obtain ys w2 where "act_each draw (replicate k n) w1 = (Inr ys, w2)" by blast
  with d show ?case by (simp add: act_bind_def act_return_def)
qed

lemma hex_digit_ok: "n < 16 \<Longrightarrow> is_alnum (hex_digit n)"
  by (auto simp: hex_digit_def is_alnum_def is_digit_def is_lower_def)

lemma token_hex_ok: "\<exists>s w'. token_hex 8 w = (Inr s, w') \<and> request_id_ok s"
proof -
  obtain xs w' where d: "act_each draw (replicate 16 16) w = (Inr xs, w')" using draws_total by blast
  from draws_Inr [OF d] have "length xs = 16" "\<forall>x \<in> set xs. x < 16" by simp_all
  then have "request_id_ok (map hex_digit xs)" by (auto simp: request_id_ok_def list_all_iff hex_digit_ok)
  with d show ?thesis by (simp add: token_hex_def act_bind_def act_return_def)
qed

lemma request_id_total: "\<exists>s w'. request_id h w = (Inr s, w') \<and> request_id_ok s"
  using token_hex_ok [of w] by (auto simp: request_id_def Let_def act_return_def)

lemma begin_request_id: "begin_request rq sv = (started, rid, sv') \<Longrightarrow> request_id_ok rid"
proof -
  assume b: "begin_request rq sv = (started, rid, sv')"
  obtain n w1 where r: "read_mono (sv_world sv) = (Inr n, w1)"
    by (cases "ticks (sv_world sv)") (simp_all add: read_mono_def)
  obtain s w2 where "request_id (rq_headers rq) w1 = (Inr s, w2)" "request_id_ok s"
    using request_id_total by blast
  with b r show ?thesis by (simp add: begin_request_def on_world_def act_bind_def act_return_def)
qed

text \<open>
  C34. What a client and an operator see comes from a fixed vocabulary. Every answer to a
  request that was posted is either 200 or one of the listed statuses with its error code and
  its retryable flag, in a body with no other field than the request id and the name of a known
  action; every value of every log line is a listed word, a number, or the request id, which is
  at most 64 harmless characters. So no message of an exception, no text of a payload and no
  answer of a dependency reaches an error answer or the log.
\<close>

theorem post_vocabulary:
  "\<exists>rid. request_id_ok rid \<and> answer_ok rid (fst (do_POST se rq sv)) \<and>
     list_all (list_all (log_entry_ok rid)) (fst (snd (do_POST se rq sv)))"
proof (cases "begin_request rq sv")
  case (fields started rid sv')
  from begin_request_id [OF fields] do_POST_ok [OF fields] show ?thesis
    unfolding handled_ok_def by blast
qed

text \<open>
  The table of answers is consistent: the error of an action is retryable exactly for a
  rate limit and the gateway and dependency statuses, the one exception being a rejected login; a
  retry-after header is only announced for retryable errors, and a diagnostic is only recorded
  for conflicts and unavailable dependencies.
\<close>

theorem failures_retry_rule:
  "(fl_retryable (failure_of e) \<longleftrightarrow> fl_status (failure_of e) \<in> {429, 502, 503, 504} \<and> e \<noteq> RuntimeError ''sub2api_login_rejected'')
   \<and> (fl_retry_after (failure_of e) = None \<or> fl_retryable (failure_of e))
   \<and> (fl_record (failure_of e) = None \<or> fl_status (failure_of e) \<in> {409, 503, 504})"
  by (cases e) (auto simp: failure_defs starts_with_def)

section \<open>Two wrong answers\<close>

text \<open>
  A broken answer of the gateway is blamed on the client: when the login endpoint answers
  with text that is not JSON, the exception of the JSON reader is the one that stands for a
  request body that is not JSON, and the client gets 400 invalid_json, not retryable, instead of
  502 upstream_invalid_response.
\<close>

theorem login_bad_answer_blames_client:
  assumes "json_loads up b = Inl JSONDecodeError" and "length b \<le> 65536"
  shows "\<exists>e. read_login_reply up (HttpReply 200 [] (Inr b)) = Inl e \<and>
    fl_status (failure_of e) = 400 \<and> fl_error (failure_of e) = ''invalid_json'' \<and> \<not> fl_retryable (failure_of e)"
  using assms by (simp add: read_login_reply_def MAX_LOGIN_RESPONSE_BYTES_def json_invalid_def)

definition html_upstream :: upstream where
  "html_upstream = \<lparr>post_login = (\<lambda>_ _. HttpReply 200 [] (Inr ''<html>'')), get_models = (\<lambda>_ _ _. HttpRaises TimeoutError),
     json_loads = (\<lambda>b. if b = ''<html>'' then Inl JSONDecodeError else Inr (PDict [(''action'', PStr ''login'')])),
     urlsplit = (\<lambda>_. Inl (ValueError ''url''))\<rparr>"

theorem login_bad_answer_blames_client_witness:
  "\<exists>e. read_login_reply html_upstream (HttpReply 200 [] (Inr ''<html>'')) = Inl e \<and>
    fl_status (failure_of e) = 400 \<and> fl_error (failure_of e) = ''invalid_json''"
  using login_bad_answer_blames_client [of html_upstream "''<html>''"] by (auto simp: html_upstream_def)

text \<open>
  A reply of Redis that cannot be read leaves the client without an answer: when verifying
  a request raises a ValueError or a UnicodeDecodeError, which redis_command raises on a
  malformed reply, no clause of do_POST catches it and the connection is closed silently,
  whereas every other failure of Redis is answered with 503 or 504.
\<close>

theorem malformed_redis_reply_unanswered:
  "(case verify_request (se_env se) (se_sha256 se) (se_redis se) (rq_headers rq) body (rq_clock rq) (sv_redis sv) of
      (Inl e, _) \<Rightarrow>
        (case fst (handle_body se rq rid started body sv) of
           None \<Rightarrow> \<not> is_timeout e \<and> \<not> is_os_error e \<and> \<not> is_runtime_error e
         | Some r \<Rightarrow> rs_status r = (if is_timeout e then 504 else 503) \<and> (is_timeout e \<or> is_os_error e \<or> is_runtime_error e))
    | _ \<Rightarrow> True) \<and>
   \<not> is_timeout UnicodeDecodeError \<and> \<not> is_os_error UnicodeDecodeError \<and> \<not> is_runtime_error UnicodeDecodeError"
  by (auto simp: handle_body_def Let_def respond_error_def respond_def split: prod.splits sum.splits)

end
