(* ===== verification/Http_Server.thy ===== *)
theory Http_Server
  imports Http
begin

text \<open>
  Admission of requests by \<open>SafeThreadingHTTPServer\<close>: the bounded semaphore of request slots,
  the threads that hold one, and the answer to a request for which there is none. The server
  is a step relation over its threads; the interleaving of arrivals and ends is arbitrary.
\<close>

definition MAX_REQUEST_THREADS :: nat where "MAX_REQUEST_THREADS = 16"

section \<open>The answer of a full server\<close>

definition capacity_body :: "pystr \<Rightarrow> bytes" where
  "capacity_body rid =
     json_dumps (PDict [(''ok'', PBool False), (''error'', PStr ''capacity_exceeded''), (''retryable'', PBool True),
       (''requestId'', PStr rid)])"

definition CRLF :: bytes where "CRLF = [CHR 0x0D, CHR 0x0A]"

definition capacity_response :: "pystr \<Rightarrow> bytes" where
  "capacity_response rid =
     ''HTTP/1.1 503 Service Unavailable'' @ CRLF
     @ ''content-type: application/json; charset=utf-8'' @ CRLF
     @ ''cache-control: no-store'' @ CRLF
     @ ''x-content-type-options: nosniff'' @ CRLF
     @ ''referrer-policy: no-referrer'' @ CRLF
     @ sq ''content-security-policy: default-src ~none~; frame-ancestors ~none~; base-uri ~none~'' @ CRLF
     @ ''x-request-id: '' @ rid @ CRLF
     @ ''retry-after: 1'' @ CRLF
     @ ''content-length: '' @ nat_str (length (capacity_body rid)) @ CRLF
     @ ''connection: close'' @ CRLF @ CRLF
     @ capacity_body rid"

section \<open>The semaphore\<close>

text \<open>\<open>threading.BoundedSemaphore\<close>: \<open>acquire(blocking=False)\<close> says whether there was a slot;
  \<open>release\<close> raises a \<open>ValueError\<close> above the initial value.\<close>

definition sem_acquire :: "nat \<Rightarrow> bool \<times> nat" where
  "sem_acquire slots = (if slots = 0 then (False, 0) else (True, slots - 1))"

definition sem_release :: "nat \<Rightarrow> nat res" where
  "sem_release slots =
     (if slots \<ge> MAX_REQUEST_THREADS then Inl (ValueError ''Semaphore released too many times'') else Inr (slots + 1))"

section \<open>The server\<close>

text \<open>\<open>running\<close> are the connections whose thread has a slot, \<open>rejected\<close> those that were closed
  with the answer they were sent, \<open>failed\<close> whether a release ever raised.\<close>

record server =
  slots :: nat
  running :: "nat list"
  rejected :: "(nat \<times> bytes) list"
  failed :: bool

definition init_server :: server where
  "init_server = \<lparr>slots = MAX_REQUEST_THREADS, running = [], rejected = [], failed = False\<rparr>"

definition release_slot :: "server \<Rightarrow> server" where
  "release_slot s = (case sem_release (slots s) of Inl _ \<Rightarrow> s\<lparr>failed := True\<rparr> | Inr n \<Rightarrow> s\<lparr>slots := n\<rparr>)"

text \<open>\<open>process_request\<close>; \<open>rid\<close> is the random request id of a refusal; \<open>started\<close> says whether the thread could be started, otherwise the slot
  is given back and the exception is raised again.\<close>

definition process_request :: "nat \<Rightarrow> pystr \<Rightarrow> bool \<Rightarrow> server \<Rightarrow> server" where
  "process_request c rid started s =
     (case sem_acquire (slots s) of
        (False, n) \<Rightarrow> s\<lparr>slots := n, rejected := (c, capacity_response rid) # rejected s\<rparr>
      | (True, n) \<Rightarrow>
          (let s1 = s\<lparr>slots := n\<rparr>
           in if started then s1\<lparr>running := c # running s1\<rparr> else release_slot s1))"

text \<open>The end of \<open>process_request_thread\<close>, normal or not: the \<open>finally\<close> clause.\<close>

definition thread_ends :: "nat \<Rightarrow> server \<Rightarrow> server" where
  "thread_ends c s = release_slot (s\<lparr>running := remove1 c (running s)\<rparr>)"

inductive step :: "server \<Rightarrow> server \<Rightarrow> bool" where
  arrive: "c \<notin> set (running s) \<Longrightarrow> step s (process_request c rid started s)"
| finish: "c \<in> set (running s) \<Longrightarrow> step s (thread_ends c s)"

inductive reachable :: "server \<Rightarrow> bool" where
  start: "reachable init_server"
| move: "reachable s \<Longrightarrow> step s s' \<Longrightarrow> reachable s'"

definition slots_ok :: "server \<Rightarrow> bool" where
  "slots_ok s \<longleftrightarrow> slots s + length (running s) = MAX_REQUEST_THREADS \<and> distinct (running s) \<and> \<not> failed s"

lemma slots_ok_step:
  assumes "slots_ok s" and "step s s'"
  shows "slots_ok s'"
  using assms(2)
proof (cases rule: step.cases)
  case (arrive c rid started)
  with assms(1) show ?thesis
    by (auto simp: slots_ok_def process_request_def sem_acquire_def release_slot_def sem_release_def Let_def
        MAX_REQUEST_THREADS_def split: prod.splits bool.splits)
next
  case (finish c)
  then have "length (remove1 c (running s)) = length (running s) - 1" "0 < length (running s)"
    by (auto simp: length_remove1 intro: length_pos_if_in_set)
  moreover from this have "slots s < 16"
    using assms(1) unfolding slots_ok_def MAX_REQUEST_THREADS_def by linarith
  ultimately show ?thesis
    using finish assms(1)
    by (auto simp: slots_ok_def thread_ends_def release_slot_def sem_release_def MAX_REQUEST_THREADS_def
        distinct_remove1)
qed

lemma reachable_slots: "reachable s \<Longrightarrow> slots_ok s"
proof (induction rule: reachable.induct)
  case start
  then show ?case by (simp add: slots_ok_def init_server_def)
next
  case (move s s')
  then show ?case by (blast intro: slots_ok_step)
qed

text \<open>
  C21. In every interleaving of arrivals, thread starts that fail and ends of threads, the free
  slots and the running threads add up to 16, so at most 16 requests are handled at a time, no
  slot is lost or released twice, and the release of a slot never raises.
\<close>

theorem slots_are_conserved:
  assumes "reachable s"
  shows "slots s + length (running s) = 16 \<and> distinct (running s) \<and> \<not> failed s"
  using reachable_slots [OF assms] by (simp add: slots_ok_def MAX_REQUEST_THREADS_def)

theorem slots_are_conserved_witness:
  "slots (process_request 2 ''r'' False (process_request 1 ''r'' True init_server)) = 15"
proof -
  have "reachable (process_request 1 ''r'' True init_server)"
    by (rule move [OF start], rule arrive) (simp_all add: init_server_def)
  then have "reachable (process_request 2 ''r'' False (process_request 1 ''r'' True init_server))"
    by (rule move, intro arrive)
      (simp_all add: init_server_def process_request_def sem_acquire_def MAX_REQUEST_THREADS_def)
  from slots_are_conserved [OF this] show ?thesis
    by (simp add: process_request_def sem_acquire_def init_server_def MAX_REQUEST_THREADS_def
        release_slot_def sem_release_def)
qed

text \<open>
  C35. A request is refused only when 16 others are being handled, and the server recovers: in
  every reachable state an arriving request gets a thread unless 16 are running, and after any of
  the running ones has ended the next request is admitted again.
\<close>

theorem admission_recovers:
  assumes "reachable s"
  shows "(length (running s) < 16 \<longrightarrow> running (process_request c rid True s) = c # running s) \<and>
    (c' \<in> set (running s) \<longrightarrow> c \<in> set (running (process_request c rid True (thread_ends c' s))))"
proof -
  note inv = reachable_slots [OF assms, unfolded slots_ok_def MAX_REQUEST_THREADS_def]
  have "slots (thread_ends c' s) > 0" if "c' \<in> set (running s)"
    using inv that length_pos_if_in_set [OF that]
    by (auto simp: thread_ends_def release_slot_def sem_release_def MAX_REQUEST_THREADS_def)
  with inv show ?thesis by (auto simp: process_request_def sem_acquire_def Let_def)
qed

theorem admission_recovers_witness:
  "running (process_request 7 ''r'' True (process_request 1 ''r'' True init_server)) = [7, 1]"
proof -
  have "reachable (process_request 1 ''r'' True init_server)"
    by (rule move [OF start], rule arrive) (simp_all add: init_server_def)
  from admission_recovers [OF this, of 7] show ?thesis
    by (simp add: process_request_def sem_acquire_def init_server_def MAX_REQUEST_THREADS_def)
qed

end
