(* ===== verification/Redis_Policy.thy ===== *)
theory Redis_Policy
  imports Redis_Wire
begin

text \<open>
  The policy of \<open>migrate-redis-allowlist.py\<close>: reading \<open>redis-key-prefixes.json\<close>, deciding
  what a key is, and the validators of the values that may be copied. A document is a JSON
  value, a value read from Redis is a \<open>reply\<close>. Parameters are the compiled regular
  expressions of the policy, \<open>decimal.Decimal\<close>, \<open>datetime.fromisoformat\<close>, \<open>json.loads\<close>, and
  what the file system says of a directory.
\<close>

section \<open>Constants\<close>

definition EXPECTED_CATEGORIES :: "pystr list" where
  "EXPECTED_CATEGORIES = [''session'', ''oauth'', ''scheduler'', ''billing'', ''concurrency'', ''sync_nonce'']"

definition MAX_KEY_BYTES :: nat where "MAX_KEY_BYTES = 1024"
definition MAX_COLLECTION_ITEMS :: nat where "MAX_COLLECTION_ITEMS = 10000"
definition MAX_VALIDATED_STRING_BYTES :: nat where "MAX_VALIDATED_STRING_BYTES = 8 * 1024"

definition VALID_REDIS_TYPES :: "pystr list" where
  "VALID_REDIS_TYPES = [''string'', ''hash'', ''set'']"

definition VALID_VALUE_FORMATS :: "pystr list" where
  "VALID_VALUE_FORMATS =
     [''api_key_rate_hash'', ''finite_number'', ''nonnegative_integer'', ''one_marker'',
      ''platform_quota_dirty_set'', ''platform_quota_hash'', ''refresh_token_metadata'', ''sha256_set'',
      ''subscription_hash'']"

abbreviation refuse :: "pystr \<Rightarrow> 'a res" where
  "refuse msg \<equiv> Inl (migration_error msg)"

text \<open>\<open>if bad: raise MigrationError(msg)\<close>.\<close>

definition require :: "bool \<Rightarrow> pystr \<Rightarrow> unit res" where
  "require ok msg = (if ok then Inr () else refuse msg)"

lemma require_Inr [simp]: "require ok msg = Inr u \<longleftrightarrow> ok"
  by (simp add: require_def)

section \<open>The storage of the target\<close>

text \<open>What \<open>stat\<close>, \<open>resolve\<close> and \<open>is_symlink\<close> find, \<open>None\<close> for an \<open>OSError\<close>.\<close>

record dir_info =
  di_symlink :: bool
  di_directory :: bool
  di_resolved :: pystr
  di_owner :: "int \<times> int"
  di_mode :: int

definition require_private_directory ::
  "(pystr \<Rightarrow> dir_info option) \<Rightarrow> pystr \<Rightarrow> int \<times> int \<Rightarrow> pystr \<Rightarrow> pystr res" where
  "require_private_directory fs path owner label =
     (case fs path of
        None \<Rightarrow> refuse (label @ '' must already exist'')
      | Some i \<Rightarrow>
          if di_symlink i \<or> \<not> di_directory i \<or> di_resolved i \<noteq> path
          then refuse (label @ '' must be a real directory'')
          else if di_owner i \<noteq> owner \<or> di_mode i \<noteq> 448
          then refuse (if label = ''SUB2API_DATA_ROOT'' then ''SUB2API_DATA_ROOT must be owned by root:root with mode 0700''
                       else label @ '' must be owned by 999:1000 with mode 0700'')
          else Inr (di_resolved i))"

definition EXPECTED_DATA_ROOT :: pystr where "EXPECTED_DATA_ROOT = ''/mnt/data/sub2api-gate''"

definition require_private_migration_storage ::
  "(pystr \<Rightarrow> pystr option) \<Rightarrow> (pystr \<Rightarrow> dir_info option) \<Rightarrow> pystr res" where
  "require_private_migration_storage env fs =
     (case env ''SUB2API_DATA_ROOT'' of
        None \<Rightarrow> refuse ''SUB2API_DATA_ROOT is required with --apply''
      | Some configured \<Rightarrow>
          if configured = [] then refuse ''SUB2API_DATA_ROOT is required with --apply''
          else if configured \<noteq> EXPECTED_DATA_ROOT then refuse ''SUB2API_DATA_ROOT must be /mnt/data/sub2api-gate''
          else res_bind (require_private_directory fs configured (0, 0) ''SUB2API_DATA_ROOT'') (\<lambda>_.
               res_bind (require_private_directory fs (configured @ ''/redis'') (999, 1000) ''Redis data directory'') (\<lambda>_.
                 require_private_directory fs (configured @ ''/redis/nonce'') (999, 1000) ''Redis nonce directory'')))"

section \<open>Reading the policy\<close>

definition validate_prefix :: "pyval \<Rightarrow> pystr \<Rightarrow> bytes res" where
  "validate_prefix v label =
     (case v of
        PStr s \<Rightarrow>
          (if s = [] \<or> length s > 128 \<or> \<not> list_all (\<lambda>c. 33 \<le> ord c \<and> ord c \<le> 126) s
           then refuse (''invalid Redis prefix in '' @ label) else Inr s)
      | _ \<Rightarrow> refuse (''invalid Redis prefix in '' @ label))"

definition validate_source_reference :: "pyval \<Rightarrow> pystr res" where
  "validate_source_reference v =
     (case v of
        PStr s \<Rightarrow>
          (if s = [] \<or> length s > 256 \<or> hd s = CHR ''/'' \<or> ''..'' \<in> set (split_on (CHR ''/'') s)
              \<or> \<not> list_all (\<lambda>c. is_alnum c \<or> c \<in> set ''_./-'') s
           then refuse ''Redis policy source reference is invalid'' else Inr s)
      | _ \<Rightarrow> refuse ''Redis policy source reference is invalid'')"

record copy_rule =
  cr_category :: pystr
  cr_prefix :: bytes
  cr_match :: "bytes \<Rightarrow> bool"
  cr_type :: bytes
  cr_format :: pystr
  cr_source :: pystr

text \<open>\<open>value in {...}\<close>: an unhashable value raises.\<close>

definition value_among :: "pyval \<Rightarrow> pystr list \<Rightarrow> pystr \<Rightarrow> pystr res" where
  "value_among v names msg =
     (case v of
        PStr s \<Rightarrow> if s \<in> set names then Inr s else refuse msg
      | PList _ \<Rightarrow> Inl TypeError
      | PDict _ \<Rightarrow> Inl TypeError
      | _ \<Rightarrow> refuse msg)"

definition load_copy_rule :: "(pystr \<Rightarrow> (bytes \<Rightarrow> bool) option) \<Rightarrow> pystr \<Rightarrow> pyval \<Rightarrow> copy_rule res" where
  "load_copy_rule re_compile category entry =
     (case entry of
        PDict d \<Rightarrow>
          if \<not> same_fields d [''prefix'', ''key_pattern'', ''redis_type'', ''value_format'', ''source'']
          then refuse ''Redis copy rule schema is invalid''
          else
            res_bind (validate_prefix (dget d ''prefix'') category) (\<lambda>pfx.
            (case dget d ''key_pattern'' of
               PStr pattern_text \<Rightarrow>
                 if length pattern_text > 512 then refuse ''Redis key pattern is invalid''
                 else if \<not> is_ascii pattern_text then refuse ''Redis key pattern is invalid''
                 else (case re_compile pattern_text of
                     None \<Rightarrow> refuse ''Redis key pattern is invalid''
                   | Some pattern \<Rightarrow>
                       if \<not> prefix ''^'' pattern_text \<or> \<not> suffix ''$'' pattern_text
                       then refuse ''Redis key pattern must be fully anchored''
                       else
                         res_bind (value_among (dget d ''redis_type'') VALID_REDIS_TYPES
                                     ''Redis copy rule type is invalid'') (\<lambda>redis_type.
                         res_bind (value_among (dget d ''value_format'') VALID_VALUE_FORMATS
                                     ''Redis copy rule value format is invalid'') (\<lambda>value_format.
                         res_bind (validate_source_reference (dget d ''source'')) (\<lambda>source.
                           Inr \<lparr>cr_category = category, cr_prefix = pfx, cr_match = pattern,
                                cr_type = redis_type, cr_format = value_format, cr_source = source\<rparr>))))
             | _ \<Rightarrow> refuse ''Redis key pattern is invalid''))
      | _ \<Rightarrow> refuse ''Redis copy rule schema is invalid'')"

text \<open>\<open>set(value)\<close> compared with a set of names, for what a JSON document can hold.\<close>

definition set_equals :: "pyval \<Rightarrow> pystr list \<Rightarrow> bool res" where
  "set_equals v names =
     (case v of
        PDict d \<Rightarrow> Inr (same_fields d names)
      | PStr s \<Rightarrow> Inr (set (map (\<lambda>c. [c]) s) = set names)
      | PList xs \<Rightarrow>
          (if list_ex (\<lambda>x. case x of PList _ \<Rightarrow> True | PDict _ \<Rightarrow> True | _ \<Rightarrow> False) xs then Inl TypeError
           else Inr (set xs = set (map PStr names)))
      | _ \<Rightarrow> Inl TypeError)"

text \<open>\<open>v != 2\<close>, \<open>v != text\<close>.\<close>

fun is_two :: "pyval \<Rightarrow> bool" where
  "is_two (PInt i) = (i = 2)"
| "is_two (PFloat f) = (float_repr f = ''2.0'')"
| "is_two _ = False"

text \<open>\<open>sorted(EXPECTED_CATEGORIES)\<close>.\<close>

definition sorted_categories :: "pystr list" where
  "sorted_categories = [''billing'', ''concurrency'', ''oauth'', ''scheduler'', ''session'', ''sync_nonce'']"

fun load_categories :: "(pystr \<Rightarrow> (bytes \<Rightarrow> bool) option) \<Rightarrow> pydict \<Rightarrow> pystr list \<Rightarrow> copy_rule list res" where
  "load_categories re_compile categories [] = Inr []"
| "load_categories re_compile categories (c # cs) =
     (case dget categories c of
        PList entries \<Rightarrow>
          res_bind (res_map (load_copy_rule re_compile c) entries) (\<lambda>rules.
          res_bind (load_categories re_compile categories cs) (\<lambda>rest. Inr (rules @ rest)))
      | _ \<Rightarrow> refuse ''Redis prefix policy category is invalid'')"

definition load_discard :: "pyval \<Rightarrow> bytes res" where
  "load_discard entry =
     (case entry of
        PDict d \<Rightarrow>
          if \<not> same_fields d [''prefix'', ''reason'', ''source''] then refuse ''Redis discard rule schema is invalid''
          else (case dget d ''reason'' of
              PStr reason \<Rightarrow>
                if length reason < 8 \<or> length reason > 256 then refuse ''Redis discard rule reason is invalid''
                else res_bind (validate_source_reference (dget d ''source'')) (\<lambda>_.
                     validate_prefix (dget d ''prefix'') ''discard'')
            | _ \<Rightarrow> refuse ''Redis discard rule reason is invalid'')
      | _ \<Rightarrow> refuse ''Redis discard rule schema is invalid'')"

fun overlapping :: "bytes list \<Rightarrow> bool" where
  "overlapping [] = False"
| "overlapping (l # ls) = (list_ex (\<lambda>r. prefix r l \<or> prefix l r) ls \<or> overlapping ls)"

definition nonempty_list :: "pyval \<Rightarrow> pystr \<Rightarrow> pyval list res" where
  "nonempty_list v msg = (case v of PList (x # xs) \<Rightarrow> Inr (x # xs) | _ \<Rightarrow> refuse msg)"

definition policy_lists ::
  "(pystr \<Rightarrow> (bytes \<Rightarrow> bool) option) \<Rightarrow> pydict \<Rightarrow> (copy_rule list \<times> bytes list \<times> bytes list) res" where
  "policy_lists re_compile policy =
     (case dget policy ''categories'' of
        PDict categories \<Rightarrow>
          res_bind (load_categories re_compile categories sorted_categories) (\<lambda>allowed.
          res_bind (require (allowed \<noteq> []) ''Redis copy policy is empty'') (\<lambda>_.
          res_bind (nonempty_list (dget policy ''discard_prefixes'') ''Redis discard policy is empty'') (\<lambda>discarded_entries.
          res_bind (res_map load_discard discarded_entries) (\<lambda>discarded.
          res_bind (nonempty_list (dget policy ''forbidden_prefixes'') ''Redis forbidden prefix policy is empty'') (\<lambda>forbidden_values.
          res_bind (res_map (\<lambda>v. validate_prefix v ''forbidden'') forbidden_values) (\<lambda>forbidden.
            let all_prefixes = map cr_prefix allowed @ discarded @ forbidden
            in if \<not> distinct all_prefixes then refuse ''Redis prefix policy contains duplicates''
               else if overlapping all_prefixes then refuse ''Redis prefix policy contains overlapping rules''
               else Inr (allowed, discarded, forbidden)))))))
      | _ \<Rightarrow> Inl AttributeError)"

text \<open>What the policy file is: absent, not a regular file, not readable as JSON, or a document.\<close>

datatype policy_file = Unavailable | NotRegular | Unreadable | Document pyval

definition load_prefix_policy ::
  "(pystr \<Rightarrow> (bytes \<Rightarrow> bool) option) \<Rightarrow> policy_file \<Rightarrow> (copy_rule list \<times> bytes list \<times> bytes list) res" where
  "load_prefix_policy re_compile file =
     (case file of
        Unavailable \<Rightarrow> refuse ''Redis prefix policy is unavailable''
      | NotRegular \<Rightarrow> refuse ''Redis prefix policy must be a regular file''
      | Unreadable \<Rightarrow> refuse ''Redis prefix policy is invalid''
      | Document policy \<Rightarrow>
          res_bind (set_equals policy [''version'', ''reviewed_sub2api_version'', ''reviewed_source_revision'',
                      ''categories'', ''discard_prefixes'', ''forbidden_prefixes'']) (\<lambda>schema.
          if \<not> schema then refuse ''Redis prefix policy schema is invalid''
          else (case policy of
              PDict d \<Rightarrow>
                if \<not> is_two (dget d ''version'') \<or> dget d ''reviewed_sub2api_version'' \<noteq> PStr ''0.1.176''
                   \<or> dget d ''reviewed_source_revision'' \<noteq> PStr ''e803e3851c0a7e222cfadeafad7b8636ab959d11''
                then refuse ''Redis prefix policy categories are invalid''
                else res_bind (set_equals (dget d ''categories'') EXPECTED_CATEGORIES) (\<lambda>ok.
                     if \<not> ok then refuse ''Redis prefix policy categories are invalid''
                     else policy_lists re_compile d)
            | _ \<Rightarrow> Inl AttributeError)))"

section \<open>What a key is\<close>

definition rule_matches :: "bytes \<Rightarrow> copy_rule \<Rightarrow> bool" where
  "rule_matches key rule \<longleftrightarrow> prefix (cr_prefix rule) key \<and> cr_match rule key"

definition is_allowed_key :: "reply \<Rightarrow> copy_rule list \<Rightarrow> bytes list \<Rightarrow> bool" where
  "is_allowed_key key allowed forbidden =
     (case key of
        ReplyBytes k \<Rightarrow>
          k \<noteq> [] \<and> length k \<le> MAX_KEY_BYTES \<and> \<not> list_ex (\<lambda>p. prefix p k) forbidden
          \<and> list_ex (rule_matches k) allowed
      | _ \<Rightarrow> False)"

definition is_discarded_key :: "reply \<Rightarrow> bytes list \<Rightarrow> bool" where
  "is_discarded_key key discarded =
     (case key of
        ReplyBytes k \<Rightarrow> k \<noteq> [] \<and> length k \<le> MAX_KEY_BYTES \<and> list_ex (\<lambda>p. prefix p k) discarded
      | _ \<Rightarrow> False)"

definition rule_for_key :: "bytes \<Rightarrow> copy_rule list \<Rightarrow> copy_rule res" where
  "rule_for_key key allowed =
     (case filter (rule_matches key) allowed of
        [rule] \<Rightarrow> Inr rule
      | _ \<Rightarrow> refuse ''Redis key did not resolve to exactly one copy rule'')"

section \<open>A loaded policy decides every key\<close>

lemma one_prefix: "\<not> overlapping ps \<Longrightarrow> length (filter (\<lambda>p. prefix p k) ps) \<le> 1"
proof (induction ps)
  case (Cons p ps)
  have "filter (\<lambda>q. prefix q k) ps = []" if "prefix p k"
    using Cons.prems that prefix_same_cases by (fastforce simp: filter_empty_conv list_ex_iff)
  with Cons show ?case by auto
qed simp

lemma load_prefix_policy_Inr:
  assumes "load_prefix_policy rc file = Inr (allowed, discarded, forbidden)"
  shows "\<not> overlapping (map cr_prefix allowed @ discarded @ forbidden) \<and> allowed \<noteq> []"
  using assms
  by (auto simp: load_prefix_policy_def policy_lists_def Let_def elim!: res_bind_InrE
      split: policy_file.splits pyval.splits if_splits)

lemma length_filter_conj: "length (filter (\<lambda>x. P x \<and> Q x) xs) \<le> length (filter P xs)"
  by (induction xs) auto

text \<open>
  A policy that loads decides every key in one way: a key that is allowed has exactly one
  copy rule, which rule_for_key finds, and it is not a key to discard nor one with a forbidden
  prefix; so the order of the rules and of the tests does not matter.
\<close>

theorem policy_decides_keys:
  assumes "load_prefix_policy rc file = Inr (allowed, discarded, forbidden)"
    and "is_allowed_key (ReplyBytes k) allowed forbidden"
  shows "\<exists>rule. rule_for_key k allowed = Inr rule \<and> rule \<in> set allowed \<and> rule_matches k rule \<and>
    \<not> is_discarded_key (ReplyBytes k) discarded \<and> list_all (\<lambda>p. \<not> prefix p k) forbidden"
proof -
  let ?m = "filter (\<lambda>r. prefix (cr_prefix r) k) allowed"
  have ov: "\<not> overlapping (map cr_prefix allowed @ discarded @ forbidden)"
    using load_prefix_policy_Inr [OF assms(1)] by simp
  have "length ?m + length (filter (\<lambda>p. prefix p k) discarded) + length (filter (\<lambda>p. prefix p k) forbidden) \<le> 1"
    using one_prefix [OF ov, of k] by (simp add: filter_map comp_def)
  moreover obtain rule where r: "rule \<in> set allowed" "rule_matches k rule"
    using assms(2) by (auto simp: is_allowed_key_def list_ex_iff)
  then have "?m \<noteq> []" by (auto simp: rule_matches_def filter_empty_conv)
  ultimately have one: "length ?m = 1" and none: "filter (\<lambda>p. prefix p k) discarded = []"
    "filter (\<lambda>p. prefix p k) forbidden = []"
    by (cases ?m; simp)+
  have "length (filter (rule_matches k) allowed) \<le> 1"
    using one length_filter_conj [of "\<lambda>r. prefix (cr_prefix r) k" "\<lambda>r. cr_match r k" allowed]
    by (simp add: rule_matches_def [abs_def])
  moreover have "rule \<in> set (filter (rule_matches k) allowed)" using r by simp
  ultimately have "filter (rule_matches k) allowed = [rule]"
    by (cases "filter (rule_matches k) allowed") auto
  with r none show ?thesis
    by (auto simp: rule_for_key_def is_discarded_key_def list_ex_iff list_all_iff filter_empty_conv)
qed

section \<open>The reviewed policy\<close>

text \<open>The policy of the repository with the first of its discard and forbidden prefixes.\<close>

definition nonce_pattern :: "bytes \<Rightarrow> bool" where
  "nonce_pattern k \<longleftrightarrow> prefix ''sub2api-sync:nonce:'' k \<and> length k = 83 \<and> list_all is_hex (drop 19 k)"

definition nonce_rule :: copy_rule where
  "nonce_rule = \<lparr>cr_category = ''sync_nonce'', cr_prefix = ''sub2api-sync:nonce:'', cr_match = nonce_pattern,
     cr_type = ''string'', cr_format = ''one_marker'', cr_source = ''sub2api-sync/sub2api_sync.py''\<rparr>"

definition nonce_regex :: "pystr \<Rightarrow> (bytes \<Rightarrow> bool) option" where
  "nonce_regex t = (if t = ''^sub2api-sync:nonce:[0-9a-f]{64}$'' then Some nonce_pattern else None)"

definition reviewed_policy :: pyval where
  "reviewed_policy = PDict
     [(''version'', PInt 2), (''reviewed_sub2api_version'', PStr ''0.1.176''),
      (''reviewed_source_revision'', PStr ''e803e3851c0a7e222cfadeafad7b8636ab959d11''),
      (''categories'', PDict
         [(''session'', PList []), (''oauth'', PList []), (''scheduler'', PList []), (''billing'', PList []),
          (''concurrency'', PList []),
          (''sync_nonce'', PList [PDict
             [(''prefix'', PStr ''sub2api-sync:nonce:''),
              (''key_pattern'', PStr ''^sub2api-sync:nonce:[0-9a-f]{64}$''),
              (''redis_type'', PStr ''string''), (''value_format'', PStr ''one_marker''),
              (''source'', PStr ''sub2api-sync/sub2api_sync.py'')]])]),
      (''discard_prefixes'', PList [PDict
         [(''prefix'', PStr ''refresh_token:''), (''reason'', PStr ''refresh-session metadata is rebuilt''),
          (''source'', PStr ''backend/internal/repository/refresh_token_cache.go'')]]),
      (''forbidden_prefixes'', PList [PStr ''content:''])]"

lemma reviewed_pieces:
  "validate_prefix (PStr ''sub2api-sync:nonce:'') ''sync_nonce'' = Inr ''sub2api-sync:nonce:''"
  "validate_prefix (PStr ''refresh_token:'') ''discard'' = Inr ''refresh_token:''"
  "validate_prefix (PStr ''content:'') ''forbidden'' = Inr ''content:''"
  "value_among (PStr ''string'') VALID_REDIS_TYPES m = Inr ''string''"
  "value_among (PStr ''one_marker'') VALID_VALUE_FORMATS m = Inr ''one_marker''"
  "validate_source_reference (PStr ''sub2api-sync/sub2api_sync.py'') = Inr ''sub2api-sync/sub2api_sync.py''"
  "validate_source_reference (PStr ''backend/internal/repository/refresh_token_cache.go'') =
     Inr ''backend/internal/repository/refresh_token_cache.go''"
  by code_simp+

lemma reviewed_rule:
  "load_copy_rule nonce_regex ''sync_nonce'' (PDict
     [(''prefix'', PStr ''sub2api-sync:nonce:''), (''key_pattern'', PStr ''^sub2api-sync:nonce:[0-9a-f]{64}$''),
      (''redis_type'', PStr ''string''), (''value_format'', PStr ''one_marker''),
      (''source'', PStr ''sub2api-sync/sub2api_sync.py'')]) = Inr nonce_rule"
  by (auto simp: load_copy_rule_def same_fields_def dget_def reviewed_pieces is_ascii_def nonce_regex_def
      nonce_rule_def suffix_def)

lemma reviewed_discard:
  "load_discard (PDict [(''prefix'', PStr ''refresh_token:''), (''reason'', PStr ''refresh-session metadata is rebuilt''),
      (''source'', PStr ''backend/internal/repository/refresh_token_cache.go'')]) = Inr ''refresh_token:''"
  by (simp add: load_discard_def same_fields_def dget_def reviewed_pieces)

lemma reviewed_policy_loads:
  "load_prefix_policy nonce_regex (Document reviewed_policy) = Inr ([nonce_rule], [''refresh_token:''], [''content:''])"
  by (simp add: load_prefix_policy_def reviewed_policy_def set_equals_def same_fields_def dget_def
      EXPECTED_CATEGORIES_def policy_lists_def sorted_categories_def reviewed_rule reviewed_discard reviewed_pieces
      nonempty_list_def Let_def insert_commute)
    (simp add: nonce_rule_def require_def)

theorem policy_decides_keys_witness:
  "rule_for_key (''sub2api-sync:nonce:'' @ replicate 64 (CHR ''a'')) [nonce_rule] = Inr nonce_rule"
proof -
  have "is_allowed_key (ReplyBytes (''sub2api-sync:nonce:'' @ replicate 64 (CHR ''a''))) [nonce_rule] [''content:'']"
    by code_simp
  from policy_decides_keys [OF reviewed_policy_loads this] show ?thesis by auto
qed

end
