(* ===== verification/Redis_Values.thy ===== *)
theory Redis_Values
  imports Redis_Policy
begin

text \<open>
  The validators of the values that \<open>migrate-redis-allowlist.py\<close> may copy: texts, numbers, the
  refresh-token document, hashes and sets, and \<open>validate_source_key_value\<close>, which asks the
  source for a key and validates the answer.
\<close>

section \<open>Parameters\<close>

text \<open>What the validators observe of a \<open>decimal.Decimal\<close>, and of an aware \<open>datetime\<close> (its
  moment in microseconds; \<open>None\<close> when it has no offset). \<open>json_pairs\<close> decodes a document
  with the raw list of pairs of every object, duplicates included.\<close>

record py_decimal =
  dec_finite :: bool
  dec_large :: bool
  dec_negative :: bool

record values_env =
  decimal_of :: "pystr \<Rightarrow> py_decimal option"
  json_pairs :: "bytes \<Rightarrow> pyval res"
  iso_moment :: "pystr \<Rightarrow> int option res"

section \<open>Texts and numbers\<close>

definition bad_value :: "pystr \<Rightarrow> 'a res" where
  "bad_value label = refuse (''Redis '' @ label @ '' value is invalid'')"

definition ascii_value :: "reply \<Rightarrow> pystr \<Rightarrow> bool \<Rightarrow> pystr res" where
  "ascii_value value label allow_empty =
     (case value of
        ReplyBytes b \<Rightarrow>
          (if length b > MAX_VALIDATED_STRING_BYTES \<or> \<not> is_ascii b then bad_value label
           else if (\<not> allow_empty \<and> b = []) \<or> list_ex (\<lambda>c. ord c < 32) b then bad_value label
           else Inr b)
      | _ \<Rightarrow> bad_value label)"

definition validate_decimal_text :: "values_env \<Rightarrow> reply \<Rightarrow> pystr \<Rightarrow> bool \<Rightarrow> bool \<Rightarrow> unit res" where
  "validate_decimal_text ve value label nonnegative allow_empty =
     res_bind (ascii_value value label allow_empty) (\<lambda>text.
       if allow_empty \<and> text = [] then Inr ()
       else
         (let bad = refuse (''Redis '' @ label @ '' number is invalid'')
          in if length text > 64 then bad
             else case decimal_of ve text of
                 None \<Rightarrow> bad
               | Some parsed \<Rightarrow>
                   if \<not> dec_finite parsed \<or> dec_large parsed then bad
                   else if nonnegative \<and> dec_negative parsed then bad
                   else Inr ()))"

text \<open>\<open>[0-9]{1,20}\<close>, with an optional sign when negative numbers are allowed.\<close>

definition integer_shape :: "bool \<Rightarrow> pystr \<Rightarrow> bool" where
  "integer_shape nonnegative text =
     (let digits = (if \<not> nonnegative \<and> prefix ''-'' text then tl text else text)
      in digits \<noteq> [] \<and> length digits \<le> 20 \<and> list_all is_digit digits)"

definition integer_value :: "pystr \<Rightarrow> int" where
  "integer_value text = (if prefix ''-'' text then - int (digits_val (tl text)) else int (digits_val text))"

definition validate_integer_text :: "reply \<Rightarrow> pystr \<Rightarrow> bool \<Rightarrow> bool \<Rightarrow> unit res" where
  "validate_integer_text value label nonnegative allow_empty =
     res_bind (ascii_value value label allow_empty) (\<lambda>text.
       if allow_empty \<and> text = [] then Inr ()
       else
         (let bad = refuse (''Redis '' @ label @ '' integer is invalid'')
          in if \<not> integer_shape nonnegative text then bad
             else
               (let parsed = integer_value text
                in if parsed > 9223372036854775807 \<or> (\<not> nonnegative \<and> parsed < -9223372036854775808) then bad
                   else Inr ())))"

section \<open>The refresh token\<close>

text \<open>\<open>_pairs_object\<close> refuses a repeated field, in every object of the document.\<close>

fun pairs_ok :: "pyval \<Rightarrow> bool" where
  "pairs_ok (PList xs) = list_all pairs_ok xs"
| "pairs_ok (PDict d) = (distinct (map fst d) \<and> list_all (\<lambda>(_, v). pairs_ok v) d)"
| "pairs_ok _ = True"

definition hex32 :: "pystr \<Rightarrow> bool" where
  "hex32 s \<longleftrightarrow> length s = 32 \<and> list_all is_hex s"

definition positive_int :: "pyval \<Rightarrow> int \<Rightarrow> bool" where
  "positive_int v least = (case v of PInt i \<Rightarrow> least \<le> i | _ \<Rightarrow> False)"

definition token_moment :: "values_env \<Rightarrow> pyval \<Rightarrow> int res" where
  "token_moment ve v =
     (let bad = refuse ''Redis refresh token timestamp is invalid''
      in case v of
           PStr s \<Rightarrow>
             if length s < 10 \<or> length s > 64 then bad
             else (case iso_moment ve (replace_char (CHR ''Z'') ''+00:00'' s) of
                 Inl e \<Rightarrow> (if is_value_error e then bad else Inl e)
               | Inr None \<Rightarrow> bad
               | Inr (Some t) \<Rightarrow> Inr t)
         | _ \<Rightarrow> bad)"

definition token_fields :: "pystr list" where
  "token_fields = [''user_id'', ''token_version'', ''family_id'', ''created_at'', ''expires_at'']"

definition validate_refresh_token_metadata :: "values_env \<Rightarrow> reply \<Rightarrow> unit res" where
  "validate_refresh_token_metadata ve raw =
     (let bad = refuse ''Redis refresh token metadata is invalid''
      in case raw of
           ReplyBytes b \<Rightarrow>
             if b = [] \<or> length b > 2048 then bad
             else (case json_pairs ve b of
                 Inl e \<Rightarrow> (if is_value_error e then bad else Inl e)
               | Inr v \<Rightarrow>
                   if \<not> pairs_ok v then bad
                   else (case v of
                       PDict d \<Rightarrow>
                         if \<not> (set token_fields \<subseteq> set (map fst d)
                               \<and> set (map fst d) \<subseteq> set (''binding_hash'' # token_fields))
                         then refuse ''Redis refresh token metadata fields are invalid''
                         else if \<not> positive_int (dget d ''user_id'') 1 \<or> \<not> positive_int (dget d ''token_version'') 0
                           \<or> \<not> (case dget d ''family_id'' of PStr s \<Rightarrow> hex32 s | _ \<Rightarrow> False)
                         then refuse ''Redis refresh token metadata identifiers are invalid''
                         else if \<not> (case dget_or d ''binding_hash'' (PStr []) of PStr s \<Rightarrow> s = [] \<or> hex32 s | _ \<Rightarrow> False)
                         then refuse ''Redis refresh token binding hash is invalid''
                         else
                           res_bind (token_moment ve (dget d ''created_at'')) (\<lambda>created.
                           res_bind (token_moment ve (dget d ''expires_at'')) (\<lambda>expires.
                             if expires \<le> created then refuse ''Redis refresh token timestamp order is invalid''
                             else Inr ()))
                     | _ \<Rightarrow> refuse ''Redis refresh token metadata fields are invalid''))
         | _ \<Rightarrow> bad)"

section \<open>Hashes\<close>

fun hash_pairs :: "reply list \<Rightarrow> (bytes \<times> bytes) list \<Rightarrow> (bytes \<times> bytes) list res" where
  "hash_pairs [] acc = Inr acc"
| "hash_pairs (ReplyBytes f # ReplyBytes v # rs) acc =
     (if f \<in> set (map fst acc) then refuse ''Redis hash response is invalid''
      else hash_pairs rs (acc @ [(f, v)]))"
| "hash_pairs _ acc = refuse ''Redis hash response is invalid''"

definition hash_from_reply :: "reply \<Rightarrow> (bytes \<times> bytes) list res" where
  "hash_from_reply r =
     (case r of
        ReplyList rs \<Rightarrow>
          (if odd (length rs) \<or> length rs > MAX_COLLECTION_ITEMS * 2 then refuse ''Redis hash response is invalid''
           else hash_pairs rs [])
      | _ \<Rightarrow> refuse ''Redis hash response is invalid'')"

definition field :: "(bytes \<times> bytes) list \<Rightarrow> bytes \<Rightarrow> reply" where
  "field entries name = (case map_of entries name of None \<Rightarrow> ReplyNil | Some v \<Rightarrow> ReplyBytes v)"

definition require_hash_fields :: "(bytes \<times> bytes) list \<Rightarrow> pystr list \<Rightarrow> unit res" where
  "require_hash_fields entries expected =
     require (set (map fst entries) = set expected) ''Redis hash contains unreviewed fields''"

text \<open>A \<open>for\<close> loop of checks over named fields.\<close>

fun each_field :: "(bytes \<Rightarrow> unit res) \<Rightarrow> bytes list \<Rightarrow> unit res" where
  "each_field f [] = Inr ()"
| "each_field f (n # ns) = res_bind (f n) (\<lambda>_. each_field f ns)"

text \<open>\<open>[a-z][a-z0-9_-]{0,31}\<close>.\<close>

definition slug :: "pystr \<Rightarrow> bool" where
  "slug s \<longleftrightarrow> s \<noteq> [] \<and> length s \<le> 32 \<and> is_lower (hd s)
     \<and> list_all (\<lambda>c. is_lower c \<or> is_digit c \<or> c \<in> set ''_-'') (tl s)"

definition validate_subscription_hash :: "values_env \<Rightarrow> (bytes \<times> bytes) list \<Rightarrow> unit res" where
  "validate_subscription_hash ve entries =
     res_bind (require_hash_fields entries
       [''status'', ''expires_at'', ''daily_usage'', ''weekly_usage'', ''monthly_usage'', ''version'']) (\<lambda>_.
     res_bind (ascii_value (field entries ''status'') ''subscription status'' False) (\<lambda>st.
     res_bind (require (slug st) ''Redis subscription status is invalid'') (\<lambda>_.
     res_bind (validate_integer_text (field entries ''expires_at'') ''subscription expiry'' True False) (\<lambda>_.
     res_bind (validate_integer_text (field entries ''version'') ''subscription version'' True False) (\<lambda>_.
       each_field (\<lambda>n. validate_decimal_text ve (field entries n) ''subscription usage'' True False)
         [''daily_usage'', ''weekly_usage'', ''monthly_usage''])))))"

definition validate_api_key_rate_hash :: "values_env \<Rightarrow> (bytes \<times> bytes) list \<Rightarrow> unit res" where
  "validate_api_key_rate_hash ve entries =
     res_bind (require_hash_fields entries
       [''usage_5h'', ''usage_1d'', ''usage_7d'', ''window_5h'', ''window_1d'', ''window_7d'']) (\<lambda>_.
     res_bind (each_field (\<lambda>n. validate_decimal_text ve (field entries n) ''API key rate usage'' True False)
       [''usage_5h'', ''usage_1d'', ''usage_7d'']) (\<lambda>_.
       each_field (\<lambda>n. validate_integer_text (field entries n) ''API key rate window'' True False)
         [''window_5h'', ''window_1d'', ''window_7d'']))"

definition validate_platform_quota_hash :: "values_env \<Rightarrow> (bytes \<times> bytes) list \<Rightarrow> unit res" where
  "validate_platform_quota_hash ve entries =
     res_bind (require_hash_fields entries
       [''daily_usage'', ''weekly_usage'', ''monthly_usage'', ''version'', ''schema_version'', ''daily_limit'',
        ''weekly_limit'', ''monthly_limit'', ''daily_window_start'', ''weekly_window_start'',
        ''monthly_window_start'']) (\<lambda>_.
     res_bind (each_field (\<lambda>n. validate_decimal_text ve (field entries n) ''platform quota usage'' True False)
       [''daily_usage'', ''weekly_usage'', ''monthly_usage'']) (\<lambda>_.
     res_bind (each_field (\<lambda>n. validate_integer_text (field entries n) ''platform quota version'' True False)
       [''version'', ''schema_version'']) (\<lambda>_.
     res_bind (each_field (\<lambda>n. validate_decimal_text ve (field entries n) ''platform quota limit'' True True)
       [''daily_limit'', ''weekly_limit'', ''monthly_limit'']) (\<lambda>_.
       each_field (\<lambda>n. validate_integer_text (field entries n) ''platform quota window'' True True)
         [''daily_window_start'', ''weekly_window_start'', ''monthly_window_start'']))))"

section \<open>Sets\<close>

definition sha256_member :: "reply \<Rightarrow> bool" where
  "sha256_member r = (case r of ReplyBytes b \<Rightarrow> length b = 64 \<and> list_all is_hex b | _ \<Rightarrow> False)"

text \<open>\<open>[1-9][0-9]*:[a-z][a-z0-9_-]{0,31}\<close>.\<close>

definition dirty_member :: "reply \<Rightarrow> bool" where
  "dirty_member r =
     (case r of
        ReplyBytes b \<Rightarrow>
          (case partition_on (CHR '':'') b of
             (n, found, rest) \<Rightarrow> found \<and> is_positive_decimal n \<and> slug rest)
      | _ \<Rightarrow> False)"

definition validate_set_members :: "reply \<Rightarrow> pystr \<Rightarrow> unit res" where
  "validate_set_members r value_format =
     (case r of
        ReplyList rs \<Rightarrow>
          if length rs > MAX_COLLECTION_ITEMS then refuse ''Redis set response is invalid''
          else if value_format = ''sha256_set'' then require (list_all sha256_member rs) ''Redis token hash set is invalid''
          else if value_format = ''platform_quota_dirty_set''
          then require (list_all dirty_member rs) ''Redis platform quota dirty set is invalid''
          else refuse ''Redis set validator is unavailable''
      | _ \<Rightarrow> refuse ''Redis set response is invalid'')"

section \<open>A key of the source\<close>

text \<open>What a value must be for a rule, as a check on the answer to the one command the
  validator sends after \<open>TYPE\<close>.\<close>

definition value_command :: "bytes \<Rightarrow> bytes" where
  "value_command redis_type =
     (if redis_type = ''string'' then ''GET'' else if redis_type = ''set'' then ''SMEMBERS'' else ''HGETALL'')"

definition check_value :: "values_env \<Rightarrow> copy_rule \<Rightarrow> reply \<Rightarrow> unit res" where
  "check_value ve rule value =
     (if cr_type rule = ''string'' then
        (if cr_format rule = ''refresh_token_metadata'' then validate_refresh_token_metadata ve value
         else if cr_format rule = ''finite_number'' then validate_decimal_text ve value ''numeric cache'' False False
         else if cr_format rule = ''nonnegative_integer'' then validate_integer_text value ''counter cache'' True False
         else if cr_format rule = ''one_marker''
         then require (value = ReplyBytes ''1'') ''Redis marker value is invalid''
         else refuse ''Redis string validator is unavailable'')
      else if cr_type rule = ''set'' then validate_set_members value (cr_format rule)
      else
        res_bind (hash_from_reply value) (\<lambda>entries.
          if cr_format rule = ''subscription_hash'' then validate_subscription_hash ve entries
          else if cr_format rule = ''api_key_rate_hash'' then validate_api_key_rate_hash ve entries
          else if cr_format rule = ''platform_quota_hash'' then validate_platform_quota_hash ve entries
          else refuse ''Redis hash validator is unavailable''))"

end
