(* ===== verification/Py_Io.thy ===== *)
theory Py_Io
  imports Py_Value
begin

text \<open>
  Actions of the deploy tools: a function from the state of the outside world to a result or an
  exception (of any type of exceptions) and the next state, with the sequencing, the \<open>try ... finally\<close> and the \<open>try ... except\<close>
  of Python, and the rules by which an action keeps an invariant of the state.
\<close>

named_theorems io_keeps "actions and combinators that keep an invariant"

type_synonym ('a, 'p) io = "'p \<Rightarrow> 'a res \<times> 'p"

definition io_return :: "'a \<Rightarrow> 'p \<Rightarrow> ('e + 'a) \<times> 'p" where "io_return a p = (Inr a, p)"

definition io_raise :: "'e \<Rightarrow> 'p \<Rightarrow> ('e + 'a) \<times> 'p" where "io_raise e p = (Inl e, p)"

definition io_lift :: "'e + 'a \<Rightarrow> 'p \<Rightarrow> ('e + 'a) \<times> 'p" where "io_lift r p = (r, p)"

definition io_bind ::
  "('p \<Rightarrow> ('e + 'a) \<times> 'p) \<Rightarrow> ('a \<Rightarrow> 'p \<Rightarrow> ('e + 'b) \<times> 'p) \<Rightarrow> 'p \<Rightarrow> ('e + 'b) \<times> 'p" where
  "io_bind m f p = (case m p of (Inl e, p') \<Rightarrow> (Inl e, p') | (Inr a, p') \<Rightarrow> f a p')"

text \<open>\<open>try: m finally: c\<close>, for a \<open>c\<close> that does not raise, and \<open>try: m except ...: raise\<close>, where the
  handler maps the exception.\<close>

definition io_finally :: "('p \<Rightarrow> 'r \<times> 'p) \<Rightarrow> ('p \<Rightarrow> 'p) \<Rightarrow> 'p \<Rightarrow> 'r \<times> 'p" where
  "io_finally m c p = (case m p of (r, p') \<Rightarrow> (r, c p'))"

definition io_mapexn :: "('e \<Rightarrow> 'e) \<Rightarrow> ('p \<Rightarrow> ('e + 'a) \<times> 'p) \<Rightarrow> 'p \<Rightarrow> ('e + 'a) \<times> 'p" where
  "io_mapexn h m p = (case m p of (Inl e, p') \<Rightarrow> (Inl (h e), p') | (Inr a, p') \<Rightarrow> (Inr a, p'))"

section \<open>Successful runs\<close>

lemma io_bind_Inr: "io_bind m f p = (Inr b, p') \<longleftrightarrow> (\<exists>a p1. m p = (Inr a, p1) \<and> f a p1 = (Inr b, p'))"
  by (auto simp: io_bind_def split: prod.splits sum.splits)

lemma io_lift_Inr [simp]: "io_lift r p = (Inr b, p') \<longleftrightarrow> r = Inr b \<and> p' = p"
  by (auto simp: io_lift_def)

lemma io_return_Inr [simp]: "io_return a p = (Inr b, p') \<longleftrightarrow> b = a \<and> p' = p"
  by (auto simp: io_return_def)

lemma io_raise_Inr [simp]: "io_raise e p \<noteq> (Inr b, p')"
  by (simp add: io_raise_def)

lemma io_finally_Inr: "io_finally m c p = (Inr b, p') \<longleftrightarrow> (\<exists>p1. m p = (Inr b, p1) \<and> p' = c p1)"
  by (auto simp: io_finally_def split: prod.splits)

lemma io_mapexn_Inr [simp]: "io_mapexn h m p = (Inr b, p') \<longleftrightarrow> m p = (Inr b, p')"
  by (auto simp: io_mapexn_def split: prod.splits sum.splits)

section \<open>Invariants\<close>

definition keeps :: "('p \<Rightarrow> bool) \<Rightarrow> ('p \<Rightarrow> 'r \<times> 'p) \<Rightarrow> bool" where
  "keeps Q m \<longleftrightarrow> (\<forall>p. Q p \<longrightarrow> Q (snd (m p)))"

lemma keeps_bind [io_keeps]: "keeps Q m \<Longrightarrow> (\<And>a. keeps Q (f a)) \<Longrightarrow> keeps Q (io_bind m f)"
  unfolding keeps_def io_bind_def by (fastforce split: prod.splits sum.splits)

lemma keeps_if [io_keeps]: "keeps Q m \<Longrightarrow> keeps Q n \<Longrightarrow> keeps Q (if b then m else n)"
  by simp

lemma keeps_lift [simp, io_keeps]: "keeps Q (io_lift r)" "keeps Q (io_return a)" "keeps Q (io_raise e)"
  by (simp_all add: keeps_def io_lift_def io_return_def io_raise_def)

lemma keeps_mapexn [io_keeps]: "keeps Q m \<Longrightarrow> keeps Q (io_mapexn h m)"
  unfolding keeps_def io_mapexn_def by (auto split: prod.splits sum.splits)

lemma keeps_run: "keeps Q m \<Longrightarrow> m p = (r, p') \<Longrightarrow> Q p \<Longrightarrow> Q p'"
  unfolding keeps_def by (metis snd_conv)

end
