(* ===== verification/Redis_Migration.thy ===== *)
theory Redis_Migration
  imports Redis_Values Py_Io "HOL-Library.List_Lexorder" "HOL-Library.Char_ord"
begin

text \<open>
  The run of \<open>migrate-redis-allowlist.py\<close>: the scan of the source, the validation of what may
  be copied, the checks of the target, the copy with its rollback, and the command line. A
  connection is a function from a command to a reply and a new state of its server; the two
  servers are arbitrary in the properties of the tool and concrete in
  \<open>Redis_Migration_Facts\<close>.
\<close>

section \<open>Actions on two servers\<close>

type_synonym 'c exec = "command_arg list \<Rightarrow> 'c \<Rightarrow> reply res \<times> 'c"

definition on_source :: "'s exec \<Rightarrow> command_arg list \<Rightarrow> (reply, 's \<times> 't) io" where
  "on_source src cmd p = (case src cmd (fst p) of (r, s) \<Rightarrow> (r, (s, snd p)))"

definition on_target :: "'t exec \<Rightarrow> command_arg list \<Rightarrow> (reply, 's \<times> 't) io" where
  "on_target tgt cmd p = (case tgt cmd (snd p) of (r, t) \<Rightarrow> (r, (fst p, t)))"

section \<open>INFO and CONFIG\<close>

text \<open>\<open>bytes.splitlines\<close>: lines end with LF, CR or CR LF.\<close>

fun byte_lines :: "bytes \<Rightarrow> bytes \<Rightarrow> bytes list" where
  "byte_lines acc [] = (if acc = [] then [] else [acc])"
| "byte_lines acc (c # cs) =
     (if c = CHR 0x0D then
        acc # (case cs of d # ds \<Rightarrow> (if d = CHR 0x0A then byte_lines [] ds else byte_lines [] cs) | [] \<Rightarrow> [])
      else if c = CHR 0x0A then acc # byte_lines [] cs
      else byte_lines (acc @ [c]) cs)"

text \<open>A later line replaces the value of an earlier one, as in a \<open>dict\<close>.\<close>

fun info_lines :: "bytes list \<Rightarrow> (pystr \<Rightarrow> pystr option) \<Rightarrow> (pystr \<Rightarrow> pystr option) res" where
  "info_lines [] m = Inr m"
| "info_lines (line # lines) m =
     (if line = [] \<or> prefix ''#'' line \<or> CHR '':'' \<notin> set line then info_lines lines m
      else (case partition_on (CHR '':'') line of
         (key, _, v) \<Rightarrow>
           if is_ascii key \<and> is_ascii v then info_lines lines (m(key \<mapsto> v))
           else refuse ''Redis INFO response is invalid''))"

definition parse_info :: "reply \<Rightarrow> (pystr \<Rightarrow> pystr option) res" where
  "parse_info raw =
     (case raw of
        ReplyBytes b \<Rightarrow> info_lines (byte_lines [] b) (\<lambda>_. None)
      | _ \<Rightarrow> refuse ''Redis INFO response is invalid'')"

text \<open>The names of an INFO answer, for the test of the key spaces.\<close>

definition info_names :: "reply \<Rightarrow> pystr list" where
  "info_names raw =
     (case raw of
        ReplyBytes b \<Rightarrow>
          map (\<lambda>line. fst (partition_on (CHR '':'') line))
            (filter (\<lambda>line. \<not> (line = [] \<or> prefix ''#'' line \<or> CHR '':'' \<notin> set line)) (byte_lines [] b))
      | _ \<Rightarrow> [])"

definition config_value :: "reply \<Rightarrow> pystr \<Rightarrow> pystr res" where
  "config_value r expected_name =
     (case r of
        ReplyList [n, ReplyBytes v] \<Rightarrow>
          (if n \<noteq> ReplyBytes expected_name then refuse ''Redis CONFIG response is invalid''
           else if \<not> is_ascii v then Inl UnicodeDecodeError
           else Inr (lower v))
      | _ \<Rightarrow> refuse ''Redis CONFIG response is invalid'')"

section \<open>The scan\<close>

definition MAX_SCAN_PAGES :: nat where "MAX_SCAN_PAGES = 100000"
definition SCAN_COUNT :: int where "SCAN_COUNT = 500"

record scan_state =
  sc_keys :: "bytes list"
  sc_discarded :: nat
  sc_unknown :: nat

fun scan_page :: "copy_rule list \<Rightarrow> bytes list \<Rightarrow> bytes list \<Rightarrow> reply list \<Rightarrow> scan_state \<Rightarrow> scan_state res" where
  "scan_page allowed discarded forbidden [] st = Inr st"
| "scan_page allowed discarded forbidden (r # rs) st =
     (if is_allowed_key r allowed forbidden then
        (let k = (case r of ReplyBytes b \<Rightarrow> b | _ \<Rightarrow> []);
             ks = (if k \<in> set (sc_keys st) then sc_keys st else k # sc_keys st)
         in if int (length ks) > MAX_KEYS then refuse ''Redis key count exceeds the migration limit''
            else scan_page allowed discarded forbidden rs (st\<lparr>sc_keys := ks\<rparr>))
      else if is_discarded_key r discarded then
        (if int (sc_discarded st + 1) > MAX_KEYS then refuse ''Redis discarded key count exceeds the migration limit''
         else scan_page allowed discarded forbidden rs (st\<lparr>sc_discarded := sc_discarded st + 1\<rparr>))
      else scan_page allowed discarded forbidden rs (st\<lparr>sc_unknown := sc_unknown st + 1\<rparr>))"

definition scan_cursor :: "reply \<Rightarrow> int res" where
  "scan_cursor r =
     (case r of
        ReplyInt i \<Rightarrow> Inr i
      | ReplyBytes b \<Rightarrow> (case int_of_text b of Some i \<Rightarrow> Inr i | None \<Rightarrow> refuse ''Redis SCAN cursor is invalid'')
      | _ \<Rightarrow> refuse ''Redis SCAN cursor is invalid'')"

definition scan_parts :: "reply \<Rightarrow> (reply \<times> reply list) option" where
  "scan_parts r = (case r of ReplyList [c, ReplyList found] \<Rightarrow> Some (c, found) | _ \<Rightarrow> None)"

text \<open>The first argument is the number of pages that may still be asked for.\<close>

fun scan_loop ::
  "nat \<Rightarrow> (command_arg list \<Rightarrow> (reply, 'p) io) \<Rightarrow> copy_rule list \<Rightarrow> bytes list \<Rightarrow> bytes list \<Rightarrow> int \<Rightarrow> scan_state
    \<Rightarrow> (scan_state, 'p) io" where
  "scan_loop 0 src allowed discarded forbidden cursor st = io_lift (refuse ''Redis SCAN page limit exceeded'')"
| "scan_loop (Suc n) src allowed discarded forbidden cursor st =
     io_bind (src [ArgText ''SCAN'', ArgInt cursor, ArgText ''COUNT'', ArgInt SCAN_COUNT]) (\<lambda>r.
       case scan_parts r of
         None \<Rightarrow> io_lift (refuse ''Redis SCAN response is invalid'')
       | Some (c, found) \<Rightarrow>
           io_bind (io_lift (scan_cursor c)) (\<lambda>next.
           io_bind (io_lift (scan_page allowed discarded forbidden found st)) (\<lambda>st'.
             if next = 0 then io_return st'
             else scan_loop n src allowed discarded forbidden next st')))"

definition scan_source_keys ::
  "(command_arg list \<Rightarrow> (reply, 'p) io) \<Rightarrow> copy_rule list \<Rightarrow> bytes list \<Rightarrow> bytes list \<Rightarrow> (bytes list \<times> nat, 'p) io" where
  "scan_source_keys src allowed discarded forbidden =
     io_bind (scan_loop MAX_SCAN_PAGES src allowed discarded forbidden 0
                \<lparr>sc_keys = [], sc_discarded = 0, sc_unknown = 0\<rparr>) (\<lambda>st.
       if sc_unknown st \<noteq> 0
       then io_lift (refuse ''unknown Redis key prefix or forbidden content cache; migration refused'')
       else io_return (sort (sc_keys st), sc_discarded st))"

section \<open>Validation of the source\<close>

definition validate_source_key_value ::
  "values_env \<Rightarrow> (command_arg list \<Rightarrow> (reply, 'p) io) \<Rightarrow> bytes \<Rightarrow> copy_rule \<Rightarrow> (unit, 'p) io" where
  "validate_source_key_value ve src key rule =
     io_bind (src [ArgText ''TYPE'', ArgBytes key]) (\<lambda>actual_type.
       if actual_type \<noteq> ReplyBytes (cr_type rule)
       then io_lift (refuse ''Redis key type does not match the reviewed policy'')
       else io_bind (src [ArgText (value_command (cr_type rule)), ArgBytes key]) (\<lambda>value.
            io_lift (check_value ve rule value)))"

fun validate_source_values ::
  "values_env \<Rightarrow> (command_arg list \<Rightarrow> (reply, 'p) io) \<Rightarrow> bytes list \<Rightarrow> copy_rule list \<Rightarrow> (unit, 'p) io" where
  "validate_source_values ve src [] allowed = io_return ()"
| "validate_source_values ve src (key # keys) allowed =
     io_bind (io_lift (rule_for_key key allowed)) (\<lambda>rule.
     io_bind (validate_source_key_value ve src key rule) (\<lambda>_.
       validate_source_values ve src keys allowed))"

section \<open>The target\<close>

definition MAX_NONCE_TTL_MS :: int where "MAX_NONCE_TTL_MS = 601000"

definition target_config :: "(command_arg list \<Rightarrow> (reply, 'p) io) \<Rightarrow> pystr \<Rightarrow> (pystr, 'p) io" where
  "target_config tgt name =
     io_bind (tgt [ArgText ''CONFIG'', ArgText ''GET'', ArgText name]) (\<lambda>r. io_lift (config_value r name))"

definition check_target ::
  "(command_arg list \<Rightarrow> (reply, 'p) io) \<Rightarrow> (pystr \<Rightarrow> pystr option) \<Rightarrow> bool \<Rightarrow> (unit, 'p) io" where
  "check_target tgt source_info same_database =
     io_bind (tgt [ArgText ''INFO'', ArgText ''server'']) (\<lambda>raw.
     io_bind (io_lift (parse_info raw)) (\<lambda>target_info.
       if target_info ''redis_version'' \<noteq> Some ''8.8.0''
       then io_lift (refuse ''target Redis server must be exactly version 8.8.0'')
       else if source_info ''run_id'' \<notin> {None, Some []} \<and> source_info ''run_id'' = target_info ''run_id'' \<and> same_database
       then io_lift (refuse ''source and target Redis databases must be distinct'')
       else
         io_bind (tgt [ArgText ''DBSIZE'']) (\<lambda>size.
           if size \<noteq> ReplyInt 0 then io_lift (refuse ''target Redis database is not fresh and empty'')
           else
             io_bind (tgt [ArgText ''INFO'', ArgText ''keyspace'']) (\<lambda>keyspace.
             io_bind (io_lift (parse_info keyspace)) (\<lambda>_.
               if list_ex (prefix ''db'') (info_names keyspace)
               then io_lift (refuse ''target Redis server has keys outside the selected database'')
               else
                 io_bind (target_config tgt ''appendonly'') (\<lambda>appendonly.
                 io_bind (target_config tgt ''appendfsync'') (\<lambda>appendfsync.
                 io_bind (target_config tgt ''save'') (\<lambda>save_policy.
                 io_bind (target_config tgt ''maxmemory'') (\<lambda>maxmemory.
                 io_bind (target_config tgt ''maxmemory-policy'') (\<lambda>maxmemory_policy.
                   if appendonly \<noteq> ''yes'' \<or> appendfsync \<noteq> ''always'' \<or> save_policy \<noteq> []
                      \<or> maxmemory \<noteq> ''33554432'' \<or> maxmemory_policy \<noteq> ''noeviction''
                   then io_lift (refuse ''target nonce Redis must use durable AOF, disabled RDB, and the reviewed memory limit'')
                   else io_return ())))))))))) "

section \<open>Copy and rollback\<close>

definition reply_arg :: "reply \<Rightarrow> command_arg" where
  "reply_arg r = (case r of ReplyBytes b \<Rightarrow> ArgBytes b | ReplyInt i \<Rightarrow> ArgInt i | _ \<Rightarrow> ArgOther)"

text \<open>The result carries the keys whose \<open>RESTORE\<close> was attempted, in order.\<close>

fun copy_keys ::
  "(command_arg list \<Rightarrow> (reply, 'p) io) \<Rightarrow> (command_arg list \<Rightarrow> (reply, 'p) io) \<Rightarrow> bytes list \<Rightarrow> bytes list
    \<Rightarrow> 'p \<Rightarrow> (unit res \<times> bytes list) \<times> 'p" where
  "copy_keys src tgt [] attempted p = ((Inr (), attempted), p)"
| "copy_keys src tgt (key # keys) attempted p =
     (case src [ArgText ''DUMP'', ArgBytes key] p of
        (Inl e, p1) \<Rightarrow> ((Inl e, attempted), p1)
      | (Inr payload, p1) \<Rightarrow>
          if payload = ReplyNil then copy_keys src tgt keys attempted p1
          else (case src [ArgText ''PTTL'', ArgBytes key] p1 of
              (Inl e, p2) \<Rightarrow> ((Inl e, attempted), p2)
            | (Inr ttl, p2) \<Rightarrow>
                if ttl = ReplyInt (-2) then copy_keys src tgt keys attempted p2
                else (case ttl of
                    ReplyInt t \<Rightarrow>
                      if 1 \<le> t \<and> t \<le> MAX_NONCE_TTL_MS then
                        (case tgt [ArgText ''RESTORE'', ArgBytes key, ArgInt t, reply_arg payload] p2 of
                           (Inl e, p3) \<Rightarrow> ((Inl e, attempted @ [key]), p3)
                         | (Inr r, p3) \<Rightarrow>
                             if r \<noteq> ReplyBytes ''OK''
                             then ((refuse ''Redis RESTORE did not return OK'', attempted @ [key]), p3)
                             else copy_keys src tgt keys (attempted @ [key]) p3)
                      else ((refuse ''source Redis nonce TTL is invalid'', attempted), p2)
                  | _ \<Rightarrow> ((refuse ''source Redis nonce TTL is invalid'', attempted), p2))))"

function rollback_target_keys ::
  "(command_arg list \<Rightarrow> (reply, 'p) io) \<Rightarrow> bytes list \<Rightarrow> (unit, 'p) io" where
  "rollback_target_keys tgt copied_keys =
     (if copied_keys = [] then io_return ()
      else io_bind (tgt (ArgText ''UNLINK'' # map ArgBytes (take 100 copied_keys))) (\<lambda>_.
           rollback_target_keys tgt (drop 100 copied_keys)))"
  by pat_completeness auto
termination by (relation "measure (\<lambda>(_, keys). length keys)") auto

declare rollback_target_keys.simps [simp del]

definition migrate_redis ::
  "values_env \<Rightarrow> 's exec \<Rightarrow> 't exec \<Rightarrow> bool \<Rightarrow> copy_rule list \<Rightarrow> bytes list \<Rightarrow> bytes list \<Rightarrow> (unit, 's \<times> 't) io" where
  "migrate_redis ve src tgt same_database allowed discarded forbidden =
     io_bind (on_source src [ArgText ''INFO'', ArgText ''server'']) (\<lambda>raw.
     io_bind (io_lift (parse_info raw)) (\<lambda>source_info.
     io_bind (scan_source_keys (on_source src) allowed discarded forbidden) (\<lambda>(keys, discarded_count).
     io_bind (validate_source_values ve (on_source src) keys allowed) (\<lambda>_.
     io_bind (check_target (on_target tgt) source_info same_database) (\<lambda>_ p.
       (case copy_keys (on_source src) (on_target tgt) keys [] p of
          ((Inr (), attempted), p') \<Rightarrow> (Inr (), p')
        | ((Inl e, attempted), p') \<Rightarrow>
            (case rollback_target_keys (on_target tgt) attempted p' of (_, p'') \<Rightarrow> (Inl e, p''))))))))"

end
