(* ===== verification/Redis_Migration_Facts.thy ===== *)
theory Redis_Migration_Facts
  imports Redis_Migration
begin

text \<open>
  Properties of the Redis migration: what it may send to the target, whatever the two servers
  answer; that nothing is written before every check has passed; and on concrete servers with
  expiring keys, lost connections and a deadline, what a completed run has copied and what a
  failed one leaves behind.
\<close>

section \<open>What is sent to the target\<close>

text \<open>A target with a log of the commands it was sent.\<close>

definition logged :: "'t exec \<Rightarrow> ('t \<times> command_arg list list) exec" where
  "logged tgt cmd q = (case tgt cmd (fst q) of (r, t) \<Rightarrow> (r, (t, snd q @ [cmd])))"

definition is_write :: "command_arg list \<Rightarrow> bool" where
  "is_write cmd \<longleftrightarrow> (case cmd of
       ArgText name # rest \<Rightarrow> name \<notin> {''INFO'', ''DBSIZE''}
         \<and> \<not> (name = ''CONFIG'' \<and> rest \<noteq> [] \<and> hd rest = ArgText ''GET'')
     | _ \<Rightarrow> True)"

definition key_arg :: "(bytes \<Rightarrow> bool) \<Rightarrow> command_arg \<Rightarrow> bool" where
  "key_arg ok a = (case a of ArgBytes k \<Rightarrow> ok k | _ \<Rightarrow> False)"

definition permitted :: "(bytes \<Rightarrow> bool) \<Rightarrow> command_arg list \<Rightarrow> bool" where
  "permitted ok cmd \<longleftrightarrow>
     \<not> is_write cmd
     \<or> (case cmd of
          [ArgText name, k, ArgInt t, _] \<Rightarrow> name = ''RESTORE'' \<and> key_arg ok k \<and> 1 \<le> t \<and> t \<le> 601000
        | _ \<Rightarrow> False)
     \<or> (case cmd of ArgText name # ks \<Rightarrow> name = ''UNLINK'' \<and> list_all (key_arg ok) ks | _ \<Rightarrow> False)"

text \<open>The commands of the log.\<close>

definition log_all :: "(command_arg list \<Rightarrow> bool) \<Rightarrow> 's \<times> 't \<times> command_arg list list \<Rightarrow> bool" where
  "log_all P p \<longleftrightarrow> list_all P (snd (snd p))"

lemma log_source: "keeps (log_all P) (on_source src cmd)"
  by (auto simp: keeps_def log_all_def on_source_def split: prod.splits)

lemma log_target: "P cmd \<Longrightarrow> keeps (log_all P) (on_target (logged tgt) cmd)"
  by (auto simp: keeps_def log_all_def on_target_def logged_def split: prod.splits)

lemma scan_keeps: "(\<And>cmd. keeps Q (src cmd)) \<Longrightarrow> keeps Q (scan_loop n src a d f c st)"
proof (induction n arbitrary: c st)
  case (Suc n)
  then show ?case
    by (auto intro!: keeps_bind split: option.splits prod.splits)
qed simp

lemma scan_source_keeps: "(\<And>cmd. keeps Q (src cmd)) \<Longrightarrow> keeps Q (scan_source_keys src a d f)"
  unfolding scan_source_keys_def by (intro keeps_bind scan_keeps) auto

lemma validate_keeps: "(\<And>cmd. keeps Q (src cmd)) \<Longrightarrow> keeps Q (validate_source_values ve src keys allowed)"
proof (induction keys)
  case (Cons k ks)
  then show ?case
    unfolding validate_source_values.simps validate_source_key_value_def
    by (intro keeps_bind) (auto intro!: keeps_bind)
qed simp

lemma config_keeps: "(\<And>cmd. \<not> is_write cmd \<Longrightarrow> keeps Q (tgt cmd)) \<Longrightarrow> keeps Q (target_config tgt n)"
  unfolding target_config_def by (intro keeps_bind) (auto simp: is_write_def)

lemma check_keeps:
  assumes "\<And>cmd. \<not> is_write cmd \<Longrightarrow> keeps Q (tgt cmd)"
  shows "keeps Q (check_target tgt i b)"
proof -
  have r: "keeps Q (tgt [ArgText ''INFO'', x])" "keeps Q (tgt [ArgText ''DBSIZE''])" for x
    by (rule assms, simp add: is_write_def)+
  have c: "keeps Q (target_config tgt n)" for n
    using assms by (rule config_keeps)
  show ?thesis
    unfolding check_target_def by (rule keeps_bind keeps_if keeps_lift r c)+
qed

lemma copy_keeps:
  assumes "\<And>cmd. keeps Q (src cmd)"
    and "\<And>k t v. k \<in> set keys \<Longrightarrow> 1 \<le> t \<Longrightarrow> t \<le> 601000 \<Longrightarrow>
      keeps Q (tgt [ArgText ''RESTORE'', ArgBytes k, ArgInt t, v])"
    and "copy_keys src tgt keys attempted p = ((r, attempted'), p')" and "Q p"
  shows "Q p' \<and> set attempted' \<subseteq> set attempted \<union> set keys"
  using assms
proof (induction keys arbitrary: attempted p)
  case (Cons k ks)
  have src: "Q p2" if "Q p1" and "src cmd p1 = (x, p2)" for cmd p1 x p2
    using keeps_run [OF Cons.prems(1) that(2,1)] .
  have tgt: "Q p2"
    if "Q p1" and "tgt [ArgText ''RESTORE'', ArgBytes k, ArgInt t, v] p1 = (x, p2)" and "1 \<le> t" and "t \<le> 601000"
    for p1 t v x p2
    using keeps_run [OF Cons.prems(2) that(2,1)] that(3,4) by simp
  have IH: "Q p' \<and> set attempted' \<subseteq> set a \<union> set ks" if "copy_keys src tgt ks a q = ((r, attempted'), p')" and "Q q" for a q
    by (rule Cons.IH [OF Cons.prems(1) _ that]) (rule Cons.prems(2), simp_all)
  obtain x1 p1 where d: "src [ArgText ''DUMP'', ArgBytes k] p = (x1, p1)" by (rule prod.exhaust)
  have Q1: "Q p1" using src [OF Cons.prems(4) d] .
  show ?case
  proof (cases x1)
    case (Inl e)
    with Cons.prems(3) d Q1 show ?thesis by auto
  next
    case (Inr payload)
    obtain x2 p2 where t: "src [ArgText ''PTTL'', ArgBytes k] p1 = (x2, p2)" by (rule prod.exhaust)
    have Q2: "Q p2" using src [OF Q1 t] .
    show ?thesis
    proof (cases "payload = ReplyNil \<or> x2 = Inr (ReplyInt (-2)) \<or> (\<forall>n. x2 = Inr (ReplyInt n) \<longrightarrow> \<not> (1 \<le> n \<and> n \<le> 601000))")
      case True
      have "r' = ((r, attempted'), p') \<Longrightarrow> copy_keys src tgt (k # ks) attempted p = r' \<Longrightarrow> ?thesis" for r'
        using True Inr d t Q1 Q2 IH [of attempted p1] IH [of attempted p2]
        by (cases "payload = ReplyNil"; cases x2; auto simp: MAX_NONCE_TTL_MS_def split: reply.splits if_splits)
      with Cons.prems(3) show ?thesis by blast
    next
      case False
      then obtain n where n: "x2 = Inr (ReplyInt n)" "1 \<le> n" "n \<le> 601000" "payload \<noteq> ReplyNil" by auto
      obtain x3 p3 where w: "tgt [ArgText ''RESTORE'', ArgBytes k, ArgInt n, reply_arg payload] p2 = (x3, p3)"
        by (rule prod.exhaust)
      have Q3: "Q p3" using tgt [OF Q2 w n(2,3)] .
      show ?thesis
        using Cons.prems(3) d Inr t n w Q3 IH [of "attempted @ [k]" p3]
        by (cases x3; auto simp: MAX_NONCE_TTL_MS_def split: if_splits)
    qed
  qed
qed auto

lemma rollback_keeps:
  assumes "\<And>ks. set ks \<subseteq> set keys \<Longrightarrow> keeps Q (tgt (ArgText ''UNLINK'' # map ArgBytes ks))"
  shows "keeps Q (rollback_target_keys tgt keys)"
  using assms
proof (induction tgt keys rule: rollback_target_keys.induct)
  case (1 tgt keys)
  show ?case
  proof (cases "keys = []")
    case True
    then show ?thesis by (simp add: rollback_target_keys.simps)
  next
    case False
    have "keeps Q (rollback_target_keys tgt (drop 100 keys))"
      by (rule 1(1) [OF False]) (use 1(2) in \<open>auto dest: in_set_dropD\<close>)
    moreover have "keeps Q (tgt (ArgText ''UNLINK'' # map ArgBytes (take 100 keys)))"
      by (rule 1(2)) (rule set_take_subset)
    ultimately show ?thesis
      using False by (subst rollback_target_keys.simps) (auto intro: keeps_bind)
  qed
qed

lemma scan_page_keys:
  "scan_page allowed discarded forbidden rs st = Inr st' \<Longrightarrow>
   list_all (\<lambda>k. is_allowed_key (ReplyBytes k) allowed forbidden) (sc_keys st) \<Longrightarrow>
   list_all (\<lambda>k. is_allowed_key (ReplyBytes k) allowed forbidden) (sc_keys st')"
proof (induction rs arbitrary: st)
  case (Cons r rs)
  then show ?case
    by (cases r) (auto simp: Let_def is_allowed_key_def split: if_splits)
qed simp

lemma scan_loop_keys:
  "scan_loop n src allowed discarded forbidden c st p = (Inr st', p') \<Longrightarrow>
   list_all (\<lambda>k. is_allowed_key (ReplyBytes k) allowed forbidden) (sc_keys st) \<Longrightarrow>
   list_all (\<lambda>k. is_allowed_key (ReplyBytes k) allowed forbidden) (sc_keys st')"
proof (induction n arbitrary: c st p)
  case (Suc n)
  from Suc.prems(1) obtain cr found p1 next_cursor st1 where
    page: "scan_page allowed discarded forbidden found st = Inr st1"
    and rest: "(if next_cursor = 0 then io_return st1
      else scan_loop n src allowed discarded forbidden next_cursor st1) p1 = (Inr st', p')"
    by (auto simp: io_bind_Inr split: option.splits prod.splits)
  from rest show ?case
    using scan_page_keys [OF page Suc.prems(2)] Suc.IH by (auto split: if_splits)
qed (simp add: io_lift_def)

lemma scan_keys_allowed:
  "scan_source_keys src allowed discarded forbidden p = (Inr (keys, n), p') \<Longrightarrow>
   list_all (\<lambda>k. is_allowed_key (ReplyBytes k) allowed forbidden) keys"
  using scan_loop_keys by (fastforce simp: scan_source_keys_def io_bind_Inr list_all_iff split: if_splits)

text \<open>A run of the migration, cut after its checks.\<close>

lemma migrate_cases:
  assumes Q: "\<And>cmd. keeps Q (on_source src cmd)" "\<And>cmd. \<not> is_write cmd \<Longrightarrow> keeps Q (on_target tgt cmd)"
    and p: "Q p"
  obtains e where "Q (snd (migrate_redis ve src tgt same allowed discarded forbidden p))"
    "fst (migrate_redis ve src tgt same allowed discarded forbidden p) = Inl e"
  | info keys n p1 p2 p3 p4 where "Q p1" "Q p4"
    "scan_source_keys (on_source src) allowed discarded forbidden p1 = (Inr (keys, n), p2)"
    "validate_source_values ve (on_source src) keys allowed p2 = (Inr (), p3)"
    "check_target (on_target tgt) info same p3 = (Inr (), p4)"
    "migrate_redis ve src tgt same allowed discarded forbidden p =
      (case copy_keys (on_source src) (on_target tgt) keys [] p4 of
          ((Inr (), attempted), p') \<Rightarrow> (Inr (), p')
        | ((Inl e, attempted), p') \<Rightarrow>
            (case rollback_target_keys (on_target tgt) attempted p' of (_, p'') \<Rightarrow> (Inl e, p'')))"
proof -
  obtain r0 p0 where a0: "on_source src [ArgText ''INFO'', ArgText ''server''] p = (r0, p0)" by (rule prod.exhaust)
  have Q0: "Q p0" using keeps_run [OF Q(1) a0 p] .
  show thesis
  proof (cases "res_bind r0 parse_info")
    case (Inl e)
    then have "migrate_redis ve src tgt same allowed discarded forbidden p = (Inl e, p0)"
      using a0 by (cases r0) (auto simp: migrate_redis_def io_bind_def io_lift_def)
    with Q0 that(1) show thesis by simp
  next
    case (Inr info)
    then obtain raw where r0: "r0 = Inr raw" "parse_info raw = Inr info" by (auto simp: res_bind_eq_Inr)
    obtain r1 p1 where a1: "scan_source_keys (on_source src) allowed discarded forbidden p0 = (r1, p1)"
      by (rule prod.exhaust)
    have Q1: "Q p1" using keeps_run [OF scan_source_keeps [OF Q(1)] a1 Q0] .
    show thesis
    proof (cases r1)
      case (Inl e)
      then have "migrate_redis ve src tgt same allowed discarded forbidden p = (Inl e, p1)"
        using a0 a1 r0 by (auto simp: migrate_redis_def io_bind_def io_lift_def)
      with Q1 that(1) show thesis by simp
    next
      case (Inr kn)
      obtain keys n where kn: "kn = (keys, n)" by (rule prod.exhaust)
      obtain r2 p2 where a2: "validate_source_values ve (on_source src) keys allowed p1 = (r2, p2)"
        by (rule prod.exhaust)
      have Q2: "Q p2" using keeps_run [OF validate_keeps [OF Q(1)] a2 Q1] .
      obtain r3 p3 where a3: "check_target (on_target tgt) info same p2 = (r3, p3)" by (rule prod.exhaust)
      have Q3: "Q p3" using keeps_run [OF check_keeps [OF Q(2)] a3 Q2] .
      show thesis
      proof (cases "r2 = Inr () \<and> r3 = Inr ()")
        case True
        with a0 a1 a2 a3 r0 Inr kn that(2) [OF Q0 Q3, of keys n p1 p2 info] show thesis
          by (simp add: migrate_redis_def io_bind_def io_lift_def)
      next
        case False
        then have "\<exists>e. migrate_redis ve src tgt same allowed discarded forbidden p \<in> {(Inl e, p2), (Inl e, p3)}"
          using a0 a1 a2 a3 r0 Inr kn
          by (cases r2; cases r3) (auto simp: migrate_redis_def io_bind_def io_lift_def)
        then obtain e where "migrate_redis ve src tgt same allowed discarded forbidden p \<in> {(Inl e, p2), (Inl e, p3)}" ..
        with Q2 Q3 that(1) show thesis by auto
      qed
    qed
  qed
qed

lemma migration_sends_only_reviewed:
  "log_all (permitted (\<lambda>k. is_allowed_key (ReplyBytes k) allowed forbidden))
     (snd (migrate_redis ve src (logged tgt) same allowed discarded forbidden (s, t, [])))"
proof -
  let ?ok = "\<lambda>k. is_allowed_key (ReplyBytes k) allowed forbidden"
  let ?Q = "log_all (permitted ?ok)"
  have src: "keeps ?Q (on_source src cmd)" for cmd by (rule log_source)
  have ask: "keeps ?Q (on_target (logged tgt) cmd)" if "\<not> is_write cmd" for cmd
    by (rule log_target) (use that in \<open>simp add: permitted_def\<close>)
  have start: "?Q (s, t, [])" by (simp add: log_all_def)
  show ?thesis
  proof (rule migrate_cases [OF src ask start])
    fix info keys n p1 p2 p3 p4
    assume Q4: "?Q p4" and scan: "scan_source_keys (on_source src) allowed discarded forbidden p1 = (Inr (keys, n), p2)"
      and run: "migrate_redis ve src (logged tgt) same allowed discarded forbidden (s, t, []) =
      (case copy_keys (on_source src) (on_target (logged tgt)) keys [] p4 of
          ((Inr (), attempted), p') \<Rightarrow> (Inr (), p')
        | ((Inl e, attempted), p') \<Rightarrow>
            (case rollback_target_keys (on_target (logged tgt)) attempted p' of (_, p'') \<Rightarrow> (Inl e, p'')))"
    have ok: "k \<in> set keys \<Longrightarrow> ?ok k" for k using scan_keys_allowed [OF scan] by (simp add: list_all_iff)
    obtain r att p5 where c: "copy_keys (on_source src) (on_target (logged tgt)) keys [] p4 = ((r, att), p5)"
      by (metis surj_pair)
    have "?Q p5 \<and> set att \<subseteq> set [] \<union> set keys"
      using src _ c Q4
    proof (rule copy_keeps)
      fix k :: bytes and ttl :: int and v :: command_arg
      assume "k \<in> set keys" "1 \<le> ttl" "ttl \<le> 601000"
      with ok show "keeps ?Q (on_target (logged tgt) [ArgText ''RESTORE'', ArgBytes k, ArgInt ttl, v])"
        by (intro log_target) (simp add: permitted_def key_arg_def)
    qed
    then have Q5: "?Q p5" and att: "set att \<subseteq> set keys" by auto
    have "keeps ?Q (rollback_target_keys (on_target (logged tgt)) att)"
      by (rule rollback_keeps, rule log_target)
        (use ok att in \<open>auto simp: permitted_def key_arg_def list_all_iff\<close>)
    from keeps_run [OF this surjective_pairing Q5]
    have "?Q (snd (rollback_target_keys (on_target (logged tgt)) att p5))" .
    moreover have "snd (migrate_redis ve src (logged tgt) same allowed discarded forbidden (s, t, []))
        \<in> {p5, snd (rollback_target_keys (on_target (logged tgt)) att p5)}"
      unfolding run c by (cases r) (simp_all split: prod.split unit.split)
    ultimately show "?Q (snd (migrate_redis ve src (logged tgt) same allowed discarded forbidden (s, t, [])))"
      using Q5 by fastforce
  qed
qed

text \<open>
  C27. The migration writes only what the policy reviewed, whatever the two servers answer: every
  command that it sends to the target is a question, a RESTORE of an allowed key with a life
  between 1 and 601000 milliseconds, or an UNLINK of allowed keys.
\<close>

theorem migration_writes_only_reviewed:
  "log_all (permitted (\<lambda>k. is_allowed_key (ReplyBytes k) allowed forbidden))
     (snd (migrate_redis ve src (logged tgt) same allowed discarded forbidden (s, t, [])))"
  by (rule migration_sends_only_reviewed)

text \<open>
  Nothing is written before every check has passed: either the run sends the target no
  RESTORE and no UNLINK at all, or it has scanned the whole source without an unknown key,
  validated the value of every key it may copy, and found the target empty, of the reviewed
  version and durably configured.
\<close>

theorem migration_writes_after_checks:
  "log_all (\<lambda>cmd. \<not> is_write cmd) (snd (migrate_redis ve src (logged tgt) same allowed discarded forbidden (s, t, [])))
   \<or> (\<exists>info keys n p1 p2 p3.
       scan_source_keys (on_source src) allowed discarded forbidden p1 = (Inr (keys, n), p2) \<and>
       validate_source_values ve (on_source src) keys allowed p2 = (Inr (), p3) \<and>
       fst (check_target (on_target (logged tgt)) info same p3) = Inr ())"
proof -
  let ?Q = "log_all (\<lambda>cmd. \<not> is_write cmd)"
  have src: "keeps ?Q (on_source src cmd)" for cmd by (rule log_source)
  have ask: "keeps ?Q (on_target (logged tgt) cmd)" if "\<not> is_write cmd" for cmd
    using that by (rule log_target)
  have start: "?Q (s, t, [])" by (simp add: log_all_def)
  show ?thesis
  proof (rule migrate_cases [OF src ask start])
    fix info keys n p1 p2 p3 p4
    assume "scan_source_keys (on_source src) allowed discarded forbidden p1 = (Inr (keys, n), p2)"
      "validate_source_values ve (on_source src) keys allowed p2 = (Inr (), p3)"
      "check_target (on_target (logged tgt)) info same p3 = (Inr (), p4)"
    then show ?thesis by (metis fst_conv)
  next
    assume "?Q (snd (migrate_redis ve src (logged tgt) same allowed discarded forbidden (s, t, [])))"
    then show ?thesis by (rule disjI1)
  qed
qed

section \<open>Concrete servers\<close>

text \<open>The source: typed values with the answer to the command that reads them, their DUMP and
  their expiry on a clock that advances with every command; its answers to SCAN are given.\<close>

record source_entry =
  se_type :: bytes
  se_value :: reply
  se_dump :: bytes
  se_expires :: "int option"

record source_server =
  ss_entries :: "(bytes \<times> source_entry) list"
  ss_now :: int
  ss_ticks :: "nat list"
  ss_pages :: "reply list"
  ss_info :: bytes
  ss_faults :: "fault list"

definition live_entry :: "source_server \<Rightarrow> bytes \<Rightarrow> source_entry option" where
  "live_entry s k =
     (case map_of (ss_entries s) k of
        None \<Rightarrow> None
      | Some e \<Rightarrow> (case se_expires e of None \<Rightarrow> Some e | Some x \<Rightarrow> if ss_now s < x then Some e else None))"

definition source_answer :: "command_arg list \<Rightarrow> source_server \<Rightarrow> reply" where
  "source_answer cmd s =
     (case cmd of
        [ArgText name, ArgBytes k] \<Rightarrow>
          (case live_entry s k of
             None \<Rightarrow> (if name = ''TYPE'' then ReplyBytes ''none'' else if name = ''PTTL'' then ReplyInt (-2) else ReplyNil)
           | Some e \<Rightarrow>
               if name = ''TYPE'' then ReplyBytes (se_type e)
               else if name = ''DUMP'' then ReplyBytes (se_dump e)
               else if name = ''PTTL'' then ReplyInt (case se_expires e of None \<Rightarrow> -1 | Some x \<Rightarrow> x - ss_now s)
               else se_value e)
      | ArgText name # _ \<Rightarrow>
          (if name = ''SCAN'' then (case ss_pages s of [] \<Rightarrow> ReplyList [ReplyBytes ''0'', ReplyList []] | p # _ \<Rightarrow> p)
           else ReplyBytes (ss_info s))
      | _ \<Rightarrow> ReplyNil)"

definition source_exec :: "source_server exec" where
  "source_exec cmd s0 =
     (let s = s0\<lparr>ss_now := ss_now s0 + (case ss_ticks s0 of [] \<Rightarrow> 0 | n # _ \<Rightarrow> int n), ss_ticks := tl (ss_ticks s0),
             ss_faults := tl (ss_faults s0)\<rparr>;
          s' = (case cmd of ArgText name # _ \<Rightarrow> if name = ''SCAN'' then s\<lparr>ss_pages := tl (ss_pages s)\<rparr> else s | _ \<Rightarrow> s)
      in case ss_faults s0 of
           Fails e # _ \<Rightarrow> (Inl e, s)
         | AnswerLost e # _ \<Rightarrow> (Inl e, s')
         | _ \<Rightarrow> (Inr (source_answer cmd s), s'))"

text \<open>The target: restored payloads with the life they were given; \<open>ts_budget\<close> is the number
  of commands before the deadline, after which \<open>execute\<close> raises without sending.\<close>

record target_server =
  ts_entries :: "(bytes \<times> command_arg \<times> int) list"
  ts_faults :: "fault list"
  ts_budget :: nat
  ts_answer :: "command_arg list \<Rightarrow> reply"

definition target_run :: "command_arg list \<Rightarrow> target_server \<Rightarrow> reply res \<times> target_server" where
  "target_run cmd t =
     (case cmd of
        [ArgText name, ArgBytes k, ArgInt n, v] \<Rightarrow>
          (if name = ''RESTORE'' then
             (if k \<in> set (map fst (ts_entries t)) then (refuse ''Redis command was rejected'', t)
              else (Inr (ReplyBytes ''OK''), t\<lparr>ts_entries := ts_entries t @ [(k, v, n)]\<rparr>))
           else (Inr (ts_answer t cmd), t))
      | ArgText name # ks \<Rightarrow>
          (if name = ''UNLINK'' then
             (Inr (ReplyInt 0), t\<lparr>ts_entries := filter (\<lambda>(k, _). ArgBytes k \<notin> set ks) (ts_entries t)\<rparr>)
           else if name = ''DBSIZE'' then (Inr (ReplyInt (int (length (ts_entries t)))), t)
           else (Inr (ts_answer t cmd), t))
      | _ \<Rightarrow> (refuse ''Redis command was rejected'', t))"

definition target_exec :: "target_server exec" where
  "target_exec cmd t =
     (if ts_budget t = 0 then (refuse ''Redis migration deadline exceeded'', t)
      else
        (let t1 = t\<lparr>ts_budget := ts_budget t - 1, ts_faults := tl (ts_faults t)\<rparr>
         in case ts_faults t of
              Fails e # _ \<Rightarrow> (Inl e, t1)
            | AnswerLost e # _ \<Rightarrow> (Inl e, snd (target_run cmd t1))
            | _ \<Rightarrow> target_run cmd t1))"

section \<open>A failed run\<close>

definition only_keys :: "bytes list \<Rightarrow> 's \<times> target_server \<Rightarrow> bool" where
  "only_keys ks p \<longleftrightarrow> set (map fst (ts_entries (snd p))) \<subseteq> set ks"

lemma target_exec_restore:
  "target_exec [ArgText ''RESTORE'', ArgBytes k, ArgInt n, v] t = (r, t') \<Longrightarrow>
   set (map fst (ts_entries t')) \<subseteq> insert k (set (map fst (ts_entries t)))"
  by (auto simp: target_exec_def target_run_def Let_def split: if_splits list.splits fault.splits)

lemma copy_only_attempted:
  "copy_keys (on_source src) (on_target target_exec) keys attempted p = ((r, attempted'), p') \<Longrightarrow>
   only_keys attempted p \<Longrightarrow> only_keys attempted' p'"
proof (induction keys arbitrary: attempted p)
  case (Cons k ks)
  have src: "only_keys a q'" if "on_source src cmd q = (x, q')" and "only_keys a q" for cmd q x q' a
  proof -
    have "snd q' = snd q" using that(1) by (auto simp: on_source_def split: prod.splits)
    with that(2) show ?thesis by (simp add: only_keys_def)
  qed
  have tgt: "only_keys (a @ [k]) q'"
    if "on_target target_exec [ArgText ''RESTORE'', ArgBytes k, ArgInt n, v] q = (x, q')" and "only_keys a q" for n v q x q' a
  proof -
    note h = that
    obtain s t where q: "q = (s, t)" by (rule prod.exhaust)
    obtain t' where "target_exec [ArgText ''RESTORE'', ArgBytes k, ArgInt n, v] t = (x, t')" "q' = (s, t')"
      using h(1) q by (auto simp: on_target_def split: prod.splits)
    from target_exec_restore [OF this(1)] this(2) h(2) q show ?thesis by (auto simp: only_keys_def)
  qed
  obtain x1 p1 where d: "on_source src [ArgText ''DUMP'', ArgBytes k] p = (x1, p1)" by (rule prod.exhaust)
  obtain x2 p2 where t: "on_source src [ArgText ''PTTL'', ArgBytes k] p1 = (x2, p2)" by (rule prod.exhaust)
  note o1 = src [OF d Cons.prems(2)]
  note o2 = src [OF t o1]
  note run = Cons.prems(1) [unfolded copy_keys.simps d, simplified]
  show ?case
  proof (cases x1)
    case (Inl e)
    with run o1 show ?thesis by simp
  next
    case (Inr payload)
    show ?thesis
    proof (cases "payload = ReplyNil")
      case True
      with run Inr Cons.IH [OF _ o1] show ?thesis by simp
    next
      case False
      show ?thesis
      proof (cases "\<exists>n. x2 = Inr (ReplyInt n) \<and> n \<noteq> -2 \<and> 1 \<le> n \<and> n \<le> MAX_NONCE_TTL_MS")
        case True
        then obtain n where n: "x2 = Inr (ReplyInt n)" "n \<noteq> -2" "1 \<le> n" "n \<le> MAX_NONCE_TTL_MS" by blast
        obtain x3 p3 where w: "on_target target_exec [ArgText ''RESTORE'', ArgBytes k, ArgInt n, reply_arg payload] p2 = (x3, p3)"
          by (rule prod.exhaust)
        from run Inr False t n w tgt [OF w o2] Cons.IH [of "attempted @ [k]" p3] show ?thesis
          by (cases x3) (auto split: if_splits)
      next
        case noint: False
        have "attempted' = attempted \<and> p' = p2 \<or> copy_keys (on_source src) (on_target target_exec) ks attempted p2 = ((r, attempted'), p')"
          using run Inr False t noint
          by (cases x2) (auto split: reply.splits if_splits)
        with o2 Cons.IH [OF _ o2] show ?thesis by blast
      qed
    qed
  qed
qed simp

lemma unlink_step:
  assumes "on_target target_exec (ArgText ''UNLINK'' # map ArgBytes ks) p = (Inr r, p')"
  shows "set (map fst (ts_entries (snd p'))) \<subseteq> set (map fst (ts_entries (snd p))) - set ks"
proof -
  obtain s t where p: "p = (s, t)" by (rule prod.exhaust)
  have u: "target_run (ArgText ''UNLINK'' # map ArgBytes ks) t1 =
      (Inr (ReplyInt 0), t1\<lparr>ts_entries := filter (\<lambda>(k, _). ArgBytes k \<notin> set (map ArgBytes ks)) (ts_entries t1)\<rparr>)" for t1
    by (auto simp: target_run_def split: list.splits command_arg.splits)
  show ?thesis
    using assms unfolding p
    by (auto simp: on_target_def target_exec_def Let_def u split: if_splits list.splits fault.splits prod.splits)
qed

lemma rollback_clears:
  "rollback_target_keys (on_target target_exec) keys p = (Inr u, p') \<Longrightarrow>
   set (map fst (ts_entries (snd p'))) \<subseteq> set (map fst (ts_entries (snd p))) - set keys"
proof (induction "length keys" arbitrary: keys p rule: less_induct)
  case less
  show ?case
  proof (cases "keys = []")
    case True
    with less.prems show ?thesis by (simp add: rollback_target_keys.simps)
  next
    case False
    obtain r p1 where u: "on_target target_exec (ArgText ''UNLINK'' # map ArgBytes (take 100 keys)) p = (Inr r, p1)"
      and rest: "rollback_target_keys (on_target target_exec) (drop 100 keys) p1 = (Inr u, p')"
      using less.prems False by (subst (asm) rollback_target_keys.simps) (auto simp: io_bind_Inr)
    have "set keys = set (take 100 keys) \<union> set (drop 100 keys)"
      by (metis append_take_drop_id set_append)
    moreover have "length (drop 100 keys) < length keys" using False by simp
    note less.hyps [OF this rest]
    ultimately show ?thesis using unlink_step [OF u] by blast
  qed
qed

lemma target_ask:
  "\<not> is_write cmd \<Longrightarrow> ts_entries (snd (target_exec cmd t)) = ts_entries t"
  by (auto simp: target_exec_def target_run_def is_write_def Let_def
      split: list.splits command_arg.splits fault.splits if_splits)

lemma empty_ask:
  "keeps (\<lambda>p. ts_entries (snd p) = es) (on_source src cmd)"
  "\<not> is_write cmd \<Longrightarrow> keeps (\<lambda>p. ts_entries (snd p) = es) (on_target target_exec cmd)"
  using target_ask
  by (auto simp: keeps_def on_source_def on_target_def split: prod.splits) (metis snd_conv)


section \<open>A completed run\<close>

text \<open>The target holds a copy of an entry of the source with the life it had left at some moment
  of the run.\<close>

definition copied_from :: "source_server \<Rightarrow> int \<Rightarrow> bytes \<times> command_arg \<times> int \<Rightarrow> bool" where
  "copied_from s later x = (case x of (k, v, n) \<Rightarrow>
     (\<exists>entry expires moment. map_of (ss_entries s) k = Some entry \<and> v = ArgBytes (se_dump entry)
        \<and> se_expires entry = Some expires \<and> ss_now s \<le> moment \<and> moment \<le> later \<and> n = expires - moment
        \<and> 1 \<le> n \<and> n \<le> 601000))"

lemma source_exec_frame:
  "source_exec cmd s = (r, s') \<Longrightarrow> ss_entries s' = ss_entries s \<and> ss_now s \<le> ss_now s'"
  by (auto simp: source_exec_def Let_def split: list.splits fault.splits command_arg.splits if_splits)

lemma source_exec_answer:
  "source_exec cmd s = (Inr r, s') \<Longrightarrow> \<exists>s1. r = source_answer cmd s1 \<and> ss_entries s1 = ss_entries s \<and> ss_now s1 = ss_now s'"
  by (auto simp: source_exec_def Let_def split: list.splits fault.splits command_arg.splits if_splits)

lemma live_entry_iff:
  "live_entry s k = Some e \<longleftrightarrow> map_of (ss_entries s) k = Some e \<and> (case se_expires e of None \<Rightarrow> True | Some x \<Rightarrow> ss_now s < x)"
  by (auto simp: live_entry_def split: option.splits if_splits)

lemma dump_answer:
  assumes "source_exec [ArgText ''DUMP'', ArgBytes k] s = (Inr r, s')"
  shows "r = (case live_entry s' k of None \<Rightarrow> ReplyNil | Some e \<Rightarrow> ReplyBytes (se_dump e))"
proof -
  obtain s1 where "r = source_answer [ArgText ''DUMP'', ArgBytes k] s1" "ss_entries s1 = ss_entries s'" "ss_now s1 = ss_now s'"
    using source_exec_answer [OF assms] source_exec_frame [OF assms] by auto
  then show ?thesis by (simp add: source_answer_def live_entry_def split: option.splits)
qed

lemma pttl_answer:
  assumes "source_exec [ArgText ''PTTL'', ArgBytes k] s = (Inr r, s')"
  shows "r = ReplyInt (case live_entry s' k of None \<Rightarrow> -2
    | Some e \<Rightarrow> (case se_expires e of None \<Rightarrow> -1 | Some x \<Rightarrow> x - ss_now s'))"
proof -
  obtain s1 where "r = source_answer [ArgText ''PTTL'', ArgBytes k] s1" "ss_entries s1 = ss_entries s'" "ss_now s1 = ss_now s'"
    using source_exec_answer [OF assms] source_exec_frame [OF assms] by auto
  then show ?thesis by (simp add: source_answer_def live_entry_def split: option.splits)
qed

lemma restore_ok:
  "target_exec [ArgText ''RESTORE'', ArgBytes k, ArgInt n, v] t = (Inr (ReplyBytes ''OK''), t') \<Longrightarrow>
   ts_entries t' = ts_entries t @ [(k, v, n)]"
  by (auto simp: target_exec_def target_run_def Let_def split: if_splits list.splits fault.splits)

definition gone_at :: "int \<Rightarrow> source_server \<Rightarrow> bytes \<Rightarrow> bool" where
  "gone_at now s k \<longleftrightarrow>
     (case map_of (ss_entries s) k of None \<Rightarrow> True | Some e \<Rightarrow> (case se_expires e of None \<Rightarrow> False | Some x \<Rightarrow> x \<le> now))"

lemma live_gone: "live_entry s k = None \<longleftrightarrow> gone_at (ss_now s) s k"
  by (auto simp: live_entry_def gone_at_def split: option.splits)

lemma gone_later: "gone_at a s k \<Longrightarrow> a \<le> b \<Longrightarrow> gone_at b s k"
  by (auto simp: gone_at_def split: option.splits)

lemma gone_cong: "ss_entries s = ss_entries s' \<Longrightarrow> gone_at a s k = gone_at a s' k"
  by (simp add: gone_at_def)

lemma copied_weaken:
  "copied_from s1 b x \<Longrightarrow> ss_entries s1 = ss_entries s \<Longrightarrow> ss_now s \<le> ss_now s1 \<Longrightarrow> b \<le> c \<Longrightarrow> copied_from s c x"
  unfolding copied_from_def by (cases x) (force intro: order_trans)

lemma on_source_Inr:
  "on_source src cmd (s, t) = (Inr r, p) \<longleftrightarrow> (\<exists>s'. src cmd s = (Inr r, s') \<and> p = (s', t))"
  by (auto simp: on_source_def split: prod.splits)

lemma on_target_Inr:
  "on_target tgt cmd (s, t) = (Inr r, p) \<longleftrightarrow> (\<exists>t'. tgt cmd t = (Inr r, t') \<and> p = (s, t'))"
  by (auto simp: on_target_def split: prod.splits)

text \<open>One key of a copy that succeeds: it is gone, or it is restored.\<close>

lemma copy_step:
  assumes "copy_keys (on_source source_exec) (on_target target_exec) (k # ks) att (s, t) = ((Inr (), att'), p')"
  obtains (skip) s1 att1 where "ss_entries s1 = ss_entries s" "ss_now s \<le> ss_now s1" "gone_at (ss_now s1) s k"
    "copy_keys (on_source source_exec) (on_target target_exec) ks att1 (s1, t) = ((Inr (), att'), p')"
  | (restore) s1 t1 att1 v n where "ss_entries s1 = ss_entries s" "ss_now s \<le> ss_now s1"
    "copied_from s (ss_now s1) (k, v, n)" "ts_entries t1 = ts_entries t @ [(k, v, n)]"
    "copy_keys (on_source source_exec) (on_target target_exec) ks att1 (s1, t1) = ((Inr (), att'), p')"
proof -
  obtain x1 s1 where d: "source_exec [ArgText ''DUMP'', ArgBytes k] s = (x1, s1)" by (rule prod.exhaust)
  obtain payload where x1: "x1 = Inr payload"
    using assms d by (cases x1) (auto simp: on_source_def)
  note dump = dump_answer [OF d [unfolded x1]]
  note f1 = source_exec_frame [OF d]
  show thesis
  proof (cases "payload = ReplyNil")
    case True
    then have "gone_at (ss_now s1) s1 k" using dump live_gone [of s1 k] by (auto split: option.splits)
    with f1 gone_cong [of s1 s] have "gone_at (ss_now s1) s k" by simp
    with assms d x1 True f1 show thesis by (intro skip [of s1 att]) (auto simp: on_source_def)
  next
    case False
    then obtain e where e: "live_entry s1 k = Some e" "payload = ReplyBytes (se_dump e)"
      using dump by (auto split: option.splits)
    obtain x2 s2 where t: "source_exec [ArgText ''PTTL'', ArgBytes k] s1 = (x2, s2)" by (rule prod.exhaust)
    obtain ttl where x2: "x2 = Inr ttl"
      using assms d x1 t False by (cases x2) (auto simp: on_source_def)
    note pttl = pttl_answer [OF t [unfolded x2]]
    have f2: "ss_entries s2 = ss_entries s" "ss_now s \<le> ss_now s2"
      using source_exec_frame [OF t] f1 by auto
    show thesis
    proof (cases "ttl = ReplyInt (-2)")
      case True
      have "live_entry s2 k = None"
        using pttl True by (auto simp: live_entry_iff split: option.splits if_splits)
      then have "gone_at (ss_now s2) s k" using live_gone [of s2 k] gone_cong [OF f2(1)] by simp
      with assms d x1 t x2 False True f2 show thesis by (intro skip [of s2 att]) (auto simp: on_source_def)
    next
      case nottwo: False
      obtain n where ttl: "ttl = ReplyInt n" using pttl by blast
      have bounds: "1 \<le> n \<and> n \<le> MAX_NONCE_TTL_MS"
        using assms d x1 t x2 False nottwo ttl by (auto simp: on_source_def split: if_splits)
      obtain x3 t3 where w: "target_exec [ArgText ''RESTORE'', ArgBytes k, ArgInt n, ArgBytes (se_dump e)] t = (x3, t3)"
        by (rule prod.exhaust)
      have x3: "x3 = Inr (ReplyBytes ''OK'')"
        and rest: "copy_keys (on_source source_exec) (on_target target_exec) ks (att @ [k]) (s2, t3) = ((Inr (), att'), p')"
        using assms d x1 t x2 False nottwo ttl bounds w e(2)
        by (cases x3; auto simp: on_source_def on_target_def reply_arg_def split: if_splits)+
      obtain e2 x where e2: "live_entry s2 k = Some e2" "se_expires e2 = Some x" "n = x - ss_now s2"
        using pttl ttl nottwo bounds by (auto split: option.splits)
      have "map_of (ss_entries s) k = Some e" "map_of (ss_entries s) k = Some e2"
        using e(1) e2(1) f1 f2(1) by (auto simp: live_entry_iff)
      then have "copied_from s (ss_now s2) (k, ArgBytes (se_dump e), n)"
        using e2 f2 bounds by (auto simp: copied_from_def MAX_NONCE_TTL_MS_def)
      with restore [OF f2 _ restore_ok [OF w [unfolded x3]] rest] show thesis by blast
    qed
  qed
qed

lemma copy_success:
  "copy_keys (on_source source_exec) (on_target target_exec) keys att (s, t) = ((Inr (), att'), (s', t')) \<Longrightarrow>
   ss_entries s' = ss_entries s \<and> ss_now s \<le> ss_now s' \<and>
   (\<exists>new. ts_entries t' = ts_entries t @ new \<and> list_all (copied_from s (ss_now s')) new \<and>
      set (map fst new) \<subseteq> set keys \<and>
      list_all (\<lambda>k. gone_at (ss_now s') s k \<or> k \<in> set (map fst new)) keys)"
proof (induction keys arbitrary: att s t)
  case (Cons k ks)
  from Cons.prems show ?case
  proof (cases rule: copy_step)
    case (skip s1 att1)
    from Cons.IH [OF skip(4)] obtain new where
      IH: "ss_entries s' = ss_entries s1" "ss_now s1 \<le> ss_now s'" "ts_entries t' = ts_entries t @ new"
      "list_all (copied_from s1 (ss_now s')) new" "set (map fst new) \<subseteq> set ks"
      "list_all (\<lambda>k. gone_at (ss_now s') s1 k \<or> k \<in> set (map fst new)) ks" by blast
    have "list_all (copied_from s (ss_now s')) new"
      using IH(4) copied_weaken [OF _ skip(1,2) order_refl] by (auto simp: list_all_iff)
    moreover have "list_all (\<lambda>k. gone_at (ss_now s') s k \<or> k \<in> set (map fst new)) (k # ks)"
      using IH(6) gone_later [OF skip(3) IH(2)] gone_cong [OF skip(1)] by simp
    ultimately show ?thesis using IH(1,2,3,5) skip(1,2) by (intro conjI exI [of _ new]) auto
  next
    case (restore s1 t1 att1 v n)
    from Cons.IH [OF restore(5)] obtain new where
      IH: "ss_entries s' = ss_entries s1" "ss_now s1 \<le> ss_now s'" "ts_entries t' = ts_entries t1 @ new"
      "list_all (copied_from s1 (ss_now s')) new" "set (map fst new) \<subseteq> set ks"
      "list_all (\<lambda>k. gone_at (ss_now s') s1 k \<or> k \<in> set (map fst new)) ks" by blast
    have "list_all (copied_from s (ss_now s')) ((k, v, n) # new)"
      using IH(2,4) copied_weaken [OF _ restore(1,2) order_refl] copied_weaken [OF restore(3) refl order_refl]
      by (auto simp: list_all_iff)
    moreover have "list_all (\<lambda>k'. gone_at (ss_now s') s k' \<or> k' \<in> set (map fst ((k, v, n) # new))) (k # ks)"
      using IH(6) gone_cong [OF restore(1)] by (auto simp: list_all_iff)
    ultimately show ?thesis
      using IH(1,2,3,5) restore(1,2,4) by (intro conjI exI [of _ "(k, v, n) # new"]) auto
  qed
qed simp

lemma source_frame:
  "keeps (\<lambda>p. ss_entries (fst p) = es \<and> now \<le> ss_now (fst p) \<and> ts_entries (snd p) = ts) (on_source source_exec cmd)"
  "\<not> is_write cmd \<Longrightarrow>
   keeps (\<lambda>p. ss_entries (fst p) = es \<and> now \<le> ss_now (fst p) \<and> ts_entries (snd p) = ts) (on_target target_exec cmd)"
  using target_ask
  by (auto simp: keeps_def on_source_def on_target_def split: prod.splits dest!: source_exec_frame) (metis snd_conv)


section \<open>A deadline that passes during the copy\<close>

definition nonce_key :: "char \<Rightarrow> bytes" where
  "nonce_key c = ''sub2api-sync:nonce:'' @ replicate 64 c"

definition marker_entry :: source_entry where
  "marker_entry = \<lparr>se_type = ''string'', se_value = ReplyBytes ''1'', se_dump = ''dump'', se_expires = Some 600000\<rparr>"

definition two_markers :: "int option \<Rightarrow> source_server" where
  "two_markers x = \<lparr>ss_entries = [(nonce_key (CHR ''a''), marker_entry), (nonce_key (CHR ''b''), marker_entry\<lparr>se_expires := x\<rparr>)],
     ss_now = 0, ss_ticks = [], ss_pages = [ReplyList [ReplyBytes ''0'', ReplyList [ReplyBytes (nonce_key (CHR ''a'')),
       ReplyBytes (nonce_key (CHR ''b''))]]], ss_info = [], ss_faults = []\<rparr>"

definition reviewed_answer :: "command_arg list \<Rightarrow> reply" where
  "reviewed_answer cmd =
     (case cmd of
        [ArgText a, ArgText b] \<Rightarrow> ReplyBytes (if b = ''server'' then ''redis_version:8.8.0'' else [])
      | [ArgText a, ArgText b, ArgText name] \<Rightarrow>
          ReplyList [ReplyBytes name, ReplyBytes
            (if name = ''appendonly'' then ''yes'' else if name = ''appendfsync'' then ''always''
             else if name = ''maxmemory'' then ''33554432'' else if name = ''maxmemory-policy'' then ''noeviction'' else [])]
      | _ \<Rightarrow> ReplyNil)"

definition nonce_target :: "nat \<Rightarrow> target_server" where
  "nonce_target budget = \<lparr>ts_entries = [], ts_faults = [], ts_budget = budget, ts_answer = reviewed_answer\<rparr>"

definition plain_values :: values_env where
  "plain_values = \<lparr>decimal_of = (\<lambda>_. None), json_pairs = (\<lambda>_. Inl JSONDecodeError), iso_moment = (\<lambda>_. Inr None)\<rparr>"

lemma marker_keys:
  "is_allowed_key (ReplyBytes (nonce_key (CHR ''a''))) [nonce_rule] [''content:'']"
  "is_allowed_key (ReplyBytes (nonce_key (CHR ''b''))) [nonce_rule] [''content:'']"
  "rule_matches (nonce_key (CHR ''a'')) nonce_rule" "rule_matches (nonce_key (CHR ''b'')) nonce_rule"
  "sort [nonce_key (CHR ''b''), nonce_key (CHR ''a'')] = [nonce_key (CHR ''a''), nonce_key (CHR ''b'')]"
  "nonce_key (CHR ''a'') \<noteq> nonce_key (CHR ''b'')"
  "\<not> nonce_key (CHR ''b'') \<le> nonce_key (CHR ''a'')" "nonce_key (CHR ''b'') \<noteq> nonce_key (CHR ''a'')"
  by code_simp+

lemma marker_scan:
  "scan_source_keys (on_source source_exec) [nonce_rule] [''refresh_token:''] [''content:''] (two_markers x, t) =
     (Inr ([nonce_key (CHR ''a''), nonce_key (CHR ''b'')], 0), (two_markers x\<lparr>ss_pages := []\<rparr>, t))"
proof -
  obtain n where pages: "MAX_SCAN_PAGES = Suc n" by (metis MAX_SCAN_PAGES_def zero_neq_numeral not0_implies_Suc)
  have zero: "int_of_text ''0'' = Some 0" by code_simp
  show ?thesis
    unfolding scan_source_keys_def pages
    by (simp add: io_bind_def on_source_def source_exec_def two_markers_def source_answer_def scan_parts_def
        scan_cursor_def zero io_lift_def io_return_def marker_keys MAX_KEYS_def Let_def)
qed

lemma marker_rule:
  "rule_for_key (nonce_key (CHR ''a'')) [nonce_rule] = Inr nonce_rule"
  "rule_for_key (nonce_key (CHR ''b'')) [nonce_rule] = Inr nonce_rule"
  by (simp_all add: rule_for_key_def marker_keys)

lemma nonce_rule_parts: "cr_type nonce_rule = ''string''" "cr_format nonce_rule = ''one_marker''"
  by (simp_all add: nonce_rule_def)

lemma marker_values:
  assumes "case x of None \<Rightarrow> True | Some n \<Rightarrow> 0 < n"
  shows
  "validate_source_values plain_values (on_source source_exec) [nonce_key (CHR ''a''), nonce_key (CHR ''b'')] [nonce_rule]
     (two_markers x\<lparr>ss_pages := []\<rparr>, t) = (Inr (), (two_markers x\<lparr>ss_pages := []\<rparr>, t))"
  using assms by (simp add: marker_rule marker_keys(6) io_bind_def io_lift_def io_return_def validate_source_key_value_def
      on_source_def source_exec_def source_answer_def live_entry_def two_markers_def marker_entry_def nonce_rule_parts
      value_command_def check_value_def require_def Let_def split: option.splits)

lemma marker_target:
  "parse_info (ReplyBytes []) = Inr (\<lambda>_. None)"
  "parse_info (ReplyBytes ''redis_version:8.8.0'') = Inr [''redis_version'' \<mapsto> ''8.8.0'']"
  "info_names (ReplyBytes []) = []"
  "config_value (ReplyList [ReplyBytes ''appendonly'', ReplyBytes ''yes'']) ''appendonly'' = Inr ''yes''"
  "config_value (ReplyList [ReplyBytes ''appendfsync'', ReplyBytes ''always'']) ''appendfsync'' = Inr ''always''"
  "config_value (ReplyList [ReplyBytes ''save'', ReplyBytes []]) ''save'' = Inr []"
  "config_value (ReplyList [ReplyBytes ''maxmemory'', ReplyBytes ''33554432'']) ''maxmemory'' = Inr ''33554432''"
  "config_value (ReplyList [ReplyBytes ''maxmemory-policy'', ReplyBytes ''noeviction'']) ''maxmemory-policy'' = Inr ''noeviction''"
proof -
  have "byte_lines [] ''redis_version:8.8.0'' = [''redis_version:8.8.0'']"
    "partition_on (CHR '':'') ''redis_version:8.8.0'' = (''redis_version'', True, ''8.8.0'')"
    "is_ascii ''redis_version'' \<and> is_ascii ''8.8.0''"
    by code_simp+
  then show "parse_info (ReplyBytes ''redis_version:8.8.0'') = Inr [''redis_version'' \<mapsto> ''8.8.0'']"
    by (simp add: parse_info_def)
  show "parse_info (ReplyBytes []) = Inr (\<lambda>_. None)" by (simp add: parse_info_def)
qed code_simp+

lemma marker_answers:
  "target_exec [ArgText ''INFO'', ArgText b] (nonce_target (Suc n))
     = (Inr (ReplyBytes (if b = ''server'' then ''redis_version:8.8.0'' else [])), nonce_target n)"
  "target_exec [ArgText ''DBSIZE''] (nonce_target (Suc n)) = (Inr (ReplyInt 0), nonce_target n)"
  "target_exec [ArgText ''CONFIG'', ArgText ''GET'', ArgText b] (nonce_target (Suc n))
     = (Inr (reviewed_answer [ArgText ''CONFIG'', ArgText ''GET'', ArgText b]), nonce_target n)"
  by (simp_all add: target_exec_def target_run_def nonce_target_def reviewed_answer_def Let_def)

lemma marker_check:
  "check_target (on_target target_exec) (\<lambda>_. None) same (s, nonce_target (8 + n)) = (Inr (), (s, nonce_target n))"
  by (simp add: check_target_def target_config_def io_bind_def io_lift_def io_return_def on_target_def marker_answers
      marker_target reviewed_answer_def eval_nat_numeral)

lemma marker_migration:
  assumes "case x of None \<Rightarrow> True | Some n \<Rightarrow> 0 < n"
  shows
  "migrate_redis plain_values source_exec target_exec same [nonce_rule] [''refresh_token:''] [''content:''] (two_markers x, nonce_target (8 + n)) =
     (case copy_keys (on_source source_exec) (on_target target_exec) [nonce_key (CHR ''a''), nonce_key (CHR ''b'')] []
         (two_markers x\<lparr>ss_pages := []\<rparr>, nonce_target n) of
        ((Inr (), attempted), p') \<Rightarrow> (Inr (), p')
      | ((Inl e, attempted), p') \<Rightarrow>
          (case rollback_target_keys (on_target target_exec) attempted p' of (_, p'') \<Rightarrow> (Inl e, p'')))"
proof -
  have "on_source source_exec [ArgText ''INFO'', ArgText ''server''] (two_markers x, nonce_target (8 + n)) =
      (Inr (ReplyBytes []), (two_markers x, nonce_target (8 + n)))"
    by (simp add: on_source_def source_exec_def source_answer_def two_markers_def Let_def)
  then show ?thesis
    by (simp add: migrate_redis_def io_bind_def io_lift_def marker_target marker_scan marker_values [OF assms] marker_check del: copy_keys.simps validate_source_values.simps)
qed

lemma marker_source:
  assumes "case x of None \<Rightarrow> True | Some n \<Rightarrow> 0 < n"
  shows
  "on_source source_exec [ArgText ''DUMP'', ArgBytes (nonce_key (CHR ''a''))] (two_markers x\<lparr>ss_pages := []\<rparr>, t)
     = (Inr (ReplyBytes ''dump''), (two_markers x\<lparr>ss_pages := []\<rparr>, t))"
  "on_source source_exec [ArgText ''PTTL'', ArgBytes (nonce_key (CHR ''a''))] (two_markers x\<lparr>ss_pages := []\<rparr>, t)
     = (Inr (ReplyInt 600000), (two_markers x\<lparr>ss_pages := []\<rparr>, t))"
  "on_source source_exec [ArgText ''DUMP'', ArgBytes (nonce_key (CHR ''b''))] (two_markers x\<lparr>ss_pages := []\<rparr>, t)
     = (Inr (ReplyBytes ''dump''), (two_markers x\<lparr>ss_pages := []\<rparr>, t))"
  "on_source source_exec [ArgText ''PTTL'', ArgBytes (nonce_key (CHR ''b''))] (two_markers x\<lparr>ss_pages := []\<rparr>, t)
     = (Inr (ReplyInt (case x of None \<Rightarrow> -1 | Some n \<Rightarrow> n)), (two_markers x\<lparr>ss_pages := []\<rparr>, t))"
  using assms by (simp_all add: on_source_def source_exec_def source_answer_def live_entry_def two_markers_def marker_entry_def
      marker_keys Let_def split: option.splits)

text \<open>
  A deadline that passes during the copy leaves the copied keys in the target. The rollback
  of migrate_redis runs under the same deadline as the copy, so after eight checks and one
  RESTORE within the time the run raises, its UNLINK raises too before anything is sent, and the
  first marker stays in the target, which a later run refuses because it is not empty.
\<close>

theorem deadline_defeats_rollback:
  "case migrate_redis plain_values source_exec target_exec same [nonce_rule] [''refresh_token:''] [''content:'']
       (two_markers (Some 600000), nonce_target 9) of
     (r, (s', t')) \<Rightarrow> r = refuse ''Redis migration deadline exceeded''
       \<and> ts_entries t' = [(nonce_key (CHR ''a''), ArgBytes ''dump'', 600000)]"
proof -
  have nine: "nonce_target 9 = nonce_target (8 + 1)" by simp
  show ?thesis
    unfolding nine marker_migration [of "Some 600000", simplified]
    by (simp add: marker_source MAX_NONCE_TTL_MS_def on_target_def target_exec_def target_run_def nonce_target_def
        reply_arg_def rollback_target_keys.simps io_bind_def Let_def)
qed



end
