(* ===== verification/Redis_Cli.thy ===== *)
theory Redis_Cli
  imports Redis_Migration_Facts
begin

text \<open>
  The command line of \<open>migrate-redis-allowlist.py\<close>: the Redis URLs, the set-up and the end of a
  connection, the guards of \<open>main\<close>, and the order in which they are passed. The sockets and
  \<open>urlsplit\<close> are parameters; \<open>connect\<close> stands for the deadline test and the creation of the socket.
\<close>

section \<open>URLs\<close>

record redis_url =
  ru_scheme :: pystr
  ru_hostname :: "pystr option"
  ru_username :: "pystr option"
  ru_password :: "pystr option"
  ru_path :: pystr
  ru_query :: pystr
  ru_fragment :: pystr
  ru_port :: "int option res"

record redis_endpoint =
  ep_scheme :: pystr
  ep_host :: pystr
  ep_port :: int
  ep_database :: int

definition endpoint_identity :: "redis_endpoint \<Rightarrow> pystr \<times> pystr \<times> int \<times> int" where
  "endpoint_identity ep = (ep_scheme ep, lower (ep_host ep), ep_port ep, ep_database ep)"

definition parse_redis_url :: "(pystr \<Rightarrow> redis_url res) \<Rightarrow> pystr \<Rightarrow> pystr \<Rightarrow> redis_endpoint res" where
  "parse_redis_url split_url value label =
     (case split_url value of
        Inl e \<Rightarrow> (if is_value_error e then refuse (label @ '' Redis URL is invalid'') else Inl e)
      | Inr u \<Rightarrow>
          if ru_scheme u \<notin> {''redis'', ''rediss''} then refuse (label @ '' Redis URL must use redis or rediss'')
          else if ru_username u \<noteq> None \<or> ru_password u \<noteq> None
          then refuse (label @ '' Redis URL must not contain credentials'')
          else if ru_query u \<noteq> [] \<or> ru_fragment u \<noteq> [] \<or> ru_hostname u \<in> {None, Some []}
          then refuse (label @ '' Redis URL is invalid'')
          else
            (let path = (if ru_path u = [] then ''/0'' else ru_path u)
             in if \<not> prefix ''/'' path \<or> \<not> str_isdigit (tl path)
                then refuse (label @ '' Redis URL must contain a numeric database'')
                else (case int_of_text (tl path) of
                    None \<Rightarrow> Inl (ValueError ''invalid literal for int()'')
                  | Some database \<Rightarrow>
                      if database < 0 \<or> database > 15
                      then refuse (label @ '' Redis database is outside the reviewed range'')
                      else (case ru_port u of
                          Inl e \<Rightarrow> (if is_value_error e then refuse (label @ '' Redis URL port is invalid'') else Inl e)
                        | Inr port \<Rightarrow>
                            Inr \<lparr>ep_scheme = ru_scheme u,
                                 ep_host = (case ru_hostname u of None \<Rightarrow> [] | Some h \<Rightarrow> h),
                                 ep_port = (case port of
                                     Some n \<Rightarrow> if n \<noteq> 0 then n else if ru_scheme u = ''rediss'' then 6380 else 6379
                                   | None \<Rightarrow> if ru_scheme u = ''rediss'' then 6380 else 6379),
                                 ep_database = database\<rparr>))))"

section \<open>A connection\<close>

definition expect_ok :: "pystr \<Rightarrow> reply \<Rightarrow> unit res" where
  "expect_ok operation r = require (r = ReplyBytes ''OK'') (operation @ '' did not return OK'')"

record 'c redis_socket =
  so_connect :: "redis_endpoint \<Rightarrow> (unit, 'c) io"
  so_run :: "'c exec"
  so_close :: "'c \<Rightarrow> 'c"

definition redis_setup :: "'c exec \<Rightarrow> redis_endpoint \<Rightarrow> pystr \<Rightarrow> pystr option \<Rightarrow> (unit, 'c) io" where
  "redis_setup run ep password username =
     io_bind (if password \<noteq> [] then
                io_bind (run (case username of
                    Some (c # cs) \<Rightarrow> [ArgText ''AUTH'', ArgText (c # cs), ArgText password]
                  | _ \<Rightarrow> [ArgText ''AUTH'', ArgText password]))
                  (\<lambda>r. io_lift (expect_ok ''Redis authentication'' r))
              else io_return ()) (\<lambda>_.
       if ep_database ep \<noteq> 0 then
         io_bind (run [ArgText ''SELECT'', ArgInt (ep_database ep)])
           (\<lambda>r. io_lift (expect_ok ''Redis database selection'' r))
       else io_return ())"

text \<open>\<open>__enter__\<close>: a set-up that fails closes the connection again.\<close>

definition redis_enter :: "'c redis_socket \<Rightarrow> redis_endpoint \<Rightarrow> pystr \<Rightarrow> pystr option \<Rightarrow> (unit, 'c) io" where
  "redis_enter so ep password username =
     io_bind (so_connect so ep) (\<lambda>_ p.
       case redis_setup (so_run so) ep password username p of
         (Inl e, p1) \<Rightarrow> (Inl e, so_close so p1)
       | (Inr u, p1) \<Rightarrow> (Inr u, p1))"

text \<open>\<open>with RedisConnection(...) as c: body\<close>.\<close>

definition redis_with ::
  "'c redis_socket \<Rightarrow> redis_endpoint \<Rightarrow> pystr \<Rightarrow> pystr option \<Rightarrow> ('c \<Rightarrow> 'p) \<Rightarrow> ('p \<Rightarrow> 'c) \<Rightarrow> ('a, 'p) io \<Rightarrow> ('a, 'p) io" where
  "redis_with so ep password username wrap unwrap body p =
     (case redis_enter so ep password username (unwrap p) of
        (Inl e, c) \<Rightarrow> (Inl e, wrap c)
      | (Inr _, c) \<Rightarrow> io_finally body (\<lambda>q. wrap (so_close so (unwrap q))) (wrap c))"

section \<open>main\<close>

definition MIGRATION_USERNAME :: pystr where "MIGRATION_USERNAME = ''sub2api_migration''"

definition require_environment :: "(pystr \<Rightarrow> pystr option) \<Rightarrow> pystr \<Rightarrow> bool \<Rightarrow> pystr res" where
  "require_environment env name allow_empty =
     (case env name of
        None \<Rightarrow> refuse (name @ '' is required with --apply'')
      | Some v \<Rightarrow> if \<not> allow_empty \<and> v = [] then refuse (name @ '' is required with --apply'') else Inr v)"

definition username_ok :: "pystr \<Rightarrow> bool" where
  "username_ok u \<longleftrightarrow> u \<noteq> [] \<and> length u \<le> 64 \<and> list_all (\<lambda>c. is_alnum c \<or> c \<in> set ''_.-'') u"

text \<open>What \<open>main\<close> reads before it connects: both endpoints and the credentials.\<close>

record migration_plan =
  mp_source :: redis_endpoint
  mp_target :: redis_endpoint
  mp_source_password :: pystr
  mp_source_username :: "pystr option"
  mp_target_password :: pystr
  mp_target_username :: pystr

definition plan_migration ::
  "(pystr \<Rightarrow> pystr option) \<Rightarrow> (pystr \<Rightarrow> dir_info option) \<Rightarrow> (pystr \<Rightarrow> redis_url res) \<Rightarrow> unit res \<Rightarrow> migration_plan res" where
  "plan_migration env fs split_url worktree =
     res_bind worktree (\<lambda>_.
     if env ''SUB2API_MIGRATION_WRITES_STOPPED'' \<noteq> Some ''YES''
     then refuse ''set SUB2API_MIGRATION_WRITES_STOPPED=YES only after all source writers are stopped''
     else
       res_bind (require_private_migration_storage env fs) (\<lambda>_.
       res_bind (require_environment env ''SUB2API_SOURCE_REDIS_URL'' False) (\<lambda>source_url.
       res_bind (require_environment env ''SUB2API_TARGET_REDIS_URL'' False) (\<lambda>target_url.
       res_bind (require_environment env ''SUB2API_SOURCE_REDIS_PASSWORD'' True) (\<lambda>source_password.
       let source_username = (case env ''SUB2API_SOURCE_REDIS_USERNAME'' of Some (c # cs) \<Rightarrow> Some (c # cs) | _ \<Rightarrow> None) in
       res_bind (require_environment env ''SUB2API_TARGET_REDIS_PASSWORD'' False) (\<lambda>target_password.
       res_bind (require_environment env ''SUB2API_TARGET_REDIS_USERNAME'' False) (\<lambda>target_username.
       if length target_password < 24 then refuse ''target Redis password must contain at least 24 characters''
       else if target_username \<noteq> MIGRATION_USERNAME
       then refuse ''target Redis must use the one-time sub2api_migration principal''
       else if (case source_username of None \<Rightarrow> False | Some u \<Rightarrow> \<not> username_ok u)
       then refuse ''source Redis username is invalid''
       else
         res_bind (parse_redis_url split_url source_url ''source'') (\<lambda>source_endpoint.
         res_bind (parse_redis_url split_url target_url ''target'') (\<lambda>target_endpoint.
         if endpoint_identity source_endpoint = endpoint_identity target_endpoint
         then refuse ''source and target Redis endpoints must differ''
         else Inr \<lparr>mp_source = source_endpoint, mp_target = target_endpoint, mp_source_password = source_password,
                mp_source_username = source_username, mp_target_password = target_password,
                mp_target_username = target_username\<rparr>)))))))))"

definition migration_connected ::
  "values_env \<Rightarrow> 's redis_socket \<Rightarrow> 't redis_socket \<Rightarrow> migration_plan \<Rightarrow> copy_rule list \<Rightarrow> bytes list \<Rightarrow> bytes list
    \<Rightarrow> (unit, 's \<times> 't) io" where
  "migration_connected ve source target plan copyable discarded forbidden p =
     redis_with source (mp_source plan) (mp_source_password plan) (mp_source_username plan) (\<lambda>s. (s, snd p)) fst
       (\<lambda>q. redis_with target (mp_target plan) (mp_target_password plan) (Some (mp_target_username plan))
              (\<lambda>t. (fst q, t)) snd
              (\<lambda>r. migrate_redis ve (so_run source) (so_run target)
                  (ep_database (mp_source plan) = ep_database (mp_target plan)) copyable discarded forbidden r) q) p"

text \<open>\<open>except MigrationError: raise\<close>, \<open>except (OSError, ssl.SSLError)\<close>.\<close>

definition connection_failed :: "pyexn \<Rightarrow> pyexn" where
  "connection_failed e = (if is_os_error e then migration_error ''Redis connection failed'' else e)"

definition migration_main ::
  "(pystr \<Rightarrow> (bytes \<Rightarrow> bool) option) \<Rightarrow> policy_file \<Rightarrow> (pystr \<Rightarrow> pystr option) \<Rightarrow> (pystr \<Rightarrow> dir_info option)
    \<Rightarrow> (pystr \<Rightarrow> redis_url res) \<Rightarrow> unit res \<Rightarrow> values_env \<Rightarrow> 's redis_socket \<Rightarrow> 't redis_socket \<Rightarrow> pystr list
    \<Rightarrow> (int, 's \<times> 't) io" where
  "migration_main re_compile file env fs split_url worktree ve source target args =
     (let mode = (case args of [] \<Rightarrow> ''check'' | a # _ \<Rightarrow> a)
      in if length args > 1 \<or> mode \<notin> {''check'', ''--apply''} then io_return 2
         else io_bind (io_lift (load_prefix_policy re_compile file)) (\<lambda>(copyable, discarded, forbidden).
              if mode \<noteq> ''--apply'' then io_return 0
              else io_bind (io_lift (plan_migration env fs split_url worktree)) (\<lambda>plan.
                   io_bind (io_mapexn connection_failed
                     (migration_connected ve source target plan copyable discarded forbidden)) (\<lambda>_.
                     io_return 0))))"

section \<open>The guards\<close>

text \<open>
  C38. Nothing is contacted before every guard has passed. If a run of the command line changes the
  state of either server at all, opening a connection included, then it was run with --apply
  alone, the policy loaded, the worktree was clean, the operator declared that all writers are
  stopped, the storage of the target is private, the target is addressed as the one-time
  migration principal with a password of at least 24 characters, both databases are in the
  reviewed range, and source and target differ.
\<close>

theorem migration_main_guarded:
  assumes "snd (migration_main re_compile file env fs split_url worktree ve source target args p) \<noteq> p"
  shows "args = [''--apply''] \<and> worktree = Inr () \<and>
    (\<exists>policy. load_prefix_policy re_compile file = Inr policy) \<and>
    env ''SUB2API_MIGRATION_WRITES_STOPPED'' = Some ''YES'' \<and>
    (\<exists>root. require_private_migration_storage env fs = Inr root) \<and>
    env ''SUB2API_TARGET_REDIS_USERNAME'' = Some MIGRATION_USERNAME \<and>
    (\<exists>plan. plan_migration env fs split_url worktree = Inr plan \<and>
       24 \<le> length (mp_target_password plan) \<and> mp_target_username plan = MIGRATION_USERNAME \<and>
       ep_database (mp_source plan) \<in> {0..15} \<and> ep_database (mp_target plan) \<in> {0..15} \<and>
       endpoint_identity (mp_source plan) \<noteq> endpoint_identity (mp_target plan))"
proof -
  have mode: "args = [''--apply'']"
  proof (rule ccontr)
    assume "args \<noteq> [''--apply'']"
    then have "snd (migration_main re_compile file env fs split_url worktree ve source target args p) = p"
      by (cases args rule: list.exhaust; cases "tl args")
        (auto simp: migration_main_def io_bind_def io_lift_def io_return_def split: prod.splits sum.splits)
    with assms show False ..
  qed
  obtain policy where policy: "load_prefix_policy re_compile file = Inr policy"
    using assms by (cases "load_prefix_policy re_compile file") (auto simp: migration_main_def mode io_bind_def io_lift_def)
  obtain plan where plan: "plan_migration env fs split_url worktree = Inr plan"
    using assms
    by (cases "plan_migration env fs split_url worktree"; cases policy)
      (auto simp: migration_main_def mode policy io_bind_def io_lift_def)
  have database: "parse_redis_url split_url v l = Inr ep \<Longrightarrow> ep_database ep \<in> {0..15}" for v l ep
    by (auto simp: parse_redis_url_def Let_def split: sum.splits if_splits option.splits)
  have env: "require_environment env n b = Inr v \<Longrightarrow> env n = Some v" for n b v
    by (auto simp: require_environment_def split: option.splits if_splits)
  have "worktree = Inr () \<and> env ''SUB2API_MIGRATION_WRITES_STOPPED'' = Some ''YES'' \<and>
      (\<exists>root. require_private_migration_storage env fs = Inr root) \<and>
      env ''SUB2API_TARGET_REDIS_USERNAME'' = Some MIGRATION_USERNAME \<and>
      24 \<le> length (mp_target_password plan) \<and> mp_target_username plan = MIGRATION_USERNAME \<and>
      ep_database (mp_source plan) \<in> {0..15} \<and> ep_database (mp_target plan) \<in> {0..15} \<and>
      endpoint_identity (mp_source plan) \<noteq> endpoint_identity (mp_target plan)"
    using plan
    by (auto simp: plan_migration_def Let_def res_bind_eq_Inr dest!: env dest: database split: if_splits)
  with mode policy plan show ?thesis by blast
qed

definition guard_env :: "pystr \<Rightarrow> pystr option" where
  "guard_env = map_of
     [(''SUB2API_MIGRATION_WRITES_STOPPED'', ''YES''), (''SUB2API_DATA_ROOT'', EXPECTED_DATA_ROOT),
      (''SUB2API_SOURCE_REDIS_URL'', ''a''), (''SUB2API_TARGET_REDIS_URL'', ''b''),
      (''SUB2API_SOURCE_REDIS_PASSWORD'', []), (''SUB2API_TARGET_REDIS_PASSWORD'', replicate 24 (CHR ''p'')),
      (''SUB2API_TARGET_REDIS_USERNAME'', ''sub2api_migration'')]"

definition guard_fs :: "pystr \<Rightarrow> dir_info option" where
  "guard_fs p = Some \<lparr>di_symlink = False, di_directory = True, di_resolved = p,
     di_owner = (if p = EXPECTED_DATA_ROOT then (0, 0) else (999, 1000)), di_mode = 448\<rparr>"

definition guard_url :: "pystr \<Rightarrow> redis_url res" where
  "guard_url v = Inr \<lparr>ru_scheme = ''redis'', ru_hostname = Some v, ru_username = None, ru_password = None, ru_path = [],
     ru_query = [], ru_fragment = [], ru_port = Inr None\<rparr>"

definition counting_socket :: "nat redis_socket" where
  "counting_socket = \<lparr>so_connect = (\<lambda>_ n. (Inl OSError, Suc n)), so_run = (\<lambda>_ n. (Inr ReplyNil, n)), so_close = (\<lambda>n. n)\<rparr>"

lemma guard_plan: "\<exists>plan. plan_migration guard_env guard_fs guard_url (Inr ()) = Inr plan"
proof -
  have "(case plan_migration guard_env guard_fs guard_url (Inr ()) of Inl _ \<Rightarrow> False | Inr _ \<Rightarrow> True)" by code_simp
  then show ?thesis by (auto split: sum.splits)
qed

theorem migration_main_guarded_witness:
  "\<exists>root plan. require_private_migration_storage guard_env guard_fs = Inr root \<and>
     plan_migration guard_env guard_fs guard_url (Inr ()) = Inr plan \<and> 24 \<le> length (mp_target_password plan)"
proof -
  obtain plan where "plan_migration guard_env guard_fs guard_url (Inr ()) = Inr plan" using guard_plan ..
  then have "snd (migration_main nonce_regex (Document reviewed_policy) guard_env guard_fs guard_url (Inr ()) plain_values
      counting_socket counting_socket [''--apply''] (0, 0)) \<noteq> (0, 0)"
    by (simp add: migration_main_def reviewed_policy_loads io_bind_def io_lift_def io_mapexn_def migration_connected_def
        redis_with_def redis_enter_def counting_socket_def)
  from migration_main_guarded [OF this] show ?thesis by blast
qed

end
