(* ===== verification/Private_Env.thy ===== *)
theory Private_Env
  imports Py_Io
begin

unbundle bit_operations_syntax

text \<open>
  The reader of private environment files, \<open>deploy/private_env.py\<close>: the byte format, the parser,
  the walk to the file without following symbolic links, the checks of owner, mode and links, and
  the check that the file did not change while it was read.

  The kernel is a parameter: the answer of every system call depends on the number of calls made
  before, so that a file or a directory may change, or a call may fail, between any two of them.
  The state is the count of calls and the list of open descriptors.
\<close>

section \<open>The format\<close>

definition MAX_FILE_BYTES :: nat where "MAX_FILE_BYTES = 128 * 1024"
definition MAX_ENTRIES :: nat where "MAX_ENTRIES = 256"
definition MAX_LINE_CHARACTERS :: nat where "MAX_LINE_CHARACTERS = 8192"
definition FORBIDDEN_KEY_PREFIXES :: "pystr list" where
  "FORBIDDEN_KEY_PREFIXES = [''COMPOSE_'', ''DOCKER_'']"
definition FORBIDDEN_VALUE_CHARACTERS :: "char list" where
  "FORBIDDEN_VALUE_CHARACTERS = [CHR 0x27, CHR 0x22, CHR 0x5C, CHR ''#'', CHR ''$'']"
definition PRODUCTION_PRIVATE_ENV_PATH :: pystr where
  "PRODUCTION_PRIVATE_ENV_PATH = ''/mnt/data/sub2api-gate/private/.env''"

abbreviation env_refuse :: "pystr \<Rightarrow> 'a res" where
  "env_refuse msg \<equiv> Inl (ValueError msg)"

text \<open>The loop of \<open>_decode_private_environment\<close>, and its \<open>replace\<close> of CR LF by LF. On what the
  loop accepts every CR is followed by a LF.\<close>

fun decode_loop :: "bytes \<Rightarrow> unit res" where
  "decode_loop [] = Inr ()"
| "decode_loop (c # cs) =
     (if c = CHR 0x0D then
        (case cs of
           d # ds \<Rightarrow> if d = CHR 0x0A then decode_loop ds
                     else env_refuse ''private environment file contains an invalid line separator''
         | [] \<Rightarrow> env_refuse ''private environment file contains an invalid line separator'')
      else if c = CHR 0x0A \<or> (32 \<le> ord c \<and> ord c \<le> 126) then decode_loop cs
      else env_refuse ''private environment file must use visible ASCII and canonical line endings'')"

fun replace_crlf :: "bytes \<Rightarrow> bytes" where
  "replace_crlf (c # d # cs) =
     (if c = CHR 0x0D \<and> d = CHR 0x0A then CHR 0x0A # replace_crlf cs else c # replace_crlf (d # cs))"
| "replace_crlf cs = cs"

definition decode_private_environment :: "bytes \<Rightarrow> pystr res" where
  "decode_private_environment payload =
     res_bind (decode_loop payload) (\<lambda>_. Inr (replace_crlf payload))"

text \<open>\<open>KEY_PATTERN\<close>: \<open>[A-Z][A-Z0-9_]*\<close>.\<close>

definition env_key_ok :: "pystr \<Rightarrow> bool" where
  "env_key_ok k \<longleftrightarrow> k \<noteq> [] \<and> is_upper (hd k) \<and> list_all (\<lambda>c. is_upper c \<or> is_digit c \<or> c = CHR ''_'') k"

definition env_char_ok :: "char \<Rightarrow> bool" where
  "env_char_ok c \<longleftrightarrow> 33 \<le> ord c \<and> ord c \<le> 126 \<and> c \<notin> set FORBIDDEN_VALUE_CHARACTERS"

text \<open>One line: nothing for a blank line or a comment, else a key and its value.\<close>

definition env_line :: "pystr \<Rightarrow> (pystr \<times> pystr) list \<Rightarrow> (pystr \<times> pystr) list res" where
  "env_line raw_line values =
     (if length raw_line > MAX_LINE_CHARACTERS then env_refuse ''private environment line is too long''
      else if strip raw_line = [] \<or> prefix ''#'' (lstrip raw_line) then Inr values
      else case partition_on (CHR ''='') raw_line of
          (key, separator, value) \<Rightarrow>
            if \<not> separator \<or> \<not> env_key_ok key \<or> list_ex (\<lambda>p. prefix p key) FORBIDDEN_KEY_PREFIXES
               \<or> key \<in> set (map fst values)
            then env_refuse ''private environment file is invalid''
            else if \<not> list_all env_char_ok value
            then env_refuse ''private environment values must use literal visible ASCII''
            else if Suc (length values) > MAX_ENTRIES
            then env_refuse ''private environment file contains too many entries''
            else Inr (values @ [(key, value)]))"

fun env_lines :: "pystr list \<Rightarrow> (pystr \<times> pystr) list \<Rightarrow> (pystr \<times> pystr) list res" where
  "env_lines [] values = Inr values"
| "env_lines (l # ls) values = res_bind (env_line l values) (env_lines ls)"

definition parse_private_environment :: "bytes \<Rightarrow> (pystr \<times> pystr) list res" where
  "parse_private_environment payload =
     res_bind (decode_private_environment payload) (\<lambda>source. env_lines (split_on (CHR 0x0A) source) [])"

text \<open>What \<open>main --emit-nul\<close> writes to its pipe.\<close>

definition emit_nul :: "(pystr \<times> pystr) list \<Rightarrow> bytes" where
  "emit_nul values = concat (map (\<lambda>(k, v). k @ [CHR 0x00] @ v @ [CHR 0x00]) values)"

section \<open>The kernel\<close>

datatype errno = ELOOP | ENOTDIR | OtherErrno

record file_stat =
  st_dev :: int
  st_ino :: int
  st_mode :: int
  st_nlink :: int
  st_uid :: int
  st_gid :: int
  st_size :: int
  st_mtime_ns :: int
  st_ctime_ns :: int

text \<open>\<open>stat.S_ISREG\<close>, \<open>stat.S_ISDIR\<close> and \<open>stat.S_IMODE\<close>; 18 is \<open>0o022\<close>, 384 is \<open>0o600\<close>.\<close>

definition S_ISREG :: "int \<Rightarrow> bool" where "S_ISREG mode \<longleftrightarrow> mode AND 61440 = 32768"
definition S_ISDIR :: "int \<Rightarrow> bool" where "S_ISDIR mode \<longleftrightarrow> mode AND 61440 = 16384"
definition S_IMODE :: "int \<Rightarrow> int" where "S_IMODE mode = mode AND 4095"

record posix =
  geteuid :: int
  getegid :: int
  has_nofollow :: bool
  sys_open_root :: "nat \<Rightarrow> errno + nat"
  sys_open_dir :: "nat \<Rightarrow> nat \<Rightarrow> pystr \<Rightarrow> errno + nat"
  sys_open_file :: "nat \<Rightarrow> nat \<Rightarrow> pystr \<Rightarrow> errno + nat"
  sys_fstat :: "nat \<Rightarrow> nat \<Rightarrow> file_stat option"
  sys_read :: "nat \<Rightarrow> nat \<Rightarrow> nat \<Rightarrow> bytes option"

record kernel =
  calls :: nat
  open_fds :: "nat list"

definition os_open :: "(nat \<Rightarrow> errno + nat) \<Rightarrow> (errno \<Rightarrow> pyexn) \<Rightarrow> (nat, kernel) io" where
  "os_open answer raised k =
     (let k1 = k\<lparr>calls := Suc (calls k)\<rparr>
      in case answer (calls k) of
           Inl e \<Rightarrow> (Inl (raised e), k1)
         | Inr fd \<Rightarrow> (Inr fd, k1\<lparr>open_fds := fd # open_fds k\<rparr>))"

definition os_close :: "nat \<Rightarrow> kernel \<Rightarrow> kernel" where
  "os_close fd k = k\<lparr>calls := Suc (calls k), open_fds := remove1 fd (open_fds k)\<rparr>"

definition os_fstat :: "posix \<Rightarrow> nat \<Rightarrow> (file_stat, kernel) io" where
  "os_fstat px fd k =
     (case sys_fstat px (calls k) fd of None \<Rightarrow> Inl OSError | Some s \<Rightarrow> Inr s, k\<lparr>calls := Suc (calls k)\<rparr>)"

definition os_read :: "posix \<Rightarrow> nat \<Rightarrow> nat \<Rightarrow> (bytes, kernel) io" where
  "os_read px fd n k =
     (case sys_read px (calls k) fd n of None \<Rightarrow> Inl OSError | Some b \<Rightarrow> Inr (take n b), k\<lparr>calls := Suc (calls k)\<rparr>)"

section \<open>The path\<close>

definition expected_operator_identity :: "posix \<Rightarrow> int \<times> int" where
  "expected_operator_identity px = (geteuid px, if geteuid px = 0 then 0 else getegid px)"

text \<open>The root and the components of a \<open>pathlib.Path\<close>: empty and dot components are dropped,
  exactly two leading slashes are a root of their own.\<close>

definition path_root :: "pystr \<Rightarrow> pystr" where
  "path_root p = (if prefix ''//'' p \<and> \<not> prefix ''///'' p then ''//'' else ''/'')"

definition path_components :: "pystr \<Rightarrow> pystr list" where
  "path_components p = filter (\<lambda>c. c \<noteq> [] \<and> c \<noteq> ''.'') (split_on (CHR ''/'') p)"

definition normalize_private_environment_path :: "bool \<Rightarrow> pystr \<Rightarrow> pystr list res" where
  "normalize_private_environment_path root_operator path =
     (let components = path_components path
      in if \<not> prefix ''/'' path then env_refuse ''private environment file path must be absolute''
         else if components = [] \<or> list_ex (\<lambda>c. c \<in> {[], ''.'', ''..''}) components
         then env_refuse ''private environment file path is invalid''
         else if root_operator \<and> (path_root path, components)
                   \<noteq> (path_root PRODUCTION_PRIVATE_ENV_PATH, path_components PRODUCTION_PRIVATE_ENV_PATH)
         then env_refuse ''root private environment must use the fixed root private environment path''
         else Inr components)"

definition validate_root_ancestor_directory :: "file_stat \<Rightarrow> unit res" where
  "validate_root_ancestor_directory st =
     (if \<not> S_ISDIR (st_mode st) \<or> st_uid st \<noteq> 0 \<or> st_gid st \<noteq> 0 \<or> S_IMODE (st_mode st) AND 18 \<noteq> 0
      then env_refuse ''root private environment ancestor directory is unsafe'' else Inr ())"

definition validate_parent_directory :: "int \<Rightarrow> file_stat \<Rightarrow> unit res" where
  "validate_parent_directory expected_uid st =
     (if expected_uid = 0 then validate_root_ancestor_directory st
      else if \<not> S_ISDIR (st_mode st) \<or> st_uid st \<noteq> expected_uid \<or> S_IMODE (st_mode st) AND 18 \<noteq> 0
      then env_refuse ''private environment parent directory is unsafe'' else Inr ())"

definition open_error :: "errno \<Rightarrow> pyexn" where
  "open_error e =
     (if e \<in> {ELOOP, ENOTDIR} then ValueError ''private environment file must be a regular non-symlink file''
      else ValueError ''private environment file is unavailable'')"

text \<open>The walk over the directories. The second part of the result is the descriptor that the
  \<open>finally\<close> clause closes.\<close>

fun walk_directories :: "posix \<Rightarrow> int \<Rightarrow> pystr list \<Rightarrow> nat \<Rightarrow> kernel \<Rightarrow> (unit res \<times> nat) \<times> kernel" where
  "walk_directories px uid [] fd k = ((Inr (), fd), k)"
| "walk_directories px uid (c # cs) fd k =
     (case (if uid = 0 then io_bind (os_fstat px fd) (\<lambda>s. io_lift (validate_root_ancestor_directory s))
            else io_return ()) k of
        (Inl e, k1) \<Rightarrow> ((Inl e, fd), k1)
      | (Inr _, k1) \<Rightarrow>
          (case os_open (\<lambda>n. sys_open_dir px n fd c) open_error k1 of
             (Inl e, k2) \<Rightarrow> ((Inl e, fd), k2)
           | (Inr next, k2) \<Rightarrow> walk_directories px uid cs next (os_close fd k2)))"

definition open_private_environment :: "posix \<Rightarrow> int \<Rightarrow> pystr \<Rightarrow> (nat, kernel) io" where
  "open_private_environment px uid path =
     io_bind (io_lift (normalize_private_environment_path (uid = 0) path)) (\<lambda>components.
       if \<not> has_nofollow px then io_lift (env_refuse ''private environment file boundary is unavailable'')
       else io_bind (os_open (sys_open_root px) (\<lambda>_. ValueError ''private environment file is unavailable'')) (\<lambda>root k.
         case walk_directories px uid (butlast components) root k of
           ((Inl e, fd), k1) \<Rightarrow> (Inl e, os_close fd k1)
         | ((Inr _, fd), k1) \<Rightarrow>
             io_finally
               (io_bind (os_fstat px fd) (\<lambda>parent_stat.
                io_bind (io_lift (validate_parent_directory uid parent_stat)) (\<lambda>_.
                  os_open (\<lambda>n. sys_open_file px n fd (last components)) open_error)))
               (os_close fd) k1))"

section \<open>The file\<close>

definition validate_private_environment_file :: "file_stat \<Rightarrow> int \<Rightarrow> int \<Rightarrow> unit res" where
  "validate_private_environment_file st expected_uid expected_gid =
     (if \<not> S_ISREG (st_mode st) then env_refuse ''private environment file must be a regular non-symlink file''
      else if st_nlink st \<noteq> 1 then env_refuse ''private environment file must have a single filesystem link''
      else if (st_uid st, st_gid st) \<noteq> (expected_uid, expected_gid)
      then env_refuse ''private environment file must be owned by the expected operator''
      else if S_IMODE (st_mode st) \<noteq> 384 then env_refuse ''private environment file must use mode 0600''
      else if st_size st > int MAX_FILE_BYTES then env_refuse ''private environment file is too large''
      else Inr ())"

definition identity_document :: "file_stat \<Rightarrow> (pystr \<times> int) list" where
  "identity_document st =
     [(''device'', st_dev st), (''inode'', st_ino st), (''mode'', st_mode st), (''links'', st_nlink st),
      (''uid'', st_uid st), (''gid'', st_gid st), (''size'', st_size st), (''modified_ns'', st_mtime_ns st),
      (''changed_ns'', st_ctime_ns st)]"

function read_chunks :: "posix \<Rightarrow> nat \<Rightarrow> nat \<Rightarrow> bytes \<Rightarrow> kernel \<Rightarrow> bytes res \<times> kernel" where
  "read_chunks px fd remaining acc k =
     (if remaining = 0 then (Inr acc, k)
      else case os_read px fd (min 65536 remaining) k of
          (Inl e, k1) \<Rightarrow> (Inl e, k1)
        | (Inr chunk, k1) \<Rightarrow>
            if chunk = [] then (Inr acc, k1)
            else read_chunks px fd (remaining - length chunk) (acc @ chunk) k1)"
  by pat_completeness auto
termination by (relation "measure (\<lambda>(_, _, remaining, _, _). remaining)") auto

declare read_chunks.simps [simp del]

text \<open>\<open>except OSError\<close>.\<close>

definition could_not_be_read :: "pyexn \<Rightarrow> pyexn" where
  "could_not_be_read e =
     (if is_os_error e then ValueError ''private environment file could not be read'' else e)"

definition read_private_environment_payload ::
  "posix \<Rightarrow> pystr \<Rightarrow> int \<times> int \<Rightarrow> (bytes \<times> (pystr \<times> int) list, kernel) io" where
  "read_private_environment_payload px path expected =
     io_bind (open_private_environment px (fst expected) path) (\<lambda>fd.
       io_finally (io_mapexn could_not_be_read
         (io_bind (os_fstat px fd) (\<lambda>st.
          io_bind (io_lift (validate_private_environment_file st (fst expected) (snd expected))) (\<lambda>_.
          io_bind (read_chunks px fd (MAX_FILE_BYTES + 1) []) (\<lambda>payload.
            if length payload > MAX_FILE_BYTES then io_lift (env_refuse ''private environment file is too large'')
            else io_bind (os_fstat px fd) (\<lambda>final.
              if final \<noteq> st then io_lift (env_refuse ''private environment file changed while being read'')
              else io_return (payload, identity_document final)))))))
         (os_close fd))"

definition read_private_environment_with_identity ::
  "posix \<Rightarrow> pystr \<Rightarrow> ((pystr \<times> pystr) list \<times> (pystr \<times> int) list, kernel) io" where
  "read_private_environment_with_identity px path =
     io_bind (read_private_environment_payload px path (expected_operator_identity px)) (\<lambda>(payload, identity).
     io_bind (io_lift (parse_private_environment payload)) (\<lambda>values. io_return (values, identity)))"

definition read_private_environment :: "posix \<Rightarrow> pystr \<Rightarrow> ((pystr \<times> pystr) list, kernel) io" where
  "read_private_environment px path =
     io_bind (read_private_environment_with_identity px path) (\<lambda>(values, _). io_return values)"

definition private_environment_identity ::
  "posix \<Rightarrow> pystr \<Rightarrow> int option \<times> int option \<Rightarrow> ((pystr \<times> int) list, kernel) io" where
  "private_environment_identity px path expected =
     (let operator = expected_operator_identity px
      in if expected \<noteq> (None, None) \<and> expected \<noteq> (Some (fst operator), Some (snd operator))
         then io_lift (env_refuse ''private environment expected operator identity is invalid'')
         else io_bind (open_private_environment px (fst operator) path) (\<lambda>fd.
              io_finally (io_mapexn could_not_be_read
                (io_bind (os_fstat px fd) (\<lambda>st.
                 io_bind (io_lift (validate_private_environment_file st (fst operator) (snd operator))) (\<lambda>_.
                   io_return (identity_document st)))))
                (os_close fd)))"

text \<open>\<open>main\<close>, after \<open>argparse\<close>: the exit status and what is written to standard output. An
  exception that is no \<open>PrivateEnvironmentError\<close> leaves \<open>main\<close>.\<close>

definition env_main :: "posix \<Rightarrow> bool \<Rightarrow> pystr \<Rightarrow> bool \<Rightarrow> (int \<times> bytes, kernel) io" where
  "env_main px emit path output_is_fifo =
     (if \<not> emit \<or> path = [] then io_return (2, [])
      else if \<not> output_is_fifo then io_return (1, [])
      else (\<lambda>k. case read_private_environment px path k of
          (Inl (ValueError msg), k1) \<Rightarrow> (Inr (1, []), k1)
        | (Inl e, k1) \<Rightarrow> (Inl e, k1)
        | (Inr values, k1) \<Rightarrow> (Inr (0, emit_nul values), k1)))"

end
