(* ===== verification/Private_Env_Facts.thy ===== *)
theory Private_Env_Facts
  imports Private_Env
begin

text \<open>
  Properties of the reader of private environment files: what it accepts is read back by the
  consumer of its pipe, what is written in its format is read unchanged, a success is the content
  of one stable private file of the operator, and no descriptor is left open on any path.
\<close>

section \<open>The format\<close>

definition env_entry_ok :: "pystr \<times> pystr \<Rightarrow> bool" where
  "env_entry_ok e \<longleftrightarrow> env_key_ok (fst e) \<and> \<not> list_ex (\<lambda>p. prefix p (fst e)) FORBIDDEN_KEY_PREFIXES \<and> list_all env_char_ok (snd e)"

definition env_valid :: "(pystr \<times> pystr) list \<Rightarrow> bool" where
  "env_valid vals \<longleftrightarrow> distinct (map fst vals) \<and> length vals \<le> MAX_ENTRIES \<and> list_all env_entry_ok vals"

definition env_text :: "bytes \<Rightarrow> (pystr \<times> pystr) list \<Rightarrow> bytes" where
  "env_text eol vals = concat (map (\<lambda>(k, v). k @ ''='' @ v @ eol) vals)"

lemma env_line_valid: "env_line l vs = Inr vs' \<Longrightarrow> env_valid vs \<Longrightarrow> env_valid vs'"
  by (auto simp: env_line_def env_valid_def env_entry_ok_def split: if_splits prod.splits)

lemma env_lines_valid: "env_lines ls vs = Inr vs' \<Longrightarrow> env_valid vs \<Longrightarrow> env_valid vs'"
  by (induction ls arbitrary: vs) (auto simp: res_bind_eq_Inr dest: env_line_valid)

lemma parsed_valid: "parse_private_environment payload = Inr vals \<Longrightarrow> env_valid vals"
  using env_lines_valid [of _ "[]" vals]
  by (auto simp: parse_private_environment_def res_bind_eq_Inr env_valid_def)

lemma key_chars: "env_key_ok k \<Longrightarrow> c \<in> set k \<Longrightarrow> is_upper c \<or> is_digit c \<or> c = CHR ''_''"
  by (auto simp: env_key_ok_def list_all_iff)

lemma key_plain:
  "env_key_ok k \<Longrightarrow> c \<in> set k \<Longrightarrow> 32 \<le> ord c \<and> ord c \<le> 126 \<and> c \<noteq> CHR ''='' \<and> c \<noteq> CHR 0x0D \<and> c \<noteq> CHR 0x0A \<and> c \<noteq> CHR 0x00"
  by (auto dest!: key_chars simp: char_class_defs)

lemma value_plain:
  "list_all env_char_ok v \<Longrightarrow> c \<in> set v \<Longrightarrow> 32 \<le> ord c \<and> ord c \<le> 126 \<and> c \<noteq> CHR 0x0D \<and> c \<noteq> CHR 0x0A \<and> c \<noteq> CHR 0x00"
  by (auto simp: list_all_iff env_char_ok_def)

text \<open>
  What the parser accepts is what the consumer of the pipe reads. The accepted keys are
  distinct names of the documented form, none of which could steer Compose or Docker, the vals
  are visible ASCII without quotes, escapes, comments or interpolation, there are at most 256
  entries, and splitting the emitted bytes at NUL gives exactly the keys and values in order.
\<close>

theorem emitted_records_read_back:
  assumes "parse_private_environment payload = Inr vals"
  shows "env_valid vals \<and>
    split_on (CHR 0x00) (emit_nul vals) = concat (map (\<lambda>(k, v). [k, v]) vals) @ [[]]"
proof -
  have v: "env_valid vals" using assms by (rule parsed_valid)
  have "list_all env_entry_ok vals" using v by (simp add: env_valid_def)
  then have "split_on (CHR 0x00) (emit_nul vals) = concat (map (\<lambda>(k, v). [k, v]) vals) @ [[]]"
  proof (induction vals)
    case (Cons e es)
    obtain k x where e: "e = (k, x)" by (rule prod.exhaust)
    have "CHR 0x00 \<notin> set k" "CHR 0x00 \<notin> set x"
      using Cons.prems key_plain [of k "CHR 0x00"] value_plain [of x "CHR 0x00"] by (auto simp: e env_entry_ok_def)
    with Cons show ?case by (simp add: emit_nul_def e split_on_append_sep)
  qed (simp add: emit_nul_def)
  with v show ?thesis ..
qed

theorem emitted_records_read_back_witness:
  "env_valid [(''A_1'', ''x=y''), (''B'', [])] \<and>
   split_on (CHR 0x00) (emit_nul [(''A_1'', ''x=y''), (''B'', [])]) = [''A_1'', ''x=y'', ''B'', [], []]"
proof -
  have "parse_private_environment (''# c'' @ [CHR 0x0D, CHR 0x0A] @ ''A_1=x=y'' @ [CHR 0x0A] @ ''B='')
      = Inr [(''A_1'', ''x=y''), (''B'', [])]"
    by code_simp
  from emitted_records_read_back [OF this] show ?thesis by simp
qed

section \<open>Writing and reading\<close>

lemma decode_loop_plain:
  "(\<forall>c \<in> set s. 32 \<le> ord c \<and> ord c \<le> 126 \<and> c \<noteq> CHR 0x0D) \<Longrightarrow> decode_loop (s @ t) = decode_loop t"
  by (induction s) auto

lemma replace_crlf_step: "c \<noteq> CHR 0x0D \<Longrightarrow> replace_crlf (c # u) = c # replace_crlf u"
  by (cases u) auto

lemma replace_crlf_plain: "CHR 0x0D \<notin> set s \<Longrightarrow> replace_crlf (s @ t) = s @ replace_crlf t"
  by (induction s) (auto simp: replace_crlf_step)

lemma env_line_entry:
  assumes ok: "env_entry_ok (k, v)" and len: "length (k @ ''='' @ v) \<le> MAX_LINE_CHARACTERS"
    and new: "k \<notin> set (map fst vs)" "Suc (length vs) \<le> MAX_ENTRIES"
  shows "env_line (k @ ''='' @ v) vs = Inr (vs @ [(k, v)])"
proof -
  have k: "env_key_ok k" "\<not> list_ex (\<lambda>p. prefix p k) FORBIDDEN_KEY_PREFIXES" and v: "list_all env_char_ok v"
    using ok by (auto simp: env_entry_ok_def)
  obtain c cs where kc: "k = c # cs" "is_upper c" using k(1) by (cases k) (auto simp: env_key_ok_def)
  have sp: "\<not> is_space c" "c \<noteq> CHR ''#''" using kc(2) by (auto simp: char_class_defs)
  have l: "lstrip (k @ ''='' @ v) = k @ ''='' @ v" using sp by (simp add: kc lstrip_def)
  have s: "strip (k @ ''='' @ v) \<noteq> []"
  proof
    assume "strip (k @ ''='' @ v) = []"
    then have "dropWhile is_space (rev (k @ ''='' @ v)) = []" by (simp only: strip_def l rstrip_def rev_is_Nil_conv)
    then have "\<forall>x \<in> set (k @ ''='' @ v). is_space x" by (simp only: dropWhile_eq_Nil_conv set_rev)
    with sp kc show False by simp
  qed
  have p: "partition_on (CHR ''='') (k @ ''='' @ v) = (k, True, v)"
    using key_plain [OF k(1)] partition_on_sep [of "CHR ''=''" k v] by auto
  have h: "\<not> prefix ''#'' (k @ ''='' @ v)" using sp by (simp add: kc)
  show ?thesis using k v len new s p h l by (simp add: env_line_def)
qed

lemma env_lines_entries:
  "env_valid (vs @ ws) \<Longrightarrow> list_all (\<lambda>(k, v). length (k @ ''='' @ v) \<le> MAX_LINE_CHARACTERS) ws \<Longrightarrow>
   env_lines (map (\<lambda>(k, v). k @ ''='' @ v) ws @ [[]]) vs = Inr (vs @ ws)"
proof (induction ws arbitrary: vs)
  case Nil
  show ?case by (simp add: env_line_def strip_def lstrip_def rstrip_def)
next
  case (Cons e ws)
  obtain k v where e: "e = (k, v)" by (rule prod.exhaust)
  have "env_line (k @ ''='' @ v) vs = Inr (vs @ [(k, v)])"
    using Cons.prems by (intro env_line_entry) (auto simp: e env_valid_def)
  with Cons.IH [of "vs @ [(k, v)]"] Cons.prems show ?case by (simp add: e)
qed

text \<open>
  C37. A file written in the format is read back unchanged: for every valid list of entries whose
  lines are short enough, with LF or CR LF line ends, the parser returns exactly these entries in
  order.
\<close>

theorem private_environment_roundtrip:
  assumes "env_valid vals" and "eol \<in> {[CHR 0x0A], [CHR 0x0D, CHR 0x0A]}"
    and "list_all (\<lambda>(k, v). length (k @ ''='' @ v) \<le> MAX_LINE_CHARACTERS) vals"
  shows "parse_private_environment (env_text eol vals) = Inr vals"
proof -
  have "decode_loop (env_text eol vals) = Inr () \<and>
      split_on (CHR 0x0A) (replace_crlf (env_text eol vals)) = map (\<lambda>(k, v). k @ ''='' @ v) vals @ [[]]"
    if "list_all env_entry_ok vals"
    using that
  proof (induction vals)
    case (Cons e es)
    obtain k v where e: "e = (k, v)" by (rule prod.exhaust)
    let ?l = "k @ ''='' @ v"
    have "env_key_ok k" "list_all env_char_ok v" using Cons.prems by (auto simp: e env_entry_ok_def)
    note plain = key_plain [OF this(1)] value_plain [OF this(2)]
    have pl: "\<forall>c \<in> set ?l. 32 \<le> ord c \<and> ord c \<le> 126 \<and> c \<noteq> CHR 0x0D" "CHR 0x0D \<notin> set ?l" "CHR 0x0A \<notin> set ?l"
      using plain by auto
    have t: "env_text eol (e # es) = ?l @ eol @ env_text eol es" by (simp add: env_text_def e)
    have "decode_loop (env_text eol (e # es)) = decode_loop (eol @ env_text eol es)"
      unfolding t using pl(1) by (rule decode_loop_plain)
    moreover have "replace_crlf (env_text eol (e # es)) = ?l @ CHR 0x0A # replace_crlf (env_text eol es)"
      unfolding t replace_crlf_plain [OF pl(2)] using assms(2) by (auto simp: replace_crlf_step)
    moreover have "decode_loop (eol @ env_text eol es) = decode_loop (env_text eol es)"
      using assms(2) by auto
    ultimately show ?case
      using Cons pl(3) split_on_append_sep [of "CHR 0x0A" ?l] by (simp add: e)
  qed (simp add: env_text_def)
  then show ?thesis
    using assms(1,3) env_lines_entries [of "[]" vals]
    by (simp add: parse_private_environment_def decode_private_environment_def env_valid_def)
qed

theorem private_environment_roundtrip_witness:
  "parse_private_environment (env_text [CHR 0x0D, CHR 0x0A] [(''A'', ''1''), (''B_2'', ''p=q'')])
     = Inr [(''A'', ''1''), (''B_2'', ''p=q'')]"
  by (rule private_environment_roundtrip) (code_simp, simp, code_simp)

section \<open>Descriptors\<close>

definition balanced :: "('a, kernel) io \<Rightarrow> bool" where
  "balanced m \<longleftrightarrow> (\<forall>k. open_fds (snd (m k)) = open_fds k)"

lemma balanced_simps [simp]: "balanced (io_lift r)" "balanced (io_return a)" "balanced (os_fstat px fd)"
  by (simp_all add: balanced_def io_lift_def io_return_def os_fstat_def)

lemma balanced_bind: "balanced m \<Longrightarrow> (\<And>a. balanced (f a)) \<Longrightarrow> balanced (io_bind m f)"
  unfolding balanced_def io_bind_def by (auto split: prod.splits sum.splits) (metis snd_conv)+

lemma balanced_mapexn: "balanced m \<Longrightarrow> balanced (io_mapexn h m)"
  unfolding balanced_def io_mapexn_def by (auto split: prod.splits sum.splits) (metis snd_conv)+

lemma balanced_read: "open_fds (snd (read_chunks px fd n acc k)) = open_fds k"
proof (induction px fd n acc k rule: read_chunks.induct)
  case (1 px fd n acc k)
  show ?case
  proof (cases "n = 0")
    case False
    with 1 show ?thesis
      by (subst read_chunks.simps) (auto simp: os_read_def split: option.splits)
  qed (simp add: read_chunks.simps)
qed

lemma close_first: "open_fds k = fd # fds \<Longrightarrow> open_fds (os_close fd k) = fds"
  by (simp add: os_close_def)

lemma close_second: "open_fds k = x # fd # fds \<Longrightarrow> open_fds (os_close fd k) = x # fds"
  by (simp add: os_close_def)

lemma open_result:
  "os_open answer raised k = (r, k') \<Longrightarrow> open_fds k' = (case r of Inl _ \<Rightarrow> open_fds k | Inr fd \<Rightarrow> fd # open_fds k)"
  by (auto simp: os_open_def Let_def split: sum.splits)

lemma walk_fds:
  "open_fds k = fd # fds \<Longrightarrow> walk_directories px uid cs fd k = ((r, fd'), k') \<Longrightarrow> open_fds k' = fd' # fds"
proof (induction cs arbitrary: fd k)
  case (Cons c cs)
  let ?check = "if uid = 0 then io_bind (os_fstat px fd) (\<lambda>s. io_lift (validate_root_ancestor_directory s)) else io_return ()"
  have b: "balanced ?check" by (simp add: balanced_bind)
  obtain r1 k1 where c1: "?check k = (r1, k1)" by (rule prod.exhaust)
  have k1: "open_fds k1 = fd # fds" using b c1 Cons.prems(1) unfolding balanced_def by (metis snd_conv)
  obtain r2 k2 where c2: "os_open (\<lambda>n. sys_open_dir px n fd c) open_error k1 = (r2, k2)" by (rule prod.exhaust)
  note k2 = open_result [OF c2]
  show ?case
  proof (cases r1)
    case (Inr u)
    with Cons.prems(2) c1 c2 k1 k2 Cons.IH [OF close_second] show ?thesis
      by (cases r2) (auto simp del: if_split)
  qed (use Cons.prems(2) c1 k1 in \<open>simp del: if_split\<close>)
qed simp

text \<open>An open that succeeded leaves one more descriptor, a failed one none.\<close>

lemma open_fds_open:
  assumes "open_private_environment px uid path k = (r, k')"
  shows "open_fds k' = (case r of Inl _ \<Rightarrow> open_fds k | Inr fd \<Rightarrow> fd # open_fds k)"
proof (cases "normalize_private_environment_path (uid = 0) path")
  case (Inl e)
  with assms show ?thesis by (auto simp: open_private_environment_def io_bind_def io_lift_def)
next
  case (Inr cs)
  obtain r1 k1 where o: "os_open (sys_open_root px) (\<lambda>_. ValueError ''private environment file is unavailable'') k = (r1, k1)"
    by (rule prod.exhaust)
  note k1 = open_result [OF o]
  show ?thesis
  proof (cases "has_nofollow px")
    case False
    with Inr assms show ?thesis by (auto simp: open_private_environment_def io_bind_def io_lift_def)
  next
    case nf: True
    show ?thesis
    proof (cases r1)
      case (Inl e)
      with Inr assms o k1 nf show ?thesis by (auto simp: open_private_environment_def io_bind_def io_lift_def)
    next
      case root: (Inr root)
      obtain rw fd k2 where w: "walk_directories px uid (butlast cs) root k1 = ((rw, fd), k2)" by (metis surj_pair)
      have k2: "open_fds k2 = fd # open_fds k" using walk_fds [OF _ w] k1 root by simp
      let ?rest = "\<lambda>s. io_bind (io_lift (validate_parent_directory uid s)) (\<lambda>_.
                  os_open (\<lambda>n. sys_open_file px n fd (last cs)) open_error)"
      obtain r3 k3 where f: "os_fstat px fd k2 = (r3, k3)" by (rule prod.exhaust)
      have k3: "open_fds k3 = fd # open_fds k" using f k2 by (auto simp: os_fstat_def)
      obtain r4 k4 where p: "os_open (\<lambda>n. sys_open_file px n fd (last cs)) open_error k3 = (r4, k4)" by (rule prod.exhaust)
      note k4 = open_result [OF p, unfolded k3]
      have run: "(r, k') = (case rw of Inl e \<Rightarrow> (Inl e, os_close fd k2)
          | Inr _ \<Rightarrow> (case io_bind (os_fstat px fd) ?rest k2 of (x, k5) \<Rightarrow> (x, os_close fd k5)))"
        using assms Inr o nf root w
        by (simp add: open_private_environment_def io_bind_def io_lift_def io_finally_def split: sum.splits)
      have mid: "io_bind (os_fstat px fd) ?rest k2 = (case r3 of Inl e \<Rightarrow> (Inl e, k3)
          | Inr s \<Rightarrow> (case validate_parent_directory uid s of Inl e \<Rightarrow> (Inl e, k3) | Inr _ \<Rightarrow> (r4, k4)))"
        using f p by (auto simp: io_bind_def io_lift_def split: sum.splits)
      show ?thesis
        using run k2 k3 k4 close_first [of k2 fd] close_first [of k3 fd] close_first [of k4 fd] close_second [of k4 _ fd]
        unfolding mid by (auto split: sum.splits)
    qed
  qed
qed

lemma open_then_balanced:
  assumes "\<And>fd. balanced (m fd)"
  shows "balanced (io_bind (open_private_environment px uid path) (\<lambda>fd. io_finally (m fd) (os_close fd)))"
proof -
  have "open_fds (snd (m fd k)) = open_fds k" for fd k using assms by (simp add: balanced_def)
  then show ?thesis
    unfolding balanced_def io_bind_def io_finally_def
    by (auto split: prod.splits sum.splits simp: os_close_def dest!: open_fds_open) (metis remove1.simps(2) snd_conv)
qed

lemma balanced_payload: "balanced (read_private_environment_payload px path expected)"
  unfolding read_private_environment_payload_def
  by (intro open_then_balanced balanced_mapexn balanced_bind balanced_simps)
    (auto simp: balanced_def balanced_read io_lift_def io_return_def io_bind_def os_fstat_def split: prod.splits sum.splits)

text \<open>
  No descriptor is left open. Whatever the path, the answers of the kernel and the moment at
  which a call fails or a check refuses, reading a private environment file and asking for its
  identity close every descriptor that they opened, and no other.
\<close>

theorem private_environment_closes_descriptors:
  "open_fds (snd (read_private_environment px path k)) = open_fds k \<and>
   open_fds (snd (private_environment_identity px path expected k)) = open_fds k"
proof
  have "balanced (read_private_environment px path)"
    unfolding read_private_environment_def read_private_environment_with_identity_def
    by (intro balanced_bind balanced_payload) (auto intro!: balanced_bind)
  then show "open_fds (snd (read_private_environment px path k)) = open_fds k" by (simp add: balanced_def)
  have "balanced (private_environment_identity px path expected)"
    unfolding private_environment_identity_def Let_def
    by (auto intro!: open_then_balanced balanced_mapexn balanced_bind)
  then show "open_fds (snd (private_environment_identity px path expected k)) = open_fds k" by (simp add: balanced_def)
qed

section \<open>What a success means\<close>

text \<open>
  C36. A successful read is the content of one private file that did not change. The path is
  absolute, and the fixed production path for root; the descriptor that was read was, before the
  first and after the last read, the same regular file of the operator with one link, mode 0600
  and at most 128 KiB; and the entries are the parse of exactly the bytes read in between.
\<close>

theorem private_environment_stable_file:
  assumes "read_private_environment px path k = (Inr vals, k')"
  shows "prefix ''/'' path \<and>
    (geteuid px = 0 \<longrightarrow> path_components path = path_components PRODUCTION_PRIVATE_ENV_PATH) \<and>
    (\<exists>fd st t k1 k2 payload.
       sys_fstat px t fd = Some st \<and> calls k1 = Suc t \<and>
       read_chunks px fd (MAX_FILE_BYTES + 1) [] k1 = (Inr payload, k2) \<and>
       sys_fstat px (calls k2) fd = Some st \<and>
       S_ISREG (st_mode st) \<and> S_IMODE (st_mode st) = 384 \<and> st_nlink st = 1 \<and>
       st_uid st = geteuid px \<and> st_gid st = (if geteuid px = 0 then 0 else getegid px) \<and>
       length payload \<le> MAX_FILE_BYTES \<and> parse_private_environment payload = Inr vals)"
proof -
  let ?ids = "expected_operator_identity px"
  obtain payload identity kp where p: "read_private_environment_payload px path ?ids k = (Inr (payload, identity), kp)"
    and parse: "parse_private_environment payload = Inr vals"
    using assms
    by (auto simp: read_private_environment_def read_private_environment_with_identity_def io_bind_Inr split: prod.splits)
  obtain fd k0 where o: "open_private_environment px (fst ?ids) path k = (Inr fd, k0)"
    and body: "\<exists>ke. io_bind (os_fstat px fd) (\<lambda>st.
          io_bind (io_lift (validate_private_environment_file st (fst ?ids) (snd ?ids))) (\<lambda>_.
          io_bind (read_chunks px fd (MAX_FILE_BYTES + 1) []) (\<lambda>payload.
            if length payload > MAX_FILE_BYTES then io_lift (env_refuse ''private environment file is too large'')
            else io_bind (os_fstat px fd) (\<lambda>final.
              if final \<noteq> st then io_lift (env_refuse ''private environment file changed while being read'')
              else io_return (payload, identity_document final))))) k0 = (Inr (payload, identity), ke)"
    using p by (auto simp: read_private_environment_payload_def io_bind_Inr [of "open_private_environment _ _ _"] io_finally_Inr)
  obtain st k1 k2 k3 where st: "os_fstat px fd k0 = (Inr st, k1)"
    and ok: "validate_private_environment_file st (fst ?ids) (snd ?ids) = Inr ()"
    and rd: "read_chunks px fd (MAX_FILE_BYTES + 1) [] k1 = (Inr payload, k2)"
    and len: "length payload \<le> MAX_FILE_BYTES" and fin: "os_fstat px fd k2 = (Inr st, k3)"
    using body by (auto simp: io_bind_Inr split: if_splits)
  have n: "\<exists>cs. normalize_private_environment_path (geteuid px = 0) path = Inr cs"
    using o by (auto simp: open_private_environment_def io_bind_Inr expected_operator_identity_def)
  then have path: "prefix ''/'' path"
      "geteuid px = 0 \<longrightarrow> path_components path = path_components PRODUCTION_PRIVATE_ENV_PATH"
    by (auto simp: normalize_private_environment_path_def Let_def split: if_splits)
  have "sys_fstat px (calls k0) fd = Some st" "calls k1 = Suc (calls k0)" "sys_fstat px (calls k2) fd = Some st"
    using st fin by (auto simp: os_fstat_def split: option.splits)
  moreover have "S_ISREG (st_mode st) \<and> S_IMODE (st_mode st) = 384 \<and> st_nlink st = 1 \<and>
      st_uid st = geteuid px \<and> st_gid st = (if geteuid px = 0 then 0 else getegid px)"
    using ok by (auto simp: validate_private_environment_file_def expected_operator_identity_def split: if_splits)
  ultimately show ?thesis using path rd len parse by blast
qed

definition quiet_file :: file_stat where
  "quiet_file = \<lparr>st_dev = 1, st_ino = 2, st_mode = 33152, st_nlink = 1, st_uid = 1000, st_gid = 1000, st_size = 4,
     st_mtime_ns = 5, st_ctime_ns = 6\<rparr>"

definition quiet_kernel :: posix where
  "quiet_kernel = \<lparr>geteuid = 1000, getegid = 1000, has_nofollow = True, sys_open_root = (\<lambda>_. Inr 3),
     sys_open_dir = (\<lambda>_ _ _. Inl ELOOP), sys_open_file = (\<lambda>_ _ _. Inr 4),
     sys_fstat = (\<lambda>_ fd. Some (if fd = 3 then quiet_file\<lparr>st_mode := 16832\<rparr> else quiet_file)),
     sys_read = (\<lambda>n _ _. Some (if n = 5 then ''A=1'' @ [CHR 0x0A] else []))\<rparr>"

lemma quiet_read:
  "fst (read_private_environment quiet_kernel ''/x'' \<lparr>calls = 0, open_fds = []\<rparr>) = Inr [(''A'', ''1'')]"
proof -
  have c: "path_components ''/x'' = [''x'']" "parse_private_environment (''A=1'' @ [CHR 0x0A]) = Inr [(''A'', ''1'')]"
    by code_simp+
  show ?thesis
    using c(2)
    by (simp add: read_private_environment_def read_private_environment_with_identity_def read_private_environment_payload_def
        open_private_environment_def normalize_private_environment_path_def c(1) quiet_kernel_def quiet_file_def
        expected_operator_identity_def io_bind_def io_lift_def io_return_def io_finally_def io_mapexn_def os_open_def
        os_fstat_def os_close_def os_read_def validate_parent_directory_def validate_private_environment_file_def
        S_ISDIR_def S_ISREG_def S_IMODE_def MAX_FILE_BYTES_def read_chunks.simps Let_def)
qed

theorem private_environment_stable_file_witness:
  "\<exists>fd st t k1 k2 payload.
       sys_fstat quiet_kernel t fd = Some st \<and> calls k1 = Suc t \<and>
       read_chunks quiet_kernel fd (MAX_FILE_BYTES + 1) [] k1 = (Inr payload, k2) \<and>
       sys_fstat quiet_kernel (calls k2) fd = Some st \<and>
       parse_private_environment payload = Inr [(''A'', ''1'')]"
proof -
  obtain k' where "read_private_environment quiet_kernel ''/x'' \<lparr>calls = 0, open_fds = []\<rparr> = (Inr [(''A'', ''1'')], k')"
    using quiet_read by (metis prod.collapse)
  from private_environment_stable_file [OF this] show ?thesis by blast
qed

end
