(* ===== verification/Cutover_Host.thy ===== *)
theory Cutover_Host
  imports Private_Env "HOL-Library.AList"
begin

text \<open>
  The outside world of \<open>deploy/maintenance-cutover.py\<close> and the primitive steps of its controller:
  deadlines, commands, health probes, what \<open>docker\<close> and \<open>systemctl\<close> say, and the Nginx upstream.

  The host is a parameter that answers every operation of the controller, with a result or an
  exception, after some time. The state of the controller carries the clock in milliseconds, which
  only moves forward, and the trace of all operations with their answers, so that properties can
  say what was done, and what was seen, in which order.
\<close>

section \<open>Exceptions\<close>

text \<open>\<open>OtherError\<close> is any \<open>Exception\<close> that is not a \<open>CutoverError\<close>; \<open>KeyboardInterrupt\<close> is no
  \<open>Exception\<close>.\<close>

datatype cutover_exn =
    CutoverError pystr
  | UsageError pystr
  | WindowExpired pystr
  | CommandError pystr
  | TerminationRequested
  | OtherError
  | KeyboardInterrupt

type_synonym 'a out = "cutover_exn + 'a"

abbreviation cutover_error :: "pystr \<Rightarrow> 'a out" where
  "cutover_error msg \<equiv> Inl (CutoverError msg)"

section \<open>Operations and answers\<close>

datatype stage = Stable | Canary

record command =
  cmd_argv :: "pystr list"
  cmd_timeout :: int
  cmd_environment :: "(pystr \<times> pystr) list"
  cmd_allow_failure :: bool
  cmd_interactive :: bool

datatype op =
    Run command
  | Probe int pystr int
  | Sleep
  | ReadStage stage
  | ReplaceActive bytes
  | CheckActive
  | ReadActive
  | UnitSha256 pystr
  | EnvIdentity
  | WriteState pydict
  | ClearState
  | ResetTarget
  | CanaryOptions
  | SafeExport pystr
  | LiveDirectV1 pystr
  | RuntimeImages
  | LegacyRedisSource
  | TargetUrl

text \<open>An exit status with the output, bytes, a document, a database identity, an address with its
  port, or nothing.\<close>

datatype answer =
    Ran int bytes
  | Bytes bytes
  | Doc pydict
  | DbIdentity "pystr list"
  | Endpoint pystr int
  | Done

text \<open>An operation of the trace: when it was asked for, when it was answered, and the answer.\<close>

record event =
  issued :: int
  finished :: int
  what :: op
  answered :: "answer out"

record legacy_service =
  ls_name :: pystr
  ls_identity :: pystr

record cutover_options =
  co_env_file :: pystr
  co_verify_url :: pystr
  co_model :: pystr
  co_approved_hostname :: pystr
  co_app_path :: pystr
  co_postgres_path :: pystr
  co_redis_path :: pystr
  co_nginx_log_path :: pystr

record 'w site =
  h_call :: "op \<Rightarrow> 'w \<Rightarrow> answer out \<times> nat \<times> 'w"
  decode_utf8 :: "bytes \<Rightarrow> pystr option"
  json_document :: "pystr \<Rightarrow> pyval option"
  repo_dir :: pystr
  options :: cutover_options
  svc_app :: legacy_service
  svc_postgres :: legacy_service
  svc_redis :: legacy_service
  private_values :: "pystr \<Rightarrow> pystr option"
  keeps_state :: bool

record 'w ctl =
  world :: 'w
  now :: int
  trace :: "event list"
  deadline :: "int option"
  writer_stop_deadline :: "int option"
  migration_writes_stopped :: bool
  target_started :: bool
  nonce_target_started :: bool
  nonce_runtime_active :: bool
  writers_stopped :: bool
  canary_active :: bool
  target_identities :: "pystr \<Rightarrow> pystr option"
  recovery_identity_unavailable :: bool
  sync_fragment :: "pystr option"
  sync_fragment_sha256 :: "pystr option"
  private_env_identity :: "pydict option"
  export_source_database_identity :: "pystr list option"
  git_head :: "pystr option"

type_synonym ('a, 'w) cut = "'w ctl \<Rightarrow> 'a out \<times> 'w ctl"

definition ask :: "'w site \<Rightarrow> op \<Rightarrow> (answer, 'w) cut" where
  "ask su x st =
     (case h_call su x (world st) of
        (r, dt, w) \<Rightarrow>
          (r, st\<lparr>world := w, now := now st + int dt,
                trace := trace st @ [\<lparr>issued = now st, finished = now st + int dt, what = x, answered = r\<rparr>]\<rparr>))"

definition query :: "('w ctl \<Rightarrow> 'a out) \<Rightarrow> ('a, 'w) cut" where
  "query f st = (f st, st)"

definition update :: "('w ctl \<Rightarrow> 'w ctl) \<Rightarrow> (unit, 'w) cut" where
  "update f st = (Inr (), f st)"

definition cut_require :: "bool \<Rightarrow> pystr \<Rightarrow> (unit, 'w) cut" where
  "cut_require b msg = (if b then io_return () else io_raise (CutoverError msg))"

text \<open>An operation whose answer is only that it did not raise, and the text of a \<open>Bytes\<close> answer.\<close>

definition perform :: "'w site \<Rightarrow> op \<Rightarrow> (unit, 'w) cut" where
  "perform su x = io_bind (ask su x) (\<lambda>_. io_return ())"

definition ask_bytes :: "'w site \<Rightarrow> op \<Rightarrow> (bytes, 'w) cut" where
  "ask_bytes su x = io_bind (ask su x) (\<lambda>a. case a of Bytes b \<Rightarrow> io_return b | _ \<Rightarrow> io_raise OtherError)"

definition ask_doc :: "'w site \<Rightarrow> op \<Rightarrow> (pydict, 'w) cut" where
  "ask_doc su x = io_bind (ask su x) (\<lambda>a. case a of Doc d \<Rightarrow> io_return d | _ \<Rightarrow> io_raise OtherError)"

text \<open>\<open>sleeper(1)\<close> takes at least a second.\<close>

definition pause :: "'w site \<Rightarrow> (unit, 'w) cut" where
  "pause su = io_bind (update (\<lambda>st. st\<lparr>now := now st + 1000\<rparr>)) (\<lambda>_. perform su Sleep)"

section \<open>Commands\<close>

definition minimal_environment :: "(pystr \<times> pystr) list" where
  "minimal_environment =
     [(''PATH'', ''/usr/sbin:/usr/bin:/sbin:/bin''), (''HOME'', ''/root''), (''LANG'', ''C.UTF-8''),
      (''LC_ALL'', ''C.UTF-8''), (''TZ'', ''UTC''), (''PYTHONNOUSERSITE'', ''1''), (''GIT_CONFIG_NOSYSTEM'', ''1''),
      (''GIT_CONFIG_GLOBAL'', ''/dev/null''), (''GIT_CONFIG_SYSTEM'', ''/dev/null''), (''GIT_CONFIG_COUNT'', ''0''),
      (''GIT_TERMINAL_PROMPT'', ''0''), (''DOCKER_HOST'', ''unix:///var/run/docker.sock'')]"

definition SYNC_UNIT :: pystr where "SYNC_UNIT = ''sub2api-sync.service''"
definition TARGET_APP :: pystr where "TARGET_APP = ''sub2api-traffic-canary''"
definition TARGET_POSTGRES :: pystr where "TARGET_POSTGRES = ''sub2api-traffic-canary-postgres''"
definition TARGET_REDIS :: pystr where "TARGET_REDIS = ''sub2api-traffic-canary-redis''"
definition TARGET_NAMES :: "pystr list" where "TARGET_NAMES = [TARGET_APP, TARGET_POSTGRES, TARGET_REDIS]"
definition TARGET_NONCE_REDIS :: pystr where "TARGET_NONCE_REDIS = ''sub2api-sync-canary-redis-nonce''"
definition COMPOSE_PROJECT :: pystr where "COMPOSE_PROJECT = ''sub2api-gate-traffic-canary''"
definition COMPOSE_PROFILE :: pystr where "COMPOSE_PROFILE = ''traffic-canary''"
definition NONCE_COMPOSE_PROJECT :: pystr where "NONCE_COMPOSE_PROJECT = ''sub2api-gate-nonce-canary''"
definition NONCE_COMPOSE_PROFILE :: pystr where "NONCE_COMPOSE_PROFILE = ''nonce-canary''"
definition WINDOW_SECONDS :: int where "WINDOW_SECONDS = 180"
definition WRITER_STOP_SECONDS :: int where "WRITER_STOP_SECONDS = 60"
definition ROLLBACK_SECONDS :: int where "ROLLBACK_SECONDS = 120"

definition deploy_path :: "'w site \<Rightarrow> pystr \<Rightarrow> pystr" where
  "deploy_path su name = repo_dir su @ ''/deploy/'' @ name"

definition compose_prefix :: "'w site \<Rightarrow> pystr list" where
  "compose_prefix su =
     [''docker'', ''compose'', ''--project-name'', COMPOSE_PROJECT, ''--env-file'', co_env_file (options su),
      ''-f'', repo_dir su @ ''/docker-compose.traffic-canary.yml'']"

definition compose_command :: "'w site \<Rightarrow> pystr list \<Rightarrow> pystr list" where
  "compose_command su arguments = compose_prefix su @ [''--profile'', COMPOSE_PROFILE] @ arguments"

definition postgres_migration_compose_command :: "'w site \<Rightarrow> pystr list \<Rightarrow> pystr list" where
  "postgres_migration_compose_command su arguments =
     compose_prefix su @ [''-f'', repo_dir su @ ''/docker-compose.postgres-migration.yml'', ''--profile'', COMPOSE_PROFILE]
       @ arguments"

definition nonce_compose_command :: "'w site \<Rightarrow> bool \<Rightarrow> pystr list \<Rightarrow> pystr list" where
  "nonce_compose_command su migration arguments =
     [''docker'', ''compose'', ''--project-name'', NONCE_COMPOSE_PROJECT, ''--env-file'', co_env_file (options su),
      ''-f'', repo_dir su @ ''/docker-compose.nonce-canary.yml'']
     @ (if migration then [''-f'', repo_dir su @ ''/docker-compose.redis-migration.yml''] else [])
     @ [''--profile'', NONCE_COMPOSE_PROFILE] @ arguments"

definition privileged_python_command :: "'w site \<Rightarrow> pystr \<Rightarrow> pystr list \<Rightarrow> pystr list" where
  "privileged_python_command su script arguments =
     [''/usr/bin/python3'', ''-I'', deploy_path su script] @ arguments"

section \<open>Deadlines\<close>

text \<open>\<open>int(deadline - clock())\<close> in seconds; a difference below a second is no time.\<close>

definition remaining :: "'w ctl \<Rightarrow> int out" where
  "remaining st =
     (case deadline st of
        None \<Rightarrow> Inr 300
      | Some d \<Rightarrow> (let left = (d - now st) div 1000
                   in if left \<le> 0 then Inl (WindowExpired ''180-second maintenance window exceeded'') else Inr left))"

definition writer_stop_remaining :: "'w ctl \<Rightarrow> int option out" where
  "writer_stop_remaining st =
     (case writer_stop_deadline st of
        None \<Rightarrow> Inr None
      | Some d \<Rightarrow> (let left = (d - now st) div 1000
                   in if left \<le> 0 then Inl (WindowExpired ''60-second writer-stop deadline exceeded'') else Inr (Some left)))"

definition within :: "int \<Rightarrow> int option \<Rightarrow> int" where
  "within bound left = (case left of None \<Rightarrow> bound | Some l \<Rightarrow> min bound l)"

section \<open>Running a command\<close>

definition run_command :: "'w site \<Rightarrow> command \<Rightarrow> (int \<times> bytes, 'w) cut" where
  "run_command su cmd =
     io_bind (ask su (Run cmd)) (\<lambda>a. case a of Ran code stdout \<Rightarrow> io_return (code, stdout) | _ \<Rightarrow> io_raise OtherError)"

text \<open>\<open>self.runner(...)\<close> with the minimal environment, as the rollback calls it.\<close>

definition raw_run :: "'w site \<Rightarrow> pystr list \<Rightarrow> int \<Rightarrow> (int \<times> bytes, 'w) cut" where
  "raw_run su argv timeout =
     run_command su \<lparr>cmd_argv = argv, cmd_timeout = timeout, cmd_environment = minimal_environment,
       cmd_allow_failure = False, cmd_interactive = False\<rparr>"

fun private_environment :: "'w site \<Rightarrow> pystr list \<Rightarrow> (pystr \<times> pystr) list \<Rightarrow> (pystr \<times> pystr) list out" where
  "private_environment su [] env = Inr env"
| "private_environment su (key # keys) env =
     (case private_values su key of
        None \<Rightarrow> cutover_error ''required private step value is unavailable''
      | Some v \<Rightarrow> private_environment su keys (AList.update key v env))"

definition cut_run_with ::
  "'w site \<Rightarrow> pystr list \<Rightarrow> int option \<Rightarrow> bool \<Rightarrow> bool \<Rightarrow> pystr list \<Rightarrow> (int \<times> bytes, 'w) cut" where
  "cut_run_with su argv timeout allow_failure interactive private_keys =
     io_bind (query remaining) (\<lambda>left.
     io_bind (query writer_stop_remaining) (\<lambda>writer_left.
     io_bind (io_lift (private_environment su private_keys minimal_environment)) (\<lambda>env st.
       run_command su
         \<lparr>cmd_argv = argv, cmd_timeout = max 1 (within (within left timeout) writer_left),
          cmd_environment = (if migration_writes_stopped st
            then AList.update ''SUB2API_MIGRATION_WRITES_STOPPED'' ''YES'' env else env),
          cmd_allow_failure = allow_failure, cmd_interactive = interactive\<rparr> st)))"

definition cut_run :: "'w site \<Rightarrow> pystr list \<Rightarrow> int \<Rightarrow> (int \<times> bytes, 'w) cut" where
  "cut_run su argv timeout = cut_run_with su argv (Some timeout) False False []"

definition cut_try :: "'w site \<Rightarrow> pystr list \<Rightarrow> int \<Rightarrow> (int \<times> bytes, 'w) cut" where
  "cut_try su argv timeout = cut_run_with su argv (Some timeout) True False []"

definition probe_health :: "'w site \<Rightarrow> int \<Rightarrow> pystr \<Rightarrow> (unit, 'w) cut" where
  "probe_health su port path =
     io_bind (query remaining) (\<lambda>left.
     io_bind (query writer_stop_remaining) (\<lambda>writer_left.
       perform su (Probe port path (max 1 (within (min 5 left) writer_left)))))"

definition decode_stdout :: "'w site \<Rightarrow> bytes \<Rightarrow> pystr out" where
  "decode_stdout su stdout =
     (case decode_utf8 su stdout of
        None \<Rightarrow> cutover_error ''local command returned invalid text''
      | Some t \<Rightarrow> Inr (strip t))"

section \<open>What docker says\<close>

definition container_id_ok :: "pystr \<Rightarrow> bool" where
  "container_id_ok s \<longleftrightarrow> length s = 64 \<and> list_all is_hex s"

definition inspect_format :: pystr where
  "inspect_format = ''{{.Id}}|{{.Name}}|{{.State.Running}}|{{if .State.Health}}{{.State.Health.Status}}{{else}}none{{end}}''"

text \<open>The identity, whether the container runs, and its health.\<close>

definition parse_runtime :: "pystr \<Rightarrow> pystr option \<Rightarrow> pystr \<Rightarrow> (pystr \<times> bool \<times> pystr) out" where
  "parse_runtime expected_name expected_identity text =
     (case split_on (CHR ''|'') text of
        [identity, actual_name, running, health] \<Rightarrow>
          (if \<not> container_id_ok identity \<or> actual_name \<noteq> ''/'' @ expected_name
              \<or> (expected_identity \<noteq> None \<and> expected_identity \<noteq> Some identity)
              \<or> running \<notin> {''true'', ''false''} \<or> health \<notin> {''none'', ''starting'', ''healthy'', ''unhealthy''}
           then cutover_error ''container identity or runtime state changed''
           else Inr (identity, running = ''true'', health))
      | _ \<Rightarrow> cutover_error ''container identity or runtime state is invalid'')"

definition inspect_container_runtime ::
  "'w site \<Rightarrow> pystr \<Rightarrow> pystr \<Rightarrow> pystr option \<Rightarrow> bool \<Rightarrow> ((pystr \<times> bool \<times> pystr) option, 'w) cut" where
  "inspect_container_runtime su reference expected_name expected_identity allow_missing =
     io_bind (cut_run_with su [''docker'', ''inspect'', ''--format'', inspect_format, reference] (Some 10) allow_missing False [])
       (\<lambda>(code, stdout).
         if code \<noteq> 0 then io_return None
         else io_bind (io_lift (decode_stdout su stdout)) (\<lambda>text.
              io_bind (io_lift (parse_runtime expected_name expected_identity text)) (\<lambda>r. io_return (Some r))))"

definition docker_state :: "'w site \<Rightarrow> legacy_service \<Rightarrow> (bool \<times> pystr, 'w) cut" where
  "docker_state su service =
     io_bind (inspect_container_runtime su (ls_identity service) (ls_name service) (Some (ls_identity service)) False)
       (\<lambda>r. case r of Some (_, running, health) \<Rightarrow> io_return (running, health) | None \<Rightarrow> io_raise OtherError)"

definition require_legacy :: "'w site \<Rightarrow> legacy_service \<Rightarrow> bool \<Rightarrow> bool \<Rightarrow> (unit, 'w) cut" where
  "require_legacy su service running healthy =
     io_bind (docker_state su service) (\<lambda>(actual, health).
     io_bind (cut_require (actual = running) ''legacy container runtime state is unexpected'') (\<lambda>_.
       cut_require (\<not> healthy \<or> health = ''healthy'') ''legacy data container is not rollback-ready''))"

definition target_exists :: "'w site \<Rightarrow> pystr \<Rightarrow> (bool, 'w) cut" where
  "target_exists su name =
     io_bind (cut_try su [''docker'', ''inspect'', ''--format'', ''{{.Id}}'', name] 10) (\<lambda>(code, stdout).
       if code \<noteq> 0 then io_return False
       else io_bind (io_lift (decode_stdout su stdout)) (\<lambda>identity.
            io_bind (cut_require (container_id_ok identity) ''target container identity is invalid'') (\<lambda>_.
              io_return True)))"

definition legacy_identities :: "'w site \<Rightarrow> pystr list" where
  "legacy_identities su = map ls_identity [svc_app su, svc_postgres su, svc_redis su]"

definition pin_target_identity :: "'w site \<Rightarrow> pystr \<Rightarrow> (pystr, 'w) cut" where
  "pin_target_identity su name =
     (if name \<notin> set TARGET_NAMES then io_raise (CutoverError ''unknown migrated-target container'')
      else io_bind (inspect_container_runtime su name name None False) (\<lambda>r st.
        case r of
          None \<Rightarrow> (Inl OtherError, st)
        | Some (identity, _, _) \<Rightarrow>
            if target_identities st name \<notin> {None, Some identity}
            then (cutover_error ''migrated-target container identity changed'', st)
            else if list_ex (\<lambda>other. other \<noteq> name \<and> target_identities st other = Some identity) TARGET_NAMES
                 \<or> identity \<in> set (legacy_identities su)
            then (cutover_error ''migrated-target container identity aliases another service'', st)
            else (Inr identity, st\<lparr>target_identities := (target_identities st)(name \<mapsto> identity)\<rparr>)))"

definition target_state :: "'w site \<Rightarrow> pystr \<Rightarrow> (bool \<times> pystr, 'w) cut" where
  "target_state su name st =
     (case target_identities st name of
        None \<Rightarrow> (cutover_error ''migrated-target container identity is not pinned'', st)
      | Some identity \<Rightarrow>
          io_bind (inspect_container_runtime su identity name (Some identity) False)
            (\<lambda>r. case r of Some (_, running, health) \<Rightarrow> io_return (running, health) | None \<Rightarrow> io_raise OtherError) st)"

definition require_target :: "'w site \<Rightarrow> pystr \<Rightarrow> bool \<Rightarrow> bool \<Rightarrow> (unit, 'w) cut" where
  "require_target su name running healthy =
     io_bind (target_state su name) (\<lambda>(actual, health).
     io_bind (cut_require (actual = running) ''migrated-target container runtime state is unexpected'') (\<lambda>_.
       cut_require (\<not> healthy \<or> health = ''healthy'') ''migrated-target container is not healthy''))"

fun cut_each :: "('a \<Rightarrow> (unit, 'w) cut) \<Rightarrow> 'a list \<Rightarrow> (unit, 'w) cut" where
  "cut_each f [] = io_return ()"
| "cut_each f (x # xs) = io_bind (f x) (\<lambda>_. cut_each f xs)"

definition require_all_targets :: "'w site \<Rightarrow> bool \<Rightarrow> (unit, 'w) cut" where
  "require_all_targets su healthy = cut_each (\<lambda>name. require_target su name True healthy) TARGET_NAMES"

end
