(* ===== verification/Cutover.thy ===== *)
theory Cutover
  imports Cutover_Host
begin

text \<open>
  The controller of \<open>deploy/maintenance-cutover.py\<close>: the Nginx switch, the recovery state, the
  phases of a cutover, its rollback, and \<open>execute\<close>, which ties them together.
\<close>

section \<open>Time moves forward\<close>

definition forward :: "('w ctl \<Rightarrow> 'r \<times> 'w ctl) \<Rightarrow> bool" where
  "forward m \<longleftrightarrow> (\<forall>st. now st \<le> now (snd (m st)))"

named_theorems forwards "actions under which the clock does not go back"

lemma forward_ask [forwards, simp]: "forward (ask su x)"
  by (auto simp: forward_def ask_def split: prod.splits)

lemma forward_basic [forwards, simp]:
  "forward (io_return a)" "forward (io_raise e)" "forward (io_lift r)" "forward (query f)" "forward (cut_require b msg)"
  by (simp_all add: forward_def io_return_def io_raise_def io_lift_def query_def cut_require_def)

lemma forward_run: "forward m \<Longrightarrow> m st = (r, st') \<Longrightarrow> now st \<le> now st'"
  unfolding forward_def by (metis snd_conv)

lemma forward_bind [forwards]:
  assumes "forward m" and "\<And>a. forward (f a)"
  shows "forward (io_bind m f)"
  unfolding forward_def
proof
  fix st
  obtain r st1 where m: "m st = (r, st1)" by (rule prod.exhaust)
  note le = forward_run [OF assms(1) m]
  show "now st \<le> now (snd (io_bind m f st))"
  proof (cases r)
    case (Inr a)
    have "now st1 \<le> now (snd (f a st1))" using assms(2) by (simp add: forward_def)
    with le m Inr show ?thesis by (simp add: io_bind_def)
  qed (use le m in \<open>simp add: io_bind_def\<close>)
qed

lemma forward_command [forwards, simp]: "forward (run_command su cmd)"
  unfolding run_command_def by (intro forward_bind) (auto split: answer.split)

lemma forward_command_st: "forward (\<lambda>st. run_command su (c st) st)"
  using forward_command unfolding forward_def by blast

lemma forward_cut_run [forwards, simp]: "forward (cut_run_with su argv t a i keys)"
  unfolding cut_run_with_def by (rule forward_bind forward_basic forward_command_st)+

lemma forward_inspect [forwards, simp]: "forward (inspect_container_runtime su r n i a)"
  unfolding inspect_container_runtime_def by (auto intro!: forward_bind)

lemma forward_docker_state [forwards, simp]: "forward (docker_state su s)"
  unfolding docker_state_def by (auto intro!: forward_bind split: option.splits)

lemma forward_target_state [forwards, simp]: "forward (target_state su name)"
proof -
  have "forward (\<lambda>st. case i of None \<Rightarrow> (cutover_error ''migrated-target container identity is not pinned'', st)
      | Some identity \<Rightarrow> io_bind (inspect_container_runtime su identity name (Some identity) False)
          (\<lambda>r. case r of Some (_, running, health) \<Rightarrow> io_return (running, health) | None \<Rightarrow> io_raise OtherError) st)" for i
    by (cases i) (auto simp: forward_def [of "\<lambda>st. (_, st)"] intro!: forward_bind split: option.splits)
  then show ?thesis unfolding forward_def target_state_def by blast
qed

lemma pause_later: "pause su st = (r, st') \<Longrightarrow> now st + 1000 \<le> now st'"
  by (auto simp: pause_def perform_def update_def io_bind_def io_return_def ask_def split: prod.splits sum.splits)

section \<open>Waiting\<close>

text \<open>One look at a target: the pinned ones by their identity, the nonce Redis by its name.\<close>

definition target_healthy :: "'w site \<Rightarrow> pystr \<Rightarrow> (bool, 'w) cut" where
  "target_healthy su name =
     (if name \<in> set TARGET_NAMES then
        io_bind (target_state su name) (\<lambda>(running, health). io_return (running \<and> health = ''healthy''))
      else
        io_bind (cut_run su [''docker'', ''inspect'', ''--format'',
            ''{{.State.Running}}|{{if .State.Health}}{{.State.Health.Status}}{{else}}none{{end}}'', name] 10) (\<lambda>(_, stdout).
        io_bind (io_lift (decode_stdout su stdout)) (\<lambda>text. io_return (text = ''true|healthy''))))"

lemma forward_target_healthy [forwards, simp]: "forward (target_healthy su name)"
  unfolding target_healthy_def cut_run_def by (auto intro!: forward_bind)

function wait_loop :: "'w site \<Rightarrow> pystr \<Rightarrow> int \<Rightarrow> 'w ctl \<Rightarrow> unit out \<times> 'w ctl" where
  "wait_loop su name until st =
     (case target_healthy su name st of
        (Inl e, st1) \<Rightarrow> (Inl e, st1)
      | (Inr ok, st1) \<Rightarrow>
          if ok then (Inr (), st1)
          else if now st1 \<ge> until then (cutover_error ''migrated-target container did not become healthy'', st1)
          else (case pause su st1 of
              (Inl e, st2) \<Rightarrow> (Inl e, st2)
            | (Inr _, st2) \<Rightarrow> wait_loop su name until st2))"
  by pat_completeness auto
termination
proof (relation "measure (\<lambda>(su, name, until, st). nat (until - now st))")
  fix su :: "'w site" and name until st x st1 ok y st2 z
  assume "(x, st1) = target_healthy su name st" "\<not> until \<le> now st1" "(y, st2) = pause su st1"
  then have "now st \<le> now st1" "now st1 + 1000 \<le> now st2" "now st1 < until"
    using forward_run [OF forward_target_healthy] pause_later by (metis, metis, simp)
  then show "((su, name, until, st2), su, name, until, st) \<in> measure (\<lambda>(su, name, until, st). nat (until - now st))"
    by simp
qed simp

declare wait_loop.simps [simp del]

definition wait_target_healthy :: "'w site \<Rightarrow> pystr \<Rightarrow> (unit, 'w) cut" where
  "wait_target_healthy su name =
     io_bind (\<lambda>st. if name \<in> set TARGET_NAMES \<and> target_identities st name = None
                   then io_bind (pin_target_identity su name) (\<lambda>_. io_return ()) st else (Inr (), st)) (\<lambda>_.
     io_bind (query remaining) (\<lambda>left st. wait_loop su name (now st + 1000 * min 90 left) st))"

section \<open>Documents\<close>

definition cutover_same_dict :: "pydict \<Rightarrow> pydict \<Rightarrow> bool" where
  "cutover_same_dict a b \<longleftrightarrow> set (map fst a) = set (map fst b) \<and> list_all (\<lambda>(k, _). dget a k = dget b k) a"

definition text_of :: "pyval \<Rightarrow> pystr option" where
  "text_of v = (case v of PStr s \<Rightarrow> Some s | _ \<Rightarrow> None)"

definition dict_of :: "pyval \<Rightarrow> pydict" where
  "dict_of v = (case v of PDict d \<Rightarrow> d | _ \<Rightarrow> [])"

definition text_ok :: "(pystr \<Rightarrow> bool) \<Rightarrow> pyval \<Rightarrow> bool" where
  "text_ok P v = (case v of PStr s \<Rightarrow> P s | _ \<Rightarrow> False)"

definition name_char :: "char \<Rightarrow> bool" where
  "name_char c \<longleftrightarrow> is_alnum c \<or> c \<in> set ''_.-''"

definition container_name_ok :: "pystr \<Rightarrow> bool" where
  "container_name_ok s \<longleftrightarrow> s \<noteq> [] \<and> is_alnum (hd s) \<and> length s \<le> 128 \<and> list_all name_char s"

definition git_head_ok :: "pystr \<Rightarrow> bool" where
  "git_head_ok s \<longleftrightarrow> length s \<in> {40, 64} \<and> list_all is_hex s"

definition sha256_ok :: "pystr \<Rightarrow> bool" where
  "sha256_ok s \<longleftrightarrow> length s = 64 \<and> list_all is_hex s"

definition CUTOVER_STATE_PHASES :: "pystr list" where
  "CUTOVER_STATE_PHASES = [''preflight_targets_starting'', ''preflight_nonce_starting'', ''ready_to_stop_writers'',
     ''writers_stopped'', ''migrating'', ''starting_target'', ''switching_nginx'', ''rollback_incomplete'']"

definition MAX_PRIVATE_ENV_BYTES :: int where "MAX_PRIVATE_ENV_BYTES = 128 * 1024"

definition state_fields :: "pystr list" where
  "state_fields = [''version'', ''phase'', ''git_head'', ''env_file'', ''env_file_identity'', ''sync_fragment'',
     ''sync_fragment_sha256'', ''legacy'', ''targets'', ''target_started'', ''nonce_target_started'',
     ''nonce_runtime_active'', ''writers_stopped'', ''canary_active'']"

definition identity_fields :: "pystr list" where
  "identity_fields = [''device'', ''inode'', ''mode'', ''links'', ''uid'', ''gid'', ''size'', ''modified_ns'', ''changed_ns'']"

definition legacy_value_ok :: "pyval \<Rightarrow> bool" where
  "legacy_value_ok v =
     (case v of
        PDict d \<Rightarrow> same_fields d [''name'', ''identity''] \<and> text_ok container_name_ok (dget d ''name'')
          \<and> text_ok container_id_ok (dget d ''identity'')
      | _ \<Rightarrow> False)"

definition legacy_ok :: "pyval \<Rightarrow> bool" where
  "legacy_ok v = (case v of PDict d \<Rightarrow> same_fields d [''app'', ''postgres'', ''redis''] \<and> list_all (\<lambda>(_, x). legacy_value_ok x) d | _ \<Rightarrow> False)"

definition targets_ok :: "pyval \<Rightarrow> bool" where
  "targets_ok v =
     (case v of
        PDict d \<Rightarrow> same_fields d TARGET_NAMES \<and> list_all (\<lambda>(_, x). x = PNone \<or> text_ok container_id_ok x) d
      | _ \<Rightarrow> False)"

definition identities_apart :: "pydict \<Rightarrow> pydict \<Rightarrow> bool" where
  "identities_apart targets legacy \<longleftrightarrow>
     (let ts = filter (\<lambda>v. v \<noteq> PNone) (map snd targets);
          ls = map (\<lambda>(_, v). dget (dict_of v) ''identity'') legacy
      in distinct ts \<and> set ts \<inter> set ls = {})"

definition identity_integer :: "pydict \<Rightarrow> pystr \<Rightarrow> int option" where
  "identity_integer d name = (case dget d name of PInt i \<Rightarrow> if 0 \<le> i \<and> i \<le> 2 ^ 64 - 1 then Some i else None | _ \<Rightarrow> None)"

definition env_identity_ok :: "pyval \<Rightarrow> bool" where
  "env_identity_ok v =
     (case v of
        PDict d \<Rightarrow>
          same_fields d identity_fields \<and> list_all (\<lambda>name. identity_integer d name \<noteq> None) identity_fields
          \<and> dget d ''mode'' = PInt 33152 \<and> dget d ''links'' = PInt 1
          \<and> (case (dget d ''uid'', dget d ''gid'', dget d ''size'') of
               (PInt uid, PInt gid, PInt n) \<Rightarrow> uid \<le> 2 ^ 32 - 1 \<and> gid \<le> 2 ^ 32 - 1 \<and> n \<le> MAX_PRIVATE_ENV_BYTES
             | _ \<Rightarrow> False)
      | _ \<Rightarrow> False)"

fun is_three :: "pyval \<Rightarrow> bool" where
  "is_three (PInt i) = (i = 3)"
| "is_three (PFloat f) = (float_repr f = ''3.0'')"
| "is_three _ = False"

fun is_bool :: "pyval \<Rightarrow> bool" where
  "is_bool (PBool _) = True"
| "is_bool _ = False"

text \<open>\<open>pathlib.PurePosixPath(p).name\<close> of a path with a root.\<close>

definition path_name :: "pystr \<Rightarrow> pystr" where
  "path_name p = (case rev (path_components p) of [] \<Rightarrow> [] | c # _ \<Rightarrow> c)"

definition validate_cutover_state_document :: "pyval \<Rightarrow> pydict out" where
  "validate_cutover_state_document document =
     (case document of
        PDict d \<Rightarrow>
          if \<not> same_fields d state_fields then cutover_error ''maintenance recovery state has an invalid shape''
          else if \<not> legacy_ok (dget d ''legacy'')
          then cutover_error ''maintenance recovery state has invalid legacy identities''
          else if \<not> targets_ok (dget d ''targets'')
          then cutover_error ''maintenance recovery state has invalid target identities''
          else if \<not> identities_apart (dict_of (dget d ''targets'')) (dict_of (dget d ''legacy''))
          then cutover_error ''maintenance recovery state has aliased target identities''
          else if \<not> is_three (dget d ''version'')
             \<or> \<not> text_ok (\<lambda>s. s \<in> set CUTOVER_STATE_PHASES) (dget d ''phase'')
             \<or> \<not> text_ok git_head_ok (dget d ''git_head'')
             \<or> \<not> text_ok (\<lambda>s. prefix ''/'' s \<and> CHR 0x00 \<notin> set s) (dget d ''env_file'')
             \<or> \<not> env_identity_ok (dget d ''env_file_identity'')
             \<or> \<not> text_ok (\<lambda>s. prefix ''/'' s \<and> path_name s = SYNC_UNIT) (dget d ''sync_fragment'')
             \<or> \<not> text_ok sha256_ok (dget d ''sync_fragment_sha256'')
             \<or> list_ex (\<lambda>name. \<not> is_bool (dget d name))
                 [''target_started'', ''nonce_target_started'', ''nonce_runtime_active'', ''writers_stopped'', ''canary_active'']
          then cutover_error ''maintenance recovery state is invalid''
          else Inr d
      | _ \<Rightarrow> cutover_error ''maintenance recovery state has an invalid shape'')"

section \<open>The sync unit\<close>

fun unit_lines :: "pystr list \<Rightarrow> (pystr \<times> pystr) list \<Rightarrow> (pystr \<times> pystr) list out" where
  "unit_lines [] values = Inr values"
| "unit_lines (line # lines) values =
     (case partition_on (CHR ''='') line of
        (key, separator, value) \<Rightarrow>
          if \<not> separator \<or> key \<in> set (map fst values) then cutover_error ''legacy sync unit metadata is invalid''
          else unit_lines lines (values @ [(key, value)]))"

definition unit_metadata :: "'w site \<Rightarrow> (pystr, 'w) cut" where
  "unit_metadata su =
     io_bind (cut_run su [''/usr/bin/systemctl'', ''show'', SYNC_UNIT, ''--property=Id'', ''--property=LoadState'',
                ''--property=FragmentPath''] 10) (\<lambda>(_, stdout).
     io_bind (io_lift (decode_stdout su stdout)) (\<lambda>text.
     io_bind (io_lift (unit_lines (splitlines text) [])) (\<lambda>values.
       let fragment = (case map_of values ''FragmentPath'' of None \<Rightarrow> [] | Some f \<Rightarrow> f)
       in if map_of values ''Id'' \<noteq> Some SYNC_UNIT \<or> map_of values ''LoadState'' \<noteq> Some ''loaded''
             \<or> \<not> prefix ''/'' fragment \<or> path_name fragment \<noteq> SYNC_UNIT
          then io_raise (CutoverError ''legacy sync unit identity is invalid'')
          else io_return fragment)))"

definition unit_active :: "'w site \<Rightarrow> (bool, 'w) cut" where
  "unit_active su =
     io_bind (cut_try su [''/usr/bin/systemctl'', ''is-active'', ''--quiet'', SYNC_UNIT] 10) (\<lambda>(code, _).
     io_bind (cut_require (code \<in> {0, 3}) ''legacy sync unit state could not be verified'') (\<lambda>_.
       io_return (code = 0)))"

section \<open>Nginx\<close>

definition stage_payload :: "stage \<Rightarrow> bytes" where
  "stage_payload s = (case s of Stable \<Rightarrow> ''server 127.0.0.1:8080;'' | Canary \<Rightarrow> ''server 127.0.0.1:8081;'') @ [CHR 0x0A]"

definition stage_bytes :: "'w site \<Rightarrow> stage \<Rightarrow> (bytes, 'w) cut" where
  "stage_bytes su s =
     io_bind (ask_bytes su (ReadStage s)) (\<lambda>payload.
     io_bind (cut_require (payload = stage_payload s) ''tracked Nginx upstream is not the reviewed fixed target'') (\<lambda>_.
       io_return payload))"

definition require_stage :: "'w site \<Rightarrow> stage \<Rightarrow> (unit, 'w) cut" where
  "require_stage su s =
     io_bind (perform su CheckActive) (\<lambda>_.
     io_bind (ask_bytes su ReadActive) (\<lambda>active.
     io_bind (stage_bytes su s) (\<lambda>payload.
       cut_require (active = payload) ''active Nginx upstream is not the fixed target'')))"

definition verify_live_direct_v1 :: "'w site \<Rightarrow> (unit, 'w) cut" where
  "verify_live_direct_v1 su =
     io_bind (io_mapexn (\<lambda>e. if e = KeyboardInterrupt then e
                 else CutoverError ''live Nginx /v1 path is not the reviewed capture-free direct proxy'')
               (perform su (LiveDirectV1 (co_approved_hostname (options su))))) (\<lambda>_.
       require_stage su Stable)"

text \<open>\<open>command_timeout\<close> of \<open>switch\<close>.\<close>

definition switch_timeout :: "int \<Rightarrow> int option \<Rightarrow> 'w ctl \<Rightarrow> int out" where
  "switch_timeout timeout until st =
     (case until of
        None \<Rightarrow> Inr (max 1 timeout)
      | Some d \<Rightarrow>
          (let left = (d - now st) div 1000
           in if left \<le> 0 then Inl (WindowExpired ''60-second writer-stop deadline exceeded'')
              else Inr (max 1 (min timeout left))))"

definition nginx_switch :: "'w site \<Rightarrow> stage \<Rightarrow> int \<Rightarrow> int option \<Rightarrow> (unit, 'w) cut" where
  "nginx_switch su s timeout until =
     io_bind (query (switch_timeout timeout until)) (\<lambda>_.
     io_bind (stage_bytes su s) (\<lambda>payload.
     io_bind (perform su (ReplaceActive payload)) (\<lambda>_.
     io_bind (perform su CheckActive) (\<lambda>_.
     io_bind (query (switch_timeout timeout until)) (\<lambda>t1.
     io_bind (raw_run su [''/usr/sbin/nginx'', ''-t''] t1) (\<lambda>_.
     io_bind (query (switch_timeout timeout until)) (\<lambda>t2.
     io_bind (raw_run su [''/usr/bin/systemctl'', ''reload'', ''nginx''] t2) (\<lambda>_.
       require_stage su s))))))))"

section \<open>The recovery state\<close>

definition opt_text :: "pystr option \<Rightarrow> pyval" where
  "opt_text x = (case x of None \<Rightarrow> PNone | Some s \<Rightarrow> PStr s)"

definition service_document :: "legacy_service \<Rightarrow> pyval" where
  "service_document s = PDict [(''name'', PStr (ls_name s)), (''identity'', PStr (ls_identity s))]"

definition recovery_state_document :: "'w site \<Rightarrow> pystr \<Rightarrow> 'w ctl \<Rightarrow> pydict out" where
  "recovery_state_document su phase st =
     (case (git_head st, private_env_identity st, sync_fragment st, sync_fragment_sha256 st) of
        (Some head, Some identity, Some fragment, Some sha) \<Rightarrow>
          Inr [(''version'', PInt 3), (''phase'', PStr phase), (''git_head'', PStr head),
               (''env_file'', PStr (co_env_file (options su))), (''env_file_identity'', PDict identity),
               (''sync_fragment'', PStr fragment), (''sync_fragment_sha256'', PStr sha),
               (''legacy'', PDict [(''app'', service_document (svc_app su)),
                  (''postgres'', service_document (svc_postgres su)), (''redis'', service_document (svc_redis su))]),
               (''targets'', PDict (map (\<lambda>name. (name, opt_text (target_identities st name))) TARGET_NAMES)),
               (''target_started'', PBool (target_started st)), (''nonce_target_started'', PBool (nonce_target_started st)),
               (''nonce_runtime_active'', PBool (nonce_runtime_active st)), (''writers_stopped'', PBool (writers_stopped st)),
               (''canary_active'', PBool (canary_active st))]
      | _ \<Rightarrow> cutover_error ''maintenance recovery identity is incomplete'')"

definition require_private_env_identity :: "'w site \<Rightarrow> (unit, 'w) cut" where
  "require_private_env_identity su st =
     (case private_env_identity st of
        None \<Rightarrow> (Inr (), st)
      | Some pinned \<Rightarrow>
          io_bind (ask_doc su EnvIdentity) (\<lambda>identity.
            cut_require (cutover_same_dict identity pinned) ''maintenance private environment identity changed'') st)"

definition require_recovery_identity :: "'w site \<Rightarrow> (unit, 'w) cut" where
  "require_recovery_identity su st =
     (if recovery_identity_unavailable st then (cutover_error ''maintenance cleanup identity is unavailable'', st)
      else if private_env_identity st = None \<and> sync_fragment_sha256 st = None then (Inr (), st)
      else
        io_bind (require_private_env_identity su) (\<lambda>_.
        io_bind (case (sync_fragment st, sync_fragment_sha256 st) of
            (Some fragment, Some sha) \<Rightarrow>
              io_bind (ask_bytes su (UnitSha256 fragment)) (\<lambda>current.
                cut_require (current = sha) ''maintenance recovery filesystem identity changed'')
          | _ \<Rightarrow> io_raise (CutoverError ''maintenance recovery filesystem identity changed'')) (\<lambda>_.
        io_bind (unit_metadata su) (\<lambda>current.
          cut_require (Some current = sync_fragment st) ''legacy sync unit identity changed''))) st)"

definition persist_recovery_state :: "'w site \<Rightarrow> pystr \<Rightarrow> (unit, 'w) cut" where
  "persist_recovery_state su phase =
     (if \<not> keeps_state su then io_return ()
      else io_bind (require_recovery_identity su) (\<lambda>_.
           io_bind (query (recovery_state_document su phase)) (\<lambda>document.
           io_bind (io_lift (validate_cutover_state_document (PDict document))) (\<lambda>_.
             perform su (WriteState document)))))"

definition clear_recovery_state :: "'w site \<Rightarrow> (unit, 'w) cut" where
  "clear_recovery_state su = (if \<not> keeps_state su then io_return () else perform su ClearState)"

definition flag :: "pydict \<Rightarrow> pystr \<Rightarrow> bool" where
  "flag d name = (dget d name = PBool True)"

definition same_service :: "pyval \<Rightarrow> legacy_service \<Rightarrow> bool" where
  "same_service v s = (case v of PDict d \<Rightarrow> cutover_same_dict d (dict_of (service_document s)) | _ \<Rightarrow> False)"

text \<open>The documents that reach \<open>restore_recovery_state\<close> are those that \<open>load_cutover_state\<close>
  validated.\<close>

definition restore_recovery_state :: "'w site \<Rightarrow> pydict \<Rightarrow> (unit, 'w) cut" where
  "restore_recovery_state su document st =
     (if text_of (dget document ''git_head'') \<noteq> git_head st
         \<or> dget document ''env_file'' \<noteq> PStr (co_env_file (options su))
      then (cutover_error ''maintenance recovery state does not match this release'', st)
      else if list_ex (\<lambda>(name, service). \<not> same_service (dget (dict_of (dget document ''legacy'')) name) service)
                [(''app'', svc_app su), (''postgres'', svc_postgres su), (''redis'', svc_redis su)]
      then (cutover_error ''maintenance recovery state legacy identity mismatch'', st)
      else
        (let identity = dict_of (dget document ''env_file_identity'');
             targets = dict_of (dget document ''targets'')
         in (Inr (), st\<lparr>
              recovery_identity_unavailable := recovery_identity_unavailable st
                \<or> (case private_env_identity st of None \<Rightarrow> False | Some own \<Rightarrow> \<not> cutover_same_dict identity own),
              private_env_identity := Some identity,
              target_identities := (\<lambda>name. text_of (dget targets name)),
              sync_fragment := text_of (dget document ''sync_fragment''),
              sync_fragment_sha256 := text_of (dget document ''sync_fragment_sha256''),
              target_started := flag document ''target_started'',
              nonce_target_started := flag document ''nonce_target_started'',
              nonce_runtime_active := flag document ''nonce_runtime_active'',
              writers_stopped := flag document ''writers_stopped'',
              canary_active := flag document ''canary_active''\<rparr>)))"

section \<open>Preflight\<close>

definition quoted :: "pystr \<Rightarrow> pystr" where
  "quoted s = [CHR 0x27] @ s @ [CHR 0x27]"

definition POSTGRES_DATABASE_IDENTITY_SQL :: pystr where
  "POSTGRES_DATABASE_IDENTITY_SQL =
     ''SELECT system_identifier::text || '' @ quoted ''|'' @ '' || d.oid::text || '' @ quoted ''|'' @ '' || ''
     @ ''pg_catalog.encode(pg_catalog.convert_to(pg_catalog.current_database(), ''
     @ quoted ''UTF8'' @ ''), '' @ quoted ''hex'' @ '') FROM pg_catalog.pg_control_system() ''
     @ ''CROSS JOIN pg_catalog.pg_database AS d ''
     @ ''WHERE d.datname = pg_catalog.current_database()''"

definition digits_ok :: "nat \<Rightarrow> nat \<Rightarrow> pystr \<Rightarrow> bool" where
  "digits_ok least most s \<longleftrightarrow> least \<le> length s \<and> length s \<le> most \<and> list_all is_digit s"

definition database_identity :: "'w site \<Rightarrow> bytes \<Rightarrow> pystr list out" where
  "database_identity su stdout =
     (case decode_stdout su stdout of
        Inl e \<Rightarrow> Inl e
      | Inr text \<Rightarrow>
          (let bad = cutover_error ''PostgreSQL endpoint identity query was invalid''
           in case split_on (CHR ''|'') text of
                [system_identifier, oid, name_hex] \<Rightarrow>
                  if \<not> digits_ok 10 24 system_identifier \<or> \<not> digits_ok 1 10 oid \<or> digits_val oid > 4294967295
                     \<or> name_hex = [] \<or> odd (length name_hex) \<or> length name_hex > 126 \<or> \<not> list_all is_hex name_hex
                  then bad else Inr [system_identifier, oid, name_hex]
              | _ \<Rightarrow> bad))"

definition exact_binding :: "pyval \<Rightarrow> bool" where
  "exact_binding v =
     (case v of
        PList [PDict d] \<Rightarrow> cutover_same_dict d [(''HostIp'', PStr ''127.0.0.1''), (''HostPort'', PStr ''15432'')]
      | _ \<Rightarrow> False)"

definition database_of_source :: "'w site \<Rightarrow> pystr list" where
  "database_of_source su =
     privileged_python_command su ''source-postgres-exec.py''
       [''--env-file'', co_env_file (options su), ''--source-app-container'', ls_name (svc_app su), ''--source-app-id'',
        ls_identity (svc_app su), ''--source-postgres-container'', ls_name (svc_postgres su), ''--source-postgres-id'',
        ls_identity (svc_postgres su), ''--source-app-state'', ''running'', ''identity'']"

text \<open>The identity of the source database; that of the target is asked for and checked.\<close>

definition verify_database_connections :: "'w site \<Rightarrow> (pystr list, 'w) cut" where
  "verify_database_connections su =
     io_bind (require_private_env_identity su) (\<lambda>_.
     io_bind (cut_run su (database_of_source su) 30) (\<lambda>(_, out1).
     io_bind (io_lift (database_identity su out1)) (\<lambda>source.
     io_bind (require_private_env_identity su) (\<lambda>_.
     io_bind (ask su TargetUrl) (\<lambda>a.
     io_bind (case a of Endpoint h p \<Rightarrow> io_return (h, p) | _ \<Rightarrow> io_raise OtherError) (\<lambda>(address, port).
     io_bind (query (\<lambda>st. case target_identities st TARGET_POSTGRES of None \<Rightarrow> Inl OtherError | Some i \<Rightarrow> Inr i)) (\<lambda>postgres.
     io_bind (cut_run su [''docker'', ''inspect'', ''--format'', ''{{json .NetworkSettings}}'', postgres] 10) (\<lambda>(_, out2).
     io_bind (io_lift (decode_stdout su out2)) (\<lambda>text.
     io_bind (io_lift (case json_document su text of
                 Some (PDict d) \<Rightarrow> (case dget d ''Ports'' of PDict ports \<Rightarrow> Inr ports
                   | _ \<Rightarrow> cutover_error ''target PostgreSQL network metadata is invalid'')
               | _ \<Rightarrow> cutover_error ''target PostgreSQL network metadata is invalid'')) (\<lambda>ports.
     io_bind (cut_require (address = ''127.0.0.1'' \<and> port = 15432 \<and> exact_binding (dget ports ''5432/tcp''))
                ''target PostgreSQL URL is not the exact migration port binding'') (\<lambda>_.
     io_bind (cut_run_with su (privileged_python_command su ''pg-env-exec.py''
                [''SUB2API_TARGET_DATABASE_URL'', ''psql'', ''--no-psqlrc'', ''--quiet'', ''-v'', ''ON_ERROR_STOP=1'',
                 ''--command'', POSTGRES_DATABASE_IDENTITY_SQL]) (Some 15) False False [''SUB2API_TARGET_DATABASE_URL'']) (\<lambda>(_, out3).
     io_bind (io_lift (database_identity su out3)) (\<lambda>_.
       io_return source)))))))))))))"

definition verify_safe_export :: "'w site \<Rightarrow> (unit, 'w) cut" where
  "verify_safe_export su =
     io_bind (cut_run su [''git'', ''-C'', repo_dir su, ''rev-parse'', ''--verify'', ''HEAD^{commit}''] 10) (\<lambda>(_, stdout).
     io_bind (io_lift (decode_stdout su stdout)) (\<lambda>head.
     io_bind (cut_require (git_head_ok head) ''release Git identity is invalid'') (\<lambda>_.
     io_bind (ask su (SafeExport head)) (\<lambda>a.
     io_bind (case a of DbIdentity i \<Rightarrow> io_return i | _ \<Rightarrow> io_raise OtherError) (\<lambda>i.
       update (\<lambda>st. st\<lparr>export_source_database_identity := Some i, git_head := Some head\<rparr>))))))"

definition verify_rollback_ready :: "'w site \<Rightarrow> (unit, 'w) cut" where
  "verify_rollback_ready su =
     io_bind (require_legacy su (svc_app su) True False) (\<lambda>_.
     io_bind (require_legacy su (svc_postgres su) True True) (\<lambda>_.
     io_bind (require_legacy su (svc_redis su) True True) (\<lambda>_.
     io_bind (unit_metadata su) (\<lambda>fragment st.
       (if Some fragment \<noteq> sync_fragment st then io_raise (CutoverError ''legacy sync service is not rollback-ready'')
        else
          io_bind (ask_bytes su (UnitSha256 fragment)) (\<lambda>sha.
          io_bind (cut_require (Some sha = sync_fragment_sha256 st) ''legacy sync service is not rollback-ready'') (\<lambda>_.
          io_bind (unit_active su) (\<lambda>active.
          io_bind (cut_require active ''legacy sync service is not rollback-ready'') (\<lambda>_.
          io_bind (probe_health su 8080 ''/health'') (\<lambda>_.
          io_bind (probe_health su 3021 ''/healthz'') (\<lambda>_.
            require_stage su Stable))))))) st))))"

fun any_target_exists :: "'w site \<Rightarrow> pystr list \<Rightarrow> (bool, 'w) cut" where
  "any_target_exists su [] = io_return False"
| "any_target_exists su (n # ns) =
     io_bind (target_exists su n) (\<lambda>e. if e then io_return True else any_target_exists su ns)"

definition up_detached :: "pystr list" where
  "up_detached = [''up'', ''--detach'', ''--no-build'', ''--pull'', ''never'']"

text \<open>\<open>split_url\<close> gives the scheme, the host, the port and whether there are credentials.\<close>

definition target_redis_ok :: "'w site \<Rightarrow> (pystr \<Rightarrow> (pystr \<times> pystr option \<times> int option \<times> bool) option) \<Rightarrow> bool" where
  "target_redis_ok su split_url =
     (case private_values su ''SUB2API_TARGET_REDIS_URL'' of
        None \<Rightarrow> False
      | Some url \<Rightarrow> split_url url = Some (''redis'', Some ''127.0.0.1'', Some 16379, False))"

definition retirement_paths :: "'w site \<Rightarrow> pystr list" where
  "retirement_paths su =
     [co_app_path (options su), co_postgres_path (options su), co_redis_path (options su), co_nginx_log_path (options su)]"

definition verify_record_command :: "'w site \<Rightarrow> pystr list" where
  "verify_record_command su =
     privileged_python_command su ''retire-legacy-data.py''
       [''verify-record'', ''--legacy-app-path'', co_app_path (options su),
        ''--legacy-postgres-path'', co_postgres_path (options su), ''--legacy-redis-path'', co_redis_path (options su),
        ''--legacy-nginx-log-path'', co_nginx_log_path (options su),
        ''--legacy-sub2api-container'', ls_name (svc_app su), ''--legacy-postgres-container'', ls_name (svc_postgres su),
        ''--legacy-redis-container'', ls_name (svc_redis su)]"

text \<open>The checks before anything is started.\<close>

definition preflight_checks :: "'w site \<Rightarrow> (unit, 'w) cut" where
  "preflight_checks su =
     io_bind (perform su CanaryOptions) (\<lambda>_.
     io_bind (require_private_env_identity su) (\<lambda>_.
     io_bind (verify_safe_export su) (\<lambda>_.
     io_bind (verify_live_direct_v1 su) (\<lambda>_.
     io_bind (perform su RuntimeImages) (\<lambda>_.
     io_bind (cut_require (list_all (prefix ''/'') (retirement_paths su))
                ''legacy retirement paths must be explicit absolute paths'') (\<lambda>_.
     io_bind (cut_run su (verify_record_command su) 30) (\<lambda>_.
     io_bind (cut_each (\<lambda>service. require_legacy su service True False) [svc_app su, svc_postgres su, svc_redis su]) (\<lambda>_.
     io_bind (perform su LegacyRedisSource) (\<lambda>_.
     io_bind (any_target_exists su (TARGET_NAMES @ [TARGET_NONCE_REDIS])) (\<lambda>exists.
     io_bind (cut_require (\<not> exists) ''traffic-canary target must be absent before maintenance apply'') (\<lambda>_.
     io_bind (unit_metadata su) (\<lambda>fragment.
     io_bind (update (\<lambda>st. st\<lparr>sync_fragment := Some fragment\<rparr>)) (\<lambda>_.
     io_bind (ask_bytes su (UnitSha256 fragment)) (\<lambda>sha.
     io_bind (update (\<lambda>st. st\<lparr>sync_fragment_sha256 := Some sha\<rparr>)) (\<lambda>_.
     io_bind (unit_active su) (\<lambda>active.
     io_bind (cut_require active ''legacy sync writer must be active before maintenance'') (\<lambda>_.
     io_bind (probe_health su 8080 ''/health'') (\<lambda>_.
     io_bind (probe_health su 3021 ''/healthz'') (\<lambda>_.
       require_stage su Stable)))))))))))))))))))"

definition preflight_start ::
  "'w site \<Rightarrow> (pystr \<Rightarrow> (pystr \<times> pystr option \<times> int option \<times> bool) option) \<Rightarrow> (unit, 'w) cut" where
  "preflight_start su split_url =
     io_bind (cut_run su (postgres_migration_compose_command su [''config'', ''--quiet'']) 30) (\<lambda>_.
     io_bind (update (\<lambda>st. st\<lparr>target_started := True\<rparr>)) (\<lambda>_.
     io_bind (persist_recovery_state su ''preflight_targets_starting'') (\<lambda>_.
     io_bind (cut_run su (postgres_migration_compose_command su
                (up_detached @ [''traffic-canary-postgres'', ''traffic-canary-redis''])) 120) (\<lambda>_.
     io_bind (wait_target_healthy su TARGET_POSTGRES) (\<lambda>_.
     io_bind (wait_target_healthy su TARGET_REDIS) (\<lambda>_.
     io_bind (persist_recovery_state su ''preflight_targets_starting'') (\<lambda>_.
     io_bind (verify_database_connections su) (\<lambda>source.
     io_bind (query (\<lambda>st. if Some source = export_source_database_identity st then Inr ()
                          else cutover_error ''safe export belongs to a different source PostgreSQL database'')) (\<lambda>_.
     io_bind (cut_require (target_redis_ok su split_url)
                ''nonce migration target must be the fixed redis://127.0.0.1:16379 endpoint'') (\<lambda>_.
     io_bind (cut_run su (privileged_python_command su ''configure-redis-migration-acl.py''
                [''--apply'', ''--env-file'', co_env_file (options su)]) 30) (\<lambda>_.
     io_bind (update (\<lambda>st. st\<lparr>nonce_target_started := True\<rparr>)) (\<lambda>_.
     io_bind (persist_recovery_state su ''preflight_nonce_starting'') (\<lambda>_.
     io_bind (cut_run su (nonce_compose_command su True (up_detached @ [''sync-canary-redis-nonce''])) 90) (\<lambda>_.
     io_bind (wait_target_healthy su TARGET_NONCE_REDIS) (\<lambda>_.
       verify_rollback_ready su)))))))))))))))"

definition preflight ::
  "'w site \<Rightarrow> (pystr \<Rightarrow> (pystr \<times> pystr option \<times> int option \<times> bool) option) \<Rightarrow> (unit, 'w) cut" where
  "preflight su split_url = io_bind (preflight_checks su) (\<lambda>_. preflight_start su split_url)"

section \<open>The window\<close>

definition stop_writers :: "'w site \<Rightarrow> (unit, 'w) cut" where
  "stop_writers su =
     io_bind (update (\<lambda>st. st\<lparr>writer_stop_deadline := Some (now st + 1000 * WRITER_STOP_SECONDS)\<rparr>)) (\<lambda>_.
     io_bind (cut_run su [''/usr/bin/systemctl'', ''stop'', SYNC_UNIT] 20) (\<lambda>_.
     io_bind (unit_active su) (\<lambda>active.
     io_bind (cut_require (\<not> active) ''legacy sync writer did not stop'') (\<lambda>_.
     io_bind (unit_metadata su) (\<lambda>fragment.
     io_bind (query (\<lambda>st. if Some fragment = sync_fragment st then Inr ()
                          else cutover_error ''legacy sync unit identity changed while stopping writers'')) (\<lambda>_.
     io_bind (cut_run su [''docker'', ''stop'', ''--time'', ''10'', ls_identity (svc_app su)] 20) (\<lambda>_.
     io_bind (require_legacy su (svc_app su) False False) (\<lambda>_.
     io_bind (require_legacy su (svc_postgres su) True True) (\<lambda>_.
     io_bind (require_legacy su (svc_redis su) True True) (\<lambda>_.
       update (\<lambda>st. st\<lparr>writers_stopped := True\<rparr>)))))))))))"

definition env_file_arguments :: "'w site \<Rightarrow> pystr list" where
  "env_file_arguments su = [''--apply'', ''--env-file'', co_env_file (options su)]"

definition present_keys :: "'w site \<Rightarrow> pystr list \<Rightarrow> pystr list" where
  "present_keys su keys = filter (\<lambda>k. private_values su k \<noteq> None) keys"

text \<open>The six migrations, in order, each with the private values it may see.\<close>

definition migration_steps :: "'w site \<Rightarrow> (pystr list \<times> pystr list) list" where
  "migration_steps su =
     [([deploy_path su ''migrate-sanitized-postgres.sh''] @ env_file_arguments su @
         [''--source-app-container'', ls_name (svc_app su), ''--source-app-id'', ls_identity (svc_app su),
          ''--source-postgres-container'', ls_name (svc_postgres su), ''--source-postgres-id'', ls_identity (svc_postgres su)], []),
      (privileged_python_command su ''migrate-redis-allowlist.py'' [''--apply''],
         [''SUB2API_DATA_ROOT'', ''SUB2API_SOURCE_REDIS_URL'', ''SUB2API_SOURCE_REDIS_PASSWORD'', ''SUB2API_TARGET_REDIS_URL'',
          ''SUB2API_TARGET_REDIS_PASSWORD'', ''SUB2API_TARGET_REDIS_USERNAME'']),
      (privileged_python_command su ''migrate-app-metadata.py'' [''--apply''],
         present_keys su [''SUB2API_DATA_ROOT'', ''SUB2API_COPY_MODEL_PRICING'', ''SUB2API_SOURCE_APP_DIR'']),
      ([deploy_path su ''prepare-sync-role.sh''] @ env_file_arguments su, []),
      ([deploy_path su ''run-database-migration.sh'', ''sync-role''] @ env_file_arguments su, []),
      ([deploy_path su ''prepare-app-role.sh''] @ env_file_arguments su, [])]"

definition replace_postgres :: "'w site \<Rightarrow> (unit, 'w) cut" where
  "replace_postgres su =
     io_bind (require_target su TARGET_POSTGRES True True) (\<lambda>_.
     io_bind (query (\<lambda>st. case target_identities st TARGET_POSTGRES of None \<Rightarrow> Inl OtherError | Some i \<Rightarrow> Inr i)) (\<lambda>old.
     io_bind (cut_run su (postgres_migration_compose_command su [''stop'', ''--timeout'', ''10'', ''traffic-canary-postgres'']) 30) (\<lambda>_.
     io_bind (require_target su TARGET_POSTGRES False False) (\<lambda>_.
     io_bind (cut_run su (postgres_migration_compose_command su [''rm'', ''--force'', ''traffic-canary-postgres'']) 30) (\<lambda>_.
     io_bind (inspect_container_runtime su old TARGET_POSTGRES (Some old) True) (\<lambda>r.
     io_bind (cut_require (r = None) ''old migrated-target PostgreSQL container still exists'') (\<lambda>_.
     io_bind (update (\<lambda>st. st\<lparr>target_identities := (target_identities st)(TARGET_POSTGRES := None)\<rparr>)) (\<lambda>_.
     io_bind (persist_recovery_state su ''migrating'') (\<lambda>_.
     io_bind (cut_run su (compose_command su (up_detached @ [''traffic-canary-postgres'', ''traffic-canary-redis''])) 90) (\<lambda>_.
     io_bind (wait_target_healthy su TARGET_POSTGRES) (\<lambda>_.
     io_bind (wait_target_healthy su TARGET_REDIS) (\<lambda>_.
     io_bind (query (\<lambda>st. if target_identities st TARGET_POSTGRES = Some old
                          then cutover_error ''migrated-target PostgreSQL identity was not replaced'' else Inr ())) (\<lambda>_.
       persist_recovery_state su ''migrating'')))))))))))))"

definition restart_nonce :: "'w site \<Rightarrow> (unit, 'w) cut" where
  "restart_nonce su =
     io_bind (cut_run su (nonce_compose_command su True [''stop'', ''--timeout'', ''10'', ''sync-canary-redis-nonce'']) 30) (\<lambda>_.
     io_bind (cut_run su (nonce_compose_command su True [''rm'', ''--force'', ''sync-canary-redis-nonce'']) 30) (\<lambda>_.
     io_bind (cut_run su (privileged_python_command su ''configure-redis-migration-acl.py'' [''--remove'']) 15) (\<lambda>_.
     io_bind (cut_run su (nonce_compose_command su False (up_detached @ [''sync-canary-redis-nonce''])) 90) (\<lambda>_.
     io_bind (wait_target_healthy su TARGET_NONCE_REDIS) (\<lambda>_.
       update (\<lambda>st. st\<lparr>nonce_runtime_active := True\<rparr>))))))"

definition migrate :: "'w site \<Rightarrow> (unit, 'w) cut" where
  "migrate su =
     io_bind (require_recovery_identity su) (\<lambda>_.
     io_bind (update (\<lambda>st. st\<lparr>migration_writes_stopped := True\<rparr>)) (\<lambda>_.
     io_bind (cut_each (\<lambda>(argv, keys). io_bind (cut_run_with su argv None False False keys) (\<lambda>_. io_return ()))
                (migration_steps su)) (\<lambda>_.
     io_bind (replace_postgres su) (\<lambda>_.
       restart_nonce su))))"

definition verify_stopped_command :: "'w site \<Rightarrow> pystr list" where
  "verify_stopped_command su =
     privileged_python_command su ''traffic-canary.py''
       [''verify-stopped'', ''--legacy-sub2api-container'', ls_name (svc_app su), ''--legacy-postgres-container'',
        ls_name (svc_postgres su), ''--legacy-redis-container'', ls_name (svc_redis su), ''--legacy-sub2api-id'',
        ls_identity (svc_app su), ''--legacy-postgres-id'', ls_identity (svc_postgres su), ''--legacy-redis-id'',
        ls_identity (svc_redis su)]"

definition start_target :: "'w site \<Rightarrow> (unit, 'w) cut" where
  "start_target su =
     io_bind (cut_run su (compose_command su (up_detached @ [''sub2api-traffic-canary''])) 120) (\<lambda>_.
     io_bind (wait_target_healthy su TARGET_APP) (\<lambda>_.
     io_bind (require_all_targets su True) (\<lambda>_.
     io_bind (cut_run su (verify_stopped_command su) 45) (\<lambda>_.
       probe_health su 8081 ''/health''))))"

definition canary_command :: "'w site \<Rightarrow> pystr list" where
  "canary_command su =
     privileged_python_command su ''run-v1-responses-canary.py''
       [''--apply'', ''--url'', co_verify_url (options su), ''--model'', co_model (options su),
        ''--approved-hostname'', co_approved_hostname (options su)]"

definition switch_and_canary :: "'w site \<Rightarrow> (unit, 'w) cut" where
  "switch_and_canary su =
     io_bind (query (\<lambda>st. if writer_stop_deadline st = None
                          then cutover_error ''active writer-stop deadline is required'' else Inr ())) (\<lambda>_.
     io_bind (query writer_stop_remaining) (\<lambda>_.
     io_bind (require_all_targets su True) (\<lambda>_.
     io_bind (probe_health su 8081 ''/health'') (\<lambda>_.
     io_bind (query writer_stop_remaining) (\<lambda>writer_left.
     io_bind (query remaining) (\<lambda>left.
     io_bind (query (\<lambda>st. Inr (writer_stop_deadline st))) (\<lambda>until.
     io_bind (nginx_switch su Canary (within (min 15 left) writer_left) until) (\<lambda>_.
     io_bind (update (\<lambda>st. st\<lparr>canary_active := True\<rparr>)) (\<lambda>_.
     io_bind (require_all_targets su True) (\<lambda>_.
     io_bind (probe_health su 8081 ''/health'') (\<lambda>_.
     io_bind (query writer_stop_remaining) (\<lambda>_.
     io_bind (cut_run_with su (canary_command su) None False True []) (\<lambda>_.
     io_bind (require_all_targets su True) (\<lambda>_.
     io_bind (query writer_stop_remaining) (\<lambda>_.
       update (\<lambda>st. st\<lparr>writer_stop_deadline := None\<rparr>))))))))))))))))"


section \<open>Rollback\<close>

fun is_exception :: "cutover_exn \<Rightarrow> bool" where
  "is_exception KeyboardInterrupt = False"
| "is_exception _ = True"

text \<open>\<open>try: ... except Exception: errors.append(label)\<close>.\<close>

definition attempt :: "pystr \<Rightarrow> (unit, 'w) cut \<Rightarrow> pystr list \<Rightarrow> (pystr list, 'w) cut" where
  "attempt label m errors st =
     (case m st of
        (Inl e, st') \<Rightarrow> (if is_exception e then Inr (errors @ [label]) else Inl e, st')
      | (Inr _, st') \<Rightarrow> (Inr errors, st'))"

function legacy_loop :: "'w site \<Rightarrow> legacy_service \<Rightarrow> bool \<Rightarrow> int \<Rightarrow> 'w ctl \<Rightarrow> unit out \<times> 'w ctl" where
  "legacy_loop su service require_healthy until st =
     (case docker_state su service st of
        (Inl e, st1) \<Rightarrow> (Inl e, st1)
      | (Inr (running, health), st1) \<Rightarrow>
          if running \<and> (\<not> require_healthy \<or> health = ''healthy'') then (Inr (), st1)
          else if running \<and> health = ''none''
          then (cutover_error ''exact legacy data container has no Docker healthcheck'', st1)
          else if now st1 \<ge> until
          then (cutover_error (if require_healthy then ''exact legacy data container did not become healthy during rollback''
                  else ''exact legacy container did not start during rollback''), st1)
          else (case pause su st1 of
              (Inl e, st2) \<Rightarrow> (Inl e, st2)
            | (Inr _, st2) \<Rightarrow> legacy_loop su service require_healthy until st2))"
  by pat_completeness auto
termination
proof (relation "measure (\<lambda>(su, service, h, until, st). nat (until - now st))")
  fix su :: "'w site" and service h until st x st1 ok running health y st2 z
  assume "(x, st1) = docker_state su service st" "\<not> until \<le> now st1" "(y, st2) = pause su st1"
  then have "now st \<le> now st1" "now st1 + 1000 \<le> now st2" "now st1 < until"
    using forward_run [OF forward_docker_state] pause_later by (metis, metis, simp)
  then show "((su, service, h, until, st2), su, service, h, until, st) \<in> measure (\<lambda>(su, service, h, until, st). nat (until - now st))"
    by simp
qed simp

declare legacy_loop.simps [simp del]

definition ensure_legacy_running :: "'w site \<Rightarrow> legacy_service \<Rightarrow> bool \<Rightarrow> (unit, 'w) cut" where
  "ensure_legacy_running su service require_healthy =
     io_bind (docker_state su service) (\<lambda>(running, _).
     io_bind (if running then io_return (0, []) else raw_run su [''docker'', ''start'', ls_identity service] 30) (\<lambda>_ st.
       legacy_loop su service require_healthy (now st + 60000) st))"

definition require_cleanup_identity :: "'w site \<Rightarrow> pystr \<Rightarrow> (unit, 'w) cut" where
  "require_cleanup_identity su name st =
     (case target_identities st name of
        None \<Rightarrow>
          io_bind (target_exists su name) (\<lambda>e.
            cut_require (\<not> e) ''unpinned migrated-target container exists during rollback'') st
      | Some identity \<Rightarrow>
          io_bind (inspect_container_runtime su identity name (Some identity) True) (\<lambda>r.
            if r \<noteq> None then io_return ()
            else io_bind (target_exists su name) (\<lambda>e.
                 cut_require (\<not> e) ''migrated-target container name was rebound during rollback'')) st)"

definition require_target_cleanup_identity :: "'w site \<Rightarrow> (unit, 'w) cut" where
  "require_target_cleanup_identity su = cut_each (require_cleanup_identity su) TARGET_NAMES"

definition require_target_absent :: "'w site \<Rightarrow> pystr \<Rightarrow> (unit, 'w) cut" where
  "require_target_absent su name st =
     io_bind (case target_identities st name of
         None \<Rightarrow> io_return ()
       | Some identity \<Rightarrow>
           io_bind (inspect_container_runtime su identity name (Some identity) True) (\<lambda>r.
             cut_require (r = None) ''traffic-canary target still exists after rollback'')) (\<lambda>_.
     io_bind (target_exists su name) (\<lambda>e.
       cut_require (\<not> e) ''traffic-canary target name still exists after rollback'')) st"

definition require_targets_absent_after_cleanup :: "'w site \<Rightarrow> (unit, 'w) cut" where
  "require_targets_absent_after_cleanup su = cut_each (require_target_absent su) TARGET_NAMES"

definition restart_sync :: "'w site \<Rightarrow> (unit, 'w) cut" where
  "restart_sync su =
     io_bind (unit_metadata su) (\<lambda>current st.
       io_bind (case sync_fragment st of
           None \<Rightarrow> io_bind (ask_bytes su (UnitSha256 current)) (\<lambda>_. io_return ())
         | Some fragment \<Rightarrow>
             if current \<noteq> fragment then io_raise (CutoverError ''legacy sync unit identity changed during rollback'')
             else (case sync_fragment_sha256 st of
                 None \<Rightarrow> io_return ()
               | Some sha \<Rightarrow>
                   io_bind (ask_bytes su (UnitSha256 fragment)) (\<lambda>s.
                     cut_require (s = sha) ''legacy sync unit identity changed during rollback''))) (\<lambda>_.
       io_bind (unit_active su) (\<lambda>active.
       io_bind (if active then io_return (0, []) else raw_run su [''/usr/bin/systemctl'', ''start'', SYNC_UNIT] 30) (\<lambda>_.
       io_bind (unit_active su) (\<lambda>active2.
         cut_require active2 ''legacy sync unit did not start during rollback'')))) st)"

definition restore_sync :: "'w site \<Rightarrow> (unit, 'w) cut" where
  "restore_sync su = io_bind (restart_sync su) (\<lambda>_. probe_health su 3021 ''/healthz'')"

definition restore_legacy :: "'w site \<Rightarrow> (pystr list, 'w) cut" where
  "restore_legacy su =
     io_bind (attempt ''legacy_postgres_start'' (ensure_legacy_running su (svc_postgres su) True) []) (\<lambda>errors.
     io_bind (attempt ''legacy_redis_start'' (ensure_legacy_running su (svc_redis su) True) errors) (\<lambda>errors.
     io_bind (attempt ''legacy_app_start'' (ensure_legacy_running su (svc_app su) False) errors) (\<lambda>errors.
     io_bind (attempt ''legacy_app_health'' (probe_health su 8080 ''/health'') errors) (\<lambda>errors.
       attempt ''legacy_sync_health'' (restore_sync su) errors))))"

definition restore_stable :: "'w site \<Rightarrow> (unit, 'w) cut" where
  "restore_stable su = io_bind (nginx_switch su Stable 15 None) (\<lambda>_. probe_health su 8080 ''/health'')"

definition verify_cleanup :: "'w site \<Rightarrow> (unit, 'w) cut" where
  "verify_cleanup su = io_bind (require_recovery_identity su) (\<lambda>_. require_target_cleanup_identity su)"

definition down_target :: "'w site \<Rightarrow> pystr list" where
  "down_target su = compose_command su [''down'', ''--remove-orphans'', ''--timeout'', ''10'']"

definition down_nonce :: "'w site \<Rightarrow> pystr list" where
  "down_nonce su = nonce_compose_command su False [''down'', ''--remove-orphans'', ''--timeout'', ''10'']"

definition isolate_target :: "'w site \<Rightarrow> (unit, 'w) cut" where
  "isolate_target su =
     io_bind (raw_run su (down_target su) 60) (\<lambda>_. require_targets_absent_after_cleanup su)"

definition isolate_nonce :: "'w site \<Rightarrow> (unit, 'w) cut" where
  "isolate_nonce su =
     io_bind (raw_run su (down_nonce su) 60) (\<lambda>_.
     io_bind (target_exists su TARGET_NONCE_REDIS) (\<lambda>e.
     io_bind (cut_require (\<not> e) ''nonce Redis target still exists after rollback'') (\<lambda>_.
     io_bind (raw_run su (privileged_python_command su ''configure-redis-migration-acl.py'' [''--remove'']) 15) (\<lambda>_.
       io_return ()))))"

text \<open>A step that is taken when it is due and allowed; the flag says whether its purpose is reached.\<close>

definition guarded_step ::
  "bool \<Rightarrow> (unit, 'w) cut \<Rightarrow> pystr \<Rightarrow> pystr list \<Rightarrow> (bool \<times> pystr list, 'w) cut" where
  "guarded_step go m label errors =
     (if go then io_bind (attempt label m errors) (\<lambda>es. io_return (es = errors, es)) else io_return (False, errors))"

definition isolate_step ::
  "bool \<Rightarrow> bool \<Rightarrow> bool \<Rightarrow> (unit, 'w) cut \<Rightarrow> pystr \<Rightarrow> pystr \<Rightarrow> pystr list \<Rightarrow> (bool \<times> pystr list, 'w) cut" where
  "isolate_step restored verified started m label kept errors =
     (if restored \<and> verified \<and> started then guarded_step True m label errors
      else io_return (\<not> started, if started \<and> verified then errors @ [kept] else errors))"

definition rollback :: "'w site \<Rightarrow> (pystr list, 'w) cut" where
  "rollback su =
     io_bind (update (\<lambda>st. st\<lparr>writer_stop_deadline := None, deadline := Some (now st + 1000 * ROLLBACK_SECONDS)\<rparr>)) (\<lambda>_.
     io_bind (restore_legacy su) (\<lambda>errors.
       let legacy_ready = \<not> list_ex (\<lambda>l. l \<in> set errors)
             [''legacy_postgres_start'', ''legacy_redis_start'', ''legacy_app_start'', ''legacy_app_health'']
       in
       io_bind (if legacy_ready then guarded_step True (restore_stable su) ''stable_upstream_restore'' errors
                else io_return (False, errors @ [''stable_upstream_not_restored_without_healthy_legacy''])) (\<lambda>(restored, errors).
       io_bind (guarded_step restored (verify_cleanup su) ''recovery_identity'' errors) (\<lambda>(verified, errors).
       io_bind (query (\<lambda>st. Inr (target_started st, nonce_target_started st))) (\<lambda>(target, nonce).
       io_bind (isolate_step restored verified target (isolate_target su) ''traffic_canary_isolation''
                  ''traffic_canary_kept_for_active_upstream_safety'' errors) (\<lambda>(traffic_isolated, errors).
       io_bind (isolate_step restored verified nonce (isolate_nonce su) ''nonce_target_isolation''
                  ''nonce_target_kept_for_active_upstream_safety'' errors) (\<lambda>(nonce_isolated, errors).
         if restored \<and> verified \<and> traffic_isolated \<and> nonce_isolated
         then attempt ''sanitized_target_reset'' (perform su ResetTarget) errors
         else io_return errors)))))))"

section \<open>execute\<close>

definition cutover_phases ::
  "'w site \<Rightarrow> (pystr \<Rightarrow> (pystr \<times> pystr option \<times> int option \<times> bool) option) \<Rightarrow> (unit, 'w) cut" where
  "cutover_phases su split_url =
     io_bind (preflight su split_url) (\<lambda>_.
     io_bind (persist_recovery_state su ''ready_to_stop_writers'') (\<lambda>_.
     io_bind (update (\<lambda>st. st\<lparr>deadline := Some (now st + 1000 * WINDOW_SECONDS)\<rparr>)) (\<lambda>_.
     io_bind (stop_writers su) (\<lambda>_.
     io_bind (persist_recovery_state su ''writers_stopped'') (\<lambda>_.
     io_bind (persist_recovery_state su ''migrating'') (\<lambda>_.
     io_bind (migrate su) (\<lambda>_.
     io_bind (persist_recovery_state su ''starting_target'') (\<lambda>_.
     io_bind (start_target su) (\<lambda>_.
     io_bind (persist_recovery_state su ''switching_nginx'') (\<lambda>_.
     io_bind (switch_and_canary su) (\<lambda>_.
     io_bind (query remaining) (\<lambda>_.
       clear_recovery_state su))))))))))))"

fun failure_reason :: "bool \<Rightarrow> cutover_exn \<Rightarrow> pystr" where
  "failure_reason True e = ''interrupted''"
| "failure_reason False KeyboardInterrupt = ''interrupted''"
| "failure_reason False TerminationRequested = ''interrupted''"
| "failure_reason False (WindowExpired _) = ''deadline_exceeded''"
| "failure_reason False _ = ''phase_failed''"

text \<open>\<open>signalled\<close> tells, of the final state of the rollback, whether a signal was deferred.\<close>

definition cutover_execute ::
  "'w site \<Rightarrow> (pystr \<Rightarrow> (pystr \<times> pystr option \<times> int option \<times> bool) option) \<Rightarrow> ('w ctl \<Rightarrow> bool) \<Rightarrow> (unit, 'w) cut" where
  "cutover_execute su split_url signalled st =
     (case cutover_phases su split_url st of
        (Inr _, st1) \<Rightarrow> (Inr (), st1)
      | (Inl e, st1) \<Rightarrow>
          (let begun = target_started st1 \<or> writers_stopped st1
           in case (if begun then rollback su st1 else (Inr [], st1)) of
                (Inl e2, st2) \<Rightarrow> (Inl e2, st2)
              | (Inr errors, st2) \<Rightarrow>
                  (let reason = failure_reason (begun \<and> signalled st2) e
                   in if errors \<noteq> []
                      then (case persist_recovery_state su ''rollback_incomplete'' st2 of
                          (Inl e3, st3) \<Rightarrow>
                            (if is_exception e3
                             then cutover_error (''cutover_'' @ reason @ ''; rollback_incomplete='' @ join_with '','' errors)
                             else Inl e3, st3)
                        | (Inr _, st3) \<Rightarrow>
                            (cutover_error (''cutover_'' @ reason @ ''; rollback_incomplete='' @ join_with '','' errors), st3))
                      else (case clear_recovery_state su st2 of
                          (Inl e3, st3) \<Rightarrow> (Inl e3, st3)
                        | (Inr _, st3) \<Rightarrow> (cutover_error (''cutover_'' @ reason @ ''; rollback_verified''), st3)))))"

end
