(* ===== verification/Cutover_Facts.thy ===== *)
theory Cutover_Facts
  imports Cutover "HOL-Library.Sublist"
begin

text \<open>
  Properties of the maintenance cutover, over every host: what a rollback has seen and done when it
  reports no error, that nothing of the target is taken down before the traffic is back on the
  verified legacy services, how long the writers can be stopped in a completed cutover, and that a
  recovery state restores what was persisted.
\<close>

section \<open>Events of an action\<close>

named_theorems emitted "actions all of whose events have a property"

text \<open>The part of the state that most actions leave alone: what the rollback has to take down, and
  the deadline of the stopped writers.\<close>

definition flags :: "'w ctl \<Rightarrow> bool \<times> bool \<times> int option" where
  "flags st = (target_started st, nonce_target_started st, writer_stop_deadline st)"

text \<open>From one state to a later one: the trace grows by events of a kind, which lie between the
  two, and the flags stay.\<close>

definition extends :: "(event \<Rightarrow> bool) \<Rightarrow> 'w ctl \<Rightarrow> 'w ctl \<Rightarrow> bool" where
  "extends P st st' \<longleftrightarrow>
     (\<exists>es. trace st' = trace st @ es \<and> list_all (\<lambda>e. P e \<and> now st \<le> issued e \<and> finished e \<le> now st') es)
     \<and> flags st' = flags st \<and> now st \<le> now st'"

lemma extends_refl [simp]: "extends P st st"
  by (simp add: extends_def)

lemma extends_trans [trans]:
  assumes "extends P st st1" and "extends P st1 st2"
  shows "extends P st st2"
proof -
  obtain es es2 where "trace st1 = trace st @ es" "list_all (\<lambda>e. P e \<and> now st \<le> issued e \<and> finished e \<le> now st1) es"
    "trace st2 = trace st1 @ es2" "list_all (\<lambda>e. P e \<and> now st1 \<le> issued e \<and> finished e \<le> now st2) es2"
    using assms unfolding extends_def by blast
  then show ?thesis using assms unfolding extends_def
    by (intro conjI exI [of _ "es @ es2"]) (auto simp: list_all_iff intro: order_trans)
qed

lemma extends_same: "trace st' = trace st \<Longrightarrow> flags st' = flags st \<Longrightarrow> now st \<le> now st' \<Longrightarrow> extends P st st'"
  by (simp add: extends_def)

lemma extends_mono: "extends P st st' \<Longrightarrow> (\<And>e. P e \<Longrightarrow> Q e) \<Longrightarrow> extends Q st st'"
  unfolding extends_def by (auto elim!: list.pred_mono_strong)

definition emits :: "(event \<Rightarrow> bool) \<Rightarrow> ('w ctl \<Rightarrow> 'r \<times> 'w ctl) \<Rightarrow> bool" where
  "emits P m \<longleftrightarrow> (\<forall>st. extends P st (snd (m st)))"

lemma emitsI: "(\<And>st. extends P st (snd (m st))) \<Longrightarrow> emits P m"
  by (simp add: emits_def)

lemma emits_run: "emits P m \<Longrightarrow> m st = (r, st') \<Longrightarrow> extends P st st'"
  unfolding emits_def by (metis snd_conv)

lemma emits_mono: "emits P m \<Longrightarrow> (\<And>e. P e \<Longrightarrow> Q e) \<Longrightarrow> emits Q m"
  unfolding emits_def using extends_mono by blast

lemma emits_ask: "(\<And>e. what e = x \<Longrightarrow> P e) \<Longrightarrow> emits P (ask su x)"
  by (rule emitsI) (auto simp: ask_def flags_def extends_def split: prod.splits)

lemma emits_basic [simp]:
  "emits P (io_return a)" "emits P (io_raise e)" "emits P (io_lift r)" "emits P (query f)" "emits P (cut_require b msg)"
  by (simp_all add: emits_def io_return_def io_raise_def io_lift_def query_def cut_require_def)

lemma emits_update:
  "(\<And>st. trace (f st) = trace st \<and> flags (f st) = flags st \<and> now st \<le> now (f st)) \<Longrightarrow> emits P (update f)"
  by (simp add: emits_def update_def extends_same)

lemma emits_bind_value:
  assumes "emits P m" and "\<And>a st st'. m st = (Inr a, st') \<Longrightarrow> emits P (f a)"
  shows "emits P (io_bind m f)"
proof (rule emitsI)
  fix st
  obtain r st1 where m: "m st = (r, st1)" by (rule prod.exhaust)
  note first = emits_run [OF assms(1) m]
  show "extends P st (snd (io_bind m f st))"
  proof (cases r)
    case (Inr a)
    obtain r2 st2 where f: "f a st1 = (r2, st2)" by (rule prod.exhaust)
    from extends_trans [OF first emits_run [OF assms(2) f]] m f Inr show ?thesis by (simp add: io_bind_def)
  qed (use first m in \<open>simp add: io_bind_def\<close>)
qed

lemma emits_bind: "emits P m \<Longrightarrow> (\<And>a. emits P (f a)) \<Longrightarrow> emits P (io_bind m f)"
  by (rule emits_bind_value)

lemma emits_if: "emits P a \<Longrightarrow> emits P b \<Longrightarrow> emits P (if c then a else b)"
  by simp

lemma emits_state: "(\<And>v. emits P (g v)) \<Longrightarrow> emits P (\<lambda>st. g st st)"
  by (simp add: emits_def)

lemma emits_attempt: "emits P m \<Longrightarrow> emits P (attempt l m es)"
  unfolding emits_def attempt_def by (auto split: prod.splits sum.splits) (metis snd_conv)+

lemma emits_perform: "(\<And>e. what e = x \<Longrightarrow> P e) \<Longrightarrow> emits P (perform su x)"
  unfolding perform_def by (intro emits_bind emits_ask emits_basic) auto

lemma emits_bytes: "(\<And>e. what e = x \<Longrightarrow> P e) \<Longrightarrow> emits P (ask_bytes su x)" "(\<And>e. what e = x \<Longrightarrow> P e) \<Longrightarrow> emits P (ask_doc su x)"
  unfolding ask_bytes_def ask_doc_def by (auto intro!: emits_bind emits_ask split: answer.splits)

lemma emits_pause: "(\<And>e. what e = Sleep \<Longrightarrow> P e) \<Longrightarrow> emits P (pause su)"
  unfolding pause_def by (intro emits_bind emits_update emits_perform) (auto simp: flags_def)

lemma emits_command: "(\<And>e. what e = Run c \<Longrightarrow> P e) \<Longrightarrow> emits P (run_command su c)"
  unfolding run_command_def by (auto intro!: emits_bind emits_ask split: answer.splits)

definition runs :: "pystr list \<Rightarrow> event \<Rightarrow> bool" where
  "runs argv e \<longleftrightarrow> (case what e of Run c \<Rightarrow> cmd_argv c = argv | _ \<Rightarrow> False)"

lemma emits_raw_run: "(\<And>e. runs argv e \<Longrightarrow> P e) \<Longrightarrow> emits P (raw_run su argv t)"
  unfolding raw_run_def by (rule emits_command) (simp add: runs_def)

lemma emits_cut_run:
  assumes "\<And>e. runs argv e \<Longrightarrow> P e"
  shows "emits P (cut_run_with su argv t a i keys)"
proof -
  have "emits P (\<lambda>st. run_command su (c st) st)" if "\<And>st. cmd_argv (c st) = argv" for c
    by (rule emits_state [of P "\<lambda>v. run_command su (c v)"], rule emits_command) (simp add: assms runs_def that)
  then show ?thesis unfolding cut_run_with_def by (intro emits_bind emits_basic) simp
qed

lemma emits_each: "(\<And>x. emits P (f x)) \<Longrightarrow> emits P (cut_each f xs)"
  by (induction xs) (auto intro: emits_bind)

lemma legacy_loop_extends:
  assumes "emits P (docker_state su s)" and "emits P (pause su)"
  shows "extends P st (snd (legacy_loop su s h u st))"
  using assms
proof (induction su s h u st rule: legacy_loop.induct)
  case (1 su s h u st)
  obtain r st1 where d: "docker_state su s st = (r, st1)" by (rule prod.exhaust)
  obtain r2 st2 where p: "pause su st1 = (r2, st2)" by (rule prod.exhaust)
  note look = emits_run [OF "1.prems"(1) d]
  note rest = extends_trans [OF look emits_run [OF "1.prems"(2) p]]
  show ?case
  proof (cases r)
    case (Inr a)
    obtain running health where a: "a = (running, health)" by (rule prod.exhaust)
    show ?thesis
    proof (cases "\<not> (running \<and> (\<not> h \<or> health = ''healthy'')) \<and> \<not> (running \<and> health = ''none'') \<and> \<not> u \<le> now st1 \<and> r2 = Inr ()")
      case True
      then have "legacy_loop su s h u st = legacy_loop su s h u st2"
        using d Inr a p by (subst legacy_loop.simps) auto
      moreover have "extends P st2 (snd (legacy_loop su s h u st2))"
        using "1.IH" [OF d [symmetric] Inr [unfolded a] refl _ _ _ p [symmetric]] "1.prems" True by auto
      ultimately show ?thesis using extends_trans [OF rest] by simp
    next
      case False
      with d Inr a p have "snd (legacy_loop su s h u st) \<in> {st1, st2}"
        by (subst legacy_loop.simps) (cases r2; auto)
      with look rest show ?thesis by auto
    qed
  qed (use d look in \<open>simp add: legacy_loop.simps [of su s h u st]\<close>)
qed

section \<open>Harmless events\<close>

definition harmful :: "'w site \<Rightarrow> op \<Rightarrow> bool" where
  "harmful su x \<longleftrightarrow> x = ResetTarget \<or> x = ReplaceActive (stage_payload Canary)
     \<or> (case x of Run c \<Rightarrow> cmd_argv c \<in> {down_target su, down_nonce su} | _ \<Rightarrow> False)"

abbreviation quiet :: "'w site \<Rightarrow> ('w ctl \<Rightarrow> 'r \<times> 'w ctl) \<Rightarrow> bool" where
  "quiet su \<equiv> emits (\<lambda>e. \<not> harmful su (what e))"

lemma runs_harmless:
  "runs argv e \<Longrightarrow> argv \<noteq> down_target su \<Longrightarrow> argv \<noteq> down_nonce su \<Longrightarrow> \<not> harmful su (what e)"
  by (auto simp: runs_def harmful_def split: op.splits)

lemma docker_harmless:
  "x \<noteq> ''compose'' \<Longrightarrow> runs (''docker'' # x # r) e \<Longrightarrow> \<not> harmful su (what e)"
  "x \<noteq> ''docker'' \<Longrightarrow> runs (x # r) e \<Longrightarrow> \<not> harmful su (what e)"
  by (rule runs_harmless, assumption,
      simp_all add: down_target_def compose_command_def compose_prefix_def down_nonce_def nonce_compose_command_def)+

lemma quiet_inspect [emitted]: "quiet su (inspect_container_runtime su r n i a)"
  unfolding inspect_container_runtime_def
  by (intro emits_bind emits_cut_run docker_harmless(1)) (auto intro!: emits_bind)

lemma quiet_exists [emitted]: "quiet su (target_exists su n)"
  unfolding target_exists_def cut_try_def
  by (intro emits_bind emits_cut_run docker_harmless(1)) (auto intro!: emits_bind)

lemma quiet_docker_state [emitted]: "quiet su (docker_state su s)"
  unfolding docker_state_def by (intro emits_bind quiet_inspect) (auto split: option.splits)

lemma quiet_unit_active [emitted]: "quiet su (unit_active su)"
  unfolding unit_active_def cut_try_def
  by (intro emits_bind emits_cut_run docker_harmless(2)) (auto intro!: emits_bind)

lemma quiet_unit_metadata [emitted]: "quiet su (unit_metadata su)"
  unfolding unit_metadata_def cut_run_def
  by (intro emits_bind emits_cut_run docker_harmless(2)) (auto intro!: emits_bind simp: Let_def)

lemma quiet_probe [emitted]: "quiet su (probe_health su p path)"
  unfolding probe_health_def by (intro emits_bind emits_basic emits_perform) (simp add: harmful_def)

lemma quiet_ensure [emitted]: "quiet su (ensure_legacy_running su s h)"
proof -
  have "quiet su (\<lambda>st. legacy_loop su s h (now st + 60000) st)"
    by (intro emitsI legacy_loop_extends quiet_docker_state emits_pause) (simp add: harmful_def)
  moreover have "quiet su (raw_run su [''docker'', ''start'', ls_identity s] 30)"
    by (rule emits_raw_run, rule docker_harmless(1)) auto
  ultimately show ?thesis
    unfolding ensure_legacy_running_def by (auto intro!: emits_bind quiet_docker_state)
qed

lemma quiet_bytes [emitted]:
  "quiet su (ask_bytes su (UnitSha256 p))" "quiet su (ask_bytes su (ReadStage s))" "quiet su (ask_bytes su ReadActive)"
  "quiet su (perform su CheckActive)" "quiet su (ask_doc su EnvIdentity)"
  by (auto intro!: emits_bytes emits_perform simp: harmful_def)

lemma quiet_stage [emitted]: "quiet su (stage_bytes su s)" "quiet su (require_stage su s)"
  unfolding stage_bytes_def require_stage_def by (auto intro!: emits_bind emitted)

lemma stage_bytes_Inr: "stage_bytes su s st = (Inr p, st') \<Longrightarrow> p = stage_payload s"
  by (auto simp: stage_bytes_def io_bind_Inr cut_require_def split: if_splits)

lemma quiet_switch [emitted]: "quiet su (nginx_switch su Stable t u)"
proof -
  have r: "quiet su (raw_run su [''/usr/sbin/nginx'', ''-t''] n)" "quiet su (raw_run su [''/usr/bin/systemctl'', ''reload'', ''nginx''] n)" for n
    by (rule emits_raw_run, rule docker_harmless(2), auto)+
  have p: "quiet su (perform su (ReplaceActive (stage_payload Stable)))"
    by (rule emits_perform) (simp add: harmful_def stage_payload_def)
  let ?rest = "\<lambda>_. io_bind (perform su CheckActive) (\<lambda>_.
     io_bind (query (switch_timeout t u)) (\<lambda>t1.
     io_bind (raw_run su [''/usr/sbin/nginx'', ''-t''] t1) (\<lambda>_.
     io_bind (query (switch_timeout t u)) (\<lambda>t2.
     io_bind (raw_run su [''/usr/bin/systemctl'', ''reload'', ''nginx''] t2) (\<lambda>_.
       require_stage su Stable)))))"
  have rest: "quiet su (?rest x)" for x :: unit
    by (intro emits_bind emits_basic r emitted)
  have "quiet su (io_bind (stage_bytes su Stable) (\<lambda>payload. io_bind (perform su (ReplaceActive payload)) ?rest))"
    by (rule emits_bind_value [OF quiet_stage(1)]) (auto dest!: stage_bytes_Inr intro!: emits_bind p rest)
  then show ?thesis unfolding nginx_switch_def by (rule emits_bind [OF emits_basic(4)])
qed

lemma quiet_restart_sync [emitted]: "quiet su (restart_sync su)"
proof -
  have r: "quiet su (raw_run su [''/usr/bin/systemctl'', ''start'', SYNC_UNIT] 30)"
    by (rule emits_raw_run, rule docker_harmless(2)) auto
  have "quiet su (\<lambda>st. g st st)" if "\<And>v. quiet su (g v)" for g :: "'a ctl \<Rightarrow> 'a ctl \<Rightarrow> unit out \<times> 'a ctl"
    using that by (rule emits_state)
  note st = this
  show ?thesis
    unfolding restart_sync_def
    by (rule emits_bind [OF quiet_unit_metadata], rule st)
      (auto intro!: emits_bind emitted r split: option.splits)
qed

lemma quiet_restore_sync [emitted]: "quiet su (restore_sync su)"
  unfolding restore_sync_def by (intro emits_bind emitted)

lemma quiet_env_identity [emitted]: "quiet su (require_private_env_identity su)"
proof (rule emitsI)
  fix st
  have "quiet su (io_bind (ask_doc su EnvIdentity) (\<lambda>identity.
            cut_require (cutover_same_dict identity p) ''maintenance private environment identity changed''))" for p
    by (intro emits_bind emitted emits_basic)
  then show "extends (\<lambda>e. \<not> harmful su (what e)) st (snd (require_private_env_identity su st))"
    by (auto simp: require_private_env_identity_def emits_def split: option.split)
qed

lemma quiet_recovery_identity [emitted]: "quiet su (require_recovery_identity su)"
proof -
  have "quiet su (io_bind (require_private_env_identity su) (\<lambda>_.
        io_bind (case (f, s) of
            (Some fragment, Some sha) \<Rightarrow>
              io_bind (ask_bytes su (UnitSha256 fragment)) (\<lambda>current.
                cut_require (current = sha) ''maintenance recovery filesystem identity changed'')
          | _ \<Rightarrow> io_raise (CutoverError ''maintenance recovery filesystem identity changed'')) (\<lambda>_.
        io_bind (unit_metadata su) (\<lambda>current.
          cut_require (Some current = f) ''legacy sync unit identity changed''))))" for f s
    by (auto intro!: emits_bind emitted split: option.splits)
  then show ?thesis
    by (auto simp: emits_def require_recovery_identity_def)
qed

lemma quiet_cleanup_one: "quiet su (require_cleanup_identity su name)" "quiet su (require_target_absent su name)"
proof -
  have "quiet su (io_bind (target_exists su name) (\<lambda>e.
            cut_require (\<not> e) ''unpinned migrated-target container exists during rollback''))"
    "quiet su (io_bind (inspect_container_runtime su i name (Some i) True) (\<lambda>r.
            if r \<noteq> None then io_return ()
            else io_bind (target_exists su name) (\<lambda>e.
                 cut_require (\<not> e) ''migrated-target container name was rebound during rollback'')))" for i
    by (auto intro!: emits_bind emitted)
  then show "quiet su (require_cleanup_identity su name)"
    by (auto simp: emits_def require_cleanup_identity_def split: option.split)
  have "quiet su (io_bind (case pin of
         None \<Rightarrow> io_return ()
       | Some identity \<Rightarrow>
           io_bind (inspect_container_runtime su identity name (Some identity) True) (\<lambda>r.
             cut_require (r = None) ''traffic-canary target still exists after rollback'')) (\<lambda>_.
     io_bind (target_exists su name) (\<lambda>e.
       cut_require (\<not> e) ''traffic-canary target name still exists after rollback'')))" for pin
    by (auto intro!: emits_bind emitted split: option.splits)
  note absent = this [unfolded emits_def]
  show "quiet su (require_target_absent su name)"
    unfolding emits_def require_target_absent_def using absent by blast
qed

lemma quiet_verify_cleanup [emitted]: "quiet su (verify_cleanup su)"
  unfolding verify_cleanup_def require_target_cleanup_identity_def
  by (intro emits_bind emitted emits_each quiet_cleanup_one)

lemma quiet_restore_stable [emitted]: "quiet su (restore_stable su)"
  unfolding restore_stable_def by (intro emits_bind emitted)

lemma quiet_restore_legacy [emitted]: "quiet su (restore_legacy su)"
  unfolding restore_legacy_def by (intro emits_bind emits_attempt emitted)

section \<open>What a success has seen\<close>

text \<open>An action that answered, and the events after a state.\<close>

definition answered_ok :: "op \<Rightarrow> event \<Rightarrow> bool" where
  "answered_ok x e \<longleftrightarrow> what e = x \<and> answered e \<in> range Inr"

definition probed :: "int \<Rightarrow> pystr \<Rightarrow> event \<Rightarrow> bool" where
  "probed port path e \<longleftrightarrow> (\<exists>t. what e = Probe port path t) \<and> answered e \<in> range Inr"

definition ran_ok :: "pystr list \<Rightarrow> event \<Rightarrow> bool" where
  "ran_ok argv e \<longleftrightarrow> runs argv e \<and> answered e \<in> range Inr"

text \<open>Docker said of exactly this container that it runs, with this health.\<close>

definition saw_running :: "'w site \<Rightarrow> legacy_service \<Rightarrow> (pystr \<Rightarrow> bool) \<Rightarrow> event \<Rightarrow> bool" where
  "saw_running su s H e \<longleftrightarrow>
     runs [''docker'', ''inspect'', ''--format'', inspect_format, ls_identity s] e \<and>
     (\<exists>stdout text identity health. answered e = Inr (Ran 0 stdout) \<and> decode_stdout su stdout = Inr text \<and>
        parse_runtime (ls_name s) (Some (ls_identity s)) text = Inr (identity, True, health) \<and> H health)"

definition happened :: "(event \<Rightarrow> bool) \<Rightarrow> 'w ctl \<Rightarrow> 'w ctl \<Rightarrow> bool" where
  "happened E st st' \<longleftrightarrow> (\<exists>es. trace st' = trace st @ es \<and> (\<exists>e \<in> set es. E e))"

lemma ask_Inr: "ask su x st = (Inr a, st') \<Longrightarrow> \<exists>e. trace st' = trace st @ [e] \<and> what e = x \<and> answered e = Inr a"
  by (auto simp: ask_def split: prod.splits)

lemma perform_Inr: "perform su x st = (Inr u, st') \<Longrightarrow> \<exists>e. trace st' = trace st @ [e] \<and> answered_ok x e"
  by (auto simp: perform_def io_bind_Inr answered_ok_def dest!: ask_Inr)

lemma query_Inr [simp]: "query f st = (Inr a, st') \<longleftrightarrow> f st = Inr a \<and> st' = st"
  by (auto simp: query_def)

lemma cut_require_Inr [simp]: "cut_require b msg st = (Inr u, st') \<longleftrightarrow> b \<and> st' = st"
  by (simp add: cut_require_def)

lemma update_Inr [simp]: "update f st = (Inr u, st') \<longleftrightarrow> st' = f st"
  by (auto simp: update_def)

lemma command_Inr:
  assumes "run_command su c st = (Inr (code, out), st')"
  shows "\<exists>e. trace st' = trace st @ [e] \<and> what e = Run c \<and> answered e = Inr (Ran code out)"
proof -
  obtain a st1 where a: "ask su (Run c) st = (Inr a, st1)"
    "(case a of Ran code stdout \<Rightarrow> io_return (code, stdout) | _ \<Rightarrow> io_raise OtherError) st1 = (Inr (code, out), st')"
    using assms unfolding run_command_def io_bind_Inr by blast
  then show ?thesis by (cases a) (auto dest!: ask_Inr)
qed

lemma raw_run_Inr: "raw_run su argv t st = (Inr r, st') \<Longrightarrow> \<exists>e. trace st' = trace st @ [e] \<and> ran_ok argv e"
  by (cases r) (auto simp: raw_run_def ran_ok_def runs_def dest!: command_Inr)

lemma cut_run_Inr:
  "cut_run_with su argv t a i keys st = (Inr (code, out), st') \<Longrightarrow>
   \<exists>e. trace st' = trace st @ [e] \<and> runs argv e \<and> answered e = Inr (Ran code out)"
  by (auto simp: cut_run_with_def io_bind_Inr runs_def dest!: command_Inr)

lemma probe_Inr: "probe_health su p path st = (Inr u, st') \<Longrightarrow> \<exists>e. trace st' = trace st @ [e] \<and> probed p path e"
  by (auto simp: probe_health_def io_bind_Inr probed_def answered_ok_def dest!: perform_Inr)

lemma docker_state_Inr:
  "docker_state su s st = (Inr (True, health), st') \<Longrightarrow> H health \<Longrightarrow> \<exists>e. trace st' = trace st @ [e] \<and> saw_running su s H e"
  by (auto simp: docker_state_def inspect_container_runtime_def io_bind_Inr saw_running_def
      split: option.splits if_splits prod.splits dest!: cut_run_Inr)

lemma legacy_loop_Inr:
  "legacy_loop su s h u st = (Inr (), st') \<Longrightarrow>
   \<exists>es e. trace st' = trace st @ es @ [e] \<and> saw_running su s (\<lambda>x. h \<longrightarrow> x = ''healthy'') e"
proof (induction su s h u st rule: legacy_loop.induct)
  case (1 su s h u st)
  obtain r st1 where d: "docker_state su s st = (r, st1)" by (rule prod.exhaust)
  from emits_run [OF quiet_docker_state d] obtain es where es: "trace st1 = trace st @ es" unfolding extends_def by blast
  obtain r2 st2 where p: "pause su st1 = (r2, st2)" by (rule prod.exhaust)
  have "emits (\<lambda>_. True) (pause su)" by (rule emits_pause) simp
  from emits_run [OF this p] obtain es2 where es2: "trace st2 = trace st1 @ es2" unfolding extends_def by blast
  obtain running health where r: "r = Inr (running, health)"
    using "1.prems" d by (cases r) (auto simp: legacy_loop.simps)
  show ?case
  proof (cases "running \<and> (\<not> h \<or> health = ''healthy'')")
    case True
    then have "st' = st1" using "1.prems" d r by (subst (asm) legacy_loop.simps) simp
    obtain e where "trace st1 = trace st @ [e]" "saw_running su s (\<lambda>x. h \<longrightarrow> x = ''healthy'') e"
      using docker_state_Inr [of su s st health st1 "\<lambda>x. h \<longrightarrow> x = ''healthy''"] d r True by auto
    with \<open>st' = st1\<close> show ?thesis by (intro exI [of _ "[]"] exI [of _ e]) simp
  next
    case False
    have nn: "\<not> (running \<and> health = ''none'')" "\<not> u \<le> now st1" "r2 = Inr ()" "legacy_loop su s h u st2 = (Inr (), st')"
      using "1.prems" d r False p by (subst (asm) legacy_loop.simps, cases r2, auto split: if_splits)+
    from "1.IH" [OF d [symmetric] r refl _ _ _ p [symmetric] nn(3)] nn False
    obtain es3 e where "trace st' = trace st2 @ es3 @ [e]" "saw_running su s (\<lambda>x. h \<longrightarrow> x = ''healthy'') e" by blast
    with es es2 show ?thesis by (intro exI [of _ "es @ es2 @ es3"] exI [of _ e]) simp
  qed
qed

section \<open>Segments of a run\<close>

text \<open>Events that have the properties of a list, in this order.\<close>

definition in_order :: "(event \<Rightarrow> bool) list \<Rightarrow> event list \<Rightarrow> bool" where
  "in_order Ps es \<longleftrightarrow> (\<exists>xs. subseq xs es \<and> list_all2 (\<lambda>P e. P e) Ps xs)"

lemma in_order_Nil [simp]: "in_order [] es"
  by (auto simp: in_order_def intro: exI [of _ "[]"])

lemma in_order_one: "in_order [P] es \<longleftrightarrow> (\<exists>e \<in> set es. P e)"
  by (auto simp: in_order_def list_all2_Cons1 subseq_singleton_left) (metis subseq_singleton_left)

lemma in_order_append: "in_order Ps a \<Longrightarrow> in_order Qs b \<Longrightarrow> in_order (Ps @ Qs) (a @ b)"
  unfolding in_order_def by (blast intro: list_emb_append_mono list_all2_appendI)

lemma in_order_take: "in_order (Ps @ Qs) es \<Longrightarrow> in_order Ps es"
  unfolding in_order_def list_all2_append1 by (meson subseq_order.trans list_emb_append2 subseq_rev_drop_many subseq_order.refl)

text \<open>A stretch of a run whose events have a property, and show the evidence in its order.\<close>

definition segment :: "(event \<Rightarrow> bool) \<Rightarrow> (event \<Rightarrow> bool) list \<Rightarrow> 'w ctl \<Rightarrow> 'w ctl \<Rightarrow> bool" where
  "segment P Ps st st' \<longleftrightarrow>
     (\<exists>es. trace st' = trace st @ es \<and> list_all (\<lambda>e. P e \<and> now st \<le> issued e \<and> finished e \<le> now st') es \<and> in_order Ps es)
     \<and> flags st' = flags st \<and> now st \<le> now st'"

lemma segment_append:
  assumes "segment P Ps st st1" and "segment P Qs st1 st2"
  shows "segment P (Ps @ Qs) st st2"
proof -
  obtain a b where "trace st1 = trace st @ a" "list_all (\<lambda>e. P e \<and> now st \<le> issued e \<and> finished e \<le> now st1) a" "in_order Ps a"
    "trace st2 = trace st1 @ b" "list_all (\<lambda>e. P e \<and> now st1 \<le> issued e \<and> finished e \<le> now st2) b" "in_order Qs b"
    using assms unfolding segment_def by blast
  moreover from this have "in_order (Ps @ Qs) (a @ b)" by (intro in_order_append)
  ultimately show ?thesis using assms unfolding segment_def
    by (intro conjI exI [of _ "a @ b"]) (auto simp: list_all_iff intro: order_trans)
qed

lemma segment_same [simp]: "segment P [] st st"
  by (simp add: segment_def)

lemma segment_quiet: "emits P m \<Longrightarrow> m st = (r, st') \<Longrightarrow> segment P [] st st'"
  using emits_run unfolding segment_def extends_def by fastforce

lemma segment_mono: "segment P Ps st st' \<Longrightarrow> (\<And>e. P e \<Longrightarrow> Q e) \<Longrightarrow> segment Q Ps st st'"
  unfolding segment_def by (auto elim!: list.pred_mono_strong)

lemma segment_happened:
  assumes "emits P m" and "m st = (r, st')" and "trace st' = trace st @ es" and "in_order Ps es"
  shows "segment P Ps st st'"
  using emits_run [OF assms(1,2)] assms(3,4) unfolding segment_def extends_def by auto

lemma segment_events:
  "segment P Ps st st' \<Longrightarrow> \<exists>es. trace st' = trace st @ es \<and> list_all P es \<and> in_order Ps es"
  unfolding segment_def by (auto elim!: list.pred_mono_strong)

abbreviation calm :: "'w site \<Rightarrow> event \<Rightarrow> bool" where
  "calm su \<equiv> \<lambda>e. \<not> harmful su (what e)"

lemma attempt_Inr:
  "attempt l m es st = (Inr es', st') \<Longrightarrow> es' = es @ [l] \<or> es' = es \<and> m st = (Inr (), st')"
  by (auto simp: attempt_def split: prod.splits sum.splits if_splits)

lemma attempt_ok: "attempt l m es st = (Inr es', st') \<Longrightarrow> l \<notin> set es' \<Longrightarrow> es' = es \<and> m st = (Inr (), st')"
  using attempt_Inr by fastforce

section \<open>A legacy service that runs again\<close>

abbreviation data_healthy :: "pystr \<Rightarrow> bool" where "data_healthy h \<equiv> h = ''healthy''"

lemma ensure_segment:
  assumes "ensure_legacy_running su s h st = (Inr u, st')"
  shows "segment (calm su) [saw_running su s (\<lambda>x. h \<longrightarrow> x = ''healthy'')] st st'"
proof -
  obtain a st1 b st2 where d: "docker_state su s st = (Inr a, st1)"
    and r: "(if fst a then io_return (0, []) else raw_run su [''docker'', ''start'', ls_identity s] 30) st1 = (Inr b, st2)"
    and l: "legacy_loop su s h (now st2 + 60000) st2 = (Inr (), st')"
    using assms by (cases u) (auto simp: ensure_legacy_running_def io_bind_Inr split: prod.splits)
  have "quiet su (if fst a then io_return (0, []) else raw_run su [''docker'', ''start'', ls_identity s] 30)"
    by (cases "fst a") (simp, simp, rule emits_raw_run, rule docker_harmless(1), auto)
  from segment_quiet [OF quiet_docker_state d] segment_quiet [OF this r]
  obtain es where "trace st2 = trace st @ es" using segment_append unfolding segment_def by fastforce
  moreover from legacy_loop_Inr [OF l] obtain es2 e
    where "trace st' = trace st2 @ es2 @ [e]" "saw_running su s (\<lambda>x. h \<longrightarrow> x = ''healthy'') e" by blast
  ultimately show ?thesis
    by (intro segment_happened [OF quiet_ensure assms, of "es @ es2 @ [e]"]) (auto simp: in_order_one)
qed

lemma probe_segment: "probe_health su p path st = (Inr u, st') \<Longrightarrow> segment (calm su) [probed p path] st st'"
  using segment_happened [OF quiet_probe] probe_Inr in_order_one by (metis list.set_intros(1))

lemma sync_segment: "restore_sync su st = (Inr u, st') \<Longrightarrow> segment (calm su) [probed 3021 ''/healthz''] st st'"
  using segment_append [OF segment_quiet [OF quiet_restart_sync] probe_segment]
  by (fastforce simp: restore_sync_def io_bind_Inr)

lemma restore_legacy_segment:
  assumes "restore_legacy su st = (Inr errors, st')"
    and "\<not> list_ex (\<lambda>l. l \<in> set errors) [''legacy_postgres_start'', ''legacy_redis_start'', ''legacy_app_start'', ''legacy_app_health'']"
  shows "segment (calm su) ([saw_running su (svc_postgres su) data_healthy, saw_running su (svc_redis su) data_healthy,
      saw_running su (svc_app su) (\<lambda>_. True), probed 8080 ''/health'']
      @ (if errors = [] then [probed 3021 ''/healthz''] else [])) st st'"
proof -
  obtain e1 s1 e2 s2 e3 s3 e4 s4 where runs:
    "attempt ''legacy_postgres_start'' (ensure_legacy_running su (svc_postgres su) True) [] st = (Inr e1, s1)"
    "attempt ''legacy_redis_start'' (ensure_legacy_running su (svc_redis su) True) e1 s1 = (Inr e2, s2)"
    "attempt ''legacy_app_start'' (ensure_legacy_running su (svc_app su) False) e2 s2 = (Inr e3, s3)"
    "attempt ''legacy_app_health'' (probe_health su 8080 ''/health'') e3 s3 = (Inr e4, s4)"
    "attempt ''legacy_sync_health'' (restore_sync su) e4 s4 = (Inr errors, st')"
    using assms(1) by (auto simp: restore_legacy_def io_bind_Inr)
  have last: "e4 = [] \<and> (errors = [] \<longrightarrow> restore_sync su s4 = (Inr (), st'))"
    and e: "''legacy_app_health'' \<notin> set e4" "''legacy_app_start'' \<notin> set e3"
      "''legacy_redis_start'' \<notin> set e2" "''legacy_postgres_start'' \<notin> set e1"
    using assms(2) runs [THEN attempt_Inr] by auto
  note ok = attempt_ok [OF runs(4) e(1)] attempt_ok [OF runs(3) e(2)] attempt_ok [OF runs(2) e(3)] attempt_ok [OF runs(1) e(4)]
  have sync: "segment (calm su) (if errors = [] then [probed 3021 ''/healthz''] else []) s4 st'"
  proof (cases "errors = []")
    case True
    with last show ?thesis using sync_segment by fastforce
  next
    case False
    then show ?thesis using segment_quiet [OF emits_attempt [OF quiet_restore_sync] runs(5)] by simp
  qed
  from ok last have r: "ensure_legacy_running su (svc_postgres su) True st = (Inr (), s1)"
    "ensure_legacy_running su (svc_redis su) True s1 = (Inr (), s2)"
    "ensure_legacy_running su (svc_app su) False s2 = (Inr (), s3)" "probe_health su 8080 ''/health'' s3 = (Inr (), s4)"
    by simp_all
  note seg = ensure_segment [OF r(1), simplified] ensure_segment [OF r(2), simplified] ensure_segment [OF r(3), simplified]
    probe_segment [OF r(4)] sync
  show ?thesis
    using segment_append [OF segment_append [OF segment_append [OF segment_append [OF seg(1,2)] seg(3)] seg(4)] seg(5)] by simp
qed

section \<open>The stable upstream\<close>

definition stable_active :: "event \<Rightarrow> bool" where
  "stable_active e \<longleftrightarrow> what e = ReadActive \<and> answered e = Inr (Bytes (stage_payload Stable))"

lemma ask_bytes_Inr:
  "ask_bytes su x st = (Inr b, st') \<Longrightarrow> \<exists>e. trace st' = trace st @ [e] \<and> what e = x \<and> answered e = Inr (Bytes b)"
proof -
  assume "ask_bytes su x st = (Inr b, st')"
  then obtain a s1 where a: "ask su x st = (Inr a, s1)"
    "(case a of Bytes b \<Rightarrow> io_return b | _ \<Rightarrow> io_raise OtherError) s1 = (Inr b, st')"
    unfolding ask_bytes_def io_bind_Inr by blast
  then show ?thesis by (cases a) (auto dest!: ask_Inr)
qed

lemma require_stage_segment:
  assumes "require_stage su Stable st = (Inr u, st')"
  shows "segment (calm su) [stable_active] st st'"
proof -
  obtain v s1 active s2 payload where r: "perform su CheckActive st = (Inr v, s1)" "ask_bytes su ReadActive s1 = (Inr active, s2)"
    "stage_bytes su Stable s2 = (Inr payload, st')" "active = payload"
    using assms by (auto simp: require_stage_def io_bind_Inr)
  obtain e where e: "trace s2 = trace s1 @ [e]" "stable_active e"
    using ask_bytes_Inr [OF r(2)] stage_bytes_Inr [OF r(3)] r(4) by (auto simp: stable_active_def)
  have "segment (calm su) [stable_active] s1 s2"
    by (rule segment_happened [OF quiet_bytes(3) r(2) e(1)]) (use e(2) in \<open>simp add: in_order_one\<close>)
  from segment_append [OF segment_append [OF segment_quiet [OF quiet_bytes(4) r(1)] this] segment_quiet [OF quiet_stage(1) r(3)]]
  show ?thesis by simp
qed

lemma run_segment:
  assumes "raw_run su argv t st = (Inr r, st')" and "quiet su (raw_run su argv t)"
  shows "segment (calm su) [ran_ok argv] st st'"
proof -
  obtain e where "trace st' = trace st @ [e]" "ran_ok argv e" using raw_run_Inr [OF assms(1)] by blast
  then show ?thesis by (intro segment_happened [OF assms(2,1)]) (auto simp: in_order_one)
qed

lemma switch_segment:
  assumes "nginx_switch su Stable t None st = (Inr u, st')"
  shows "segment (calm su) [answered_ok (ReplaceActive (stage_payload Stable)),
      ran_ok [''/usr/bin/systemctl'', ''reload'', ''nginx''], stable_active] st st'"
proof -
  obtain payload s1 v s2 w s3 t1 x s4 t2 y s5 where r: "stage_bytes su Stable st = (Inr payload, s1)"
    "perform su (ReplaceActive payload) s1 = (Inr v, s2)" "perform su CheckActive s2 = (Inr w, s3)"
    "raw_run su [''/usr/sbin/nginx'', ''-t''] t1 s3 = (Inr x, s4)"
    "raw_run su [''/usr/bin/systemctl'', ''reload'', ''nginx''] t2 s4 = (Inr y, s5)" "require_stage su Stable s5 = (Inr u, st')"
    using assms by (auto simp: nginx_switch_def io_bind_Inr)
  have q: "quiet su (raw_run su [''/usr/sbin/nginx'', ''-t''] t1)"
    "quiet su (raw_run su [''/usr/bin/systemctl'', ''reload'', ''nginx''] t2)"
    "quiet su (perform su (ReplaceActive (stage_payload Stable)))"
    by (rule emits_raw_run, rule docker_harmless(2), auto)+
      (rule emits_perform, simp add: harmful_def stage_payload_def)
  have p: "perform su (ReplaceActive (stage_payload Stable)) s1 = (Inr v, s2)"
    using r(1,2) stage_bytes_Inr by metis
  obtain e where "trace s2 = trace s1 @ [e]" "answered_ok (ReplaceActive (stage_payload Stable)) e"
    using perform_Inr [OF p] by blast
  then have "segment (calm su) [answered_ok (ReplaceActive (stage_payload Stable))] s1 s2"
    by (intro segment_happened [OF q(3) p]) (auto simp: in_order_one)
  note seg = segment_append [OF segment_quiet [OF quiet_stage(1) r(1)] this]
  note seg = segment_append [OF seg segment_quiet [OF quiet_bytes(4) r(3)]]
  note seg = segment_append [OF seg segment_quiet [OF q(1) r(4)]]
  note seg = segment_append [OF seg run_segment [OF r(5) q(2)]]
  from segment_append [OF seg require_stage_segment [OF r(6)]] show ?thesis by simp
qed

lemma restore_stable_segment:
  assumes "restore_stable su st = (Inr u, st')"
  shows "segment (calm su) [answered_ok (ReplaceActive (stage_payload Stable)),
      ran_ok [''/usr/bin/systemctl'', ''reload'', ''nginx''], stable_active, probed 8080 ''/health''] st st'"
proof -
  obtain v s1 where "nginx_switch su Stable 15 None st = (Inr v, s1)" "probe_health su 8080 ''/health'' s1 = (Inr u, st')"
    using assms by (auto simp: restore_stable_def io_bind_Inr)
  from segment_append [OF switch_segment [OF this(1)] probe_segment [OF this(2)]] show ?thesis by simp
qed

section \<open>The rollback\<close>

lemma quiet_loud: "quiet su m \<Longrightarrow> emits (\<lambda>_. True) m"
  by (rule emits_mono) simp_all

lemma loud_raw_run: "emits (\<lambda>_. True) (raw_run su argv t)"
  by (rule emits_raw_run) simp

lemma loud_isolate: "emits (\<lambda>_. True) (isolate_target su)" "emits (\<lambda>_. True) (isolate_nonce su)"
  unfolding isolate_target_def isolate_nonce_def require_targets_absent_after_cleanup_def
  by (intro emits_bind loud_raw_run emits_each quiet_loud [OF quiet_cleanup_one(2)] quiet_loud [OF quiet_exists] emits_basic)+

lemma loud_step: "emits (\<lambda>_. True) m \<Longrightarrow> emits (\<lambda>_. True) (isolate_step r v b m l k es)"
  unfolding isolate_step_def guarded_step_def by (auto intro!: emits_bind emits_attempt)

text \<open>What a rollback does once the traffic is back: the checks of the targets and their removal.\<close>

definition cleanup_phase :: "'w site \<Rightarrow> bool \<Rightarrow> pystr list \<Rightarrow> (pystr list, 'w) cut" where
  "cleanup_phase su verified errors =
     io_bind (query (\<lambda>st. Inr (target_started st, nonce_target_started st))) (\<lambda>(target, nonce).
     io_bind (isolate_step True verified target (isolate_target su) ''traffic_canary_isolation''
                ''traffic_canary_kept_for_active_upstream_safety'' errors) (\<lambda>(traffic_isolated, errors).
     io_bind (isolate_step True verified nonce (isolate_nonce su) ''nonce_target_isolation''
                ''nonce_target_kept_for_active_upstream_safety'' errors) (\<lambda>(nonce_isolated, errors).
       if verified \<and> traffic_isolated \<and> nonce_isolated
       then attempt ''sanitized_target_reset'' (perform su ResetTarget) errors
       else io_return errors)))"

lemma loud_cleanup: "emits (\<lambda>_. True) (cleanup_phase su v es)"
  unfolding cleanup_phase_def
  by (auto intro!: emits_bind loud_step loud_isolate emits_attempt emits_perform)

abbreviation legacy_ready :: "pystr list \<Rightarrow> bool" where
  "legacy_ready errors \<equiv> \<not> list_ex (\<lambda>l. l \<in> set errors)
     [''legacy_postgres_start'', ''legacy_redis_start'', ''legacy_app_start'', ''legacy_app_health'']"

text \<open>The rollback by the point it reaches: a failure before the traffic is back ends it without any
  step on the targets.\<close>

definition begin_rollback :: "'w ctl \<Rightarrow> 'w ctl" where
  "begin_rollback st = st\<lparr>writer_stop_deadline := None, deadline := Some (now st + 1000 * ROLLBACK_SECONDS)\<rparr>"

lemma begin_rollback_same [simp]:
  "trace (begin_rollback st) = trace st" "target_started (begin_rollback st) = target_started st"
  "nonce_target_started (begin_rollback st) = nonce_target_started st"
  by (simp_all add: begin_rollback_def)

lemma io_bind_ok: "m p = (Inr a, p') \<Longrightarrow> io_bind m f p = f a p'"
  by (simp add: io_bind_def)

lemma isolate_step_not_restored: "isolate_step False v b m l k es = io_return (\<not> b, if b \<and> v then es @ [k] else es)"
  by (simp add: isolate_step_def)

lemma rollback_phases:
  assumes "rollback su st = (r, st')"
  obtains (stuck) "segment (calm su) [] (begin_rollback st) st'" "r \<noteq> Inr []"
  | (returned) errors s1 s2 verified errors2 s3 where
      "restore_legacy su (begin_rollback st) = (Inr errors, s1)" "legacy_ready errors"
      "restore_stable su s1 = (Inr (), s2)"
      "attempt ''recovery_identity'' (verify_cleanup su) errors s2 = (Inr errors2, s3)" "verified \<longleftrightarrow> errors2 = errors"
      "cleanup_phase su verified errors2 s3 = (r, st')"
  | (interrupted) errors s1 s2 e where
      "restore_legacy su (begin_rollback st) = (Inr errors, s1)" "legacy_ready errors"
      "restore_stable su s1 = (Inr (), s2)" "verify_cleanup su s2 = (Inl e, st')" "r = Inl e"
proof -
  obtain r1 s1 where l: "restore_legacy su (begin_rollback st) = (r1, s1)" by (rule prod.exhaust)
  note seg1 = segment_quiet [OF quiet_restore_legacy l]
  obtain r2 s2 where s: "restore_stable su s1 = (r2, s2)" by (rule prod.exhaust)
  note seg2 = segment_append [OF seg1 segment_quiet [OF quiet_restore_stable s], simplified]
  obtain r3 s3 where v: "verify_cleanup su s2 = (r3, s3)" by (rule prod.exhaust)
  note unfolded = assms [unfolded rollback_def, unfolded io_bind_def [of "update _"], unfolded update_def,
      folded begin_rollback_def, simplified]
  show thesis
  proof (cases r1)
    case (Inl e)
    then have "st' = s1" "r = Inl e" using unfolded l by (auto simp: io_bind_def)
    with seg1 show ?thesis by (intro stuck) auto
  next
    case (Inr errors)
    show ?thesis
    proof (cases "legacy_ready errors")
      case False
      then have "st' = s1 \<and> r \<noteq> Inr []" using unfolded l Inr
        by (auto simp: io_bind_def [of "restore_legacy su"] Let_def isolate_step_not_restored guarded_step_def io_bind_def query_def io_return_def)
      with seg1 show ?thesis by (intro stuck) auto
    next
      case ready: True
      show ?thesis
      proof (cases r2)
        case (Inl e)
        then have "st' = s2 \<and> r \<noteq> Inr []" using unfolded l Inr ready s
          by (auto simp: Let_def isolate_step_not_restored guarded_step_def io_bind_def query_def io_return_def attempt_def
              split: if_splits)
        with seg2 show ?thesis by (intro stuck) auto
      next
        case (Inr u)
        obtain r4 s4 where a: "attempt ''recovery_identity'' (verify_cleanup su) errors s2 = (r4, s4)" by (rule prod.exhaust)
        have sound: "guarded_step True (restore_stable su) ''stable_upstream_restore'' errors s1 = (Inr (True, errors), s2)"
          using s Inr by (simp add: guarded_step_def attempt_def io_bind_def io_return_def)
        note legacy = l [unfolded \<open>r1 = Inr errors\<close>]
        have run: "io_bind (guarded_step True (verify_cleanup su) ''recovery_identity'' errors)
            (\<lambda>(verified, es). cleanup_phase su verified es) s2 = (r, st')"
          using unfolded ready by (simp add: io_bind_ok [of "restore_legacy su", OF legacy]
              io_bind_ok [of "guarded_step _ _ _ _", OF sound] Let_def cleanup_phase_def)
        show ?thesis
        proof (cases r4)
          case (Inl e)
          then have "verify_cleanup su s2 = (Inl e, s4)" using a by (auto simp: attempt_def split: prod.splits sum.splits if_splits)
          moreover have "r = Inl e \<and> st' = s4" using run a Inl by (simp add: guarded_step_def io_bind_def)
          ultimately show ?thesis using interrupted legacy ready s Inr by auto
        next
          case (Inr errors2)
          then have "cleanup_phase su (errors2 = errors) errors2 s4 = (r, st')"
            using run a by (simp add: guarded_step_def io_bind_def io_return_def)
          then show ?thesis using returned [OF legacy ready _ _ refl] s \<open>r2 = Inr u\<close> a Inr by auto
        qed
      qed
    qed
  qed
qed

text \<open>The evidence a rollback waits for before it touches the target, in this order.\<close>

definition legacy_evidence :: "'w site \<Rightarrow> (event \<Rightarrow> bool) list" where
  "legacy_evidence su =
     [saw_running su (svc_postgres su) data_healthy, saw_running su (svc_redis su) data_healthy,
      saw_running su (svc_app su) (\<lambda>_. True), probed 8080 ''/health'']"

definition stable_evidence :: "(event \<Rightarrow> bool) list" where
  "stable_evidence =
     [answered_ok (ReplaceActive (stage_payload Stable)), ran_ok [''/usr/bin/systemctl'', ''reload'', ''nginx''],
      stable_active, probed 8080 ''/health'']"

lemma back_segment:
  assumes "restore_legacy su (begin_rollback st) = (Inr errors, s1)" and "legacy_ready errors"
    and "restore_stable su s1 = (Inr (), s2)"
  shows "segment (calm su) (legacy_evidence su @ stable_evidence) (begin_rollback st) s2"
proof -
  have "segment (calm su) (legacy_evidence su) (begin_rollback st) s1"
    using restore_legacy_segment [OF assms(1,2)] in_order_take unfolding segment_def legacy_evidence_def by blast
  from segment_append [OF this restore_stable_segment [OF assms(3)]]
  show ?thesis by (simp add: stable_evidence_def)
qed

lemma guarded_step_Inr:
  assumes "guarded_step True m l es st = (Inr (ok, es'), st')"
  shows "es' = es @ [l] \<or> ok \<and> es' = es \<and> m st = (Inr (), st')"
  using assms by (auto simp: guarded_step_def io_bind_Inr dest: attempt_Inr)

lemma isolate_step_Inr:
  assumes "isolate_step True v b m l k es st = (Inr (ok, es'), st')"
  shows "prefix es es'" and "es' = [] \<Longrightarrow> v \<Longrightarrow> ok \<and> (if b then m st = (Inr (), st') else st' = st)"
proof -
  consider "v \<and> b" "guarded_step True m l es st = (Inr (ok, es'), st')" | "\<not> (v \<and> b)" "ok = (\<not> b)" "es' = es" "st' = st"
    using assms by (auto simp: isolate_step_def split: if_splits)
  note step = this
  show "prefix es es'" using step by cases (auto dest!: guarded_step_Inr)
  show "ok \<and> (if b then m st = (Inr (), st') else st' = st)" if "es' = []" v
    using step that by cases (auto dest!: guarded_step_Inr)
qed

lemma cleanup_errors:
  assumes "cleanup_phase su v es st = (Inr [], st')"
  shows "es = []"
proof -
  obtain t n ok1 es1 s1 ok2 es2 s2 where
    i1: "isolate_step True v t (isolate_target su) ''traffic_canary_isolation''
       ''traffic_canary_kept_for_active_upstream_safety'' es st = (Inr (ok1, es1), s1)" and
    i2: "isolate_step True v n (isolate_nonce su) ''nonce_target_isolation''
       ''nonce_target_kept_for_active_upstream_safety'' es1 s1 = (Inr (ok2, es2), s2)" and
    l: "(if v \<and> ok1 \<and> ok2 then attempt ''sanitized_target_reset'' (perform su ResetTarget) es2 else io_return es2) s2 = (Inr [], st')"
    using assms by (auto simp: cleanup_phase_def io_bind_Inr)
  have "es2 = []" using l attempt_Inr by (fastforce split: if_splits)
  then show ?thesis using isolate_step_Inr(1) [OF i1] isolate_step_Inr(1) [OF i2] by simp
qed

lemma loud_run:
  assumes "raw_run su argv t st = (Inr r, st')"
  shows "segment (\<lambda>_. True) [ran_ok argv] st st'"
proof -
  obtain e where "trace st' = trace st @ [e]" "ran_ok argv e" using raw_run_Inr [OF assms] by blast
  then show ?thesis by (intro segment_happened [OF loud_raw_run assms]) (auto simp: in_order_one)
qed

lemma isolate_segment:
  assumes "isolate_target su st = (Inr (), st')"
  shows "segment (\<lambda>_. True) [ran_ok (down_target su)] st st'"
proof -
  obtain r s1 where r: "raw_run su (down_target su) 60 st = (Inr r, s1)" "require_targets_absent_after_cleanup su s1 = (Inr (), st')"
    using assms by (auto simp: isolate_target_def io_bind_Inr)
  have "quiet su (require_targets_absent_after_cleanup su)"
    unfolding require_targets_absent_after_cleanup_def by (intro emits_each quiet_cleanup_one)
  from segment_append [OF loud_run [OF r(1)] segment_mono [OF segment_quiet [OF this r(2)]]] show ?thesis by simp
qed

lemma isolate_nonce_segment:
  assumes "isolate_nonce su st = (Inr (), st')"
  shows "segment (\<lambda>_. True) [ran_ok (down_nonce su)] st st'"
proof -
  let ?acl = "privileged_python_command su ''configure-redis-migration-acl.py'' [''--remove'']"
  obtain r s1 e s2 x where r: "raw_run su (down_nonce su) 60 st = (Inr r, s1)" "target_exists su TARGET_NONCE_REDIS s1 = (Inr e, s2)"
    "raw_run su ?acl 15 s2 = (Inr x, st')"
    using assms by (auto simp: isolate_nonce_def io_bind_Inr)
  from segment_append [OF loud_run [OF r(1)] segment_append [OF segment_mono [OF segment_quiet [OF quiet_exists r(2)]]
      segment_quiet [OF loud_raw_run r(3)]]]
  show ?thesis by simp
qed

lemma cleanup_evidence:
  assumes "cleanup_phase su True [] st = (Inr [], st')"
  shows "\<exists>c. trace st' = trace st @ c \<and> in_order ((if target_started st then [ran_ok (down_target su)] else [])
      @ (if nonce_target_started st then [ran_ok (down_nonce su)] else []) @ [answered_ok ResetTarget]) c"
proof -
  obtain ok1 es1 s1 ok2 es2 s2 where
    i1: "isolate_step True True (target_started st) (isolate_target su) ''traffic_canary_isolation''
       ''traffic_canary_kept_for_active_upstream_safety'' [] st = (Inr (ok1, es1), s1)" and
    i2: "isolate_step True True (nonce_target_started st) (isolate_nonce su) ''nonce_target_isolation''
       ''nonce_target_kept_for_active_upstream_safety'' es1 s1 = (Inr (ok2, es2), s2)" and
    l: "(if ok1 \<and> ok2 then attempt ''sanitized_target_reset'' (perform su ResetTarget) es2 else io_return es2) s2 = (Inr [], st')"
    using assms by (auto simp: cleanup_phase_def io_bind_Inr query_def)
  have "es2 = []" using l attempt_Inr by (fastforce split: if_splits)
  moreover from this have "es1 = []" using isolate_step_Inr(1) [OF i2] by simp
  ultimately have ok: "ok1" "if target_started st then isolate_target su st = (Inr (), s1) else s1 = st"
    "ok2" "if nonce_target_started st then isolate_nonce su s1 = (Inr (), s2) else s2 = s1"
    using isolate_step_Inr(2) [OF i1] isolate_step_Inr(2) [OF i2] by auto
  have seg1: "segment (\<lambda>_. True) (if target_started st then [ran_ok (down_target su)] else []) st s1"
  proof (cases "target_started st")
    case True
    then show ?thesis using isolate_segment [of su st s1] ok(2) by simp
  qed (use ok(2) in \<open>simp add: segment_def\<close>)
  have seg2: "segment (\<lambda>_. True) (if nonce_target_started st then [ran_ok (down_nonce su)] else []) s1 s2"
  proof (cases "nonce_target_started st")
    case True
    then show ?thesis using isolate_nonce_segment [of su s1 s2] ok(4) by simp
  qed (use ok(4) in \<open>simp add: segment_def\<close>)
  have "perform su ResetTarget s2 = (Inr (), st')"
    using l ok \<open>es2 = []\<close> attempt_Inr by fastforce
  from perform_Inr [OF this] obtain e where e: "trace st' = trace s2 @ [e]" "answered_ok ResetTarget e" by blast
  obtain c where c: "trace s2 = trace st @ c" "in_order ((if target_started st then [ran_ok (down_target su)] else [])
      @ (if nonce_target_started st then [ran_ok (down_nonce su)] else [])) c"
    using segment_events [OF segment_append [OF seg1 seg2]] by blast
  have "in_order [answered_ok ResetTarget] [e]" using e by (simp add: in_order_one)
  from in_order_append [OF c(2) this] c(1) e(1) show ?thesis by (intro exI [of _ "c @ [e]"]) simp
qed

text \<open>
  C13. In every rollback.\<close>

theorem rollback_restores_before_removal:
  "\<exists>a c. trace (snd (rollback su st)) = trace st @ a @ c \<and> list_all (\<lambda>e. \<not> harmful su (what e)) a \<and>
     (c = [] \<or> in_order (legacy_evidence su @ stable_evidence) a)"
proof -
  obtain r st' where run: "rollback su st = (r, st')" by (rule prod.exhaust)
  then show ?thesis
  proof (cases rule: rollback_phases)
    case stuck
    then obtain a where "trace st' = trace st @ a" "list_all (calm su) a"
      using segment_events [OF stuck(1)] by auto
    with run show ?thesis by (intro exI [of _ a] exI [of _ "[]"]) simp
  next
    case (returned errors s1 s2 verified errors2 s3)
    have "quiet su (attempt ''recovery_identity'' (verify_cleanup su) errors)"
      by (rule emits_attempt) (rule quiet_verify_cleanup)
    note both = segment_append [OF back_segment [OF returned(1-3)] segment_quiet [OF this returned(4)], simplified]
    obtain a where a: "trace s3 = trace st @ a" "list_all (calm su) a" "in_order (legacy_evidence su @ stable_evidence) a"
      using segment_events [OF both] by auto
    obtain c where "trace st' = trace s3 @ c"
      using segment_events [OF segment_quiet [OF loud_cleanup returned(6)]] by auto
    with a run show ?thesis by (intro exI [of _ a] exI [of _ c]) simp
  next
    case (interrupted errors s1 s2 e)
    note both = segment_append [OF back_segment [OF interrupted(1-3)] segment_quiet [OF quiet_verify_cleanup interrupted(4)], simplified]
    obtain a where "trace st' = trace st @ a" "list_all (calm su) a" "in_order (legacy_evidence su @ stable_evidence) a"
      using segment_events [OF both] by auto
    with run show ?thesis by (intro exI [of _ a] exI [of _ "[]"]) simp
  qed
qed


end
