(* ===== verification/Cutover_Window.thy ===== *)
theory Cutover_Window
  imports Cutover_Facts
begin

text \<open>
  The window of a completed cutover, from the stop of the sync writer to the end of the canary, with
  the stop of the application and the six migrations in between, in less than the 60 seconds of the
  writer-stop deadline.
\<close>

section \<open>Any events\<close>

named_theorems loud "actions that only append to the trace"

abbreviation appends :: "('w ctl \<Rightarrow> 'r \<times> 'w ctl) \<Rightarrow> bool" where
  "appends \<equiv> emits (\<lambda>_. True)"

declare emits_bind [loud] emits_basic [loud] emits_each [loud]

lemma appends_basic [loud]: "appends (ask su x)" "appends (perform su x)" "appends (ask_bytes su x)" "appends (ask_doc su x)"
  "appends (pause su)" "appends (run_command su c)" "appends (cut_run_with su argv t a i keys)" "appends (cut_run su argv n)"
  "appends (cut_try su argv n)"
  unfolding cut_run_def cut_try_def
  by (rule emits_ask emits_perform emits_bytes emits_pause emits_command emits_cut_run; simp)+

lemmas appends_quiet [loud] = emitted [THEN quiet_loud]

lemma appends_update [loud]:
  "appends (update (\<lambda>st. st\<lparr>writers_stopped := b\<rparr>))" "appends (update (\<lambda>st. st\<lparr>migration_writes_stopped := b\<rparr>))"
  "appends (update (\<lambda>st. st\<lparr>canary_active := b\<rparr>))" "appends (update (\<lambda>st. st\<lparr>nonce_runtime_active := b\<rparr>))"
  "appends (update (\<lambda>st. st\<lparr>target_identities := (target_identities st)(n := i)\<rparr>))"
  by (rule emits_update; simp add: flags_def)+

lemma appends_target_state [loud]: "appends (target_state su name)"
proof -
  have "appends (io_bind (inspect_container_runtime su identity name (Some identity) False)
      (\<lambda>r. case r of Some (_, running, health) \<Rightarrow> io_return (running, health) | None \<Rightarrow> io_raise OtherError))" for identity
    by (auto intro!: emits_bind loud split: option.splits)
  then show ?thesis by (auto simp: emits_def target_state_def split: option.splits)
qed

lemma appends_require_target [loud]: "appends (require_target su name r h)" "appends (require_all_targets su h)"
  unfolding require_target_def require_all_targets_def by (auto intro!: loud)

lemma appends_require_legacy [loud]: "appends (require_legacy su s r h)"
  unfolding require_legacy_def by (auto intro!: loud)

lemma appends_target_healthy: "appends (target_healthy su name)"
  unfolding target_healthy_def by (auto intro!: loud)

lemma wait_loop_extends: "extends (\<lambda>_. True) st (snd (wait_loop su name u st))"
proof (induction su name u st rule: wait_loop.induct)
  case (1 su name u st)
  obtain r st1 where d: "target_healthy su name st = (r, st1)" by (rule prod.exhaust)
  obtain r2 st2 where p: "pause su st1 = (r2, st2)" by (rule prod.exhaust)
  note look = emits_run [OF appends_target_healthy d]
  note rest = extends_trans [OF look emits_run [OF appends_basic(5) p]]
  show ?case
  proof (cases r)
    case (Inr ok)
    show ?thesis
    proof (cases "\<not> ok \<and> \<not> u \<le> now st1 \<and> r2 = Inr ()")
      case True
      then have "wait_loop su name u st = wait_loop su name u st2"
        using d Inr p by (subst wait_loop.simps) auto
      moreover have "extends (\<lambda>_. True) st2 (snd (wait_loop su name u st2))"
        using "1.IH" [OF d [symmetric] Inr _ _ p [symmetric]] True by auto
      ultimately show ?thesis using extends_trans [OF rest] by simp
    next
      case False
      with d Inr p have "snd (wait_loop su name u st) \<in> {st1, st2}"
        by (subst wait_loop.simps) (cases r2; auto)
      with look rest show ?thesis by auto
    qed
  qed (use d look in \<open>simp add: wait_loop.simps [of su name u st]\<close>)
qed

lemma appends_pin [loud]: "appends (pin_target_identity su name)"
proof -
  have "appends (\<lambda>st. case r of
          None \<Rightarrow> (Inl OtherError, st)
        | Some (identity, _, _) \<Rightarrow>
            if target_identities st name \<notin> {None, Some identity}
            then (cutover_error ''migrated-target container identity changed'', st)
            else if list_ex (\<lambda>other. other \<noteq> name \<and> target_identities st other = Some identity) TARGET_NAMES
                 \<or> identity \<in> set (legacy_identities su)
            then (cutover_error ''migrated-target container identity aliases another service'', st)
            else (Inr identity, st\<lparr>target_identities := (target_identities st)(name \<mapsto> identity)\<rparr>))"
      for r :: "(pystr \<times> bool \<times> pystr) option"
    by (rule emitsI) (auto simp: flags_def intro!: extends_same split: option.split)
  then show ?thesis unfolding pin_target_identity_def by (auto intro!: loud)
qed

lemma appends_wait [loud]: "appends (wait_target_healthy su name)"
proof -
  have pin: "appends (io_bind (pin_target_identity su name) (\<lambda>_. io_return ()))"
    by (intro loud)
  then have "appends (\<lambda>st. if name \<in> set TARGET_NAMES \<and> target_identities st name = None
      then io_bind (pin_target_identity su name) (\<lambda>_. io_return ()) st else (Inr (), st))"
    by (auto simp: emits_def)
  moreover have "appends (\<lambda>st. wait_loop su name (now st + 1000 * min 90 left) st)" for left
    by (rule emitsI) (rule wait_loop_extends)
  ultimately show ?thesis unfolding wait_target_healthy_def by (intro loud)
qed

lemma appends_recovery [loud]: "appends (persist_recovery_state su phase)" "appends (clear_recovery_state su)"
  unfolding persist_recovery_state_def clear_recovery_state_def by (auto intro!: loud)

lemma appends_replace [loud]: "appends (replace_postgres su)" "appends (restart_nonce su)"
  unfolding replace_postgres_def restart_nonce_def by (auto intro!: loud)

lemma appends_nginx [loud]: "appends (nginx_switch su s t u)"
  unfolding nginx_switch_def require_stage_def stage_bytes_def
  by (intro loud emits_raw_run) simp_all

section \<open>The writers are stopped for less than a minute\<close>

definition stop_sync :: "pystr list" where "stop_sync = [''/usr/bin/systemctl'', ''stop'', SYNC_UNIT]"

definition stop_app :: "'w site \<Rightarrow> pystr list" where
  "stop_app su = [''docker'', ''stop'', ''--time'', ''10'', ls_identity (svc_app su)]"

text \<open>What happens between the stop of the sync writer and the canary.\<close>

definition window_evidence :: "'w site \<Rightarrow> (event \<Rightarrow> bool) list" where
  "window_evidence su = ran_ok (stop_app su) # map (\<lambda>(argv, _). ran_ok argv) (migration_steps su)
     @ [answered_ok (ReplaceActive (stage_payload Canary))]"

lemma appended: "appends m \<Longrightarrow> m st = (r, st') \<Longrightarrow> segment (\<lambda>_. True) [] st st'"
  by (rule segment_quiet)

lemma cut_run_segment:
  assumes "cut_run_with su argv t a i keys st = (Inr r, st')"
  shows "segment (\<lambda>_. True) [ran_ok argv] st st'"
proof -
  obtain code stdout where "r = (code, stdout)" by (rule prod.exhaust)
  then obtain e where "trace st' = trace st @ [e]" "ran_ok argv e"
    using cut_run_Inr [of su argv t a i keys st code stdout st'] assms by (auto simp: ran_ok_def)
  then show ?thesis by (intro segment_happened [OF appends_basic(7) assms]) (auto simp: in_order_one)
qed

lemma migrations_segment:
  assumes "cut_each (\<lambda>(argv, keys). io_bind (cut_run_with su argv None False False keys) (\<lambda>_. io_return ())) steps st = (Inr (), st')"
  shows "segment (\<lambda>_. True) (map (\<lambda>(argv, _). ran_ok argv) steps) st st'"
  using assms
proof (induction steps arbitrary: st)
  case (Cons step steps)
  obtain argv keys where step: "step = (argv, keys)" by (rule prod.exhaust)
  obtain r st1 where "cut_run_with su argv None False False keys st = (Inr r, st1)"
    "cut_each (\<lambda>(argv, keys). io_bind (cut_run_with su argv None False False keys) (\<lambda>_. io_return ())) steps st1 = (Inr (), st')"
    using Cons.prems by (auto simp: io_bind_Inr step)
  from segment_append [OF cut_run_segment [OF this(1)] Cons.IH [OF this(2)]] show ?case by (simp add: step)
qed simp

lemma migrate_segment:
  assumes "migrate su st = (Inr u, st')"
  shows "segment (\<lambda>_. True) (map (\<lambda>(argv, _). ran_ok argv) (migration_steps su)) st st'"
proof -
  let ?set = "update (\<lambda>st. st\<lparr>migration_writes_stopped := True\<rparr>)"
  obtain a s1 b s2 s3 c s4 where r: "require_recovery_identity su st = (Inr a, s1)" "?set s1 = (Inr b, s2)"
    "cut_each (\<lambda>(argv, keys). io_bind (cut_run_with su argv None False False keys) (\<lambda>_. io_return ())) (migration_steps su) s2 = (Inr (), s3)"
    "replace_postgres su s3 = (Inr c, s4)" "restart_nonce su s4 = (Inr u, st')"
    using assms unfolding migrate_def io_bind_Inr by auto
  have q: "appends (require_recovery_identity su)" "appends ?set" "appends (replace_postgres su)" "appends (restart_nonce su)"
    by (intro loud)+
  from segment_append [OF appended [OF q(1) r(1)] segment_append [OF appended [OF q(2) r(2)]
      segment_append [OF migrations_segment [OF r(3)] segment_append [OF appended [OF q(3) r(4)] appended [OF q(4) r(5)]]]]]
  show ?thesis by simp
qed

lemma appends_start_target: "appends (start_target su)"
  unfolding start_target_def by (intro loud)

text \<open>A command is issued when it is asked for, and its answer is the last thing before the next state.\<close>

lemma ask_times:
  "ask su x st = (Inr a, st') \<Longrightarrow> trace st' = trace st @ [e] \<Longrightarrow> issued e = now st \<and> finished e = now st' \<and> now st \<le> now st'"
  by (auto simp: ask_def split: prod.splits)

lemma cut_run_times:
  assumes "cut_run_with su argv t a i keys st = (Inr r, st')" and "trace st' = trace st @ [e]"
  shows "issued e = now st \<and> finished e = now st' \<and> now st \<le> now st'"
proof -
  obtain c where c: "run_command su c st = (Inr r, st')"
    using assms(1) unfolding cut_run_with_def io_bind_Inr query_Inr io_lift_Inr by blast
  then obtain x s1 where a: "ask su (Run c) st = (Inr x, s1)"
    "(case x of Ran code stdout \<Rightarrow> io_return (code, stdout) | _ \<Rightarrow> io_raise OtherError) s1 = (Inr r, st')"
    unfolding run_command_def io_bind_Inr by blast
  then have "s1 = st'" by (cases x) auto
  with a(1) assms(2) show ?thesis by (intro ask_times) auto
qed

text \<open>The first step of \<open>stop_writers\<close> and the rest.\<close>

lemma stop_writers_segment:
  assumes "stop_writers su st = (Inr u, st')"
  obtains e s1 where "trace s1 = trace st @ [e]" "runs stop_sync e" "issued e = now st" "now st \<le> now s1"
    "writer_stop_deadline s1 = Some (now st + 60000)" "segment (\<lambda>_. True) [ran_ok (stop_app su)] s1 st'"
proof -
  let ?s0 = "st\<lparr>writer_stop_deadline := Some (now st + 60000)\<rparr>"
  obtain code out s1 where stop: "cut_run su stop_sync 20 ?s0 = (Inr (code, out), s1)" and
    rest: "io_bind (unit_active su) (\<lambda>active.
     io_bind (cut_require (\<not> active) ''legacy sync writer did not stop'') (\<lambda>_.
     io_bind (unit_metadata su) (\<lambda>fragment.
     io_bind (query (\<lambda>st. if Some fragment = sync_fragment st then Inr ()
                          else cutover_error ''legacy sync unit identity changed while stopping writers'')) (\<lambda>_.
     io_bind (cut_run su (stop_app su) 20) (\<lambda>_.
     io_bind (require_legacy su (svc_app su) False False) (\<lambda>_.
     io_bind (require_legacy su (svc_postgres su) True True) (\<lambda>_.
     io_bind (require_legacy su (svc_redis su) True True) (\<lambda>_.
       update (\<lambda>st. st\<lparr>writers_stopped := True\<rparr>))))))))) s1 = (Inr u, st')"
    using assms unfolding stop_writers_def stop_sync_def stop_app_def WRITER_STOP_SECONDS_def
    by (auto simp: io_bind_Inr [of "update _"] io_bind_Inr [of "cut_run _ _ _"])
  obtain active s2 where r: "unit_active su s1 = (Inr active, s2)" and
    "\<exists>s3 fragment s4 x. \<not> active \<and> unit_metadata su s2 = (Inr fragment, s3) \<and> cut_run su (stop_app su) 20 s3 = (Inr x, s4) \<and>
      io_bind (require_legacy su (svc_app su) False False) (\<lambda>_.
      io_bind (require_legacy su (svc_postgres su) True True) (\<lambda>_.
      io_bind (require_legacy su (svc_redis su) True True) (\<lambda>_.
       update (\<lambda>st. st\<lparr>writers_stopped := True\<rparr>)))) s4 = (Inr u, st')"
    using rest unfolding io_bind_Inr [of "unit_active _"] io_bind_Inr [of "cut_require _ _"] io_bind_Inr [of "unit_metadata _"]
      io_bind_Inr [of "query _"] io_bind_Inr [of "cut_run _ _ _"] by auto
  then obtain s3 fragment s4 x where m: "unit_metadata su s2 = (Inr fragment, s3)" "cut_run su (stop_app su) 20 s3 = (Inr x, s4)"
    "io_bind (require_legacy su (svc_app su) False False) (\<lambda>_.
      io_bind (require_legacy su (svc_postgres su) True True) (\<lambda>_.
      io_bind (require_legacy su (svc_redis su) True True) (\<lambda>_.
       update (\<lambda>st. st\<lparr>writers_stopped := True\<rparr>)))) s4 = (Inr u, st')" by blast
  have q: "appends (unit_active su)" "appends (unit_metadata su)"
    "appends (io_bind (require_legacy su (svc_app su) False False) (\<lambda>_.
      io_bind (require_legacy su (svc_postgres su) True True) (\<lambda>_.
      io_bind (require_legacy su (svc_redis su) True True) (\<lambda>_.
       update (\<lambda>st. st\<lparr>writers_stopped := True\<rparr>)))))"
    by (intro loud)+
  have seg: "segment (\<lambda>_. True) [ran_ok (stop_app su)] s1 st'"
    using segment_append [OF appended [OF q(1) r] segment_append [OF appended [OF q(2) m(1)]
      segment_append [OF cut_run_segment [OF m(2) [unfolded cut_run_def]] appended [OF q(3) m(3)]]]] by simp
  obtain e where e: "trace s1 = trace st @ [e]" "runs stop_sync e"
    using cut_run_Inr [OF stop [unfolded cut_run_def]] by auto
  moreover from this have "issued e = now st \<and> now st \<le> now s1"
    using cut_run_times [OF stop [unfolded cut_run_def]] by simp
  moreover have "extends (\<lambda>_. True) ?s0 s1" using emits_run [OF appends_basic(8) stop] .
  ultimately show thesis
    using seg by (intro that [of s1 e]) (auto simp: extends_def flags_def)
qed

lemma switched_segment:
  assumes "nginx_switch su s t u st = (Inr v, st')"
  shows "segment (\<lambda>_. True) [answered_ok (ReplaceActive (stage_payload s))] st st'"
proof -
  let ?rest = "\<lambda>_. io_bind (perform su CheckActive) (\<lambda>_.
     io_bind (query (switch_timeout t u)) (\<lambda>t1.
     io_bind (raw_run su [''/usr/sbin/nginx'', ''-t''] t1) (\<lambda>_.
     io_bind (query (switch_timeout t u)) (\<lambda>t2.
     io_bind (raw_run su [''/usr/bin/systemctl'', ''reload'', ''nginx''] t2) (\<lambda>_.
       require_stage su s)))))"
  obtain x payload s1 y s2 where r: "switch_timeout t u st = Inr x" "stage_bytes su s st = (Inr payload, s1)"
    "perform su (ReplaceActive payload) s1 = (Inr y, s2)" "?rest y s2 = (Inr v, st')"
    using assms unfolding nginx_switch_def io_bind_Inr [of "query _"] io_bind_Inr [of "stage_bytes _ _"] io_bind_Inr [of "perform _ (ReplaceActive _)"]
    by auto
  have q: "appends (stage_bytes su s)" "appends (?rest y)"
    by (intro loud emits_raw_run; simp add: require_stage_def stage_bytes_def)+
  obtain e where "trace s2 = trace s1 @ [e]" "answered_ok (ReplaceActive (stage_payload s)) e"
    using perform_Inr [OF r(3)] stage_bytes_Inr [OF r(2)] by blast
  then have "segment (\<lambda>_. True) [answered_ok (ReplaceActive (stage_payload s))] s1 s2"
    by (intro segment_happened [OF appends_basic(2) r(3)]) (auto simp: in_order_one)
  from segment_append [OF appended [OF q(1) r(2)] segment_append [OF this appended [OF q(2) r(4)]]] show ?thesis by simp
qed

text \<open>The switch, the canary, and the check of the deadline after it.\<close>

lemma switch_and_canary_segment:
  assumes "switch_and_canary su st = (Inr u, st')"
  obtains s1 s2 s3 e where "segment (\<lambda>_. True) [answered_ok (ReplaceActive (stage_payload Canary))] st s1"
    "trace s2 = trace s1 @ [e]" "ran_ok (canary_command su) e" "now s1 \<le> finished e \<and> finished e = now s2"
    "segment (\<lambda>_. True) [] s2 s3" "writer_stop_remaining s3 \<noteq> Inl (WindowExpired ''60-second writer-stop deadline exceeded'')"
    "st' = s3\<lparr>writer_stop_deadline := None\<rparr>" "flags s2 = flags s1"
proof -
  obtain a p1 b p2 left writer_left until c p3 where before: "require_all_targets su True st = (Inr a, p1)"
    "probe_health su 8081 ''/health'' p1 = (Inr b, p2)"
    "nginx_switch su Canary (within (min 15 left) writer_left) until p2 = (Inr c, p3)" and
    rest: "io_bind (update (\<lambda>st. st\<lparr>canary_active := True\<rparr>)) (\<lambda>_.
     io_bind (require_all_targets su True) (\<lambda>_.
     io_bind (probe_health su 8081 ''/health'') (\<lambda>_.
     io_bind (query writer_stop_remaining) (\<lambda>_.
     io_bind (cut_run_with su (canary_command su) None False True []) (\<lambda>_.
     io_bind (require_all_targets su True) (\<lambda>_.
     io_bind (query writer_stop_remaining) (\<lambda>_.
       update (\<lambda>st. st\<lparr>writer_stop_deadline := None\<rparr>)))))))) p3 = (Inr u, st')"
    using assms unfolding switch_and_canary_def io_bind_Inr [of "query _"] io_bind_Inr [of "require_all_targets _ _"]
      io_bind_Inr [of "probe_health _ _ _"] io_bind_Inr [of "nginx_switch _ _ _ _"] by auto
  obtain p4 d p5 f s1 g s2 h s3 w where more: "update (\<lambda>st. st\<lparr>canary_active := True\<rparr>) p3 = (Inr (), p4)"
    "require_all_targets su True p4 = (Inr d, p5)" "probe_health su 8081 ''/health'' p5 = (Inr f, s1)"
    "cut_run_with su (canary_command su) None False True [] s1 = (Inr g, s2)" "require_all_targets su True s2 = (Inr h, s3)"
    "writer_stop_remaining s3 = Inr w" "st' = s3\<lparr>writer_stop_deadline := None\<rparr>"
    using rest unfolding io_bind_Inr [of "query _"] io_bind_Inr [of "require_all_targets _ _"]
      io_bind_Inr [of "probe_health _ _ _"] io_bind_Inr [of "cut_run_with _ _ _ _ _ _"] io_bind_Inr [of "update _"] by auto
  have q: "appends (require_all_targets su True)" "appends (probe_health su 8081 ''/health'')"
    "appends (update (\<lambda>st. st\<lparr>canary_active := True\<rparr>))" "appends (cut_run_with su (canary_command su) None False True [])"
    by (intro loud)+
  note seg = segment_append [OF appended [OF q(1) before(1)] segment_append [OF appended [OF q(2) before(2)]
      segment_append [OF switched_segment [OF before(3)] segment_append [OF appended [OF q(3) more(1)]
      segment_append [OF appended [OF q(1) more(2)] appended [OF q(2) more(3)]]]]], simplified]
  obtain code out where "g = (code, out)" by (rule prod.exhaust)
  then obtain e where "trace s2 = trace s1 @ [e]" "ran_ok (canary_command su) e"
    using cut_run_Inr [of su _ _ _ _ _ s1 code out s2] more(4) by (fastforce simp: ran_ok_def)
  then show thesis
    using that [OF seg _ _ _ appended [OF q(1) more(5)] _ more(7)]
      emits_run [OF q(4) more(4)] cut_run_times [OF more(4)] more(6) by (simp add: extends_def)
qed

lemma ran_ok_runs: "ran_ok argv e \<Longrightarrow> runs argv e"
  by (simp add: ran_ok_def)

text \<open>
  C15. Completed.\<close>

theorem completed_cutover_window:
  assumes "cutover_execute su split_url signalled st = (Inr (), st')"
  shows "\<exists>before stop during canary after. trace st' = before @ [stop] @ during @ [canary] @ after \<and>
    runs stop_sync stop \<and> in_order (window_evidence su) during \<and> ran_ok (canary_command su) canary \<and>
    finished canary \<le> issued stop + 59000 \<and>
    list_all (\<lambda>e. issued stop \<le> issued e \<and> finished e \<le> finished canary) during"
proof -
  have "cutover_phases su split_url st = (Inr (), st')"
    using assms by (auto simp: cutover_execute_def Let_def split: prod.splits sum.splits if_splits)
  then obtain s1 u1 s2 u2 s3 u3 s4 u4 s5 u5 s6 u6 s7 u7 s8 u8 s9 where
    "stop_writers su s1 = (Inr u1, s2)" "persist_recovery_state su ''writers_stopped'' s2 = (Inr u2, s3)"
    "persist_recovery_state su ''migrating'' s3 = (Inr u3, s4)" "migrate su s4 = (Inr u4, s5)"
    "persist_recovery_state su ''starting_target'' s5 = (Inr u5, s6)" "start_target su s6 = (Inr u6, s7)"
    "persist_recovery_state su ''switching_nginx'' s7 = (Inr u7, s8)" "switch_and_canary su s8 = (Inr u8, s9)"
    "clear_recovery_state su s9 = (Inr (), st')"
    unfolding cutover_phases_def io_bind_Inr query_Inr by - (clarify, rule that, assumption+)
  note phases = this
  obtain stop t1 where stop: "trace t1 = trace s1 @ [stop]" "runs stop_sync stop" "issued stop = now s1" "now s1 \<le> now t1"
    "writer_stop_deadline t1 = Some (now s1 + 60000)" "segment (\<lambda>_. True) [ran_ok (stop_app su)] t1 s2"
    by (rule stop_writers_segment [OF phases(1)])
  obtain t2 t3 t4 canary where canary: "segment (\<lambda>_. True) [answered_ok (ReplaceActive (stage_payload Canary))] s8 t2"
    "trace t3 = trace t2 @ [canary]" "ran_ok (canary_command su) canary" "now t2 \<le> finished canary \<and> finished canary = now t3" "segment (\<lambda>_. True) [] t3 t4"
    "writer_stop_remaining t4 \<noteq> Inl (WindowExpired ''60-second writer-stop deadline exceeded'')" "s9 = t4\<lparr>writer_stop_deadline := None\<rparr>"
    "flags t3 = flags t2"
    by (rule switch_and_canary_segment [OF phases(8)])
  note persisted = appended [OF appends_recovery(1)]
  note during = segment_append [OF stop(6) segment_append [OF persisted [OF phases(2)] segment_append [OF persisted [OF phases(3)]
      segment_append [OF migrate_segment [OF phases(4)] segment_append [OF persisted [OF phases(5)]
      segment_append [OF appended [OF appends_start_target phases(6)] segment_append [OF persisted [OF phases(7)] canary(1)]]]]]]]
  obtain es where es: "trace t2 = trace t1 @ es" "in_order (window_evidence su) es" "flags t2 = flags t1"
    "list_all (\<lambda>e. now t1 \<le> issued e \<and> finished e \<le> now t2) es"
    using during unfolding segment_def window_evidence_def by auto
  have t: "now t3 \<le> now t4" "flags t4 = flags t3" using canary(5) by (auto simp: segment_def)
  have "writer_stop_deadline t4 = Some (now s1 + 60000)"
    using t(2) es(3) canary(8) stop(5) by (simp add: flags_def)
  then have late: "now t4 \<le> now s1 + 59000"
    using canary(6) by (auto simp: writer_stop_remaining_def Let_def split: if_splits)
  obtain after where "trace t4 = trace t3 @ after" using canary(5) by (auto simp: segment_def)
  moreover obtain final where "trace st' = trace s9 @ final"
    using appended [OF appends_recovery(2) phases(9)] by (auto simp: segment_def)
  ultimately have "trace st' = trace s1 @ [stop] @ es @ [canary] @ after @ final"
    using stop(1) es(1) canary(2,7) by simp
  moreover have "list_all (\<lambda>e. issued stop \<le> issued e \<and> finished e \<le> finished canary) es"
    using es(4) stop(3,4) canary(4) by (auto simp: list_all_iff)
  moreover have "finished canary \<le> issued stop + 59000" using late t(1) canary(4) stop(3) by simp
  ultimately show ?thesis using stop(2) es(2) canary(3) by blast
qed

end
