(* ===== verification/Cutover_Hosts.thy ===== *)
theory Cutover_Hosts
  imports Cutover_Window
begin

text \<open>
  Concrete hosts on which a rollback runs: one on which it restores everything, and the same one with
  an application that needs two seconds to answer. An action is evaluated from
  left to right by the rules below.
\<close>

section \<open>Evaluation\<close>

text \<open>The rest of a sequence is not looked at before its first action has a result.\<close>

definition then_do :: "('e + 'a) \<times> 'p \<Rightarrow> ('a \<Rightarrow> 'p \<Rightarrow> ('e + 'b) \<times> 'p) \<Rightarrow> ('e + 'b) \<times> 'p" where
  "then_do r f = (case r of (Inl e, p) \<Rightarrow> (Inl e, p) | (Inr a, p) \<Rightarrow> f a p)"

lemma then_do [simp]: "then_do (Inl e, p) f = (Inl e, p)" "then_do (Inr a, p) f = f a p"
  by (simp_all add: then_do_def)

lemma run_bind: "io_bind m f p = then_do (m p) f"
  by (simp add: io_bind_def then_do_def)

lemma then_do_cong: "r = r' \<Longrightarrow> then_do r f = then_do r' f" by simp

lemma io_bind_cong: "io_bind m f p = io_bind m f p" by simp

lemmas rollback_runs = run_bind
  perform_def [THEN fun_cong] ask_bytes_def [THEN fun_cong] ask_doc_def [THEN fun_cong] pause_def [THEN fun_cong]
  run_command_def [THEN fun_cong] raw_run_def [THEN fun_cong] cut_run_with_def [THEN fun_cong] cut_run_def [THEN fun_cong]
  cut_try_def [THEN fun_cong] probe_health_def [THEN fun_cong] inspect_container_runtime_def [THEN fun_cong] docker_state_def [THEN fun_cong]
  target_exists_def [THEN fun_cong] ensure_legacy_running_def [THEN fun_cong] nginx_switch_def [THEN fun_cong] stage_bytes_def [THEN fun_cong]
  require_stage_def [THEN fun_cong] restore_stable_def [THEN fun_cong] unit_metadata_def [THEN fun_cong] unit_active_def [THEN fun_cong]
  restart_sync_def [THEN fun_cong] restore_sync_def [THEN fun_cong] restore_legacy_def [THEN fun_cong] guarded_step_def [THEN fun_cong]
  isolate_step_def [THEN fun_cong] rollback_def [THEN fun_cong] verify_cleanup_def [THEN fun_cong] require_target_cleanup_identity_def [THEN fun_cong]
  isolate_target_def [THEN fun_cong] require_targets_absent_after_cleanup_def [THEN fun_cong] cut_require_def [THEN fun_cong]
  remaining_def writer_stop_remaining_def decode_stdout_def switch_timeout_def legacy_loop.simps require_recovery_identity_def
  require_cleanup_identity_def require_target_absent_def query_def update_def io_lift_def io_return_def
  io_raise_def attempt_def ask_def

lemmas phase_runs = 
  require_legacy_def [THEN fun_cong] pin_target_identity_def [THEN fun_cong] require_target_def [THEN fun_cong] require_all_targets_def [THEN fun_cong]
  target_healthy_def [THEN fun_cong] wait_target_healthy_def [THEN fun_cong] verify_live_direct_v1_def [THEN fun_cong] persist_recovery_state_def [THEN fun_cong]
  clear_recovery_state_def [THEN fun_cong] verify_database_connections_def [THEN fun_cong] verify_safe_export_def [THEN fun_cong] verify_rollback_ready_def [THEN fun_cong]
  preflight_checks_def [THEN fun_cong] preflight_start_def [THEN fun_cong] preflight_def [THEN fun_cong] stop_writers_def [THEN fun_cong]
  replace_postgres_def [THEN fun_cong] restart_nonce_def [THEN fun_cong] migrate_def [THEN fun_cong] start_target_def [THEN fun_cong]
  switch_and_canary_def [THEN fun_cong] cutover_phases_def [THEN fun_cong]
  target_state_def wait_loop.simps require_private_env_identity_def cutover_execute_def io_mapexn_def

lemma each_run [simp]: "cut_each f [] p = (Inr (), p)" "cut_each f (x # xs) p = io_bind (f x) (\<lambda>_. cut_each f xs) p"
  by (simp_all add: io_return_def)

declare cut_each.simps [simp del]

section \<open>What the hosts say\<close>

definition id_of :: "char \<Rightarrow> pystr" where "id_of c = replicate 64 c"

lemma id_of_facts [simp]:
  "id_of c = id_of d \<longleftrightarrow> c = d"
  "TARGET_APP \<noteq> id_of x" "TARGET_POSTGRES \<noteq> id_of x" "TARGET_REDIS \<noteq> id_of x" "TARGET_NONCE_REDIS \<noteq> id_of x"
  by (simp_all add: id_of_def TARGET_APP_def TARGET_POSTGRES_def TARGET_REDIS_def TARGET_NONCE_REDIS_def numeral_eq_Suc)

text \<open>What \<open>docker inspect\<close> prints of a container, before and after \<open>strip\<close>.\<close>

definition says :: "char \<Rightarrow> pystr \<Rightarrow> bool \<Rightarrow> pystr" where
  "says c name running = id_of c @ ''|/'' @ name @ (if running then ''|true|healthy'' else ''|false|none'')"

definition prints :: "char \<Rightarrow> pystr \<Rightarrow> bool \<Rightarrow> bytes" where
  "prints c name running = says c name running @ [CHR 0x0A]"

abbreviation runtime_read :: "char \<Rightarrow> pystr \<Rightarrow> bool \<Rightarrow> bool" where
  "runtime_read c name running \<equiv> strip (prints c name running) = says c name running \<and>
     parse_runtime name (Some (id_of c)) (says c name running) = Inr (id_of c, running, if running then ''healthy'' else ''none'') \<and>
     parse_runtime name None (says c name running) = Inr (id_of c, running, if running then ''healthy'' else ''none'')"

definition APP :: pystr where "APP = ''sub2api''"
definition POSTGRES :: pystr where "POSTGRES = ''sub2api-postgres''"
definition REDIS :: pystr where "REDIS = ''sub2api-redis''"

lemma runtime_facts [simp]:
  "runtime_read (CHR ''a'') APP True" "runtime_read (CHR ''a'') APP False"
  "runtime_read (CHR ''b'') POSTGRES True" "runtime_read (CHR ''c'') REDIS True"
  "runtime_read (CHR ''1'') TARGET_POSTGRES True" "runtime_read (CHR ''1'') TARGET_POSTGRES False"
  "runtime_read (CHR ''2'') TARGET_REDIS True" "runtime_read (CHR ''3'') TARGET_POSTGRES True"
  "runtime_read (CHR ''4'') TARGET_APP True"
  by code_simp+

definition unit_text :: pystr where
  "unit_text = ''Id=sub2api-sync.service'' @ [CHR 0x0A] @ ''LoadState=loaded'' @ [CHR 0x0A] @
         ''FragmentPath=/etc/systemd/system/sub2api-sync.service''"

definition unit_values :: "(pystr \<times> pystr) list" where
  "unit_values = [(''Id'', SYNC_UNIT), (''LoadState'', ''loaded''), (''FragmentPath'', ''/etc/systemd/system/sub2api-sync.service'')]"

lemma unit_facts [simp]:
  "strip unit_text = unit_text" "unit_lines (splitlines unit_text) [] = Inr unit_values"
  "map_of unit_values ''Id'' = Some SYNC_UNIT" "map_of unit_values ''LoadState'' = Some ''loaded''"
  "map_of unit_values ''FragmentPath'' = Some ''/etc/systemd/system/sub2api-sync.service''"
  "path_name ''/etc/systemd/system/sub2api-sync.service'' = SYNC_UNIT"
  by code_simp+

text \<open>The legacy services and the paths that all hosts share.\<close>

definition example_site :: "(op \<Rightarrow> 'w \<Rightarrow> answer out \<times> nat \<times> 'w) \<Rightarrow> 'w site" where
  "example_site call = \<lparr>h_call = call, decode_utf8 = Some,
     json_document = (\<lambda>_. Some (PDict [(''Ports'', PDict [(''5432/tcp'',
       PList [PDict [(''HostIp'', PStr ''127.0.0.1''), (''HostPort'', PStr ''15432'')]])])])),
     repo_dir = ''/r'',
     options = \<lparr>co_env_file = ''/r/env'', co_verify_url = ''u'', co_model = ''m'', co_approved_hostname = ''h'',
       co_app_path = ''/a'', co_postgres_path = ''/p'', co_redis_path = ''/c'', co_nginx_log_path = ''/n''\<rparr>,
     svc_app = \<lparr>ls_name = APP, ls_identity = id_of (CHR ''a'')\<rparr>,
     svc_postgres = \<lparr>ls_name = POSTGRES, ls_identity = id_of (CHR ''b'')\<rparr>,
     svc_redis = \<lparr>ls_name = REDIS, ls_identity = id_of (CHR ''c'')\<rparr>,
     private_values = (\<lambda>_. Some ''v''), keeps_state = False\<rparr>"

lemma example_site [simp]:
  "h_call (example_site f) = f" "decode_utf8 (example_site f) = Some" "repo_dir (example_site f) = ''/r''"
  "json_document (example_site f) t = Some (PDict [(''Ports'', PDict [(''5432/tcp'',
       PList [PDict [(''HostIp'', PStr ''127.0.0.1''), (''HostPort'', PStr ''15432'')]])])])"
  "svc_app (example_site f) = \<lparr>ls_name = APP, ls_identity = id_of (CHR ''a'')\<rparr>"
  "svc_postgres (example_site f) = \<lparr>ls_name = POSTGRES, ls_identity = id_of (CHR ''b'')\<rparr>"
  "svc_redis (example_site f) = \<lparr>ls_name = REDIS, ls_identity = id_of (CHR ''c'')\<rparr>"
  "options (example_site f) = \<lparr>co_env_file = ''/r/env'', co_verify_url = ''u'', co_model = ''m'', co_approved_hostname = ''h'',
       co_app_path = ''/a'', co_postgres_path = ''/p'', co_redis_path = ''/c'', co_nginx_log_path = ''/n''\<rparr>"
  "private_values (example_site f) k = Some ''v''" "keeps_state (example_site f) = False"
  by (simp_all add: example_site_def)

definition example_state :: "bool \<Rightarrow> 'w \<Rightarrow> 'w ctl" where
  "example_state begun w = \<lparr>world = w, now = 0, trace = [], deadline = None, writer_stop_deadline = None,
     migration_writes_stopped = False, target_started = begun, nonce_target_started = False, nonce_runtime_active = False,
     writers_stopped = begun, canary_active = False, target_identities = (\<lambda>_. None), recovery_identity_unavailable = False,
     sync_fragment = None, sync_fragment_sha256 = None, private_env_identity = None,
     export_source_database_identity = None, git_head = None\<rparr>"

section \<open>Rollback\<close>

text \<open>The writers are stopped and the target runs under no pinned identity. The state of the host is
  whether the application container runs, and for how long; it answers after \<open>boot\<close> milliseconds.
  Every operation takes 20 milliseconds.\<close>

type_synonym app_clock = "nat option"

definition later :: "nat \<Rightarrow> app_clock \<Rightarrow> app_clock" where "later n w = map_option (\<lambda>t. t + n) w"

definition legacy_run :: "pystr list \<Rightarrow> app_clock \<Rightarrow> answer out \<times> app_clock" where
  "legacy_run argv w =
     (if take 2 argv = [''docker'', ''inspect''] then
        (if last argv = id_of (CHR ''a'') then (Inr (Ran 0 (prints (CHR ''a'') APP (w \<noteq> None))), w)
         else if last argv = id_of (CHR ''b'') then (Inr (Ran 0 (prints (CHR ''b'') POSTGRES True)), w)
         else if last argv = id_of (CHR ''c'') then (Inr (Ran 0 (prints (CHR ''c'') REDIS True)), w)
         else (Inr (Ran 1 []), w))
      else if argv = [''docker'', ''start'', id_of (CHR ''a'')] then (Inr (Ran 0 []), Some 0)
      else if take 2 argv = [''/usr/bin/systemctl'', ''show''] then (Inr (Ran 0 unit_text), w)
      else (Inr (Ran 0 []), w))"

lemma legacy_run [simp]:
  "legacy_run [''docker'', ''inspect'', f, g, ref] w =
     (if ref = id_of (CHR ''a'') then (Inr (Ran 0 (prints (CHR ''a'') APP (w \<noteq> None))), w)
      else if ref = id_of (CHR ''b'') then (Inr (Ran 0 (prints (CHR ''b'') POSTGRES True)), w)
      else if ref = id_of (CHR ''c'') then (Inr (Ran 0 (prints (CHR ''c'') REDIS True)), w)
      else (Inr (Ran 1 []), w))"
  "legacy_run [''docker'', ''start'', ref] w = (Inr (Ran 0 []), if ref = id_of (CHR ''a'') then Some 0 else w)"
  "legacy_run [''/usr/sbin/nginx'', x] w = (Inr (Ran 0 []), w)"
  "legacy_run [''/usr/bin/systemctl'', ''reload'', x] w = (Inr (Ran 0 []), w)"
  "legacy_run [''/usr/bin/systemctl'', ''is-active'', x, y] w = (Inr (Ran 0 []), w)"
  "legacy_run (''docker'' # ''compose'' # xs) w = (Inr (Ran 0 []), w)"
  "legacy_run [''/usr/bin/systemctl'', ''show'', a, b, c, d] w = (Inr (Ran 0 unit_text), w)"
  by (simp_all add: legacy_run_def)

fun legacy_answer :: "nat \<Rightarrow> op \<Rightarrow> app_clock \<Rightarrow> answer out \<times> app_clock" where
  "legacy_answer boot (Run c) w = legacy_run (cmd_argv c) w"
| "legacy_answer boot (Probe port path t) w =
     (if port = 8080 \<and> (case w of None \<Rightarrow> True | Some n \<Rightarrow> n < boot) then Inl OtherError else Inr Done, w)"
| "legacy_answer boot Sleep w = (Inr Done, later 1000 w)"
| "legacy_answer boot (ReadStage s) w = (Inr (Bytes (stage_payload s)), w)"
| "legacy_answer boot ReadActive w = (Inr (Bytes (stage_payload Stable)), w)"
| "legacy_answer boot (UnitSha256 p) w = (Inr (Bytes (id_of (CHR ''e''))), w)"
| "legacy_answer boot x w = (Inr Done, w)"

definition legacy_host :: "nat \<Rightarrow> op \<Rightarrow> app_clock \<Rightarrow> answer out \<times> nat \<times> app_clock" where
  "legacy_host boot x w = (case legacy_answer boot x w of (a, w') \<Rightarrow> (a, 20, later 20 w'))"

lemmas rollback_facts = rollback_runs legacy_host_def later_def example_state_def ROLLBACK_SECONDS_def TARGET_NAMES_def down_target_def
  compose_command_def compose_prefix_def within_def

lemma rollback_of_ready_app: "\<exists>st'. rollback (example_site (legacy_host 0)) (example_state True None) = (Inr [], st')"
  by (simp add: rollback_facts cong: then_do_cong io_bind_cong)


text \<open>An application that takes two seconds.\<close>

theorem rollback_probes_a_booting_app_once:
  "fst (rollback (example_site (legacy_host 2000)) (example_state True None))
     = Inr [''legacy_app_health'', ''stable_upstream_not_restored_without_healthy_legacy'']"
  by (simp add: rollback_facts cong: then_do_cong io_bind_cong)

end
