(* ===== verification/Cutover_Runs.thy ===== *)
theory Cutover_Runs
  imports Cutover_Hosts
begin

text \<open>
  A host on which a whole cutover completes, evaluated phase by phase: the witness that the theorem on
  the window of a completed cutover is about runs that exist.
\<close>

section \<open>A cutover that completes\<close>

text \<open>The state of the host is what it will print next: of the containers, of the sync unit (nothing
  when it is not active) and of the active upstream. Every operation takes 100 milliseconds.\<close>

type_synonym script = "bytes option list"

definition print_next :: "int \<Rightarrow> script \<Rightarrow> answer out \<times> script" where
  "print_next code w =
     (case w of Some b # w' \<Rightarrow> (Inr (Ran 0 b), w') | None # w' \<Rightarrow> (Inr (Ran code []), w') | [] \<Rightarrow> (Inl OtherError, []))"

definition identity_line :: bytes where "identity_line = ''1234567890|5|61''"

definition head_line :: bytes where "head_line = replicate 40 (CHR ''f'')"

definition script_run :: "pystr list \<Rightarrow> script \<Rightarrow> answer out \<times> script" where
  "script_run argv w =
     (if take 2 argv = [''docker'', ''inspect''] then print_next 1 w
      else if take 2 argv = [''/usr/bin/systemctl'', ''is-active''] then print_next 3 w
      else if take 2 argv = [''/usr/bin/systemctl'', ''show''] then (Inr (Ran 0 unit_text), w)
      else if take 1 argv = [''git''] then (Inr (Ran 0 head_line), w)
      else if take 3 argv \<in> {[''/usr/bin/python3'', ''-I'', ''/r/deploy/source-postgres-exec.py''],
              [''/usr/bin/python3'', ''-I'', ''/r/deploy/pg-env-exec.py'']} then (Inr (Ran 0 identity_line), w)
      else (Inr (Ran 0 []), w))"

fun script_answer :: "op \<Rightarrow> script \<Rightarrow> answer out \<times> script" where
  "script_answer (Run c) w = script_run (cmd_argv c) w"
| "script_answer (ReadStage s) w = (Inr (Bytes (stage_payload s)), w)"
| "script_answer ReadActive w =
     (case w of Some b # w' \<Rightarrow> (Inr (Bytes b), w') | _ \<Rightarrow> (Inl OtherError, w))"
| "script_answer (UnitSha256 p) w = (Inr (Bytes (id_of (CHR ''e''))), w)"
| "script_answer (SafeExport h) w = (Inr (DbIdentity [''1234567890'', ''5'', ''61'']), w)"
| "script_answer TargetUrl w = (Inr (Endpoint ''127.0.0.1'' 15432), w)"
| "script_answer x w = (Inr Done, w)"

definition script_host :: "op \<Rightarrow> script \<Rightarrow> answer out \<times> nat \<times> script" where
  "script_host x w = (case script_answer x w of (a, w') \<Rightarrow> (a, 100, w'))"

lemma script_run [simp]:
  "script_run [''docker'', ''inspect'', f, g, ref] w = print_next 1 w"
  "script_run [''docker'', ''stop'', f, g, ref] w = (Inr (Ran 0 []), w)"
  "script_run (''docker'' # ''compose'' # xs) w = (Inr (Ran 0 []), w)"
  "script_run [''/usr/sbin/nginx'', x] w = (Inr (Ran 0 []), w)"
  "script_run [''/usr/bin/systemctl'', ''reload'', x] w = (Inr (Ran 0 []), w)"
  "script_run [''/usr/bin/systemctl'', ''stop'', x] w = (Inr (Ran 0 []), w)"
  "script_run [''/usr/bin/systemctl'', ''is-active'', x, y] w = print_next 3 w"
  "script_run [''/usr/bin/systemctl'', ''show'', a, b, c, d] w = (Inr (Ran 0 unit_text), w)"
  "script_run (''git'' # xs) w = (Inr (Ran 0 head_line), w)"
  "script_run (''/usr/bin/python3'' # ''-I'' # path # xs) w =
     (Inr (Ran 0 (if path \<in> {''/r/deploy/source-postgres-exec.py'', ''/r/deploy/pg-env-exec.py''} then identity_line else [])), w)"
  "x \<notin> {''docker'', ''/usr/bin/systemctl'', ''git'', ''/usr/bin/python3''} \<Longrightarrow> script_run (x # xs) w = (Inr (Ran 0 []), w)"
  by (simp_all add: script_run_def)

text \<open>The commands of the controller, by the functions that build them.\<close>

lemma script_commands [simp]:
  "script_run (compose_command su xs) w = (Inr (Ran 0 []), w)"
  "script_run (postgres_migration_compose_command su xs) w = (Inr (Ran 0 []), w)"
  "script_run (nonce_compose_command su m xs) w = (Inr (Ran 0 []), w)"
  "script_run (deploy_path (example_site f) name # xs) w = (Inr (Ran 0 []), w)"
  "script_run (privileged_python_command (example_site f) name xs) w =
     (Inr (Ran 0 (if name \<in> {''source-postgres-exec.py'', ''pg-env-exec.py''} then identity_line else [])), w)"
  by (simp_all add: compose_command_def compose_prefix_def postgres_migration_compose_command_def nonce_compose_command_def
      privileged_python_command_def deploy_path_def)

lemma print_next [simp]:
  "print_next code (Some b # w) = (Inr (Ran 0 b), w)" "print_next code (None # w) = (Inr (Ran code []), w)"
  by (simp_all add: print_next_def)

lemma identity_parts:
  "strip identity_line = identity_line" "split_on (CHR ''|'') identity_line = [''1234567890'', ''5'', ''61'']"
  "digits_ok 10 24 ''1234567890''" "digits_ok (Suc 0) 10 ''5''" "digits_val ''5'' = 5" "is_hex (CHR ''6'')" "is_hex (CHR ''1'')"
  by code_simp+

lemma identity_read [simp]: "database_identity (example_site f) identity_line = Inr [''1234567890'', ''5'', ''61'']"
  by (simp add: database_identity_def decode_stdout_def identity_parts Let_def)

lemma line_facts [simp]:
  "strip head_line = head_line" "git_head_ok head_line" "strip ''true|healthy'' = ''true|healthy''"
  by code_simp+

lemma target_names [simp]:
  "TARGET_APP \<in> set TARGET_NAMES" "TARGET_POSTGRES \<in> set TARGET_NAMES" "TARGET_REDIS \<in> set TARGET_NAMES"
  "TARGET_NONCE_REDIS \<notin> set TARGET_NAMES" "TARGET_NONCE_REDIS \<noteq> TARGET_APP" "TARGET_NONCE_REDIS \<noteq> TARGET_POSTGRES"
  "TARGET_NONCE_REDIS \<noteq> TARGET_REDIS" "TARGET_APP \<noteq> TARGET_POSTGRES" "TARGET_APP \<noteq> TARGET_REDIS"
  "TARGET_POSTGRES \<noteq> TARGET_APP" "TARGET_POSTGRES \<noteq> TARGET_REDIS" "TARGET_REDIS \<noteq> TARGET_APP" "TARGET_REDIS \<noteq> TARGET_POSTGRES"
  by code_simp+

definition all_targets :: script where
  "all_targets = [Some (prints (CHR ''4'') TARGET_APP True), Some (prints (CHR ''3'') TARGET_POSTGRES True),
     Some (prints (CHR ''2'') TARGET_REDIS True)]"

definition legacy_up :: script where
  "legacy_up = [Some (prints (CHR ''a'') APP True), Some (prints (CHR ''b'') POSTGRES True), Some (prints (CHR ''c'') REDIS True)]"

definition preflight_script :: script where
  "preflight_script = Some (stage_payload Stable) # legacy_up @ [None, None, None, None, Some [], Some (stage_payload Stable)]"

definition target_url :: "pystr \<Rightarrow> (pystr \<times> pystr option \<times> int option \<times> bool) option" where
  "target_url u = Some (''redis'', Some ''127.0.0.1'', Some 16379, False)"

lemma any_exists:
  "any_target_exists su [] p = (Inr False, p)"
  "any_target_exists su (n # ns) p = io_bind (target_exists su n) (\<lambda>e. if e then io_return True else any_target_exists su ns) p"
  by (simp_all add: io_return_def)

declare any_target_exists.simps [simp del]

lemmas window_facts = rollback_runs phase_runs script_host_def example_state_def TARGET_NAMES_def within_def
  exact_binding_def cutover_same_dict_def dget_def target_redis_ok_def target_url_def retirement_paths_def
  legacy_identities_def migration_steps_def present_keys_def verify_record_command_def database_of_source_def
  verify_stopped_command_def canary_command_def any_exists

lemmas window_run = then_do_cong io_bind_cong

definition unit_path :: pystr where "unit_path = ''/etc/systemd/system/sub2api-sync.service''"

definition preflight_script2 :: script where
  "preflight_script2 = [Some (prints (CHR ''1'') TARGET_POSTGRES True), Some (prints (CHR ''1'') TARGET_POSTGRES True),
     Some (prints (CHR ''2'') TARGET_REDIS True), Some (prints (CHR ''2'') TARGET_REDIS True), Some [], Some ''true|healthy'']
     @ legacy_up @ [Some [], Some (stage_payload Stable)]"

text \<open>The states between the phases, up to the trace.\<close>

definition checked_state :: "event list \<Rightarrow> script \<Rightarrow> script ctl" where
  "checked_state T w = (example_state False w)\<lparr>now := 2500, trace := T, sync_fragment := Some unit_path,
     sync_fragment_sha256 := Some (id_of (CHR ''e'')), export_source_database_identity := Some [''1234567890'', ''5'', ''61''],
     git_head := Some head_line\<rparr>"

definition ready_state :: "event list \<Rightarrow> script \<Rightarrow> script ctl" where
  "ready_state T w = (checked_state T w)\<lparr>now := 4900, target_started := True, nonce_target_started := True,
     target_identities := [TARGET_POSTGRES \<mapsto> id_of (CHR ''1''), TARGET_REDIS \<mapsto> id_of (CHR ''2'')]\<rparr>"

definition stopped_state :: "event list \<Rightarrow> script \<Rightarrow> script ctl" where
  "stopped_state T w = (ready_state T w)\<lparr>now := 5600, deadline := Some 184900, writer_stop_deadline := Some 64900, writers_stopped := True\<rparr>"

definition migrated_state :: "event list \<Rightarrow> script \<Rightarrow> script ctl" where
  "migrated_state T w = (stopped_state T w)\<lparr>now := 7800, migration_writes_stopped := True, nonce_runtime_active := True,
     target_identities := [TARGET_REDIS \<mapsto> id_of (CHR ''2''), TARGET_POSTGRES \<mapsto> id_of (CHR ''3'')]\<rparr>"

definition started_state :: "event list \<Rightarrow> script \<Rightarrow> script ctl" where
  "started_state T w = (migrated_state T w)\<lparr>now := 8600,
     target_identities := [TARGET_REDIS \<mapsto> id_of (CHR ''2''), TARGET_POSTGRES \<mapsto> id_of (CHR ''3''), TARGET_APP \<mapsto> id_of (CHR ''4'')]\<rparr>"

lemmas window_states = checked_state_def ready_state_def stopped_state_def migrated_state_def started_state_def

lemma checks_run:
  "\<exists>T. preflight_checks (example_site script_host) (example_state False (preflight_script @ w)) = (Inr (), checked_state T w)"
  by (simp add: window_facts window_states preflight_script_def legacy_up_def unit_path_def cong: window_run)

lemma start_runs:
  "\<exists>T'. preflight_start (example_site script_host) target_url (checked_state T (preflight_script2 @ w)) = (Inr (), ready_state T' w)"
  by (simp add: window_facts window_states preflight_script2_def legacy_up_def unit_path_def cong: window_run)

definition stop_script :: script where
  "stop_script = [None, Some (prints (CHR ''a'') APP False), Some (prints (CHR ''b'') POSTGRES True), Some (prints (CHR ''c'') REDIS True)]"

definition migrate_script :: script where
  "migrate_script = [Some (prints (CHR ''1'') TARGET_POSTGRES True), Some (prints (CHR ''1'') TARGET_POSTGRES False), None,
     Some (prints (CHR ''3'') TARGET_POSTGRES True), Some (prints (CHR ''3'') TARGET_POSTGRES True),
     Some (prints (CHR ''2'') TARGET_REDIS True), Some ''true|healthy'']"

definition start_script :: script where
  "start_script = [Some (prints (CHR ''4'') TARGET_APP True), Some (prints (CHR ''4'') TARGET_APP True)] @ all_targets"

definition switch_script :: script where
  "switch_script = all_targets @ [Some (stage_payload Canary)] @ all_targets @ all_targets"

lemma stop_runs:
  "\<exists>T'. stop_writers (example_site script_host) ((ready_state T (stop_script @ w))\<lparr>deadline := Some 184900\<rparr>) = (Inr (), stopped_state T' w)"
  by (simp add: window_facts window_states stop_script_def unit_path_def WRITER_STOP_SECONDS_def cong: window_run)

definition copied_state :: "event list \<Rightarrow> script \<Rightarrow> script ctl" where
  "copied_state T w = (stopped_state T w)\<lparr>now := 6400, migration_writes_stopped := True\<rparr>"

definition replaced_state :: "event list \<Rightarrow> script \<Rightarrow> script ctl" where
  "replaced_state T w = (copied_state T w)\<lparr>now := 7300,
     target_identities := [TARGET_REDIS \<mapsto> id_of (CHR ''2''), TARGET_POSTGRES \<mapsto> id_of (CHR ''3'')]\<rparr>"

lemma identity_holds:
  "\<exists>T'. require_recovery_identity (example_site script_host) (stopped_state T w) = (Inr (), (stopped_state T' w)\<lparr>now := 5800\<rparr>)"
  by (simp add: window_facts window_states unit_path_def cong: window_run)

lemma migrations_run:
  "\<exists>T'. cut_each (\<lambda>(argv, keys). io_bind (cut_run_with (example_site script_host) argv None False False keys) (\<lambda>_. io_return ()))
     (migration_steps (example_site script_host)) ((stopped_state T w)\<lparr>now := 5800, migration_writes_stopped := True\<rparr>)
     = (Inr (), copied_state T' w)"
  by (simp add: window_facts window_states copied_state_def unit_path_def cong: window_run)

lemma postgres_replaced:
  "\<exists>T'. replace_postgres (example_site script_host) (copied_state T (migrate_script @ w)) =
     (Inr (), replaced_state T' (Some ''true|healthy'' # w))"
  by (simp add: window_facts window_states copied_state_def replaced_state_def migrate_script_def unit_path_def cong: window_run)

lemma nonce_restarts:
  "\<exists>T'. restart_nonce (example_site script_host) (replaced_state T (Some ''true|healthy'' # w)) = (Inr (), migrated_state T' w)"
  by (simp add: window_facts window_states copied_state_def replaced_state_def unit_path_def cong: window_run)

lemma migrate_runs:
  "\<exists>T'. migrate (example_site script_host) (stopped_state T (migrate_script @ w)) = (Inr (), migrated_state T' w)"
proof -
  let ?w = "migrate_script @ w"
  obtain T1 where i: "require_recovery_identity (example_site script_host) (stopped_state T ?w) = (Inr (), (stopped_state T1 ?w)\<lparr>now := 5800\<rparr>)"
    using identity_holds by blast
  obtain T2 where m: "cut_each (\<lambda>(argv, keys). io_bind (cut_run_with (example_site script_host) argv None False False keys) (\<lambda>_. io_return ()))
     (migration_steps (example_site script_host)) ((stopped_state T1 ?w)\<lparr>now := 5800, migration_writes_stopped := True\<rparr>)
     = (Inr (), copied_state T2 ?w)" using migrations_run by blast
  obtain T3 where p: "replace_postgres (example_site script_host) (copied_state T2 ?w) =
     (Inr (), replaced_state T3 (Some ''true|healthy'' # w))" using postgres_replaced by blast
  obtain T4 where n: "restart_nonce (example_site script_host) (replaced_state T3 (Some ''true|healthy'' # w)) = (Inr (), migrated_state T4 w)"
    using nonce_restarts by blast
  show ?thesis
    unfolding migrate_def by (simp add: run_bind i m p n update_def cong: window_run) blast
qed

lemma target_starts:
  "\<exists>T'. start_target (example_site script_host) (migrated_state T (start_script @ w)) = (Inr (), started_state T' w)"
  by (simp add: window_facts window_states start_script_def all_targets_def unit_path_def cong: window_run)

lemma switch_runs:
  "\<exists>T'. switch_and_canary (example_site script_host) (started_state T switch_script) =
     (Inr (), (started_state T' [])\<lparr>now := 10600, writer_stop_deadline := None, canary_active := True\<rparr>)"
  by (simp add: window_facts window_states switch_script_def all_targets_def unit_path_def cong: window_run)

definition window_script :: script where
  "window_script = stop_script @ migrate_script @ start_script @ switch_script"

lemma cutover_completes:
  "\<exists>st'. cutover_execute (example_site script_host) target_url (\<lambda>_. False)
     (example_state False (preflight_script @ preflight_script2 @ window_script)) = (Inr (), st')"
proof -
  let ?su = "example_site script_host"
  obtain T1 where c: "preflight_checks ?su (example_state False (preflight_script @ preflight_script2 @ window_script))
      = (Inr (), checked_state T1 (preflight_script2 @ window_script))" using checks_run by blast
  obtain T2 where s: "preflight_start ?su target_url (checked_state T1 (preflight_script2 @ window_script)) = (Inr (), ready_state T2 window_script)"
    using start_runs by blast
  obtain T3 where w: "stop_writers ?su ((ready_state T2 window_script)\<lparr>deadline := Some 184900\<rparr>) =
      (Inr (), stopped_state T3 (migrate_script @ start_script @ switch_script))"
    using stop_runs unfolding window_script_def by blast
  obtain T4 where m: "migrate ?su (stopped_state T3 (migrate_script @ start_script @ switch_script)) =
      (Inr (), migrated_state T4 (start_script @ switch_script))" using migrate_runs by blast
  obtain T5 where t: "start_target ?su (migrated_state T4 (start_script @ switch_script)) = (Inr (), started_state T5 switch_script)"
    using target_starts by blast
  obtain T6 where x: "switch_and_canary ?su (started_state T5 switch_script) =
      (Inr (), (started_state T6 [])\<lparr>now := 10600, writer_stop_deadline := None, canary_active := True\<rparr>)" using switch_runs by blast
  have d: "update (\<lambda>st. st\<lparr>deadline := Some (now st + 1000 * WINDOW_SECONDS)\<rparr>) (ready_state T2 window_script) =
      (Inr (), (ready_state T2 window_script)\<lparr>deadline := Some 184900\<rparr>)"
    by (simp add: update_def WINDOW_SECONDS_def ready_state_def)
  have r: "query remaining ((started_state T6 [])\<lparr>now := 10600, writer_stop_deadline := None, canary_active := True\<rparr>) =
      (Inr 174, (started_state T6 [])\<lparr>now := 10600, writer_stop_deadline := None, canary_active := True\<rparr>)"
    by (simp add: query_def remaining_def window_states)
  have keep: "persist_recovery_state ?su phase = io_return ()" "clear_recovery_state ?su = io_return ()" for phase
    by (simp_all add: persist_recovery_state_def clear_recovery_state_def)
  show ?thesis
    unfolding cutover_execute_def cutover_phases_def preflight_def
    by (simp add: run_bind c s w m t x d r keep io_return_def cong: window_run)
qed

text \<open>The witness.\<close>

theorem completed_cutover_window_witness:
  "\<exists>st' before stop during canary after.
    cutover_execute (example_site script_host) target_url (\<lambda>_. False)
      (example_state False (preflight_script @ preflight_script2 @ window_script)) = (Inr (), st') \<and>
    trace st' = before @ [stop] @ during @ [canary] @ after \<and>
    runs stop_sync stop \<and> in_order (window_evidence (example_site script_host)) during \<and>
    finished canary \<le> issued stop + 59000"
proof -
  obtain st' where run: "cutover_execute (example_site script_host) target_url (\<lambda>_. False)
      (example_state False (preflight_script @ preflight_script2 @ window_script)) = (Inr (), st')"
    using cutover_completes by blast
  from completed_cutover_window [OF run] run show ?thesis by blast
qed

end
