(* ===== verification/Cutover_Recovery.thy ===== *)
theory Cutover_Recovery
  imports Cutover_Hosts
begin

text \<open>
  The recovery state of the cutover, which a later run of the tool restores, and the bounds on its
  waiting loops.
\<close>

section \<open>What a recovery state restores\<close>

lemma recovery_document:
  assumes "recovery_state_document su phase st = Inr d"
  obtains head identity fragment sha where "git_head st = Some head" "private_env_identity st = Some identity"
    "sync_fragment st = Some fragment" "sync_fragment_sha256 st = Some sha"
  using assms by (auto simp: recovery_state_document_def split: option.splits prod.splits)

lemma same_dict_refl [simp]: "cutover_same_dict d d"
  by (auto simp: cutover_same_dict_def list_all_iff)

lemma text_of_opt [simp]: "text_of (opt_text x) = x"
  by (simp add: text_of_def opt_text_def split: option.split)

lemma same_service_document [simp]: "same_service (service_document s) s"
  by (simp add: same_service_def service_document_def dict_of_def)

lemma target_names_distinct:
  "TARGET_APP \<noteq> TARGET_POSTGRES" "TARGET_APP \<noteq> TARGET_REDIS" "TARGET_POSTGRES \<noteq> TARGET_REDIS"
  by (simp_all add: TARGET_APP_def TARGET_POSTGRES_def TARGET_REDIS_def)

lemma restored_targets:
  "name \<in> set TARGET_NAMES \<Longrightarrow> dget (map (\<lambda>name. (name, opt_text (f name))) TARGET_NAMES) name = opt_text (f name)"
  using target_names_distinct by (auto simp: TARGET_NAMES_def dget_def)

definition recovered_from :: "'w ctl \<Rightarrow> 'w ctl \<Rightarrow> bool" where
  "recovered_from st st' \<longleftrightarrow>
     list_all (\<lambda>name. target_identities st' name = target_identities st name) TARGET_NAMES \<and>
     private_env_identity st' = private_env_identity st \<and> sync_fragment st' = sync_fragment st \<and>
     sync_fragment_sha256 st' = sync_fragment_sha256 st \<and> target_started st' = target_started st \<and>
     nonce_target_started st' = nonce_target_started st \<and> nonce_runtime_active st' = nonce_runtime_active st \<and>
     writers_stopped st' = writers_stopped st \<and> canary_active st' = canary_active st"

text \<open>
  C39. A recovery state that was written restores everything.\<close>

theorem recovery_state_roundtrip:
  assumes "recovery_state_document su phase st = Inr d" and "git_head fresh = git_head st"
  shows "\<exists>st'. restore_recovery_state su d fresh = (Inr (), st') \<and> recovered_from st st' \<and> trace st' = trace fresh"
proof -
  obtain head identity fragment sha where st: "git_head st = Some head" "private_env_identity st = Some identity"
    "sync_fragment st = Some fragment" "sync_fragment_sha256 st = Some sha"
    using recovery_document [OF assms(1)] .
  have d: "d = [(''version'', PInt 3), (''phase'', PStr phase), (''git_head'', PStr head),
               (''env_file'', PStr (co_env_file (options su))), (''env_file_identity'', PDict identity),
               (''sync_fragment'', PStr fragment), (''sync_fragment_sha256'', PStr sha),
               (''legacy'', PDict [(''app'', service_document (svc_app su)),
                  (''postgres'', service_document (svc_postgres su)), (''redis'', service_document (svc_redis su))]),
               (''targets'', PDict (map (\<lambda>name. (name, opt_text (target_identities st name))) TARGET_NAMES)),
               (''target_started'', PBool (target_started st)), (''nonce_target_started'', PBool (nonce_target_started st)),
               (''nonce_runtime_active'', PBool (nonce_runtime_active st)), (''writers_stopped'', PBool (writers_stopped st)),
               (''canary_active'', PBool (canary_active st))]"
    using assms(1) st by (simp add: recovery_state_document_def)
  have get: "dget d ''git_head'' = PStr head" "dget d ''env_file'' = PStr (co_env_file (options su))"
    "dget d ''env_file_identity'' = PDict identity" "dget d ''sync_fragment'' = PStr fragment"
    "dget d ''sync_fragment_sha256'' = PStr sha"
    "dget d ''legacy'' = PDict [(''app'', service_document (svc_app su)),
       (''postgres'', service_document (svc_postgres su)), (''redis'', service_document (svc_redis su))]"
    "dget d ''targets'' = PDict (map (\<lambda>name. (name, opt_text (target_identities st name))) TARGET_NAMES)"
    "dget d ''target_started'' = PBool (target_started st)" "dget d ''nonce_target_started'' = PBool (nonce_target_started st)"
    "dget d ''nonce_runtime_active'' = PBool (nonce_runtime_active st)" "dget d ''writers_stopped'' = PBool (writers_stopped st)"
    "dget d ''canary_active'' = PBool (canary_active st)"
    by (simp_all add: d dget_def)
  have services: "dget [(''app'', service_document (svc_app su)), (''postgres'', service_document (svc_postgres su)),
      (''redis'', service_document (svc_redis su))] ''app'' = service_document (svc_app su)"
    "dget [(''app'', service_document (svc_app su)), (''postgres'', service_document (svc_postgres su)),
      (''redis'', service_document (svc_redis su))] ''postgres'' = service_document (svc_postgres su)"
    "dget [(''app'', service_document (svc_app su)), (''postgres'', service_document (svc_postgres su)),
      (''redis'', service_document (svc_redis su))] ''redis'' = service_document (svc_redis su)"
    by (simp_all add: dget_def)
  show ?thesis
    using st assms(2) restored_targets
    by (auto simp: restore_recovery_state_def get services dict_of_def text_of_def [of "PStr _"] flag_def recovered_from_def Let_def list_all_iff)
qed

definition recovery_example :: "unit ctl" where
  "recovery_example = \<lparr>world = (), now = 0, trace = [], deadline = None, writer_stop_deadline = None,
     migration_writes_stopped = False, target_started = True, nonce_target_started = True, nonce_runtime_active = False,
     writers_stopped = True, canary_active = False, target_identities = [TARGET_POSTGRES \<mapsto> ''p''], recovery_identity_unavailable = False,
     sync_fragment = Some ''/u'', sync_fragment_sha256 = Some ''s'', private_env_identity = Some [],
     export_source_database_identity = None, git_head = Some ''h''\<rparr>"

text \<open>The witness: a fresh controller of the same release.\<close>

theorem recovery_state_roundtrip_witness:
  "\<exists>d st'. recovery_state_document (example_site (\<lambda>_ w. (Inr Done, 0, w))) ''migrating'' recovery_example = Inr d \<and>
     restore_recovery_state (example_site (\<lambda>_ w. (Inr Done, 0, w))) d
       (recovery_example\<lparr>target_identities := (\<lambda>_. None), target_started := False, writers_stopped := False\<rparr>)
       = (Inr (), st') \<and> recovered_from recovery_example st'"
proof -
  obtain d where d: "recovery_state_document (example_site (\<lambda>_ w. (Inr Done, 0, w))) ''migrating'' recovery_example = Inr d"
    by (simp add: recovery_state_document_def recovery_example_def)
  from recovery_state_roundtrip [OF d,
      of "recovery_example\<lparr>target_identities := (\<lambda>_. None), target_started := False, writers_stopped := False\<rparr>"] d
  show ?thesis by auto
qed

section \<open>Waiting ends\<close>

text \<open>How often an action slept.\<close>

definition sleeps :: "event list \<Rightarrow> nat" where
  "sleeps es = length (filter (\<lambda>e. what e = Sleep) es)"

lemma sleeps_simps [simp]: "sleeps [] = 0" "sleeps (a @ b) = sleeps a + sleeps b" "sleeps (e # es) = (if what e = Sleep then 1 else 0) + sleeps es"
  by (simp_all add: sleeps_def)

lemma sleeps_none: "list_all (\<lambda>e. what e \<noteq> Sleep) es \<Longrightarrow> sleeps es = 0"
  by (induction es) auto

abbreviation sleepless :: "('w ctl \<Rightarrow> 'r \<times> 'w ctl) \<Rightarrow> bool" where
  "sleepless \<equiv> emits (\<lambda>e. what e \<noteq> Sleep)"

lemma sleepless_run:
  assumes "sleepless m" and "m st = (r, st')"
  shows "\<exists>es. trace st' = trace st @ es \<and> sleeps es = 0 \<and> now st \<le> now st'"
  using emits_run [OF assms] unfolding extends_def
  by (auto simp: list_all_iff intro!: sleeps_none)

lemma runs_no_sleep: "runs argv e \<Longrightarrow> what e \<noteq> Sleep"
  by (auto simp: runs_def)

lemma sleepless_docker_state: "sleepless (docker_state su s)"
  unfolding docker_state_def inspect_container_runtime_def
  by (intro emits_bind emits_cut_run runs_no_sleep) (auto intro!: emits_bind split: option.splits)

lemma pause_run:
  assumes "pause su st = (r, st')"
  shows "\<exists>es. trace st' = trace st @ es \<and> sleeps es = 1 \<and> now st + 1000 \<le> now st'"
  using assms pause_later [OF assms]
  by (auto simp: pause_def perform_def update_def io_bind_def io_return_def ask_def split: prod.splits sum.splits)

definition rounds :: "int \<Rightarrow> 'w ctl \<Rightarrow> nat" where
  "rounds until st = nat ((until - now st + 999) div 1000)"

lemma rounds_later: "now st \<le> now st1 \<Longrightarrow> now st1 < until \<Longrightarrow> now st1 + 1000 \<le> now st2 \<Longrightarrow> rounds until st2 + 1 \<le> rounds until st"
  unfolding rounds_def by linarith

lemma legacy_loop_sleeps:
  "\<exists>es. trace (snd (legacy_loop su s h u st)) = trace st @ es \<and> sleeps es \<le> rounds u st"
proof (induction su s h u st rule: legacy_loop.induct)
  case (1 su s h u st)
  obtain r st1 where d: "docker_state su s st = (r, st1)" by (rule prod.exhaust)
  obtain r2 st2 where p: "pause su st1 = (r2, st2)" by (rule prod.exhaust)
  obtain es where es: "trace st1 = trace st @ es" "sleeps es = 0" "now st \<le> now st1"
    using sleepless_run [OF sleepless_docker_state d] by blast
  obtain es2 where es2: "trace st2 = trace st1 @ es2" "sleeps es2 = 1" "now st1 + 1000 \<le> now st2"
    using pause_run [OF p] by blast
  show ?case
  proof (cases r)
    case (Inr a)
    obtain running health where a: "a = (running, health)" by (rule prod.exhaust)
    note eq = legacy_loop.simps [of su s h u st]
    show ?thesis
    proof (cases "(running \<and> (\<not> h \<or> health = ''healthy'')) \<or> (running \<and> health = ''none'') \<or> u \<le> now st1")
      case True
      then have "snd (legacy_loop su s h u st) = st1" using d Inr a by (subst eq) auto
      with es show ?thesis by (intro exI [of _ es]) simp
    next
      case wait: False
      have round: "rounds u st2 + 1 \<le> rounds u st" using rounds_later [OF es(3) _ es2(3)] wait by simp
      show ?thesis
      proof (cases r2)
        case (Inl e)
        then have "snd (legacy_loop su s h u st) = st2" using d \<open>r = Inr a\<close> a p wait by (subst eq) auto
        with es es2 round show ?thesis by (intro exI [of _ "es @ es2"]) simp
      next
        case (Inr v)
        then have "legacy_loop su s h u st = legacy_loop su s h u st2" using d \<open>r = Inr a\<close> a p wait by (subst eq) auto
        moreover obtain es3 where "trace (snd (legacy_loop su s h u st2)) = trace st2 @ es3" "sleeps es3 \<le> rounds u st2"
          using "1.IH" [OF d [symmetric] \<open>r = Inr a\<close> [unfolded a] refl _ _ _ p [symmetric] Inr] wait by auto
        ultimately show ?thesis using es es2 round by (intro exI [of _ "es @ es2 @ es3"]) simp
      qed
    qed
  qed (use d es in \<open>auto simp: legacy_loop.simps [of su s h u st]\<close>)
qed

text \<open>
  C40. The wait for a legacy container.\<close>

theorem legacy_wait_bounded:
  "\<exists>es. trace (snd (ensure_legacy_running su s h st)) = trace st @ es \<and> length (filter (\<lambda>e. what e = Sleep) es) \<le> 60"
proof -
  obtain r st1 where d: "docker_state su s st = (r, st1)" by (rule prod.exhaust)
  obtain es where es: "trace st1 = trace st @ es" "sleeps es = 0"
    using sleepless_run [OF sleepless_docker_state d] by blast
  show ?thesis
  proof (cases r)
    case (Inr a)
    let ?start = "if fst a then io_return (0, []) else raw_run su [''docker'', ''start'', ls_identity s] 30"
    obtain r2 st2 where b: "?start st1 = (r2, st2)" by (rule prod.exhaust)
    have q: "sleepless ?start" by (cases "fst a") (simp, simp, rule emits_raw_run, rule runs_no_sleep)
    obtain es2 where es2: "trace st2 = trace st1 @ es2" "sleeps es2 = 0"
      using sleepless_run [OF q b] by blast
    obtain es3 where es3: "trace (snd (legacy_loop su s h (now st2 + 60000) st2)) = trace st2 @ es3" "sleeps es3 \<le> rounds (now st2 + 60000) st2"
      using legacy_loop_sleeps by blast
    show ?thesis
    proof (cases r2)
      case (Inl e)
      then have "snd (ensure_legacy_running su s h st) = st2"
        using d \<open>r = Inr a\<close> Inr b
        by (cases a) (auto simp: ensure_legacy_running_def io_bind_def split: if_splits)
      with es es2 show ?thesis by (intro exI [of _ "es @ es2"]) (simp flip: sleeps_def)
    next
      case (Inr v)
      then have "snd (ensure_legacy_running su s h st) = snd (legacy_loop su s h (now st2 + 60000) st2)"
        using d \<open>r = Inr a\<close> b
        by (cases a) (auto simp: ensure_legacy_running_def io_bind_def split: if_splits)
      with es es2 es3 show ?thesis by (intro exI [of _ "es @ es2 @ es3"]) (simp add: rounds_def flip: sleeps_def)
    qed
  next
    case (Inl e)
    then show ?thesis using d es by (auto simp: ensure_legacy_running_def io_bind_def simp flip: sleeps_def)
  qed
qed

section \<open>What a rollback reports\<close>

definition rollback_labels :: "pystr list" where
  "rollback_labels = [''legacy_postgres_start'', ''legacy_redis_start'', ''legacy_app_start'', ''legacy_app_health'', ''legacy_sync_health'',
     ''stable_upstream_restore'', ''stable_upstream_not_restored_without_healthy_legacy'', ''recovery_identity'',
     ''traffic_canary_isolation'', ''nonce_target_isolation'', ''sanitized_target_reset'']"

lemma label_known [simp]:
  "''legacy_postgres_start'' \<in> set rollback_labels" "''legacy_redis_start'' \<in> set rollback_labels"
  "''legacy_app_start'' \<in> set rollback_labels" "''legacy_app_health'' \<in> set rollback_labels"
  "''legacy_sync_health'' \<in> set rollback_labels" "''stable_upstream_restore'' \<in> set rollback_labels"
  "''stable_upstream_not_restored_without_healthy_legacy'' \<in> set rollback_labels" "''recovery_identity'' \<in> set rollback_labels"
  "''traffic_canary_isolation'' \<in> set rollback_labels" "''nonce_target_isolation'' \<in> set rollback_labels"
  "''sanitized_target_reset'' \<in> set rollback_labels"
  by (simp_all add: rollback_labels_def)

abbreviation known :: "pystr list \<Rightarrow> bool" where "known es \<equiv> set es \<subseteq> set rollback_labels"

lemma attempt_labels: "attempt l m es st = (Inr es', st') \<Longrightarrow> known es \<Longrightarrow> l \<in> set rollback_labels \<Longrightarrow> known es'"
  by (auto dest!: attempt_Inr)

lemma restore_legacy_labels:
  assumes "restore_legacy su st = (Inr errors, st')"
  shows "known errors"
proof -
  obtain e1 s1 e2 s2 e3 s3 e4 s4 where a:
    "attempt ''legacy_postgres_start'' (ensure_legacy_running su (svc_postgres su) True) [] st = (Inr e1, s1)"
    "attempt ''legacy_redis_start'' (ensure_legacy_running su (svc_redis su) True) e1 s1 = (Inr e2, s2)"
    "attempt ''legacy_app_start'' (ensure_legacy_running su (svc_app su) False) e2 s2 = (Inr e3, s3)"
    "attempt ''legacy_app_health'' (probe_health su 8080 ''/health'') e3 s3 = (Inr e4, s4)"
    "attempt ''legacy_sync_health'' (restore_sync su) e4 s4 = (Inr errors, st')"
    using assms by (auto simp: restore_legacy_def io_bind_Inr)
  have "known e1" by (rule attempt_labels [OF a(1)]) simp_all
  then have "known e2" by (rule attempt_labels [OF a(2)]) simp
  then have "known e3" by (rule attempt_labels [OF a(3)]) simp
  then have "known e4" by (rule attempt_labels [OF a(4)]) simp
  then show ?thesis by (rule attempt_labels [OF a(5)]) simp
qed

lemma guarded_step_labels:
  assumes "guarded_step go m l es st = (Inr (ok, es'), st')" and "known es" and "l \<in> set rollback_labels"
  shows "known es'" and "ok \<Longrightarrow> go"
  using assms by (auto simp: guarded_step_def io_bind_Inr split: if_splits dest!: attempt_Inr)

lemma isolate_step_labels:
  assumes "isolate_step r v b m l k es st = (Inr (ok, es'), st')" and "v \<Longrightarrow> r" and "known es" and "l \<in> set rollback_labels"
  shows "known es'"
proof (cases "r \<and> v \<and> b")
  case True
  with assms(1) have "guarded_step True m l es st = (Inr (ok, es'), st')" by (simp add: isolate_step_def)
  from guarded_step_labels(1) [OF this assms(3,4)] show ?thesis .
next
  case False
  then have "es' = es" using assms(1,2) by (auto simp: isolate_step_def split: if_splits)
  with assms(3) show ?thesis by simp
qed

text \<open>The two labels that say that the target was kept are never among them.\<close>

theorem rollback_never_reports_kept:
  assumes "rollback su st = (Inr errors, st')"
  shows "set errors \<subseteq> set rollback_labels"
proof -
  obtain e1 s1 restored e2 s2 verified e3 s3 target nonce ok1 e4 s4 ok2 e5 s5 where
    l: "restore_legacy su (begin_rollback st) = (Inr e1, s1)" and
    r: "(if legacy_ready e1 then guarded_step True (restore_stable su) ''stable_upstream_restore'' e1
       else io_return (False, e1 @ [''stable_upstream_not_restored_without_healthy_legacy''])) s1 = (Inr (restored, e2), s2)" and
    v: "guarded_step restored (verify_cleanup su) ''recovery_identity'' e2 s2 = (Inr (verified, e3), s3)" and
    t: "isolate_step restored verified target (isolate_target su) ''traffic_canary_isolation''
       ''traffic_canary_kept_for_active_upstream_safety'' e3 s3 = (Inr (ok1, e4), s4)" and
    n: "isolate_step restored verified nonce (isolate_nonce su) ''nonce_target_isolation''
       ''nonce_target_kept_for_active_upstream_safety'' e4 s4 = (Inr (ok2, e5), s5)" and
    f: "(if restored \<and> verified \<and> ok1 \<and> ok2 then attempt ''sanitized_target_reset'' (perform su ResetTarget) e5 else io_return e5) s5
       = (Inr errors, st')"
    using assms unfolding rollback_def Let_def io_bind_Inr
    by (auto simp: begin_rollback_def query_def io_bind_Inr split: prod.splits)
  have "known e1" by (rule restore_legacy_labels [OF l])
  then have "known e2" using r by (cases "legacy_ready e1") (auto dest: guarded_step_labels(1))
  note e3 = guarded_step_labels [OF v this, simplified]
  have "known e4" by (rule isolate_step_labels [OF t e3(2) e3(1)]) simp_all
  then have "known e5" using isolate_step_labels [OF n e3(2)] by simp
  then show ?thesis using f by (auto split: if_splits dest: attempt_labels)
qed

theorem rollback_never_reports_kept_witness:
  "\<exists>errors st'. rollback (example_site (legacy_host 0)) (example_state True None) = (Inr errors, st') \<and>
     set errors \<subseteq> set rollback_labels"
  using rollback_of_ready_app rollback_never_reports_kept by blast

end
