(* ===== verification/Nginx_Text.thy ===== *)
theory Nginx_Text
  imports Py_Base
begin

text \<open>
  The text level of \<open>deploy/install-nginx-direct-v1.py\<close>: comments and quotes of an Nginx
  configuration, its tokens (\<open>shlex.split\<close> of the standard library on the text without comments),
  and the parser of blocks and directives with their positions.
\<close>

section \<open>Results\<close>

text \<open>Everything here that fails raises \<open>CutoverError\<close> with a message.\<close>

type_synonym 'a conf = "pystr + 'a"

definition conf_bind :: "'a conf \<Rightarrow> ('a \<Rightarrow> 'b conf) \<Rightarrow> 'b conf" where
  "conf_bind r f = (case r of Inl e \<Rightarrow> Inl e | Inr a \<Rightarrow> f a)"

definition conf_require :: "bool \<Rightarrow> pystr \<Rightarrow> unit conf" where
  "conf_require b msg = (if b then Inr () else Inl msg)"

fun conf_map :: "('a \<Rightarrow> 'b conf) \<Rightarrow> 'a list \<Rightarrow> 'b list conf" where
  "conf_map f [] = Inr []"
| "conf_map f (x # xs) = conf_bind (f x) (\<lambda>y. conf_bind (conf_map f xs) (\<lambda>ys. Inr (y # ys)))"

fun conf_filter :: "('a \<Rightarrow> bool conf) \<Rightarrow> 'a list \<Rightarrow> 'a list conf" where
  "conf_filter f [] = Inr []"
| "conf_filter f (x # xs) = conf_bind (f x) (\<lambda>b. conf_bind (conf_filter f xs) (\<lambda>ys. Inr (if b then x # ys else ys)))"

text \<open>\<open>any(f(x) for x in xs)\<close> stops at the first element that holds.\<close>

fun conf_any :: "('a \<Rightarrow> bool conf) \<Rightarrow> 'a list \<Rightarrow> bool conf" where
  "conf_any f [] = Inr False"
| "conf_any f (x # xs) = conf_bind (f x) (\<lambda>b. if b then Inr True else conf_any f xs)"

text \<open>A loop over checks.\<close>

fun conf_all :: "('a \<Rightarrow> unit conf) \<Rightarrow> 'a list \<Rightarrow> unit conf" where
  "conf_all f [] = Inr ()"
| "conf_all f (x # xs) = conf_bind (f x) (\<lambda>_. conf_all f xs)"

definition conf_and :: "bool conf \<Rightarrow> bool conf \<Rightarrow> bool conf" where
  "conf_and a b = conf_bind a (\<lambda>x. if x then b else Inr False)"

section \<open>Comments and quotes\<close>

text \<open>The state of the three scanners: in code, in a quoted text (after a backslash or not), in a
  comment.\<close>

datatype lex = Code | Quoted char bool | Comment

definition LF :: char where "LF = CHR 0x0A"
definition SINGLE :: char where "SINGLE = CHR 0x27"
definition DOUBLE :: char where "DOUBLE = CHR 0x22"
definition BACKSLASH :: char where "BACKSLASH = CHR 0x5C"

fun lex_step :: "lex \<Rightarrow> char \<Rightarrow> lex" where
  "lex_step Comment c = (if c = LF then Code else Comment)"
| "lex_step (Quoted k True) c = Quoted k False"
| "lex_step (Quoted k False) c = (if c = BACKSLASH then Quoted k True else if c = k then Code else Quoted k False)"
| "lex_step Code c = (if c = DOUBLE \<or> c = SINGLE then Quoted c False else if c = CHR ''#'' then Comment else Code)"

text \<open>What \<open>strip_comments\<close> keeps of a character.\<close>

fun kept :: "lex \<Rightarrow> char \<Rightarrow> bool" where
  "kept Comment c = (c = LF)"
| "kept Code c = (c \<noteq> CHR ''#'')"
| "kept (Quoted k e) c = True"

fun strip_comments_from :: "lex \<Rightarrow> pystr \<Rightarrow> pystr" where
  "strip_comments_from l [] = []"
| "strip_comments_from l (c # cs) = (if kept l c then [c] else []) @ strip_comments_from (lex_step l c) cs"

definition strip_comments :: "pystr \<Rightarrow> pystr" where
  "strip_comments value = strip_comments_from Code value"

text \<open>The first character that is neither in a comment nor white space.\<close>

fun code_start_from :: "bool \<Rightarrow> nat \<Rightarrow> pystr \<Rightarrow> nat" where
  "code_start_from comment index [] = index"
| "code_start_from comment index (c # cs) =
     (if comment then code_start_from (c \<noteq> LF) (index + 1) cs
      else if c = DOUBLE \<or> c = SINGLE then index
      else if c = CHR ''#'' then code_start_from True (index + 1) cs
      else if \<not> is_space c then index
      else code_start_from False (index + 1) cs)"

definition code_start :: "pystr \<Rightarrow> nat" where
  "code_start raw = code_start_from False 0 raw"

section \<open>shlex.split\<close>

text \<open>The reader of \<open>shlex\<close> with \<open>posix=True\<close>, \<open>whitespace_split=True\<close> and no comment characters:
  between tokens, in a token, in quotes, and after a backslash with the state to return to. A quoted
  empty token counts.\<close>

datatype shlex = Between | InWord | InQuote char | Escaped shlex

definition is_shlex_space :: "char \<Rightarrow> bool" where
  "is_shlex_space c \<longleftrightarrow> c \<in> {CHR '' '', CHR 0x09, CHR 0x0D, CHR 0x0A}"

text \<open>The token read so far is reversed.\<close>

fun shlex_from :: "shlex \<Rightarrow> bool \<Rightarrow> pystr \<Rightarrow> pystr \<Rightarrow> pystr list option" where
  "shlex_from Between quoted token [] = Some []"
| "shlex_from InWord quoted token [] = Some (if token \<noteq> [] \<or> quoted then [rev token] else [])"
| "shlex_from (InQuote k) quoted token [] = None"
| "shlex_from (Escaped s) quoted token [] = None"
| "shlex_from Between quoted token (c # cs) =
     (if is_shlex_space c then shlex_from Between False [] cs
      else if c = BACKSLASH then shlex_from (Escaped InWord) quoted token cs
      else if c = DOUBLE \<or> c = SINGLE then shlex_from (InQuote c) quoted token cs
      else shlex_from InWord quoted (c # token) cs)"
| "shlex_from (InQuote k) quoted token (c # cs) =
     (if c = k then shlex_from InWord True token cs
      else if c = BACKSLASH \<and> k = DOUBLE then shlex_from (Escaped (InQuote k)) True token cs
      else shlex_from (InQuote k) True (c # token) cs)"
| "shlex_from (Escaped s) quoted token (c # cs) =
     (case s of
        InQuote k \<Rightarrow> shlex_from s quoted (if c \<noteq> BACKSLASH \<and> c \<noteq> k then c # BACKSLASH # token else c # token) cs
      | _ \<Rightarrow> shlex_from s quoted (c # token) cs)"
| "shlex_from InWord quoted token (c # cs) =
     (if is_shlex_space c then
        (if token \<noteq> [] \<or> quoted then map_option (Cons (rev token)) (shlex_from Between False [] cs)
         else shlex_from Between False [] cs)
      else if c = DOUBLE \<or> c = SINGLE then shlex_from (InQuote c) quoted token cs
      else if c = BACKSLASH then shlex_from (Escaped InWord) quoted token cs
      else shlex_from InWord quoted (c # token) cs)"

definition tokenise :: "pystr \<Rightarrow> pystr list conf" where
  "tokenise value =
     (case shlex_from Between False [] (strip_comments value) of
        None \<Rightarrow> Inl ''Nginx configuration contains an invalid quoted directive''
      | Some tokens \<Rightarrow> Inr tokens)"

section \<open>Blocks and directives\<close>

text \<open>A block or directive points to its parent by the position of that in the list of blocks.\<close>

record block =
  b_header :: pystr
  b_start :: nat
  b_open :: nat
  b_close :: "nat option"
  b_parent :: "nat option"

record directive =
  d_text :: pystr
  d_start :: nat
  d_end :: nat
  d_parent :: "nat option"

record parser =
  p_lex :: lex
  p_blocks :: "block list"
  p_directives :: "directive list"
  p_stack :: "nat list"
  p_from :: nat

definition slice :: "pystr \<Rightarrow> nat \<Rightarrow> nat \<Rightarrow> pystr" where
  "slice text a b = take (b - a) (drop a text)"

text \<open>\<open>text.rfind(newline, 0, p) + 1\<close>.\<close>

definition line_start :: "pystr \<Rightarrow> nat \<Rightarrow> nat" where
  "line_start text p = length (take p text) - length (takeWhile (\<lambda>c. c \<noteq> LF) (rev (take p text)))"

definition top_of :: "nat list \<Rightarrow> nat option" where
  "top_of stack = (case stack of [] \<Rightarrow> None | b # _ \<Rightarrow> Some b)"

definition end_directive :: "pystr \<Rightarrow> nat \<Rightarrow> parser \<Rightarrow> parser conf" where
  "end_directive text index p =
     (let raw = slice text (p_from p) index; cleaned = strip (strip_comments raw)
      in Inr (p\<lparr>p_from := index + 1,
           p_directives := p_directives p @ (if cleaned = [] then []
             else [\<lparr>d_text = cleaned, d_start = p_from p + code_start raw, d_end = index + 1, d_parent = top_of (p_stack p)\<rparr>])\<rparr>))"

definition open_block :: "pystr \<Rightarrow> nat \<Rightarrow> parser \<Rightarrow> parser conf" where
  "open_block text index p =
     (let raw = slice text (p_from p) index; cleaned = strip (strip_comments raw)
      in if cleaned = [] then Inl ''Nginx configuration contains a block without a directive''
         else let absolute_start = p_from p + code_start raw;
                  first = line_start text absolute_start;
                  start = (if strip (slice text first absolute_start) = [] then first else absolute_start)
              in Inr (p\<lparr>p_from := index + 1,
                   p_blocks := p_blocks p @ [\<lparr>b_header = cleaned, b_start = start, b_open = index, b_close = None,
                     b_parent = top_of (p_stack p)\<rparr>],
                   p_stack := length (p_blocks p) # p_stack p\<rparr>))"

definition close_block :: "nat \<Rightarrow> parser \<Rightarrow> parser conf" where
  "close_block index p =
     (case p_stack p of
        [] \<Rightarrow> Inl ''Nginx configuration contains an unmatched closing brace''
      | b # stack \<Rightarrow>
          Inr (p\<lparr>p_from := index + 1, p_stack := stack,
            p_blocks := (p_blocks p)[b := (p_blocks p ! b)\<lparr>b_close := Some index\<rparr>]\<rparr>))"

definition parse_step :: "pystr \<Rightarrow> nat \<Rightarrow> char \<Rightarrow> parser \<Rightarrow> parser conf" where
  "parse_step text index c p =
     (let p' = p\<lparr>p_lex := lex_step (p_lex p) c\<rparr>
      in if p_lex p \<noteq> Code then Inr p'
         else if c = CHR '';'' then end_directive text index p'
         else if c = CHR ''{'' then open_block text index p'
         else if c = CHR ''}'' then close_block index p'
         else Inr p')"

fun parse_loop :: "pystr \<Rightarrow> nat \<Rightarrow> pystr \<Rightarrow> parser \<Rightarrow> parser conf" where
  "parse_loop text index [] p = Inr p"
| "parse_loop text index (c # cs) p = conf_bind (parse_step text index c p) (parse_loop text (index + 1) cs)"

definition parser_start :: parser where
  "parser_start = \<lparr>p_lex = Code, p_blocks = [], p_directives = [], p_stack = [], p_from = 0\<rparr>"

fun in_quote :: "lex \<Rightarrow> bool" where
  "in_quote (Quoted k e) = True"
| "in_quote _ = False"

definition parse_config :: "pystr \<Rightarrow> (block list \<times> directive list) conf" where
  "parse_config text =
     conf_bind (parse_loop text 0 text parser_start) (\<lambda>p.
       if in_quote (p_lex p) \<or> p_stack p \<noteq> []
       then Inl ''Nginx configuration contains an unterminated quote or block''
       else if strip (strip_comments (drop (p_from p) text)) \<noteq> []
       then Inl ''Nginx configuration ends with an incomplete directive''
       else Inr (p_blocks p, p_directives p))"

end
