(* ===== verification/Nginx_Conf.thy ===== *)
theory Nginx_Conf
  imports Nginx_Text
begin

text \<open>
  The decisions of \<open>deploy/install-nginx-direct-v1.py\<close> about a parsed configuration: which server
  block is meant, which locations are removed, how the direct location, the upstream and the
  Cloudflare gates are put in, and what the result is checked for.
\<close>

section \<open>Texts\<close>

fun occurs_in :: "pystr \<Rightarrow> pystr \<Rightarrow> bool" where
  "occurs_in needle [] = (needle = [])"
| "occurs_in needle (c # cs) = (prefix needle (c # cs) \<or> occurs_in needle cs)"

definition CAPTURE_MARKERS :: "pystr list" where
  "CAPTURE_MARKERS = [''response-preview'', ''response_preview'', ''request-capture'', ''request_capture'',
     ''body_filter_by_lua'', ''log_by_lua'', ''/capture'', ''_capture'']"

definition CAPTURE_DIRECTIVE_NAMES :: "pystr list" where
  "CAPTURE_DIRECTIVE_NAMES = [''mirror'', ''mirror_request_body'', ''body_filter_by_lua'', ''body_filter_by_lua_block'',
     ''log_by_lua'', ''log_by_lua_block'']"

definition CLOUDFLARE_ONLY_INCLUDE :: "pystr list" where
  "CLOUDFLARE_ONLY_INCLUDE = [''include'', ''/etc/nginx/snippets/cloudflare-only.conf'']"

definition line :: "pystr \<Rightarrow> pystr" where "line s = s @ [LF]"

definition UPSTREAM_BLOCK :: pystr where
  "UPSTREAM_BLOCK = line ''upstream sub2api_backend {'' @ line ''    include /etc/nginx/snippets/sub2api-upstream-active.conf;''
     @ line ''    keepalive 64;'' @ line ''}'' @ line []"

definition DIRECT_LOCATION :: pystr where
  "DIRECT_LOCATION =
     line ''    location ^~ /v1/ {''
     @ line ''        include /etc/nginx/snippets/cloudflare-only.conf;''
     @ line ''        proxy_pass http://sub2api_backend;''
     @ line ''        access_log off;''
     @ line ''        error_log /dev/null crit;''
     @ line ''        proxy_http_version 1.1;''
     @ line ''        proxy_set_header Host $host;''
     @ line ''        proxy_set_header X-Real-IP $remote_addr;''
     @ line ''        proxy_set_header X-Forwarded-For $remote_addr;''
     @ line ''        proxy_set_header X-Forwarded-Proto https;''
     @ line ''        proxy_set_header X-Request-ID $request_id;''
     @ line ''        proxy_set_header Upgrade $http_upgrade;''
     @ line ''        proxy_set_header Connection $connection_upgrade;''
     @ line ''        proxy_buffering off;''
     @ line ''        proxy_request_buffering off;''
     @ line ''        proxy_cache off;''
     @ line ''        proxy_intercept_errors off;''
     @ line ''        proxy_connect_timeout 5s;''
     @ line ''        proxy_read_timeout 300s;''
     @ line ''        proxy_send_timeout 300s;''
     @ line ''    }''"

definition marked :: "pystr \<Rightarrow> bool" where
  "marked s = list_ex (\<lambda>m. occurs_in m s) CAPTURE_MARKERS"

definition is_capture_directive :: "pystr list \<Rightarrow> bool" where
  "is_capture_directive tokens =
     (case tokens of
        [] \<Rightarrow> False
      | name # _ \<Rightarrow> (let n = lower name in n \<in> set CAPTURE_DIRECTIVE_NAMES
            \<or> list_ex (\<lambda>e. suffix e n) [''_by_lua'', ''_by_lua_block'', ''_by_lua_file'']))"

section \<open>Host names\<close>

definition label_ok :: "pystr \<Rightarrow> bool" where
  "label_ok l \<longleftrightarrow> l \<noteq> [] \<and> length l \<le> 63 \<and> list_all (\<lambda>c. is_lower c \<or> is_digit c \<or> c = CHR ''-'') l
     \<and> hd l \<noteq> CHR ''-'' \<and> last l \<noteq> CHR ''-''"

definition rstrip_dots :: "pystr \<Rightarrow> pystr" where
  "rstrip_dots s = rev (dropWhile (\<lambda>c. c = CHR ''.'') (rev s))"

definition validate_hostname :: "pystr \<Rightarrow> pystr conf" where
  "validate_hostname value =
     (let hostname = rstrip_dots (lower (strip value))
      in if 1 \<le> length hostname \<and> length hostname \<le> 253 \<and> 2 \<le> length (split_on (CHR ''.'') hostname)
            \<and> list_all label_ok (split_on (CHR ''.'') hostname)
         then Inr hostname else Inl ''approved hostname is invalid'')"

section \<open>Servers and locations\<close>

type_synonym blocks = "(nat \<times> block) list"

definition child_directives :: "nat \<Rightarrow> directive list \<Rightarrow> directive list" where
  "child_directives b directives = filter (\<lambda>d. d_parent d = Some b) directives"

definition is_server_block :: "block \<Rightarrow> bool conf" where
  "is_server_block b = conf_bind (tokenise (b_header b)) (\<lambda>tokens. Inr (tokens = [''server'']))"

definition server_names :: "nat \<Rightarrow> directive list \<Rightarrow> pystr list conf" where
  "server_names server directives =
     conf_bind (conf_map (\<lambda>d. conf_bind (tokenise (d_text d)) (\<lambda>tokens.
         Inr (case tokens of [] \<Rightarrow> [] | t # names \<Rightarrow> if t = ''server_name'' then names else [])))
       (child_directives server directives)) (\<lambda>names. Inr (concat names))"

text \<open>\<open>address == "443" or address.endswith(":443")\<close>; the third test of the source is implied by
  the second.\<close>

definition tls_address :: "pystr \<Rightarrow> bool" where
  "tls_address address \<longleftrightarrow> address = ''443'' \<or> suffix '':443'' address \<or> suffix '']:443'' address"

definition is_tls_server :: "nat \<Rightarrow> directive list \<Rightarrow> bool conf" where
  "is_tls_server server directives =
     conf_any (\<lambda>d. conf_bind (tokenise (d_text d)) (\<lambda>tokens.
         Inr (case tokens of
            [] \<Rightarrow> False
          | t # rest \<Rightarrow> t = ''ssl_certificate''
              \<or> (t = ''listen'' \<and> (case rest of [] \<Rightarrow> False | a # _ \<Rightarrow> tls_address (lower a))))))
       (child_directives server directives)"

text \<open>The modifier and the path of a location, nothing for another block.\<close>

definition location_path :: "block \<Rightarrow> (pystr \<times> pystr) option conf" where
  "location_path b =
     conf_bind (tokenise (b_header b)) (\<lambda>tokens.
       case tokens of
         t # u # rest \<Rightarrow>
           if t \<noteq> ''location'' then Inr None
           else if u \<in> {''='', ''^~'', ''~'', ''~*''}
           then (case rest of [path] \<Rightarrow> Inr (Some (u, path)) | _ \<Rightarrow> Inl ''Nginx location directive has an unsupported shape'')
           else (if rest = [] then Inr (Some ([], u)) else Inl ''Nginx location directive has an unsupported shape'')
       | _ \<Rightarrow> Inr None)"

definition direct_directives :: "nat \<Rightarrow> directive list \<Rightarrow> pystr list list conf" where
  "direct_directives b directives = conf_map (\<lambda>d. tokenise (d_text d)) (child_directives b directives)"

definition is_proxying_location :: "nat \<times> block \<Rightarrow> directive list \<Rightarrow> bool conf" where
  "is_proxying_location b directives =
     conf_bind (location_path (snd b)) (\<lambda>l.
       if l = None then Inr False
       else conf_bind (direct_directives (fst b) directives) (\<lambda>ds.
         Inr (list_ex (\<lambda>tokens. tokens \<noteq> [] \<and> hd tokens = ''proxy_pass'') ds)))"

definition has_explicit_cloudflare_gate :: "nat \<Rightarrow> directive list \<Rightarrow> bool conf" where
  "has_explicit_cloudflare_gate b directives =
     conf_bind (direct_directives b directives) (\<lambda>ds. Inr (count_list ds CLOUDFLARE_ONLY_INCLUDE = 1))"

definition numbered :: "block list \<Rightarrow> blocks" where
  "numbered blocks = enumerate 0 blocks"

definition children :: "nat \<Rightarrow> blocks \<Rightarrow> blocks" where
  "children server bs = filter (\<lambda>(_, b). b_parent b = Some server) bs"

text \<open>The TLS servers of a host name.\<close>

definition approved_servers :: "blocks \<Rightarrow> directive list \<Rightarrow> pystr \<Rightarrow> blocks conf" where
  "approved_servers bs directives hostname =
     conf_filter (\<lambda>(i, b). conf_and (is_server_block b) (conf_and (is_tls_server i directives)
       (conf_bind (server_names i directives) (\<lambda>names. Inr (hostname \<in> set names))))) bs"

definition b_end :: "block \<Rightarrow> nat" where
  "b_end b = (case b_close b of None \<Rightarrow> 0 | Some c \<Rightarrow> c)"

definition block_body :: "pystr \<Rightarrow> block \<Rightarrow> pystr" where
  "block_body text b = slice text (b_open b + 1) (b_end b)"

definition is_v1 :: "pystr \<times> pystr \<Rightarrow> bool" where
  "is_v1 l = (case l of (modifier, path) \<Rightarrow> modifier \<notin> {''~'', ''~*''} \<and> (path = ''/v1'' \<or> prefix ''/v1/'' path))"

section \<open>Checking\<close>

definition required_directives :: "pystr list" where
  "required_directives = [''proxy_pass http://sub2api_backend;'', ''access_log off;'', ''error_log /dev/null crit;'',
     ''proxy_request_buffering off;'', ''proxy_set_header Connection $connection_upgrade;'', ''proxy_intercept_errors off;'']"

definition sub2api_upstreams :: "blocks \<Rightarrow> blocks conf" where
  "sub2api_upstreams bs =
     conf_filter (\<lambda>(_, b). if b_parent b \<noteq> None then Inr False
       else conf_bind (tokenise (b_header b)) (\<lambda>t. Inr (t = [''upstream'', ''sub2api_backend'']))) bs"

definition verify_upstream :: "blocks \<Rightarrow> directive list \<Rightarrow> unit conf" where
  "verify_upstream bs directives =
     conf_bind (sub2api_upstreams bs) (\<lambda>upstreams.
       case upstreams of
         [(u, _)] \<Rightarrow>
           conf_bind (direct_directives u directives) (\<lambda>ds.
           conf_bind (conf_require (count_list ds [''include'', ''/etc/nginx/snippets/sub2api-upstream-active.conf''] = 1
                        \<and> count_list ds [''keepalive'', ''64''] = 1)
                      ''rewritten Sub2API upstream does not use the reviewed active include'') (\<lambda>_.
             conf_require (\<not> list_ex (\<lambda>t. t \<noteq> [] \<and> hd t = ''server'') ds)
               ''rewritten Sub2API upstream must not embed an unmanaged server''))
       | _ \<Rightarrow> Inl ''rewritten Nginx configuration must contain one reviewed Sub2API upstream'')"

definition v1_locations :: "nat \<Rightarrow> blocks \<Rightarrow> blocks conf" where
  "v1_locations server bs =
     conf_filter (\<lambda>(_, b). conf_bind (location_path b) (\<lambda>l. Inr (case l of None \<Rightarrow> False | Some p \<Rightarrow> is_v1 p))) (children server bs)"

definition verify_v1_body :: "pystr \<Rightarrow> unit conf" where
  "verify_v1_body body =
     conf_bind (conf_require (list_all (\<lambda>v. occurs_in v body) required_directives)
                  ''rewritten /v1 location is not the reviewed direct proxy'') (\<lambda>_.
       let lowered = lower body
       in conf_require (\<not> occurs_in ''mirror'' lowered \<and> \<not> occurs_in ''3021'' lowered \<and> \<not> marked lowered)
            ''rewritten /v1 location still contains a capture or sync hop'')"

definition verify_gates :: "nat \<Rightarrow> blocks \<Rightarrow> directive list \<Rightarrow> unit conf" where
  "verify_gates server bs directives =
     conf_all (\<lambda>b. conf_bind (conf_and (is_proxying_location b directives)
                     (conf_bind (has_explicit_cloudflare_gate (fst b) directives) (\<lambda>g. Inr (\<not> g)))) (\<lambda>bad.
         conf_require (\<not> bad) ''every proxy location must explicitly include the Cloudflare-only gate''))
       (children server bs)"

definition verify_other_locations :: "pystr \<Rightarrow> nat \<Rightarrow> nat \<Rightarrow> blocks \<Rightarrow> unit conf" where
  "verify_other_locations text server v1 bs =
     conf_all (\<lambda>(i, b). if i = v1 then Inr () else conf_bind (location_path b) (\<lambda>l.
         if l = None then Inr ()
         else (let body = lower (strip_comments (block_body text b)); header = lower (strip_comments (b_header b))
               in conf_require (\<not> occurs_in ''mirror '' body \<and> \<not> marked header \<and> \<not> marked body)
                    ''rewritten server still contains a capture location'')))
       (children server bs)"

definition verify_server_directives :: "nat \<Rightarrow> directive list \<Rightarrow> unit conf" where
  "verify_server_directives server directives =
     conf_all (\<lambda>d. let lowered = lower (strip_comments (d_text d)) in
       conf_bind (tokenise (d_text d)) (\<lambda>tokens.
       conf_bind (conf_require (\<not> is_capture_directive tokens) ''rewritten server still contains a capture directive'') (\<lambda>_.
         conf_require (\<not> (tokens \<noteq> [] \<and> hd tokens = ''include'' \<and> marked lowered))
           ''rewritten server still includes a capture configuration'')))
       (child_directives server directives)"

definition verify_rewritten_config :: "pystr \<Rightarrow> pystr \<Rightarrow> unit conf" where
  "verify_rewritten_config text hostname =
     conf_bind (parse_config text) (\<lambda>(blocks, directives). let bs = numbered blocks in
     conf_bind (approved_servers bs directives hostname) (\<lambda>servers.
       case servers of
         [(server, _)] \<Rightarrow>
           conf_bind (verify_upstream bs directives) (\<lambda>_.
           conf_bind (v1_locations server bs) (\<lambda>v1s.
             case v1s of
               [(v1, v1_block)] \<Rightarrow>
                 conf_bind (verify_v1_body (block_body text v1_block)) (\<lambda>_.
                 conf_bind (verify_gates server bs directives) (\<lambda>_.
                 conf_bind (verify_other_locations text server v1 bs) (\<lambda>_.
                   verify_server_directives server directives)))
             | _ \<Rightarrow> Inl ''rewritten Nginx configuration must contain one /v1 location''))
       | _ \<Rightarrow> Inl ''rewritten Nginx configuration lost the approved server''))"

definition verify_sync_location_config :: "pystr \<Rightarrow> unit conf" where
  "verify_sync_location_config text =
     conf_bind (parse_config text) (\<lambda>(blocks, directives).
     conf_bind (conf_filter (\<lambda>(_, b). conf_bind (location_path b) (\<lambda>l.
         Inr (b_parent b = None \<and> l = Some (''='', ''/_sub2api-sync/provision'')))) (numbered blocks)) (\<lambda>locations.
       case locations of
         [(i, _)] \<Rightarrow>
           conf_bind (direct_directives i directives) (\<lambda>ds.
           conf_bind (conf_require ([''proxy_pass'', ''http://127.0.0.1:3021/provision''] \<in> set ds)
                        ''sync location is not the reviewed provisioning proxy'') (\<lambda>_.
           conf_bind (has_explicit_cloudflare_gate i directives) (\<lambda>g.
             conf_require g ''sync proxy location must explicitly include the Cloudflare-only gate'')))
       | _ \<Rightarrow> Inl ''sync location must contain one reviewed provision endpoint''))"

section \<open>Rewriting\<close>

text \<open>Replacements of stretches of the text, applied from the last to the first.\<close>

type_synonym edit = "nat \<times> nat \<times> pystr"

definition apply_edit :: "pystr \<Rightarrow> edit \<Rightarrow> pystr" where
  "apply_edit text e = (case e of (a, b, new) \<Rightarrow> take a text @ new @ drop b text)"

fun insert_edit :: "edit \<Rightarrow> edit list \<Rightarrow> edit list" where
  "insert_edit e [] = [e]"
| "insert_edit (a, b, new) ((c, d, other) # es) =
     (if c < a \<or> (c = a \<and> d \<le> b) then (a, b, new) # (c, d, other) # es else (c, d, other) # insert_edit (a, b, new) es)"

definition sort_edits :: "edit list \<Rightarrow> edit list" where
  "sort_edits es = foldr insert_edit es []"

definition apply_edits :: "pystr \<Rightarrow> edit list \<Rightarrow> pystr" where
  "apply_edits text es = foldl apply_edit text (sort_edits es)"

text \<open>The position after a block, the blanks after it and the end of its line.\<close>

definition blank_char :: "char \<Rightarrow> bool" where
  "blank_char c \<longleftrightarrow> c \<in> {CHR '' '', CHR 0x09, CHR 0x0D}"

definition block_end_with_newline :: "pystr \<Rightarrow> block \<Rightarrow> nat" where
  "block_end_with_newline text b =
     (let after = drop (b_end b + 1) text; e = b_end b + 1 + length (takeWhile blank_char after)
      in case dropWhile blank_char after of [] \<Rightarrow> e | c # _ \<Rightarrow> if c = LF then e + 1 else e)"

definition removal :: "pystr \<Rightarrow> block \<Rightarrow> edit list conf" where
  "removal text b =
     conf_bind (location_path b) (\<lambda>l.
       case l of
         None \<Rightarrow> Inr []
       | Some (modifier, path) \<Rightarrow>
           (let header = lower (b_header b); body = lower (block_body text b) in
            if modifier \<in> {''~'', ''~*''} \<and> occurs_in ''v1'' (lower path)
            then Inl ''regex locations that may match /v1 must be removed manually''
            else Inr (if is_v1 (modifier, path) \<or> occurs_in ''mirror'' body \<or> marked header \<or> marked body
                   \<or> (occurs_in ''capture'' (lower path) \<and> (prefix ''/_'' path \<or> prefix ''@'' path))
              then [(b_start b, block_end_with_newline text b, [])] else [])))"

definition gate_insertion :: "pystr \<Rightarrow> directive list \<Rightarrow> nat \<times> block \<Rightarrow> edit list conf" where
  "gate_insertion text directives b =
     conf_bind (conf_and (is_proxying_location b directives)
         (conf_bind (has_explicit_cloudflare_gate (fst b) directives) (\<lambda>g. Inr (\<not> g)))) (\<lambda>missing.
       Inr (if missing then
              (let p = b_open (snd b);
                   indentation = takeWhile (\<lambda>c. c = CHR '' '' \<or> c = CHR 0x09) (slice text (line_start text p) p)
               in [(p + 1, p + 1, [LF] @ indentation @ ''    include /etc/nginx/snippets/cloudflare-only.conf;''
                     @ (if slice text (p + 1) (p + 2) = [LF] then [] else [LF]))])
            else []))"

definition add_missing_cloudflare_location_gates :: "pystr \<Rightarrow> nat \<Rightarrow> blocks \<Rightarrow> directive list \<Rightarrow> pystr conf" where
  "add_missing_cloudflare_location_gates text server bs directives =
     conf_bind (conf_map (gate_insertion text directives) (children server bs)) (\<lambda>es.
       Inr (apply_edits text (concat es)))"

text \<open>The first half: the capture locations and the old \<open>/v1\<close> go, the direct location comes.\<close>

definition replace_v1 :: "pystr \<Rightarrow> pystr \<Rightarrow> pystr conf" where
  "replace_v1 text hostname =
     conf_bind (parse_config text) (\<lambda>(blocks, directives). let bs = numbered blocks in
     conf_bind (approved_servers bs directives hostname) (\<lambda>servers.
       case servers of
         [(server, server_block)] \<Rightarrow>
           conf_bind (conf_map (\<lambda>(_, b). removal text b) (children server bs)) (\<lambda>removals.
           conf_bind (conf_all (\<lambda>d. conf_bind (tokenise (d_text d)) (\<lambda>tokens.
               conf_require (\<not> is_capture_directive tokens) ''server-wide request capture must be removed manually before cutover''))
             (child_directives server directives)) (\<lambda>_.
           conf_bind (conf_any (\<lambda>(_, b). conf_bind (tokenise (b_header b)) (\<lambda>t. Inr (is_capture_directive t))) (children server bs)) (\<lambda>capture.
           conf_bind (conf_require (\<not> capture) ''server-wide request capture must be removed manually before cutover'') (\<lambda>_.
             let insertion = b_end server_block;
                 before = (if 0 < insertion \<and> slice text (insertion - 1) insertion = [LF] then [] else [LF])
             in Inr (apply_edits text (concat removals @ [(insertion, insertion, before @ DIRECT_LOCATION)]))))))
       | _ \<Rightarrow> Inl ''exactly one Nginx server block must match the approved hostname''))"

definition add_upstream :: "pystr \<Rightarrow> pystr conf" where
  "add_upstream text =
     conf_bind (parse_config text) (\<lambda>(blocks, _).
     conf_bind (sub2api_upstreams (numbered blocks)) (\<lambda>upstreams.
       Inr (if upstreams = [] then UPSTREAM_BLOCK @ text else text)))"

definition add_gates :: "pystr \<Rightarrow> pystr \<Rightarrow> pystr conf" where
  "add_gates text hostname =
     conf_bind (parse_config text) (\<lambda>(blocks, directives). let bs = numbered blocks in
     conf_bind (approved_servers bs directives hostname) (\<lambda>servers.
       case servers of
         [(server, _)] \<Rightarrow> add_missing_cloudflare_location_gates text server bs directives
       | _ \<Rightarrow> Inl ''rewritten Nginx configuration lost the approved server''))"

definition rewrite_direct_v1 :: "pystr \<Rightarrow> pystr \<Rightarrow> pystr conf" where
  "rewrite_direct_v1 text hostname =
     conf_bind (validate_hostname hostname) (\<lambda>name.
     conf_bind (replace_v1 text name) (\<lambda>replaced.
     conf_bind (add_upstream replaced) (\<lambda>with_upstream.
     conf_bind (add_gates with_upstream name) (\<lambda>rewritten.
     conf_bind (verify_rewritten_config rewritten name) (\<lambda>_.
       Inr rewritten)))))"

end
