(* ===== verification/Nginx_Parse.thy ===== *)
theory Nginx_Parse
  imports Nginx_Conf
begin

text \<open>
  What the parser of \<open>Nginx_Text\<close> guarantees of the positions it reports: blocks are nested in their
  parents, the blocks of one parent lie one after the other, and a block ends (with the rest of its
  line, where that is blank) before the next one starts.
\<close>

section \<open>Results\<close>

lemma conf_bind_Inr [simp]: "conf_bind r f = Inr y \<longleftrightarrow> (\<exists>x. r = Inr x \<and> f x = Inr y)"
  by (cases r) (auto simp: conf_bind_def)

lemma conf_require_Inr [simp]: "conf_require b msg = Inr u \<longleftrightarrow> b"
  by (simp add: conf_require_def)

lemma conf_map_Inr: "conf_map f xs = Inr ys \<longleftrightarrow> list_all2 (\<lambda>x y. f x = Inr y) xs ys"
proof (induction xs arbitrary: ys)
  case (Cons x xs)
  then show ?case by (cases ys) auto
qed auto

lemma conf_filter_Inr:
  "conf_filter f xs = Inr ys \<longleftrightarrow> (\<forall>x\<in>set xs. \<exists>b. f x = Inr b) \<and> ys = filter (\<lambda>x. f x = Inr True) xs"
proof (induction xs arbitrary: ys)
  case (Cons x xs)
  show ?case
  proof (cases "f x")
    case (Inl e)
    then show ?thesis by (simp add: conf_bind_def)
  next
    case (Inr b)
    then show ?thesis using Cons.IH by (cases b) auto
  qed
qed auto

lemma conf_all_Inr: "conf_all f xs = Inr u \<longleftrightarrow> (\<forall>x\<in>set xs. f x = Inr ())"
  by (induction xs) auto

section \<open>Positions in a text\<close>

lemma code_start_bounds: "index \<le> code_start_from comment index raw"
  "code_start_from comment index raw \<le> index + length raw"
  by (induction comment index raw rule: code_start_from.induct) auto

lemma code_start_is_code:
  "code_start_from comment index raw < index + length raw \<Longrightarrow>
    \<not> is_space (raw ! (code_start_from comment index raw - index))"
proof (induction comment index raw rule: code_start_from.induct)
  case (2 comment index c cs)
  have quotes: "\<not> is_space DOUBLE" "\<not> is_space SINGLE"
    by (simp_all add: is_space_def DOUBLE_def SINGLE_def)
  have step: "\<not> is_space ((c # cs) ! (code_start_from k (index + 1) cs - index))"
    if "\<not> is_space (cs ! (code_start_from k (index + 1) cs - (index + 1)))" for k
    using that code_start_bounds(1)[of "index + 1" k cs] by (simp add: nth_Cons' Suc_diff_le)
  show ?case
    using 2 quotes step by (auto split: if_splits)
qed simp

lemma line_start_le: "line_start text p \<le> p"
  by (simp add: line_start_def)

lemma line_start_newline:
  assumes "p \<le> length text"
  shows "line_start text p = 0 \<or> text ! (line_start text p - 1) = LF"
proof -
  let ?r = "rev (take p text)" and ?w = "takeWhile (\<lambda>c. c \<noteq> LF) (rev (take p text))"
  show ?thesis
  proof (cases "length ?w = p")
    case True
    then show ?thesis using assms by (simp add: line_start_def)
  next
    case False
    then have less: "length ?w < p"
      using length_takeWhile_le[of "\<lambda>c. c \<noteq> LF" ?r] assms by simp
    then have at: "?r ! length ?w = LF"
      using nth_length_takeWhile[of "\<lambda>c. c \<noteq> LF" ?r] assms by simp
    have "?r ! length ?w = text ! (p - Suc (length ?w))"
      using less assms by (simp add: rev_nth)
    then show ?thesis
      using at assms by (simp add: line_start_def)
  qed
qed

lemma slice_at: "a \<le> i \<Longrightarrow> i < b \<Longrightarrow> b \<le> length text \<Longrightarrow> text ! i \<in> set (slice text a b)"
  by (auto simp: slice_def in_set_conv_nth intro!: exI[of _ "i - a"])

lemma strip_blank: "strip s = [] \<longleftrightarrow> (\<forall>c\<in>set s. is_space c)"
proof -
  have "strip s = [] \<longleftrightarrow> dropWhile is_space s = []"
  proof
    assume empty: "strip s = []"
    show "dropWhile is_space s = []"
    proof (rule ccontr)
      assume "dropWhile is_space s \<noteq> []"
      moreover from this have "\<not> is_space (hd (dropWhile is_space s))"
        by (rule hd_dropWhile)
      ultimately show False
        using empty by (cases "dropWhile is_space s") (auto simp: strip_def lstrip_def rstrip_def)
    qed
  qed (simp add: strip_def lstrip_def rstrip_def del: dropWhile_eq_Nil_conv)
  then show ?thesis by (metis dropWhile_eq_Nil_conv)
qed

text \<open>The end of a block with the blank rest of its line.\<close>

lemma block_end_after:
  assumes "b_end b < length text"
  shows "b_end b < block_end_with_newline text b" "block_end_with_newline text b \<le> length text"
proof -
  let ?after = "drop (b_end b + 1) text"
  have "length (takeWhile blank_char ?after) + length (dropWhile blank_char ?after) = length ?after"
    by (metis length_append takeWhile_dropWhile_id)
  then show "b_end b < block_end_with_newline text b" "block_end_with_newline text b \<le> length text"
    using assms by (auto simp: block_end_with_newline_def Let_def split: list.splits)
qed

lemma block_end_blank:
  assumes "b_end b < i" and "i < block_end_with_newline text b" and "b_end b < length text"
  shows "is_space (text ! i) \<and> (text ! i = LF \<longrightarrow> i = block_end_with_newline text b - 1)"
proof -
  let ?after = "drop (b_end b + 1) text"
  let ?w = "takeWhile blank_char ?after"
  have blanks: "is_space c \<and> c \<noteq> LF" if "blank_char c" for c
    using that by (auto simp: blank_char_def is_space_def LF_def)
  have newline: "is_space LF"
    by (simp add: is_space_def LF_def)
  show ?thesis
  proof (cases "i < b_end b + 1 + length ?w")
    case True
    then have w: "i - (b_end b + 1) < length ?w" using assms(1) by simp
    have "blank_char (?w ! (i - (b_end b + 1)))"
      using w by (metis nth_mem set_takeWhileD)
    moreover have "?w ! (i - (b_end b + 1)) = text ! i"
      using w assms by (simp add: takeWhile_nth)
    ultimately show ?thesis using blanks by auto
  next
    case False
    then obtain rest where d: "dropWhile blank_char ?after = LF # rest"
      and i: "i = b_end b + 1 + length ?w" and final: "i = block_end_with_newline text b - 1"
      using assms by (auto simp: block_end_with_newline_def Let_def split: list.splits if_splits)
    have "drop (length ?w) ?after = LF # rest"
      using d by (simp add: dropWhile_eq_drop)
    then have "text ! i = LF"
      using i by (metis add.commute drop_drop nth_via_drop)
    then show ?thesis using final newline by simp
  qed
qed

section \<open>Where a block starts\<close>

definition block_start :: "pystr \<Rightarrow> nat \<Rightarrow> nat \<Rightarrow> nat" where
  "block_start text from index =
     (let a = from + code_start (slice text from index); first = line_start text a
      in if strip (slice text first a) = [] then first else a)"

definition delimited :: "pystr \<Rightarrow> nat \<Rightarrow> bool" where
  "delimited text from \<longleftrightarrow> from = 0 \<or> (from \<le> length text \<and> text ! (from - 1) \<in> {CHR '';'', CHR ''{'', CHR ''}''})"

lemma block_start_bounds:
  assumes "from \<le> index" and "index < length text" and "text ! index = CHR ''{''" and "delimited text from"
  defines "a \<equiv> from + code_start (slice text from index)"
  shows "from \<le> block_start text from index" "block_start text from index \<le> index"
    "a \<le> index" "\<not> is_space (text ! a)"
    "block_start text from index = a
       \<or> (block_start text from index = line_start text a \<and> line_start text a \<le> a)"
proof -
  let ?raw = "slice text from index"
  have len: "length ?raw = index - from" using assms by (simp add: slice_def)
  have cs: "code_start ?raw \<le> index - from"
    using code_start_bounds(2)[of False 0 ?raw] len by (simp add: code_start_def)
  then show a: "a \<le> index" using assms by simp
  show "\<not> is_space (text ! a)"
  proof (cases "code_start ?raw < length ?raw")
    case True
    then have "\<not> is_space (?raw ! code_start ?raw)"
      using code_start_is_code[of False 0 ?raw] by (simp add: code_start_def)
    moreover have "?raw ! code_start ?raw = text ! a"
      using True len assms by (simp add: slice_def a_def)
    ultimately show ?thesis by simp
  next
    case False
    then have "a = index" using cs len assms by (simp add: a_def)
    then show ?thesis using assms(3) by (simp add: is_space_def)
  qed
  have le: "line_start text a \<le> a" by (rule line_start_le)
  then show "block_start text from index = a
       \<or> (block_start text from index = line_start text a \<and> line_start text a \<le> a)"
    by (auto simp: block_start_def Let_def a_def)
  show "block_start text from index \<le> index"
    using a le by (auto simp: block_start_def Let_def a_def)
  have "from \<le> line_start text a" if "strip (slice text (line_start text a) a) = []"
  proof (rule ccontr)
    assume less: "\<not> from \<le> line_start text a"
    then have "from \<noteq> 0" by simp
    then have "text ! (from - 1) \<in> set (slice text (line_start text a) a)"
      using less a assms(2) by (intro slice_at) (auto simp: a_def)
    then have "is_space (text ! (from - 1))" using that strip_blank by blast
    then show False using assms(4) \<open>from \<noteq> 0\<close> by (auto simp: delimited_def is_space_def)
  qed
  then show "from \<le> block_start text from index"
    by (auto simp: block_start_def Let_def a_def)
qed

lemma block_start_after:
  assumes "from \<le> index" and "index < length text" and "text ! index = CHR ''{''" and "delimited text from"
    and "b_end b < from" and "text ! b_end b = CHR ''}''"
  shows "block_end_with_newline text b \<le> block_start text from index"
proof (rule ccontr)
  let ?a = "from + code_start (slice text from index)" and ?s = "block_start text from index"
  assume "\<not> block_end_with_newline text b \<le> ?s"
  then have less: "?s < block_end_with_newline text b" by simp
  note s = block_start_bounds[OF assms(1-4)]
  have b: "b_end b < length text" using assms by simp
  have inside: "b_end b < ?s" using s(1) assms(5) by simp
  from s(5) show False
  proof
    assume "?s = ?a"
    then show False using block_end_blank[OF inside less b] s(4) by simp
  next
    assume at: "?s = line_start text ?a \<and> line_start text ?a \<le> ?a"
    have "?a \<le> length text" using s(3) assms(2) by simp
    then have newline: "text ! (?s - 1) = LF"
      using line_start_newline[of ?a "text"] at inside by auto
    have "?s - 1 \<noteq> b_end b" using newline assms(6) by (auto simp: LF_def)
    then have before: "b_end b < ?s - 1" using inside by simp
    have "?s - 1 < block_end_with_newline text b" using less by simp
    then show False
      using block_end_blank[OF before _ b] newline less inside by auto
  qed
qed

section \<open>The parser's invariant\<close>

fun chained :: "block list \<Rightarrow> nat list \<Rightarrow> bool" where
  "chained bs [] = True"
| "chained bs (x # xs) = (x < length bs \<and> x \<notin> set xs \<and> b_parent (bs ! x) = top_of xs \<and> chained bs xs)"

text \<open>One block after \<open>from\<close> characters, given the others.\<close>

definition placed :: "pystr \<Rightarrow> block list \<Rightarrow> nat list \<Rightarrow> nat \<Rightarrow> nat \<Rightarrow> bool" where
  "placed text bs stack from b \<longleftrightarrow>
     b_start (bs ! b) \<le> b_open (bs ! b) \<and> b_open (bs ! b) < from
     \<and> (case b_close (bs ! b) of None \<Rightarrow> b \<in> set stack
        | Some c \<Rightarrow> b \<notin> set stack \<and> b_open (bs ! b) < c \<and> c < from \<and> text ! c = CHR ''}'')
     \<and> (\<forall>q. b_parent (bs ! b) = Some q \<longrightarrow> q < b \<and> b_open (bs ! q) < b_start (bs ! b)
          \<and> (\<forall>c. b_close (bs ! q) = Some c \<longrightarrow> (\<exists>d. b_close (bs ! b) = Some d \<and> d < c)))
     \<and> (\<forall>a<b. b_parent (bs ! a) = b_parent (bs ! b) \<longrightarrow>
          b_close (bs ! a) \<noteq> None \<and> block_end_with_newline text (bs ! a) \<le> b_start (bs ! b))"

definition well_placed :: "pystr \<Rightarrow> nat \<Rightarrow> parser \<Rightarrow> bool" where
  "well_placed text index p \<longleftrightarrow>
     p_from p \<le> index \<and> delimited text (p_from p) \<and> chained (p_blocks p) (p_stack p)
     \<and> (\<forall>b<length (p_blocks p). placed text (p_blocks p) (p_stack p) (p_from p) b)"

lemma chained_parent:
  "chained bs stack \<Longrightarrow> b \<in> set stack \<Longrightarrow> b_parent (bs ! b) \<noteq> top_of stack"
proof (induction stack)
  case (Cons x xs)
  have tops: "y \<in> set zs" if "top_of zs = Some y" for y zs
    using that by (cases zs) (auto simp: top_of_def)
  show ?case
  proof (cases "b = x")
    case True
    then show ?thesis using Cons.prems tops[of xs x] by (auto simp: top_of_def)
  next
    case False
    then have b: "b \<in> set xs" using Cons.prems by simp
    have chain: "chained bs zs \<Longrightarrow> b \<in> set zs \<Longrightarrow> b_parent (bs ! b) = Some y \<Longrightarrow> y \<in> set zs" for zs y
    proof (induction zs)
      case (Cons z zs)
      then show ?case using tops[of zs y] by auto
    qed simp
    show ?thesis using chain[of xs x] b Cons.prems by (auto simp: top_of_def)
  qed
qed simp

lemma chained_mono: "chained bs stack \<Longrightarrow> chained (bs @ cs) stack"
  by (induction stack) (auto simp: nth_append)

lemma chained_update:
  assumes "b_parent new = b_parent (bs ! x)"
  shows "chained (bs[x := new]) stack = chained bs stack"
proof -
  have "b_parent (bs[x := new] ! y) = b_parent (bs ! y)" for y
    using assms by (cases "x < length bs") (auto simp: nth_list_update list_update_beyond)
  then show ?thesis by (induction stack) auto
qed

lemma placed_later: "placed text bs stack from b \<Longrightarrow> from \<le> next \<Longrightarrow> placed text bs stack next b"
  by (auto simp: placed_def split: option.splits)

lemma delimited_after: "i < length text \<Longrightarrow> text ! i \<in> {CHR '';'', CHR ''{'', CHR ''}''} \<Longrightarrow> delimited text (i + 1)"
  by (simp add: delimited_def)

lemma end_directive_placed:
  assumes "well_placed text index p" and "end_directive text index p = Inr p'"
    and "index < length text" and "text ! index = CHR '';''"
  shows "well_placed text (index + 1) p'"
proof -
  have p': "p_blocks p' = p_blocks p" "p_stack p' = p_stack p" "p_from p' = index + 1"
    using assms(2) by (auto simp: end_directive_def Let_def)
  show ?thesis
    using assms(1) delimited_after[OF assms(3)] assms(4)
    by (auto simp: well_placed_def p' intro: placed_later)
qed

lemma stack_open:
  assumes "well_placed text index p" and "b < length (p_blocks p)"
  shows "b \<in> set (p_stack p) \<longleftrightarrow> b_close (p_blocks p ! b) = None"
  using assms by (auto simp: well_placed_def placed_def split: option.splits)

lemma chained_less: "chained bs stack \<Longrightarrow> b \<in> set stack \<Longrightarrow> b < length bs"
  by (induction stack) auto

lemma top_in: "top_of stack = Some q \<Longrightarrow> q \<in> set stack"
  by (cases stack) (auto simp: top_of_def)

text \<open>A block whose parent is open and innermost is closed.\<close>

lemma child_of_top_closed:
  assumes "well_placed text index p" and "b < length (p_blocks p)" and "b_parent (p_blocks p ! b) = top_of (p_stack p)"
  obtains c where "b_close (p_blocks p ! b) = Some c" and "c < p_from p" and "text ! c = CHR ''}''"
proof -
  have "b \<notin> set (p_stack p)"
    using chained_parent[of "p_blocks p" "p_stack p" b] assms by (auto simp: well_placed_def)
  moreover have "placed text (p_blocks p) (p_stack p) (p_from p) b"
    using assms by (simp add: well_placed_def)
  ultimately show ?thesis using that by (auto simp: placed_def split: option.splits)
qed

lemma open_block_placed:
  assumes ok: "well_placed text index p" and step: "open_block text index p = Inr p'"
    and index: "index < length text" and brace: "text ! index = CHR ''{''"
  shows "well_placed text (index + 1) p'"
proof -
  let ?bs = "p_blocks p" and ?from = "p_from p" and ?n = "length (p_blocks p)"
  let ?start = "block_start text ?from index"
  obtain header where p': "p_stack p' = ?n # p_stack p" "p_from p' = index + 1"
    "p_blocks p' = ?bs @ [\<lparr>b_header = header, b_start = ?start, b_open = index, b_close = None, b_parent = top_of (p_stack p)\<rparr>]"
    using step by (auto simp: open_block_def block_start_def Let_def split: if_splits)
  have bound: "?from \<le> index" and delimited: "delimited text ?from" and chain: "chained ?bs (p_stack p)"
    and placed: "\<And>b. b < ?n \<Longrightarrow> placed text ?bs (p_stack p) ?from b"
    using ok by (auto simp: well_placed_def)
  note start = block_start_bounds[OF bound index brace delimited]
  have old: "placed text (p_blocks p') (p_stack p') (p_from p') b" if b: "b < ?n" for b
    using placed[OF b] bound b
    by (auto simp: placed_def p' nth_append split: option.splits)
  have siblings: "b_close (?bs ! a) \<noteq> None \<and> block_end_with_newline text (?bs ! a) \<le> ?start"
    if a: "a < ?n" "b_parent (?bs ! a) = top_of (p_stack p)" for a
  proof -
    obtain c where c: "b_close (?bs ! a) = Some c" "c < ?from" "text ! c = CHR ''}''"
      using child_of_top_closed[OF ok a] .
    then have "b_end (?bs ! a) < ?from" "text ! b_end (?bs ! a) = CHR ''}''" by (simp_all add: b_end_def)
    then show ?thesis using block_start_after[OF bound index brace delimited] c(1) by simp
  qed
  have parents: "q < ?n \<and> b_open (?bs ! q) < ?start \<and> b_close (?bs ! q) = None" if "top_of (p_stack p) = Some q" for q
  proof -
    have q: "q \<in> set (p_stack p)" using that by (rule top_in)
    then have less: "q < ?n" using chain by (rule chained_less[rotated])
    then have "b_open (?bs ! q) < ?from" using placed by (auto simp: placed_def)
    then show ?thesis using less q stack_open[OF ok less] start(1) by simp
  qed
  have new: "placed text (p_blocks p') (p_stack p') (p_from p') ?n"
    using start(2) siblings parents by (auto simp: placed_def p' nth_append)
  have "chained (p_blocks p') (p_stack p')"
    using chained_mono[OF chain] chained_less[OF chain] by (auto simp: p')
  then show ?thesis
    using old new delimited_after[OF index] brace
    by (auto simp: well_placed_def p' less_Suc_eq)
qed

lemma close_block_placed:
  assumes ok: "well_placed text index p" and step: "close_block index p = Inr p'"
    and index: "index < length text" and brace: "text ! index = CHR ''}''"
  shows "well_placed text (index + 1) p'"
proof -
  let ?bs = "p_blocks p" and ?from = "p_from p"
  obtain x rest where stack: "p_stack p = x # rest"
    and p': "p_stack p' = rest" "p_from p' = index + 1" "p_blocks p' = ?bs[x := (?bs ! x)\<lparr>b_close := Some index\<rparr>]"
    using step by (auto simp: close_block_def split: list.splits)
  have bound: "?from \<le> index" and chain: "chained ?bs (x # rest)"
    and placed: "\<And>b. b < length ?bs \<Longrightarrow> placed text ?bs (x # rest) ?from b"
    using ok stack by (auto simp: well_placed_def)
  have x: "x < length ?bs" "b_close (?bs ! x) = None" "x \<notin> set rest"
    using chain stack_open[OF ok, of x] by (auto simp: stack)
  have children: "\<exists>d. b_close (?bs ! b) = Some d \<and> d < index" if "b < length ?bs" "b_parent (?bs ! b) = Some x" for b
    using child_of_top_closed[OF ok that(1)] that(2) bound stack by (fastforce simp: top_of_def)
  have "placed text (p_blocks p') rest (index + 1) b" if b: "b < length ?bs" for b
  proof (cases "b = x")
    case True
    then show ?thesis
      using placed[OF x(1)] x bound brace by (auto simp: placed_def p' nth_list_update)
  next
    case False
    then show ?thesis
      using placed[OF b] x bound children[OF b] b
      by (auto simp: placed_def p' nth_list_update split: option.splits)
  qed
  then show ?thesis
    using chained_update[of "(?bs ! x)\<lparr>b_close := Some index\<rparr>" ?bs x rest] chain delimited_after[OF index] brace
    by (auto simp: well_placed_def p')
qed

lemma parse_step_placed:
  assumes ok: "well_placed text index p" and step: "parse_step text index (text ! index) p = Inr p'"
    and index: "index < length text"
  shows "well_placed text (index + 1) p'"
proof -
  have lex: "well_placed text index (p\<lparr>p_lex := l\<rparr>)" for l
    using ok by (simp add: well_placed_def)
  have rest: "well_placed text (index + 1) (p\<lparr>p_lex := l\<rparr>)" for l
    using ok by (auto simp: well_placed_def)
  show ?thesis
    using step rest end_directive_placed[OF lex _ index] open_block_placed[OF lex _ index] close_block_placed[OF lex _ index]
    by (auto simp: parse_step_def Let_def split: if_splits)
qed

lemma parse_loop_placed:
  assumes "well_placed text index p" and "parse_loop text index cs p = Inr p'" and "drop index text = cs"
    and "index \<le> length text"
  shows "well_placed text (length text) p'"
  using assms
proof (induction cs arbitrary: index p)
  case Nil
  then show ?case by (simp add: well_placed_def)
next
  case (Cons c cs)
  have less: "index < length text" using Cons.prems(3) by (metis drop_all list.distinct(1) not_less)
  have c: "c = text ! index" "drop (index + 1) text = cs"
    using Cons.prems(3) Cons_nth_drop_Suc[OF less] by simp_all
  obtain q where q: "parse_step text index c p = Inr q" "parse_loop text (index + 1) cs q = Inr p'"
    using Cons.prems(2) by auto
  have "well_placed text (index + 1) q"
    using parse_step_placed[OF Cons.prems(1) _ less] q(1) c(1) by simp
  then show ?case using Cons.IH[OF _ q(2) c(2)] less by simp
qed

text \<open>The layout of a parsed configuration.\<close>

definition well_nested :: "pystr \<Rightarrow> block list \<Rightarrow> bool" where
  "well_nested text bs \<longleftrightarrow> (\<forall>b<length bs.
     (\<exists>c. b_close (bs ! b) = Some c \<and> b_start (bs ! b) \<le> b_open (bs ! b) \<and> b_open (bs ! b) < c \<and> c < length text \<and> text ! c = CHR ''}'')
     \<and> (\<forall>q. b_parent (bs ! b) = Some q \<longrightarrow> q < b \<and> b_open (bs ! q) < b_start (bs ! b)
           \<and> block_end_with_newline text (bs ! b) \<le> b_end (bs ! q))
     \<and> (\<forall>a<b. b_parent (bs ! a) = b_parent (bs ! b) \<longrightarrow> block_end_with_newline text (bs ! a) \<le> b_start (bs ! b)))"

lemma block_end_before:
  assumes "b_end b < c" and "c < length text" and "\<not> is_space (text ! c)"
  shows "block_end_with_newline text b \<le> c"
  using block_end_blank[of b c "text"] assms by force

lemma parse_config_well_nested:
  assumes "parse_config text = Inr (bs, ds)"
  shows "well_nested text bs"
proof -
  obtain p where p: "parse_loop text 0 text parser_start = Inr p" "p_stack p = []" "p_blocks p = bs"
    using assms by (auto simp: parse_config_def split: if_splits)
  have "well_placed text 0 parser_start" by (simp add: well_placed_def parser_start_def delimited_def)
  then have "well_placed text (length text) p" using parse_loop_placed p(1) by simp
  then have placed: "p_from p \<le> length text" "\<And>b. b < length bs \<Longrightarrow> placed text bs [] (p_from p) b"
    using p by (auto simp: well_placed_def)
  have closed: "\<exists>c. b_close (bs ! b) = Some c \<and> b_start (bs ! b) \<le> b_open (bs ! b) \<and> b_open (bs ! b) < c
      \<and> c < length text \<and> text ! c = CHR ''}''" if "b < length bs" for b
    using placed(2)[OF that] placed(1) by (auto simp: placed_def split: option.splits)
  have parents: "q < b \<and> b_open (bs ! q) < b_start (bs ! b) \<and> block_end_with_newline text (bs ! b) \<le> b_end (bs ! q)"
    if b: "b < length bs" "b_parent (bs ! b) = Some q" for b q
  proof -
    have q: "q < b" "b_open (bs ! q) < b_start (bs ! b)" 
      and inner: "\<And>c. b_close (bs ! q) = Some c \<Longrightarrow> \<exists>d. b_close (bs ! b) = Some d \<and> d < c"
      using placed(2)[OF b(1)] b(2) by (auto simp: placed_def)
    obtain c where c: "b_close (bs ! q) = Some c" "c < length text" "text ! c = CHR ''}''"
      using closed[of q] q(1) b(1) by auto
    have "b_end (bs ! b) < c" using inner[OF c(1)] by (auto simp: b_end_def)
    then show ?thesis using q block_end_before[OF _ c(2)] c(1,3) by (simp add: b_end_def is_space_def)
  qed
  have siblings: "block_end_with_newline text (bs ! a) \<le> b_start (bs ! b)"
    if "b < length bs" "a < b" "b_parent (bs ! a) = b_parent (bs ! b)" for a b
    using placed(2)[OF that(1)] that by (auto simp: placed_def)
  show ?thesis using closed parents siblings by (auto simp: well_nested_def)
qed

end
