(* ===== verification/Nginx_Rewrite.thy ===== *)
theory Nginx_Rewrite
  imports Nginx_Parse "HOL-Library.Sublist"
begin

text \<open>
  What the rewriting of \<open>Nginx_Conf\<close> does to a configuration: the replacements from the end of the
  text to its front are one pass over it, they stay inside the approved server block, and the result
  has passed the gate check.
\<close>

section \<open>Edits\<close>

text \<open>The reference: one pass from \<open>lo\<close> to \<open>hi\<close> that copies what lies between the edits.\<close>

fun patched :: "pystr \<Rightarrow> nat \<Rightarrow> nat \<Rightarrow> edit list \<Rightarrow> pystr" where
  "patched text lo hi [] = slice text lo hi"
| "patched text lo hi ((a, b, new) # es) = slice text lo a @ new @ patched text b hi es"

fun ascending :: "nat \<Rightarrow> nat \<Rightarrow> edit list \<Rightarrow> bool" where
  "ascending lo hi [] = (lo \<le> hi)"
| "ascending lo hi ((a, b, new) # es) = (lo \<le> a \<and> a \<le> b \<and> ascending b hi es \<and> (\<forall>e\<in>set es. a < fst e))"

lemma take_slice: "lo \<le> a \<Longrightarrow> take lo text @ slice text lo a = take a text"
  by (metis slice_def le_add_diff_inverse take_add)

lemma ascending_le: "ascending lo hi es \<Longrightarrow> lo \<le> hi"
  by (induction lo hi es rule: ascending.induct) auto

lemma insert_edit_last: "\<forall>x\<in>set xs. fst e < fst x \<Longrightarrow> insert_edit e xs = xs @ [e]"
  by (induction e xs rule: insert_edit.induct) auto

lemma sort_edits_ascending: "ascending lo hi es \<Longrightarrow> sort_edits es = rev es"
  by (induction lo hi es rule: ascending.induct) (auto simp: sort_edits_def insert_edit_last)

lemma apply_edits_patched:
  assumes "ascending lo hi es" and "hi \<le> length text"
  shows "apply_edits text es = take lo text @ patched text lo hi es @ drop hi text"
proof -
  have "foldr (\<lambda>e t. apply_edit t e) es text = take lo text @ patched text lo hi es @ drop hi text"
    using assms
  proof (induction lo hi es rule: ascending.induct)
    case (1 lo hi)
    then show ?case by (metis append_assoc append_take_drop_id ascending.simps(1) foldr_Nil id_apply patched.simps(1) take_slice)
  next
    case (2 lo hi a b new es)
    then have le: "lo \<le> a" "a \<le> b" "b \<le> length text"
      using ascending_le[of b hi es] by auto
    have "take a text = take lo text @ slice text lo a"
      using le(1) by (simp add: take_slice)
    then show ?case
      using 2 le by (simp add: apply_edit_def min_def)
  qed
  then show ?thesis
    using sort_edits_ascending[OF assms(1)] by (simp add: apply_edits_def foldl_conv_foldr)
qed

lemma patched_insertion:
  "ascending lo hi es \<Longrightarrow> patched text lo hi (es @ [(hi, hi, new)]) = patched text lo hi es @ new"
  by (induction lo hi es rule: ascending.induct) (auto simp: slice_def)

lemma insertions_keep: "\<forall>e\<in>set es. fst e = fst (snd e) \<Longrightarrow> subseq text (apply_edits text es)"
proof -
  assume insertions: "\<forall>e\<in>set es. fst e = fst (snd e)"
  have set: "set (insert_edit e xs) = insert e (set xs)" for e xs
    by (induction e xs rule: insert_edit.induct) auto
  have sorted: "set (sort_edits xs) = set xs" for xs
    by (induction xs) (auto simp: sort_edits_def set)
  have "subseq t (foldl apply_edit t es)" if "\<forall>e\<in>set es. fst e = fst (snd e)" for es t
    using that
  proof (induction es arbitrary: t)
    case (Cons e es)
    obtain a new where e: "e = (a, a, new)" using Cons.prems by (cases e) auto
    have "subseq (take a t @ drop a t) (take a t @ new @ drop a t)"
      by (rule list_emb_append_mono[OF subseq_order.refl]) (rule list_emb_append2[OF subseq_order.refl])
    then have "subseq t (apply_edit t e)" by (simp add: e apply_edit_def)
    moreover have "subseq (apply_edit t e) (foldl apply_edit (apply_edit t e) es)"
      using Cons.IH Cons.prems by simp
    ultimately show ?case by (simp add: subseq_order.trans)
  qed simp
  then show ?thesis using insertions by (simp add: apply_edits_def sorted)
qed

text \<open>One edit at most for each of a list of blocks that lie one after the other.\<close>

definition in_order_between :: "pystr \<Rightarrow> nat \<Rightarrow> nat \<Rightarrow> blocks \<Rightarrow> bool" where
  "in_order_between text lo hi bs \<longleftrightarrow> lo \<le> hi
     \<and> sorted_wrt (\<lambda>x y. block_end_with_newline text (snd x) \<le> b_start (snd y)) bs
     \<and> (\<forall>x\<in>set bs. lo \<le> b_start (snd x) \<and> b_start (snd x) \<le> b_open (snd x)
          \<and> b_open (snd x) + 1 < block_end_with_newline text (snd x) \<and> block_end_with_newline text (snd x) \<le> hi)"

definition edit_in :: "pystr \<Rightarrow> block \<Rightarrow> edit list \<Rightarrow> bool" where
  "edit_in text b es \<longleftrightarrow> es = [] \<or> (\<exists>x y new. es = [(x, y, new)] \<and> b_start b \<le> x \<and> x \<le> y
     \<and> x < block_end_with_newline text b \<and> y \<le> block_end_with_newline text b)"

lemma edits_ascending:
  assumes "in_order_between text lo hi bs" and "list_all2 (\<lambda>x es. edit_in text (snd x) es) bs ess"
    and "tail = [] \<or> (\<exists>new. tail = [(hi, hi, new)])"
  shows "ascending lo hi (concat ess @ tail) \<and> (\<forall>e\<in>set (concat ess @ tail). lo \<le> fst e)"
  using assms
proof (induction bs arbitrary: lo ess)
  case Nil
  then show ?case by (auto simp: in_order_between_def)
next
  case (Cons b bs)
  obtain es rest where ess: "ess = es # rest" and es: "edit_in text (snd b) es"
    and rest: "list_all2 (\<lambda>x es. edit_in text (snd x) es) bs rest"
    using Cons.prems(2) by (auto simp: list_all2_Cons1)
  let ?e = "block_end_with_newline text (snd b)"
  have "in_order_between text ?e hi bs" and lo: "lo \<le> b_start (snd b)" "b_start (snd b) < ?e"
    using Cons.prems(1) by (auto simp: in_order_between_def)
  then have IH: "ascending ?e hi (concat rest @ tail)" "\<forall>e\<in>set (concat rest @ tail). ?e \<le> fst e"
    using Cons.IH[OF _ rest Cons.prems(3)] by auto
  have mono: "ascending x hi zs" if "ascending ?e hi zs" "x \<le> ?e" for x zs
    using that by (cases zs) auto
  from es consider "es = []" | x y new where "es = [(x, y, new)]" "b_start (snd b) \<le> x" "x \<le> y" "x < ?e" "y \<le> ?e"
    by (auto simp: edit_in_def)
  then show ?case
  proof cases
    case 1
    have "\<forall>e\<in>set (concat rest @ tail). lo \<le> fst e"
      using IH(2) lo by (metis le_trans less_imp_le)
    then show ?thesis
      using 1 lo mono[OF IH(1), of lo] by (simp add: ess)
  next
    case 2
    then have "\<forall>e\<in>set (concat rest @ tail). x < fst e \<and> lo \<le> fst e"
      using IH(2) lo by (metis le_trans less_le_trans less_imp_le)
    then show ?thesis
      using 2 lo mono[OF IH(1), of y] by (simp add: ess)
  qed
qed

lemma list_all2_source: "list_all2 P xs ys \<Longrightarrow> y \<in> set ys \<Longrightarrow> \<exists>x\<in>set xs. P x y"
  by (induction rule: list_all2_induct) auto

lemma list_all2_target: "list_all2 P xs ys \<Longrightarrow> x \<in> set xs \<Longrightarrow> \<exists>y\<in>set ys. P x y"
  by (induction rule: list_all2_induct) auto

section \<open>The blocks of a server\<close>

lemma children_in_order:
  assumes "parse_config text = Inr (bs, ds)" and "(s, server) \<in> set (numbered bs)"
  shows "in_order_between text (b_open server + 1) (b_end server) (children s (numbered bs))"
    and "b_open server < b_end server" and "b_end server < length text"
proof -
  have nested: "well_nested text bs" using assms(1) by (rule parse_config_well_nested)
  have s: "s < length bs" "server = bs ! s"
    using assms(2) by (auto simp: numbered_def in_set_enumerate_eq)
  show server: "b_open server < b_end server" "b_end server < length text"
    using nested s by (auto simp: well_nested_def b_end_def)
  have child: "i < length bs \<and> b = bs ! i \<and> b_parent b = Some s" if "(i, b) \<in> set (children s (numbered bs))" for i b
    using that by (auto simp: children_def numbered_def in_set_enumerate_eq)
  have "sorted_wrt (\<lambda>x y. fst x < fst y) (enumerate 0 bs)"
    by (simp add: sorted_wrt_iff_nth_less nth_enumerate_eq)
  then have "sorted_wrt (\<lambda>x y. fst x < fst y) (children s (numbered bs))"
    by (simp add: children_def numbered_def sorted_wrt_filter)
  then have "sorted_wrt (\<lambda>x y. block_end_with_newline text (snd x) \<le> b_start (snd y)) (children s (numbered bs))"
  proof (rule sorted_wrt_mono_rel[rotated])
    fix x y assume xy: "x \<in> set (children s (numbered bs))" "y \<in> set (children s (numbered bs))" "fst x < fst y"
    have "b_parent (bs ! fst x) = b_parent (bs ! fst y)" "fst y < length bs" "snd x = bs ! fst x" "snd y = bs ! fst y"
      using child[of "fst x" "snd x"] child[of "fst y" "snd y"] xy by auto
    then show "block_end_with_newline text (snd x) \<le> b_start (snd y)"
      using nested xy(3) by (simp add: well_nested_def)
  qed
  moreover have "b_open server + 1 \<le> b_start (snd x) \<and> b_start (snd x) \<le> b_open (snd x)
      \<and> b_open (snd x) + 1 < block_end_with_newline text (snd x) \<and> block_end_with_newline text (snd x) \<le> b_end server"
    if "x \<in> set (children s (numbered bs))" for x
  proof -
    have x: "fst x < length bs" "snd x = bs ! fst x" "b_parent (snd x) = Some s"
      using child[of "fst x" "snd x"] that by auto
    have "b_open (snd x) < b_end (snd x)" "b_end (snd x) < length text" "b_start (snd x) \<le> b_open (snd x)"
      using nested x(1,2) by (auto simp: well_nested_def b_end_def)
    moreover have "b_open server < b_start (snd x)" "block_end_with_newline text (snd x) \<le> b_end server"
      using nested x s by (auto simp: well_nested_def)
    ultimately show ?thesis using block_end_after(1)[of "snd x" "text"] by simp
  qed
  ultimately show "in_order_between text (b_open server + 1) (b_end server) (children s (numbered bs))"
    using server by (simp add: in_order_between_def)
qed

lemma approved_server_block:
  "approved_servers (numbered bs) ds hostname = Inr [(s, server)] \<Longrightarrow> (s, server) \<in> set (numbered bs)"
  unfolding approved_servers_def conf_filter_Inr by (metis (no_types, lifting) filter_is_subset list.set_intros(1) subsetD)

lemma removal_edit:
  assumes "removal text b = Inr es"
  shows "es = [] \<or> es = [(b_start b, block_end_with_newline text b, [])]"
  using assms by (auto simp: removal_def Let_def split: option.splits if_splits prod.splits)

lemma removal_v1:
  assumes "removal text b = Inr es" and "location_path b = Inr (Some l)" and "is_v1 l"
  shows "(b_start b, block_end_with_newline text b, []) \<in> set es"
  using assms by (auto simp: removal_def Let_def split: if_splits prod.splits)

lemma gate_insertion_edit:
  assumes "gate_insertion text ds b = Inr es"
  shows "es = [] \<or> (\<exists>new. es = [(b_open (snd b) + 1, b_open (snd b) + 1, new)])"
  using assms by (auto simp: gate_insertion_def Let_def split: if_splits)

lemma only_Inr:
  "(case xs of [] \<Rightarrow> Inl e | [(a, b)] \<Rightarrow> f a b | (a, b) # _ # _ \<Rightarrow> Inl e) = Inr y \<Longrightarrow> \<exists>a b. xs = [(a, b)] \<and> f a b = Inr y"
  by (auto split: list.splits prod.splits)

section \<open>The three steps\<close>

text \<open>What the first step takes out: whole blocks of the server, and among them every location for
  \<open>/v1\<close> or below it.\<close>

definition whole_block :: "pystr \<Rightarrow> block \<Rightarrow> edit" where
  "whole_block text b = (b_start b, block_end_with_newline text b, [])"

definition removed_from :: "pystr \<Rightarrow> nat \<Rightarrow> blocks \<Rightarrow> edit list \<Rightarrow> bool" where
  "removed_from text s bs removed \<longleftrightarrow>
     (\<forall>e\<in>set removed. \<exists>x\<in>set (children s bs). e = whole_block text (snd x))
     \<and> (\<forall>x\<in>set (children s bs). case location_path (snd x) of
          Inr (Some l) \<Rightarrow> is_v1 l \<longrightarrow> whole_block text (snd x) \<in> set removed
        | _ \<Rightarrow> True)"

lemma replace_v1_patches:
  assumes "replace_v1 text hostname = Inr replaced"
  obtains bs ds s server removed before
  where "parse_config text = Inr (bs, ds)" and "approved_servers (numbered bs) ds hostname = Inr [(s, server)]"
    and "removed_from text s (numbered bs) removed"
    and "b_open server < b_end server" and "b_end server < length text"
    and "replaced = take (b_open server + 1) text @ patched text (b_open server + 1) (b_end server) removed
           @ before @ DIRECT_LOCATION @ drop (b_end server) text"
    and "before = [] \<or> before = [LF]"
proof -
  obtain bs ds s server removals where parsed: "parse_config text = Inr (bs, ds)"
    and approved: "approved_servers (numbered bs) ds hostname = Inr [(s, server)]"
    and removals: "conf_map (\<lambda>(_, b). removal text b) (children s (numbered bs)) = Inr removals"
    and edited: "replaced = apply_edits text (concat removals @ [(b_end server, b_end server,
        (if 0 < b_end server \<and> slice text (b_end server - 1) (b_end server) = [LF] then [] else [LF]) @ DIRECT_LOCATION)])"
    using assms
    by (auto simp: replace_v1_def Let_def dest!: only_Inr)
  obtain before where before: "before = [] \<or> before = [LF]"
    and replaced: "replaced = apply_edits text (concat removals @ [(b_end server, b_end server, before @ DIRECT_LOCATION)])"
    using edited that[of "if 0 < b_end server \<and> slice text (b_end server - 1) (b_end server) = [LF] then [] else [LF]"]
    by presburger
  note server = children_in_order[OF parsed approved_server_block[OF approved]]
  have all: "list_all2 (\<lambda>x es. removal text (snd x) = Inr es) (children s (numbered bs)) removals"
    using removals by (simp add: conf_map_Inr case_prod_beta)
  have "edit_in text (snd x) es" if "x \<in> set (children s (numbered bs))" "removal text (snd x) = Inr es" for x es
    using removal_edit[OF that(2)] that(1) server(1) by (force simp: edit_in_def in_order_between_def)
  then have edits: "list_all2 (\<lambda>x es. edit_in text (snd x) es) (children s (numbered bs)) removals"
    using all by (auto simp: list_all2_conv_all_nth)
  have "\<exists>x\<in>set (children s (numbered bs)). e = whole_block text (snd x)" if "e \<in> set (concat removals)" for e
  proof -
    from that obtain es where es: "es \<in> set removals" "e \<in> set es" by auto
    then obtain x where x: "x \<in> set (children s (numbered bs))" "removal text (snd x) = Inr es"
      using list_all2_source[OF all] by blast
    then show ?thesis using removal_edit es(2) by (fastforce simp: whole_block_def)
  qed
  then have "\<forall>e\<in>set (concat removals). \<exists>x\<in>set (children s (numbered bs)). e = whole_block text (snd x)" by blast
  moreover have v1: "whole_block text (snd x) \<in> set (concat removals)"
    if x: "x \<in> set (children s (numbered bs))" and l: "location_path (snd x) = Inr (Some l)" "is_v1 l" for x l
  proof -
    obtain es where es: "es \<in> set removals" "removal text (snd x) = Inr es"
      using list_all2_target[OF all x] by blast
    then show ?thesis using removal_v1[OF es(2) l] by (auto simp: whole_block_def)
  qed
  have "\<forall>x\<in>set (children s (numbered bs)). case location_path (snd x) of
      Inr (Some l) \<Rightarrow> is_v1 l \<longrightarrow> whole_block text (snd x) \<in> set (concat removals) | _ \<Rightarrow> True"
  proof
    fix x assume x: "x \<in> set (children s (numbered bs))"
    show "case location_path (snd x) of
      Inr (Some l) \<Rightarrow> is_v1 l \<longrightarrow> whole_block text (snd x) \<in> set (concat removals) | _ \<Rightarrow> True"
      using v1[OF x] by (simp split: sum.split option.split del: set_concat)
  qed
  ultimately have "removed_from text s (numbered bs) (concat removals)"
    unfolding removed_from_def by (rule conjI)
  moreover have "replaced = take (b_open server + 1) text @ patched text (b_open server + 1) (b_end server) (concat removals)
           @ before @ DIRECT_LOCATION @ drop (b_end server) text"
  proof -
    let ?es = "concat removals" and ?new = "before @ DIRECT_LOCATION"
    have all_edits: "ascending (b_open server + 1) (b_end server) (?es @ [(b_end server, b_end server, ?new)])"
      using edits_ascending[OF server(1) edits] by blast
    have "ascending (b_open server + 1) (b_end server) ?es"
      using edits_ascending[OF server(1) edits, of "[]"] by simp
    then show ?thesis
      using apply_edits_patched[OF all_edits, of "text"] server(3) patched_insertion[of "b_open server + 1" "b_end server" ?es "text" ?new]
      by (simp only: replaced append_assoc less_imp_le)
  qed
  ultimately show ?thesis using that[OF parsed approved] server(2,3) before by blast
qed

text \<open>
  C16. C. The first step of the rewriting takes whole blocks out of the one TLS server of the host name,
  among them every location for \<open>/v1\<close>, puts the direct location before the closing brace of that server
  and copies every other character of the file: the text before the server's body, between the removed
  blocks and from the closing brace on.\<close>

theorem replace_v1_only_removes_locations:
  assumes "replace_v1 text name = Inr replaced"
  shows "\<exists>bs ds s server removed before. parse_config text = Inr (bs, ds)
     \<and> approved_servers (numbered bs) ds name = Inr [(s, server)] \<and> b_open server < b_end server
     \<and> removed_from text s (numbered bs) removed \<and> (before = [] \<or> before = [LF])
     \<and> replaced = take (b_open server + 1) text @ patched text (b_open server + 1) (b_end server) removed
          @ before @ DIRECT_LOCATION @ drop (b_end server) text"
  using replace_v1_patches[OF assms] by metis

lemma add_gates_keeps:
  assumes "add_gates text hostname = Inr gated"
  shows "subseq text gated"
proof -
  obtain bs ds s server ess where ess: "conf_map (gate_insertion text ds) (children s (numbered bs)) = Inr ess"
    and gated: "gated = apply_edits text (concat ess)"
    using assms by (auto simp: add_gates_def add_missing_cloudflare_location_gates_def Let_def dest!: only_Inr)
  have "fst e = fst (snd e)" if "e \<in> set (concat ess)" for e
  proof -
    from that obtain es where es: "es \<in> set ess" "e \<in> set es" by auto
    then obtain x where "gate_insertion text ds x = Inr es"
      using list_all2_source[OF ess[unfolded conf_map_Inr] es(1)] by blast
    then show ?thesis using gate_insertion_edit es(2) by fastforce
  qed
  then show ?thesis using gated insertions_keep by blast
qed

lemma add_upstream_keeps:
  "add_upstream text = Inr out \<Longrightarrow> out = text \<or> out = UPSTREAM_BLOCK @ text"
  by (auto simp: add_upstream_def)

text \<open>When the configuration is rewritten, the only text that is taken out is that of whole
  locations directly in the one TLS server of the approved host name: the file without those is
  still there, character by character in its order, in what is written.\<close>

lemma rewrite_only_removes_locations:
  assumes "rewrite_direct_v1 text hostname = Inr out"
  shows "\<exists>name bs ds s server removed. validate_hostname hostname = Inr name \<and> parse_config text = Inr (bs, ds)
     \<and> approved_servers (numbered bs) ds name = Inr [(s, server)] \<and> b_open server < b_end server
     \<and> removed_from text s (numbered bs) removed
     \<and> subseq (take (b_open server + 1) text @ patched text (b_open server + 1) (b_end server) removed
          @ drop (b_end server) text) out"
proof -
  obtain name replaced with_upstream where name: "validate_hostname hostname = Inr name"
    and replaced: "replace_v1 text name = Inr replaced" and upstream: "add_upstream replaced = Inr with_upstream"
    and gated: "add_gates with_upstream name = Inr out"
    using assms by (auto simp: rewrite_direct_v1_def)
  obtain bs ds s server removed before where server: "parse_config text = Inr (bs, ds)"
    "approved_servers (numbered bs) ds name = Inr [(s, server)]" "removed_from text s (numbered bs) removed"
    "b_open server < b_end server"
    and patched: "replaced = take (b_open server + 1) text @ patched text (b_open server + 1) (b_end server) removed
           @ before @ DIRECT_LOCATION @ drop (b_end server) text"
    using replace_v1_patches[OF replaced] by metis
  have "subseq (drop (b_end server) text) (before @ DIRECT_LOCATION @ drop (b_end server) text)"
    by (intro list_emb_append2 subseq_order.refl)
  then have "subseq (take (b_open server + 1) text @ patched text (b_open server + 1) (b_end server) removed
      @ drop (b_end server) text) replaced"
    unfolding patched by (intro list_emb_append_mono subseq_order.refl)
  moreover have "subseq replaced with_upstream"
    using add_upstream_keeps[OF upstream] by auto
  moreover have "subseq with_upstream out" by (rule add_gates_keeps[OF gated])
  ultimately have "subseq (take (b_open server + 1) text @ patched text (b_open server + 1) (b_end server) removed
      @ drop (b_end server) text) out"
    by (meson subseq_order.trans)
  then show ?thesis using name server by (intro exI conjI)
qed

section \<open>The check of the result\<close>

text \<open>A location that proxies: its path is read, and one of its own directives is \<open>proxy_pass\<close>.\<close>

definition proxies :: "directive list \<Rightarrow> nat \<times> block \<Rightarrow> bool" where
  "proxies ds x \<longleftrightarrow> is_proxying_location x ds = Inr True"

definition gated_server :: "pystr \<Rightarrow> pystr \<Rightarrow> bool" where
  "gated_server text name \<longleftrightarrow> (case parse_config text of Inl e \<Rightarrow> False | Inr (bs, ds) \<Rightarrow>
     (case approved_servers (numbered bs) ds name of
        Inr [(s, server)] \<Rightarrow>
          list_all (\<lambda>x. proxies ds x \<longrightarrow> has_explicit_cloudflare_gate (fst x) ds = Inr True) (children s (numbered bs))
          \<and> (case v1_locations s (numbered bs) of
               Inr [(v, v1)] \<Rightarrow> list_all (\<lambda>r. occurs_in r (block_body text v1)) required_directives
                 \<and> \<not> marked (lower (block_body text v1))
             | _ \<Rightarrow> False)
          \<and> list_all (\<lambda>d. case tokenise (d_text d) of Inl e \<Rightarrow> False | Inr tokens \<Rightarrow> \<not> is_capture_directive tokens) (child_directives s ds)
      | _ \<Rightarrow> False))"

lemma conf_and_Inr:
  "conf_and a b = Inr r \<longleftrightarrow> (\<exists>x. a = Inr x \<and> (if x then b = Inr r else \<not> r))"
  by (cases a) (auto simp: conf_and_def conf_bind_def)

lemma verify_gates_all:
  assumes "verify_gates s bs ds = Inr u" and "x \<in> set (children s bs)" and "proxies ds x"
  shows "has_explicit_cloudflare_gate (fst x) ds = Inr True"
  using assms by (fastforce simp: verify_gates_def conf_all_Inr conf_and_Inr proxies_def)

lemma check_gated:
  assumes "verify_rewritten_config text name = Inr u"
  shows "gated_server text name"
proof -
  obtain bs ds s server v v1 where parsed: "parse_config text = Inr (bs, ds)"
    and approved: "approved_servers (numbered bs) ds name = Inr [(s, server)]"
    and v1: "v1_locations s (numbered bs) = Inr [(v, v1)]" and body: "verify_v1_body (block_body text v1) = Inr ()"
    and gates: "verify_gates s (numbered bs) ds = Inr ()" and directives: "verify_server_directives s ds = Inr ()"
    using assms by (auto simp: verify_rewritten_config_def Let_def dest!: only_Inr)
  have "list_all (\<lambda>x. proxies ds x \<longrightarrow> has_explicit_cloudflare_gate (fst x) ds = Inr True) (children s (numbered bs))"
    using verify_gates_all[OF gates] by (simp add: list_all_iff)
  moreover have "list_all (\<lambda>d. case tokenise (d_text d) of Inl e \<Rightarrow> False | Inr tokens \<Rightarrow> \<not> is_capture_directive tokens) (child_directives s ds)"
    using directives by (auto simp: verify_server_directives_def conf_all_Inr list_all_iff Let_def)
  moreover have "list_all (\<lambda>r. occurs_in r (block_body text v1)) required_directives \<and> \<not> marked (lower (block_body text v1))"
    using body by (simp add: verify_v1_body_def Let_def)
  ultimately show ?thesis by (simp add: gated_server_def parsed approved v1)
qed


text \<open>So does whatever the rewriting returns.\<close>

lemma rewrite_gates_the_server:
  assumes "rewrite_direct_v1 text hostname = Inr out"
  shows "\<exists>name. validate_hostname hostname = Inr name \<and> gated_server out name"
  using assms check_gated by (auto simp: rewrite_direct_v1_def)

end
