(* ===== verification/Nginx_Scan.thy ===== *)
theory Nginx_Scan
  imports Nginx_Rewrite
begin

text \<open>
  The parser as one pass that carries the text of the current statement instead of cutting it out of
  the configuration: equal to \<open>parse_config\<close>, and cheap to evaluate on whole configurations.
\<close>

section \<open>The one pass\<close>

definition raw_start :: "nat \<Rightarrow> pystr \<Rightarrow> nat" where
  "raw_start from raw =
     (let k = code_start raw; blank_part = take k raw; tail = takeWhile (\<lambda>c. c \<noteq> LF) (rev blank_part) in
      if LF \<in> set blank_part then (if strip (rev tail) = [] then from + k - length tail else from + k)
      else if from = 0 \<and> strip blank_part = [] then 0 else from + k)"

definition end_raw :: "pystr \<Rightarrow> nat \<Rightarrow> parser \<Rightarrow> parser" where
  "end_raw raw index p =
     (let cleaned = strip (strip_comments raw)
      in p\<lparr>p_from := index + 1,
           p_directives := p_directives p @ (if cleaned = [] then []
             else [\<lparr>d_text = cleaned, d_start = p_from p + code_start raw, d_end = index + 1, d_parent = top_of (p_stack p)\<rparr>])\<rparr>)"

definition open_raw :: "pystr \<Rightarrow> nat \<Rightarrow> parser \<Rightarrow> parser conf" where
  "open_raw raw index p =
     (let cleaned = strip (strip_comments raw)
      in if cleaned = [] then Inl ''Nginx configuration contains a block without a directive''
         else Inr (p\<lparr>p_from := index + 1,
                p_blocks := p_blocks p @ [\<lparr>b_header = cleaned, b_start = raw_start (p_from p) raw, b_open = index,
                  b_close = None, b_parent = top_of (p_stack p)\<rparr>],
                p_stack := length (p_blocks p) # p_stack p\<rparr>))"

fun scan :: "nat \<Rightarrow> pystr \<Rightarrow> pystr \<Rightarrow> parser \<Rightarrow> (pystr \<times> parser) conf" where
  "scan index raw [] p = Inr (rev raw, p)"
| "scan index raw (c # cs) p =
     (if p_lex p \<noteq> Code then scan (index + 1) (c # raw) cs (p\<lparr>p_lex := lex_step (p_lex p) c\<rparr>)
      else if c = CHR '';'' then scan (index + 1) [] cs (end_raw (rev raw) index p)
      else if c = CHR ''{'' then conf_bind (open_raw (rev raw) index p) (scan (index + 1) [] cs)
      else if c = CHR ''}'' then conf_bind (close_block index p) (scan (index + 1) [] cs)
      else scan (index + 1) (c # raw) cs (p\<lparr>p_lex := lex_step Code c\<rparr>))"

definition scan_config :: "pystr \<Rightarrow> (block list \<times> directive list) conf" where
  "scan_config text =
     conf_bind (scan 0 [] text parser_start) (\<lambda>(raw, p).
       if in_quote (p_lex p) \<or> p_stack p \<noteq> []
       then Inl ''Nginx configuration contains an unterminated quote or block''
       else if strip (strip_comments raw) \<noteq> []
       then Inl ''Nginx configuration ends with an incomplete directive''
       else Inr (p_blocks p, p_directives p))"

section \<open>It is the parser\<close>

lemma block_start_raw:
  assumes "delimited text from" and "from \<le> index" and "index \<le> length text"
  shows "block_start text from index = raw_start from (slice text from index)"
proof -
  define raw where "raw = slice text from index"
  define k where "k = code_start raw"
  define pre where "pre = take k raw"
  let ?P = "\<lambda>c. c \<noteq> LF"
  have "k \<le> length raw" using code_start_bounds(2)[of False 0 raw] by (simp add: k_def code_start_def)
  moreover have raw_len: "length raw = index - from" using assms by (simp add: raw_def slice_def)
  ultimately have le: "k \<le> index - from" and k: "from + k \<le> length text" "length pre = k"
    using assms by (auto simp: pre_def)
  have split: "take (from + k) text = take from text @ pre"
    using le by (simp add: take_add pre_def raw_def slice_def min_def)
  have cut: "slice text (from + k - length ys) (from + k) = ys" if "take (from + k) text = xs @ ys" for xs ys
  proof -
    have "length xs + length ys = from + k" using that k(1) by (metis length_append length_take min_absorb2)
    then have "drop (from + k - length ys) (take (from + k) text) = ys" using that by (simp flip: \<open>length xs + length ys = from + k\<close>)
    then show ?thesis by (simp add: slice_def drop_take)
  qed
  have first: "line_start text (from + k) = from + k - length (takeWhile ?P (rev pre @ rev (take from text)))"
    using k by (simp add: line_start_def split)
  let ?first = "line_start text (from + k)"
  have bs: "block_start text from index = (if strip (slice text ?first (from + k)) = [] then ?first else from + k)"
    by (simp add: block_start_def Let_def raw_def k_def)
  have rs: "raw_start from raw = (if LF \<in> set pre then (if strip (rev (takeWhile ?P (rev pre))) = []
      then from + k - length (takeWhile ?P (rev pre)) else from + k) else if from = 0 \<and> strip pre = [] then 0 else from + k)"
    by (simp add: raw_start_def Let_def k_def pre_def)
  have "block_start text from index = raw_start from raw"
  proof (cases "LF \<in> set pre")
    case True
    let ?tail = "takeWhile ?P (rev pre)"
    have "takeWhile ?P (rev pre @ rev (take from text)) = ?tail"
      using True by (intro takeWhile_append1[of LF]) auto
    moreover have "take (from + k) text = (take from text @ rev (dropWhile ?P (rev pre))) @ rev ?tail"
      by (metis append.assoc rev_append rev_rev_ident split takeWhile_dropWhile_id)
    note cut[OF this]
    ultimately show ?thesis
      using True first by (simp add: bs rs)
  next
    case False
    then have all: "takeWhile ?P (rev pre @ rev (take from text)) = rev pre @ takeWhile ?P (rev (take from text))"
      by (intro takeWhile_append2) auto
    show ?thesis
    proof (cases "from = 0")
      case True
      have "length (takeWhile ?P (rev pre)) = k"
        using takeWhile_eq_all_conv[of ?P "rev pre"] False k(2) by (metis length_rev set_rev)
      then have "?first = 0" using first k(2) \<open>from = 0\<close> by simp
      moreover have "slice text 0 k = pre" using \<open>from = 0\<close> k(2) cut[of "[]" pre] split by simp
      ultimately have "?first = 0" "slice text 0 k = pre" by auto
      then show ?thesis unfolding bs rs using False \<open>from = 0\<close> by simp
    next
      case nonzero: False
      then have d: "text ! (from - 1) \<in> {CHR '';'', CHR ''{'', CHR ''}''}" "from \<le> length text"
        using assms(1) by (auto simp: delimited_def)
      have "rev (take from text) = text ! (from - 1) # rev (take (from - 1) text)"
        using nonzero d(2) by (cases "from") (auto simp: take_Suc_conv_app_nth)
      then have "line_start text (from + k) \<le> from - 1"
        using first all k(2) d(1) by (auto simp: LF_def)
      then have "text ! (from - 1) \<in> set (slice text (line_start text (from + k)) (from + k))"
        using nonzero k(1) by (intro slice_at) auto
      moreover have "\<not> is_space (text ! (from - 1))" using d(1) by (auto simp: is_space_def)
      ultimately have "strip (slice text (line_start text (from + k)) (from + k)) \<noteq> []"
        using strip_blank by blast
      then show ?thesis
        using False nonzero by (simp add: bs rs)
    qed
  qed
  then show ?thesis by (simp add: raw_def)
qed

lemma end_directive_raw:
  "end_directive text index p = Inr (end_raw (slice text (p_from p) index) index p)"
  by (simp add: end_directive_def end_raw_def Let_def)

lemma open_block_raw:
  assumes "delimited text (p_from p)" and "p_from p \<le> index" and "index \<le> length text"
  shows "open_block text index p = open_raw (slice text (p_from p) index) index p"
  using block_start_raw[OF assms] by (simp add: open_block_def open_raw_def block_start_def Let_def)

lemma end_raw_lex [simp]: "end_raw raw index (p\<lparr>p_lex := l\<rparr>) = (end_raw raw index p)\<lparr>p_lex := l\<rparr>"
  by (simp add: end_raw_def Let_def)

lemma slice_step: "i < length text \<Longrightarrow> a \<le> i \<Longrightarrow> slice text a (i + 1) = slice text a i @ [text ! i]"
  by (simp add: slice_def Suc_diff_le take_Suc_conv_app_nth)

lemma scan_parse_loop:
  assumes "rev raw = slice text (p_from p) index" and "drop index text = cs" and "index \<le> length text"
    and "p_from p \<le> index" and "delimited text (p_from p)"
  shows "scan index raw cs p = conf_bind (parse_loop text index cs p) (\<lambda>q. Inr (drop (p_from q) text, q))"
  using assms
proof (induction cs arbitrary: index raw p)
  case Nil
  then have "index = length text" by simp
  then show ?case using Nil.prems by (simp add: conf_bind_def slice_def)
next
  case (Cons c cs)
  have less: "index < length text" using Cons.prems(2) by (metis drop_all list.distinct(1) not_less)
  have c: "c = text ! index" "drop (index + 1) text = cs"
    using Cons.prems(2) Cons_nth_drop_Suc[OF less] by simp_all
  have more: "rev (c # raw) = slice text (p_from p) (index + 1)"
    using Cons.prems(1,4) c(1) slice_step[OF less] by simp
  note IH = Cons.IH[OF _ c(2)]
  have continue: "scan (index + 1) (c # raw) cs (p\<lparr>p_lex := l\<rparr>)
      = conf_bind (parse_loop text (index + 1) cs (p\<lparr>p_lex := l\<rparr>)) (\<lambda>q. Inr (drop (p_from q) text, q))" for l
    using IH[of "c # raw" "p\<lparr>p_lex := l\<rparr>"] more less Cons.prems(4,5) by simp
  have restart: "scan (index + 1) [] cs q
      = conf_bind (parse_loop text (index + 1) cs q) (\<lambda>q. Inr (drop (p_from q) text, q))"
    if "p_from q = index + 1" and "c \<in> {CHR '';'', CHR ''{'', CHR ''}''}" for q
    using IH[of "[]" q] that less c(1) delimited_after[OF less] by (simp add: slice_def)
  have assoc: "conf_bind (conf_bind r f) g = conf_bind r (\<lambda>x. conf_bind (f x) g)" for r :: "parser conf" and f g
    by (cases r) (simp_all add: conf_bind_def)
  show ?case
  proof (cases "p_lex p = Code")
    case False
    then show ?thesis using continue by (simp add: parse_step_def conf_bind_def)
  next
    case True
    have unchanged: "p\<lparr>p_lex := lex_step Code c\<rparr> = p" if "c \<in> {CHR '';'', CHR ''{'', CHR ''}''}"
      using that True by (auto simp: DOUBLE_def SINGLE_def)
    consider "c = CHR '';''" | "c = CHR ''{''" | "c = CHR ''}''" | "c \<notin> {CHR '';'', CHR ''{'', CHR ''}''}" by auto
    then show ?thesis
    proof cases
      case 1
      then show ?thesis
        using True unchanged restart[of "end_raw (rev raw) index p"] Cons.prems(1)
        by (simp add: parse_step_def end_directive_raw conf_bind_def end_raw_def Let_def)
    next
      case 2
      have opened: "open_block text index p = open_raw (rev raw) index p"
        using open_block_raw[OF Cons.prems(5,4,3)] Cons.prems(1) by simp
      have "scan (index + 1) [] cs q = conf_bind (parse_loop text (index + 1) cs q) (\<lambda>q. Inr (drop (p_from q) text, q))"
        if "open_raw (rev raw) index p = Inr q" for q
        using that 2 by (intro restart) (auto simp: open_raw_def Let_def split: if_splits)
      then show ?thesis
        using True unchanged 2 opened by (cases "open_raw (rev raw) index p") (simp_all add: parse_step_def conf_bind_def)
    next
      case 3
      have "scan (index + 1) [] cs q = conf_bind (parse_loop text (index + 1) cs q) (\<lambda>q. Inr (drop (p_from q) text, q))"
        if "close_block index p = Inr q" for q
        using that 3 by (intro restart) (auto simp: close_block_def split: list.splits)
      then show ?thesis
        using True unchanged 3 by (cases "close_block index p") (simp_all add: parse_step_def conf_bind_def)
    next
      case 4
      then show ?thesis using True continue by (simp add: parse_step_def conf_bind_def)
    qed
  qed
qed

theorem scan_config_parse: "scan_config text = parse_config text"
proof -
  have "scan 0 [] text parser_start = conf_bind (parse_loop text 0 text parser_start) (\<lambda>q. Inr (drop (p_from q) text, q))"
    by (rule scan_parse_loop) (simp_all add: parser_start_def slice_def delimited_def)
  then show ?thesis
    by (cases "parse_loop text 0 text parser_start") (simp_all add: scan_config_def parse_config_def conf_bind_def)
qed

end
