(* ===== verification/Nginx_Facts.thy ===== *)
theory Nginx_Facts
  imports Nginx_Scan
begin

text \<open>
  Concrete configurations: the witnesses of the properties of \<open>Nginx_Rewrite\<close>, and what the check of
  the direct location does not see.
\<close>

declare scan_config_parse [symmetric, code]

section \<open>A configuration before the cutover\<close>

definition old_site :: pystr where
  "old_site = ''server{listen 443;server_name a.b;location /{proxy_pass http://y;}location /v1{}}''"

lemma old_site_replaced: "case replace_v1 old_site ''a.b'' of Inl e \<Rightarrow> False | Inr out \<Rightarrow> True"
  by code_simp

theorem replace_v1_only_removes_locations_witness:
  "\<exists>replaced bs ds s server removed before. replace_v1 old_site ''a.b'' = Inr replaced
     \<and> parse_config old_site = Inr (bs, ds)
     \<and> approved_servers (numbered bs) ds ''a.b'' = Inr [(s, server)] \<and> b_open server < b_end server
     \<and> removed_from old_site s (numbered bs) removed \<and> (before = [] \<or> before = [LF])
     \<and> replaced = take (b_open server + 1) old_site @ patched old_site (b_open server + 1) (b_end server) removed
          @ before @ DIRECT_LOCATION @ drop (b_end server) old_site"
proof -
  obtain replaced where "replace_v1 old_site ''a.b'' = Inr replaced"
    using old_site_replaced by (cases "replace_v1 old_site ''a.b''") simp_all
  with replace_v1_only_removes_locations[OF this] show ?thesis by blast
qed

section \<open>Directives in a comment\<close>

text \<open>A location for \<open>/v1\<close> that proxies to another service and has the reviewed directives in a comment.\<close>

definition commented_site :: pystr where
  "commented_site = ''upstream sub2api_backend{include /etc/nginx/snippets/sub2api-upstream-active.conf;keepalive 64;}''
     @ ''server{listen 443;server_name a.b;location /v1/{proxy_pass http://x;include /etc/nginx/snippets/cloudflare-only.conf;#''
     @ concat required_directives @ [LF] @ ''}}''"

lemma commented_site_verified: "verify_rewritten_config commented_site ''a.b'' = Inr ()"
  by code_simp


text \<open>The check reads the text of the location with its comments, so it accepts the site above, whose
  only \<open>proxy_pass\<close> in the location leads elsewhere.\<close>

theorem check_reads_comments:
  "verify_rewritten_config commented_site ''a.b'' = Inr ()
   \<and> (case parse_config commented_site of Inl e \<Rightarrow> False | Inr (bs, ds) \<Rightarrow>
        location_path (bs ! 2) = Inr (Some ([], ''/v1/''))
        \<and> direct_directives 2 ds = Inr [[''proxy_pass'', ''http://x''], CLOUDFLARE_ONLY_INCLUDE])"
proof (rule conjI)
  show "case parse_config commented_site of Inl e \<Rightarrow> False | Inr (bs, ds) \<Rightarrow>
        location_path (bs ! 2) = Inr (Some ([], ''/v1/''))
        \<and> direct_directives 2 ds = Inr [[''proxy_pass'', ''http://x''], CLOUDFLARE_ONLY_INCLUDE]"
    by code_simp
qed (rule commented_site_verified)

end
