(* ===== verification/Nginx_Install.thy ===== *)
theory Nginx_Install
  imports Nginx_Conf
begin

text \<open>
  The transaction of \<open>deploy/install-nginx-direct-v1.py\<close>: the atomic writes, the backup of the four
  managed files, their replacement with the checks after it, and the restoration after a failure.
\<close>

section \<open>The host\<close>

text \<open>The managed files, their two kinds of backup (the content, or a mark that there was no file) and
  the temporary name of a write.\<close>

datatype managed = Site | Upgrade_Map | Active_Upstream | Sync_Location

datatype nginx_path = Live managed | Saved managed | Absent managed | Temporary nginx_path

text \<open>The answers say of the coming system calls and commands, in order, which succeed; when they are
  used up, all do. \<open>loaded\<close> is the configuration the last successful reload read.\<close>

record nginx_host =
  conf_files :: "nginx_path \<Rightarrow> pystr option"
  loaded :: "managed \<Rightarrow> pystr option"
  answers :: "bool list"
  said :: "pystr list"

type_synonym conf_step = "nginx_host \<Rightarrow> bool \<times> nginx_host"

definition live :: "nginx_host \<Rightarrow> managed \<Rightarrow> pystr option" where
  "live h t = conf_files h (Live t)"

definition asked :: conf_step where
  "asked h = (case answers h of [] \<Rightarrow> (True, h) | b # bs \<Rightarrow> (b, h\<lparr>answers := bs\<rparr>))"

text \<open>One thing after the other, until one raises.\<close>

definition and_next :: "conf_step \<Rightarrow> conf_step \<Rightarrow> conf_step" where
  "and_next f g h = (case f h of (ok, h1) \<Rightarrow> if ok then g h1 else (False, h1))"

fun steps :: "conf_step list \<Rightarrow> conf_step" where
  "steps [] h = (True, h)"
| "steps (f # fs) h = and_next f (steps fs) h"

definition set_file :: "nginx_path \<Rightarrow> pystr option \<Rightarrow> conf_step" where
  "set_file p content h = (True, h\<lparr>conf_files := (conf_files h)(p := content)\<rparr>)"

section \<open>Atomic writes\<close>

definition open_temporary :: "nginx_path \<Rightarrow> conf_step" where
  "open_temporary p h =
     (if conf_files h (Temporary p) \<noteq> None then (False, h) else and_next asked (set_file (Temporary p) (Some [])) h)"

text \<open>\<open>temporary.unlink()\<close> in the \<open>finally\<close>.\<close>

definition unlink_temporary :: "nginx_path \<Rightarrow> conf_step" where
  "unlink_temporary p h =
     (if conf_files h (Temporary p) = None then (True, h) else and_next asked (set_file (Temporary p) None) h)"

definition finally_do :: "conf_step \<Rightarrow> conf_step \<Rightarrow> conf_step" where
  "finally_do f g h = (case f h of (ok, h1) \<Rightarrow> case g h1 of (ok', h2) \<Rightarrow> (ok \<and> ok', h2))"

definition replace_file :: "nginx_path \<Rightarrow> pystr \<Rightarrow> conf_step" where
  "replace_file p data = steps [asked, set_file p (Some data), set_file (Temporary p) None]"

text \<open>Create, write, set owner and mode, sync and close the temporary file; rename it; open the
  directory and sync it.\<close>

definition atomic_write :: "nginx_path \<Rightarrow> pystr \<Rightarrow> conf_step" where
  "atomic_write p data =
     finally_do
       (steps [open_temporary p, asked, set_file (Temporary p) (Some data), asked, asked, asked,
          replace_file p data, asked, asked])
       (unlink_temporary p)"

section \<open>The backup\<close>

definition back_up :: "managed \<Rightarrow> conf_step" where
  "back_up t h = (case live h t of Some x \<Rightarrow> atomic_write (Saved t) x h | None \<Rightarrow> atomic_write (Absent t) [] h)"

definition back_up_all :: conf_step where
  "back_up_all = steps [back_up Site, back_up Upgrade_Map, back_up Active_Upstream, back_up Sync_Location]"

section \<open>The replacement\<close>

text \<open>\<open>nginx -t\<close> is one answer; a successful reload loads what is on disk.\<close>

definition reload :: conf_step where
  "reload = and_next asked (\<lambda>h. (True, h\<lparr>loaded := live h\<rparr>))"

text \<open>The four writes, with the number of those that returned: \<open>site_changed\<close> and the other three flags.\<close>

fun write_all :: "(managed \<times> pystr) list \<Rightarrow> nat \<Rightarrow> nginx_host \<Rightarrow> bool \<times> nat \<times> nginx_host" where
  "write_all [] changed h = (True, changed, h)"
| "write_all ((t, data) # rest) changed h =
     (case atomic_write (Live t) data h of (ok, h1) \<Rightarrow>
        if ok then write_all rest (changed + 1) h1 else (False, changed, h1))"

text \<open>The scan for capture directives, the syntax test, the reload and the canary.\<close>

definition verify_and_reload :: conf_step where
  "verify_and_reload = steps [asked, asked, reload, asked]"

definition put_back :: "managed \<Rightarrow> pystr option \<Rightarrow> conf_step" where
  "put_back t original h =
     (case original of
        Some x \<Rightarrow> atomic_write (Live t) x h
      | None \<Rightarrow> if live h t = None then (True, h) else and_next asked (set_file (Live t) None) h)"

definition say :: "pystr \<Rightarrow> nginx_host \<Rightarrow> nginx_host" where
  "say m h = h\<lparr>said := said h @ [m]\<rparr>"

definition RESTORED :: pystr where
  "RESTORED = ''direct /v1 cutover failed; previous Nginx configuration was restored and reloaded''"

definition UNCONFIRMED :: pystr where
  "UNCONFIRMED = ''direct /v1 cutover failed and automatic restoration could not be confirmed''"

definition restore :: "(managed \<Rightarrow> pystr option) \<Rightarrow> nginx_host \<Rightarrow> nginx_host" where
  "restore originals h =
     (case steps [put_back Site (originals Site), put_back Upgrade_Map (originals Upgrade_Map),
          put_back Active_Upstream (originals Active_Upstream), put_back Sync_Location (originals Sync_Location),
          asked, reload] h of (ok, h1) \<Rightarrow> say (if ok then RESTORED else UNCONFIRMED) h1)"

text \<open>What is installed: the rewritten site, and the three tracked files.\<close>

definition install :: "(managed \<Rightarrow> pystr) \<Rightarrow> conf_step" where
  "install new h =
     (let originals = live h in
      case write_all (map (\<lambda>t. (t, new t)) [Site, Upgrade_Map, Active_Upstream, Sync_Location]) 0 h of
        (written, changed, h1) \<Rightarrow>
          (case (if written then verify_and_reload h1 else (False, h1)) of (ok, h2) \<Rightarrow>
             if ok then (True, h2)
             else (False, if 0 < changed then restore originals h2 else h2)))"

definition cut_over :: "(managed \<Rightarrow> pystr) \<Rightarrow> conf_step" where
  "cut_over new = and_next back_up_all (install new)"

section \<open>Atomic writes\<close>

lemma asked_effect: "snd (asked h) = h\<lparr>answers := answers (snd (asked h))\<rparr>"
  by (simp add: asked_def split: list.split)

text \<open>An atomic write changes no file but its own and its temporary one; its own has the old or the
  new content afterwards, the new one if the write returned.\<close>

lemma atomic_write_effect:
  assumes "atomic_write p data h = (ok, h')"
  shows "(\<forall>q. q \<noteq> p \<and> q \<noteq> Temporary p \<longrightarrow> conf_files h' q = conf_files h q)
     \<and> (conf_files h' p = Some data \<or> (\<not> ok \<and> conf_files h' p = conf_files h p))
     \<and> loaded h' = loaded h \<and> said h' = said h"
proof -
  have "p \<noteq> Temporary p" by (induction p) auto
  then show ?thesis
    using assms
    by (auto simp: atomic_write_def finally_do_def and_next_def open_temporary_def unlink_temporary_def replace_file_def
        set_file_def asked_def split: list.splits prod.splits if_splits)
qed

declare steps.simps(2) [simp del]

lemma steps_Cons [simp]: "steps (f # fs) h = (case f h of (ok, h1) \<Rightarrow> if ok then steps fs h1 else (False, h1))"
  by (simp add: and_next_def steps.simps(2))

lemma atomic_write_live:
  assumes "atomic_write (Live t) data h = (ok, h')"
  shows "\<forall>u. u \<noteq> t \<longrightarrow> live h' u = live h u" "live h' t = Some data \<or> (\<not> ok \<and> live h' t = live h t)"
    "\<forall>q. (\<nexists>u. q = Live u \<or> q = Temporary (Live u)) \<longrightarrow> conf_files h' q = conf_files h q"
    "loaded h' = loaded h" "said h' = said h"
  using atomic_write_effect[OF assms] by (auto simp: live_def)

section \<open>The backup\<close>

definition backed_up :: "(managed \<Rightarrow> pystr option) \<Rightarrow> managed \<Rightarrow> nginx_host \<Rightarrow> bool" where
  "backed_up originals t h \<longleftrightarrow> (case originals t of Some x \<Rightarrow> conf_files h (Saved t) = Some x | None \<Rightarrow> conf_files h (Absent t) = Some [])"

lemma back_up_effect:
  assumes "back_up t h = (ok, h')"
  shows "live h' = live h" "loaded h' = loaded h" "said h' = said h" "ok \<Longrightarrow> backed_up (live h) t h'"
    "u \<noteq> t \<Longrightarrow> backed_up originals u h' = backed_up originals u h"
proof -
  obtain p data where p: "atomic_write p data h = (ok, h')"
    "case live h t of Some x \<Rightarrow> p = Saved t \<and> data = x | None \<Rightarrow> p = Absent t \<and> data = []"
    using assms by (auto simp: back_up_def split: option.splits)
  note effect = atomic_write_effect[OF p(1)]
  show "live h' = live h" "loaded h' = loaded h" "said h' = said h"
    using effect p(2) by (auto simp: live_def fun_eq_iff split: option.splits)
  show "ok \<Longrightarrow> backed_up (live h) t h'"
    using effect p(2) by (auto simp: backed_up_def split: option.splits)
  show "u \<noteq> t \<Longrightarrow> backed_up originals u h' = backed_up originals u h"
    using effect p(2) by (auto simp: backed_up_def split: option.splits)
qed

lemma back_up_same:
  "back_up t h = (ok, h') \<Longrightarrow> live h' = live h \<and> loaded h' = loaded h \<and> said h' = said h"
  using back_up_effect(1-3) by blast

lemma back_up_all_effect:
  assumes "back_up_all h = (ok, h')"
  shows "live h' = live h" "loaded h' = loaded h" "said h' = said h" "ok \<Longrightarrow> backed_up (live h) t h'"
proof -
  show "live h' = live h" "loaded h' = loaded h" "said h' = said h"
    using assms by (auto simp: back_up_all_def split: prod.splits if_splits dest!: back_up_same)
  assume ok
  then obtain h1 h2 h3 where h: "back_up Site h = (True, h1)" "back_up Upgrade_Map h1 = (True, h2)"
    "back_up Active_Upstream h2 = (True, h3)" "back_up Sync_Location h3 = (True, h')"
    using assms by (auto simp: back_up_all_def split: prod.splits if_splits)
  show "backed_up (live h) t h'"
    using back_up_effect(1,4,5)[OF h(1)] back_up_effect(1,4,5)[OF h(2)] back_up_effect(1,4,5)[OF h(3)]
      back_up_effect(1,4,5)[OF h(4)]
    by (cases t) simp_all
qed

section \<open>The restoration\<close>

lemma put_back_effect:
  assumes "put_back t original h = (ok, h')"
  shows "(\<forall>u. u \<noteq> t \<longrightarrow> live h' u = live h u) \<and> (ok \<longrightarrow> live h' t = original) \<and> loaded h' = loaded h \<and> said h' = said h
    \<and> (\<forall>q. (\<nexists>u. q = Live u \<or> q = Temporary (Live u)) \<longrightarrow> conf_files h' q = conf_files h q)"
proof (cases original)
  case (Some x)
  then show ?thesis
    using atomic_write_live[of t x h ok h'] assms by (auto simp: put_back_def)
next
  case None
  then show ?thesis
    using assms by (auto simp: put_back_def and_next_def set_file_def asked_def live_def split: list.splits if_splits)
qed

lemma reload_effect:
  assumes "reload h = (ok, h')"
  shows "conf_files h' = conf_files h" "live h' = live h" "said h' = said h" "loaded h' = (if ok then live h else loaded h)"
  using assms by (auto simp: reload_def and_next_def asked_def live_def fun_eq_iff split: list.splits if_splits)

lemma asked_same:
  assumes "asked h = (ok, h')"
  shows "conf_files h' = conf_files h" "live h' = live h" "said h' = said h" "loaded h' = loaded h"
  using assms by (auto simp: asked_def live_def fun_eq_iff split: list.splits if_splits)

text \<open>A step that says nothing and leaves the backups alone.\<close>

definition same_elsewhere :: "nginx_host \<Rightarrow> nginx_host \<Rightarrow> bool" where
  "same_elsewhere h h' \<longleftrightarrow> said h' = said h
     \<and> (\<forall>q. (\<nexists>u. q = Live u \<or> q = Temporary (Live u)) \<longrightarrow> conf_files h' q = conf_files h q)"

definition quiet :: "conf_step \<Rightarrow> bool" where
  "quiet f \<longleftrightarrow> (\<forall>h. same_elsewhere h (snd (f h)))"

lemma quiet_step: "quiet f \<Longrightarrow> f h = (ok, h') \<Longrightarrow> same_elsewhere h h'"
  by (metis quiet_def snd_conv)

lemma same_elsewhere_trans: "same_elsewhere h h1 \<Longrightarrow> same_elsewhere h1 h2 \<Longrightarrow> same_elsewhere h h2"
  by (simp add: same_elsewhere_def)

lemma quiet_steps: "\<forall>f\<in>set fs. quiet f \<Longrightarrow> quiet (steps fs)"
proof (induction fs)
  case Nil
  then show ?case by (simp add: quiet_def same_elsewhere_def)
next
  case (Cons f fs)
  then have f: "quiet f" and rest: "quiet (steps fs)" by simp_all
  have "same_elsewhere h (snd (steps (f # fs) h))" for h
  proof (cases "f h")
    case (Pair ok h1)
    have "same_elsewhere h h1" by (rule quiet_step[OF f Pair])
    moreover have "same_elsewhere h1 (snd (steps fs h1))" using rest by (simp add: quiet_def)
    ultimately show ?thesis using same_elsewhere_trans by (auto simp: Pair)
  qed
  then show ?case by (simp add: quiet_def)
qed

lemma quiet_parts: "quiet asked" "quiet reload" "quiet (put_back t original)" "quiet (atomic_write (Live t) data)"
proof -
  show "quiet asked" using asked_same by (simp add: quiet_def same_elsewhere_def) (metis prod.collapse)
  show "quiet reload" using reload_effect by (simp add: quiet_def same_elsewhere_def) (metis prod.collapse)
  show "quiet (put_back t original)" using put_back_effect unfolding quiet_def same_elsewhere_def by (metis prod.collapse)
  show "quiet (atomic_write (Live t) data)" using atomic_write_live(3,5) unfolding quiet_def same_elsewhere_def by (metis prod.collapse)
qed

text \<open>Whatever is announced as restored is restored, and loaded.\<close>

lemma restore_effect:
  "(said (restore originals h) = said h @ [RESTORED] \<and> live (restore originals h) = originals \<and> loaded (restore originals h) = originals)
   \<or> said (restore originals h) = said h @ [UNCONFIRMED]"
  "(\<forall>q. (\<nexists>u. q = Live u \<or> q = Temporary (Live u)) \<longrightarrow> conf_files (restore originals h) q = conf_files h q)"
proof -
  let ?all = "[put_back Site (originals Site), put_back Upgrade_Map (originals Upgrade_Map),
          put_back Active_Upstream (originals Active_Upstream), put_back Sync_Location (originals Sync_Location),
          asked, reload]"
  obtain ok h1 where run: "steps ?all h = (ok, h1)" by fastforce
  have "quiet (steps ?all)" by (rule quiet_steps) (simp add: quiet_parts)
  then have same: "same_elsewhere h h1" using run by (rule quiet_step)
  have "live h1 = originals \<and> loaded h1 = originals" if success: ok
  proof -
    obtain h2 h3 h4 h5 h6 where h: "put_back Site (originals Site) h = (True, h2)"
      "put_back Upgrade_Map (originals Upgrade_Map) h2 = (True, h3)" "put_back Active_Upstream (originals Active_Upstream) h3 = (True, h4)"
      "put_back Sync_Location (originals Sync_Location) h4 = (True, h5)" "asked h5 = (True, h6)" "reload h6 = (True, h1)"
      using run success by (auto split: prod.splits if_splits)
    have "live h5 t = originals t" for t
      using put_back_effect[OF h(1)] put_back_effect[OF h(2)] put_back_effect[OF h(3)] put_back_effect[OF h(4)]
      by (cases t) simp_all
    then show ?thesis
      using asked_same(2)[OF h(5)] reload_effect(2,4)[OF h(6)] by auto
  qed
  then show "(said (restore originals h) = said h @ [RESTORED] \<and> live (restore originals h) = originals \<and> loaded (restore originals h) = originals)
   \<or> said (restore originals h) = said h @ [UNCONFIRMED]"
    "(\<forall>q. (\<nexists>u. q = Live u \<or> q = Temporary (Live u)) \<longrightarrow> conf_files (restore originals h) q = conf_files h q)"
    using run same by (simp_all add: restore_def say_def live_def fun_eq_iff same_elsewhere_def)
qed

section \<open>The replacement\<close>

lemma write_all_quiet:
  assumes "write_all ws changed h = (written, n, h')"
  shows "same_elsewhere h h' \<and> loaded h' = loaded h \<and> changed \<le> n \<and> (\<forall>u. u \<notin> fst ` set ws \<longrightarrow> live h' u = live h u)"
  using assms
proof (induction ws arbitrary: changed h)
  case Nil
  then show ?case by (simp add: same_elsewhere_def)
next
  case (Cons w ws)
  obtain t data where w: "w = (t, data)" by (cases w)
  obtain ok h1 where first: "atomic_write (Live t) data h = (ok, h1)" by fastforce
  have one: "same_elsewhere h h1" by (rule quiet_step[OF quiet_parts(4) first])
  note effect = atomic_write_live[OF first]
  show ?case
  proof (cases ok)
    case True
    then have "write_all ws (changed + 1) h1 = (written, n, h')"
      using Cons.prems first by (simp add: w)
    from Cons.IH[OF this] show ?thesis
      using one effect same_elsewhere_trans[OF one] by (auto simp: w)
  next
    case False
    then show ?thesis using Cons.prems first one effect by (auto simp: w)
  qed
qed

lemma write_all_done:
  assumes "write_all ws changed h = (True, n, h')" and "distinct (map fst ws)" and "(t, data) \<in> set ws"
  shows "live h' t = Some data"
  using assms
proof (induction ws arbitrary: changed h)
  case (Cons w ws)
  obtain u new where w: "w = (u, new)" by (cases w)
  obtain ok h1 where first: "atomic_write (Live u) new h = (ok, h1)" by fastforce
  have ok: ok and rest: "write_all ws (changed + 1) h1 = (True, n, h')"
    using Cons.prems(1) first by (simp_all add: w split: if_splits)
  have new: "live h1 u = Some new" using atomic_write_live(2)[OF first] ok by simp
  show ?case
  proof (cases "(t, data) = w")
    case True
    then have "u \<notin> fst ` set ws" "t = u" "data = new" using Cons.prems(2) by (auto simp: w)
    then show ?thesis using write_all_quiet[OF rest] new by simp
  next
    case False
    then show ?thesis using Cons.IH[OF rest] Cons.prems(2,3) by auto
  qed
qed simp

lemma write_all_none:
  assumes "write_all ((t, data) # ws) changed h = (False, changed, h')"
  shows "live h' = live h \<or> live h' = (live h)(t := Some data)"
proof -
  obtain ok h1 where first: "atomic_write (Live t) data h = (ok, h1)" by fastforce
  have "\<not> ok"
  proof
    assume ok
    then have "write_all ws (changed + 1) h1 = (False, changed, h')" using assms first by simp
    from write_all_quiet[OF this] show False by simp
  qed
  then have "h' = h1" using assms first by simp
  then show ?thesis
    using atomic_write_live(1,2)[OF first] by (auto simp: fun_eq_iff)
qed

lemma verify_and_reload_effect:
  assumes "verify_and_reload h = (ok, h')"
  shows "same_elsewhere h h' \<and> live h' = live h \<and> (ok \<longrightarrow> loaded h' = live h)"
proof -
  have "same_elsewhere h h'"
    using quiet_step[OF quiet_steps, of "[asked, asked, reload, asked]"] assms quiet_parts
    by (auto simp: verify_and_reload_def)
  moreover have "live h' = live h"
    using assms by (auto simp: verify_and_reload_def split: prod.splits if_splits dest!: asked_same(2) reload_effect(2))
  moreover have "loaded h' = live h" if ok
  proof -
    obtain h1 h2 h3 where h: "asked h = (True, h1)" "asked h1 = (True, h2)" "reload h2 = (True, h3)" "asked h3 = (ok, h')"
      using assms \<open>ok\<close> by (auto simp: verify_and_reload_def split: prod.splits if_splits)
    show ?thesis
      using asked_same[OF h(1)] asked_same[OF h(2)] reload_effect[OF h(3)] asked_same[OF h(4)] by simp
  qed
  ultimately show ?thesis by simp
qed

abbreviation MANAGED :: "managed list" where
  "MANAGED \<equiv> [Site, Upgrade_Map, Active_Upstream, Sync_Location]"

lemma install_outcome:
  assumes "install new h = (ok, h')"
  shows "\<forall>q. (\<nexists>u. q = Live u \<or> q = Temporary (Live u)) \<longrightarrow> conf_files h' q = conf_files h q"
    and "ok \<Longrightarrow> live h' = Some \<circ> new \<and> loaded h' = live h' \<and> said h' = said h"
    and "\<not> ok \<Longrightarrow> (said h' = said h @ [RESTORED] \<and> live h' = live h \<and> loaded h' = live h)
      \<or> said h' = said h @ [UNCONFIRMED]
      \<or> (said h' = said h \<and> loaded h' = loaded h \<and> (live h' = live h \<or> live h' = (live h)(Site := Some (new Site))))"
proof -
  let ?ws = "map (\<lambda>t. (t, new t)) MANAGED"
  obtain written n h1 where writes: "write_all ?ws 0 h = (written, n, h1)" by (metis prod_cases3)
  obtain good h2 where checks: "(if written then verify_and_reload h1 else (False, h1)) = (good, h2)" by fastforce
  have final: "ok = good" "h' = (if good then h2 else if 0 < n then restore (live h) h2 else h2)"
    using assms writes checks by (auto simp: install_def Let_def split: if_splits)
  have first: "same_elsewhere h h1" "loaded h1 = loaded h" using write_all_quiet[OF writes] by auto
  have second: "same_elsewhere h1 h2 \<and> live h2 = live h1 \<and> (good \<longrightarrow> written \<and> loaded h2 = live h1) \<and> (\<not> written \<longrightarrow> h2 = h1 \<and> \<not> good)"
    using checks verify_and_reload_effect[of h1 good h2] by (cases written) (auto simp: same_elsewhere_def)
  have both: "same_elsewhere h h2" using first(1) second same_elsewhere_trans by blast
  show "\<forall>q. (\<nexists>u. q = Live u \<or> q = Temporary (Live u)) \<longrightarrow> conf_files h' q = conf_files h q"
    using both restore_effect(2)[of "live h" h2] by (simp add: final(2) same_elsewhere_def)
  show "live h' = Some \<circ> new \<and> loaded h' = live h' \<and> said h' = said h" if ok
  proof -
    have good using that final(1) by simp
    then have "live h1 t = Some (new t)" for t
      using second writes write_all_done[of ?ws 0 h n h1 t "new t"] by (cases t) auto
    then show ?thesis using \<open>good\<close> second both by (auto simp: final(2) same_elsewhere_def)
  qed
  assume "\<not> ok"
  then have bad: "\<not> good" using final(1) by simp
  show "(said h' = said h @ [RESTORED] \<and> live h' = live h \<and> loaded h' = live h)
      \<or> said h' = said h @ [UNCONFIRMED]
      \<or> (said h' = said h \<and> loaded h' = loaded h \<and> (live h' = live h \<or> live h' = (live h)(Site := Some (new Site))))"
  proof (cases "0 < n")
    case True
    then have "h' = restore (live h) h2" using bad by (simp add: final(2))
    moreover have "said h2 = said h" using both by (simp add: same_elsewhere_def)
    ultimately show ?thesis using restore_effect(1)[of "live h" h2] by auto
  next
    case False
    have "\<not> written"
    proof
      assume written
      then have "n = 4" using writes by (auto split: prod.splits if_splits)
      then show False using False by simp
    qed
    then have "live h1 = live h \<or> live h1 = (live h)(Site := Some (new Site))"
      using writes False write_all_none[of Site "new Site" _ 0 h h1] by simp
    then show ?thesis using False bad second first both \<open>\<not> written\<close> by (simp add: final(2) same_elsewhere_def)
  qed
qed

lemma cut_over_cases:
  assumes "cut_over new h = (ok, h')"
  obtains (no_backup) "back_up_all h = (False, h')" and "\<not> ok"
  | (backup) h1 where "back_up_all h = (True, h1)" and "install new h1 = (ok, h')"
  using assms by (auto simp: cut_over_def and_next_def split: prod.splits if_splits)

text \<open>
  C17. C. A cutover of the managed files that does not go through ends in one of three ways: it announces
  the restoration, and then all four files and the loaded configuration are the earlier ones; it
  announces that the restoration is not confirmed; or it announces nothing, and then Nginx was not
  reloaded and at most the site file has its new content.\<close>

theorem failed_cut_over:
  assumes "cut_over new h = (False, h')"
  shows "(said h' = said h @ [RESTORED] \<and> live h' = live h \<and> loaded h' = live h)
     \<or> said h' = said h @ [UNCONFIRMED]
     \<or> (said h' = said h \<and> loaded h' = loaded h \<and> (live h' = live h \<or> live h' = (live h)(Site := Some (new Site))))"
  using assms
proof (cases rule: cut_over_cases)
  case no_backup
  then show ?thesis using back_up_all_effect[OF no_backup(1)] by simp
next
  case (backup h1)
  then show ?thesis using back_up_all_effect[OF backup(1)] install_outcome(3)[OF backup(2)] by simp
qed

text \<open>
  C18. C. No managed file changes before all four are backed up: whenever a cutover, failed or not, leaves
  one that differs from what was there, every backup holds the content it started with, or the mark of
  an absent file.\<close>

theorem changed_only_after_backup:
  assumes "cut_over new h = (ok, h')" and "live h' \<noteq> live h"
  shows "backed_up (live h) t h'"
  using assms(1)
proof (cases rule: cut_over_cases)
  case no_backup
  then show ?thesis using back_up_all_effect(1)[OF no_backup(1)] assms(2) by simp
next
  case (backup h1)
  have "backed_up (live h) t h1" using back_up_all_effect(4)[OF backup(1)] by simp
  then show ?thesis
    using install_outcome(1)[OF backup(2)] by (auto simp: backed_up_def split: option.splits)
qed

section \<open>Runs\<close>

definition old_host :: "bool list \<Rightarrow> nginx_host" where
  "old_host as = \<lparr>conf_files = [Live Site \<mapsto> ''old'', Live Sync_Location \<mapsto> ''sync''], loaded = (\<lambda>t. None), answers = as, said = []\<rparr>"

definition new_files :: "managed \<Rightarrow> pystr" where
  "new_files t = ''new''"

text \<open>Each of the eight writes makes eight calls; the syntax test, the 66th, fails.\<close>

lemma syntax_test_fails: "fst (cut_over new_files (old_host (replicate 65 True @ [False]))) = False"
  by code_simp

theorem failed_cut_over_witness:
  "\<exists>h'. cut_over new_files (old_host (replicate 65 True @ [False])) = (False, h')
     \<and> ((said h' = [RESTORED] \<and> live h' = live (old_host []) \<and> loaded h' = live (old_host []))
       \<or> said h' = [UNCONFIRMED]
       \<or> (said h' = [] \<and> (live h' = live (old_host []) \<or> live h' = (live (old_host []))(Site := Some ''new''))))"
proof -
  obtain h' where run: "cut_over new_files (old_host (replicate 65 True @ [False])) = (False, h')"
    using syntax_test_fails by (metis prod.collapse)
  moreover have "said (old_host (replicate 65 True @ [False])) = []"
    "live (old_host (replicate 65 True @ [False])) = live (old_host [])"
    by (simp_all only: old_host_def live_def fun_eq_iff nginx_host.simps simp_thms)
  ultimately show ?thesis
    using failed_cut_over[OF run] by (auto simp: new_files_def)
qed

lemma last_sync_fails:
  "case cut_over new_files (old_host (replicate 39 True @ [False])) of (ok, h') \<Rightarrow>
     \<not> ok \<and> live h' Site = Some ''new'' \<and> said h' = []"
  by code_simp

theorem changed_only_after_backup_witness:
  "\<exists>ok h'. cut_over new_files (old_host (replicate 39 True @ [False])) = (ok, h') \<and> backed_up (live (old_host (replicate 39 True @ [False]))) Site h'"
proof -
  let ?h = "old_host (replicate 39 True @ [False])"
  obtain ok h' where run: "cut_over new_files ?h = (ok, h')" by fastforce
  have "live h' Site = Some ''new''" using last_sync_fails run by simp
  moreover have "live ?h Site = Some ''old''" by (simp add: old_host_def live_def)
  ultimately have "live h' \<noteq> live ?h" by auto
  then show ?thesis using changed_only_after_backup[OF run] run by blast
qed

text \<open>C. When the directory cannot be synced after the site file was renamed into place, the write
  raises and the flag of the site is not set: the run fails with the new site on disk, and neither
  restores it nor says so.\<close>

theorem new_site_left_in_place:
  "case cut_over new_files (old_host (replicate 39 True @ [False])) of (ok, h') \<Rightarrow>
     \<not> ok \<and> live h' Site = Some ''new'' \<and> live h' Upgrade_Map = None \<and> said h' = []"
  by code_simp

end
