(* ===== verification/Redis_Acl.thy ===== *)
theory Redis_Acl
  imports Py_Io
begin

text \<open>
  The access lists of \<open>deploy/configure-redis-acl.py\<close> and
  \<open>deploy/configure-redis-migration-acl.py\<close>: the three files for the application, the nonce store
  of the service and the one-time migration, the checks before they are written, and the order of
  the writes. SHA-256 of a password, in hexadecimal, is a parameter.
\<close>

section \<open>Rendering\<close>

definition SUB2API_KEY_PATTERNS :: "pystr list" where
  "SUB2API_KEY_PATTERNS =
    [''apikey:*'', ''billing:*'', ''concurrency:*'', ''cyber_session_block:*'', ''dashboard:stats:v1'',
     ''error_passthrough_rules'', ''fingerprint:*'', ''internal500_count:account:*'', ''leader:lock:*'',
     ''masked_session:*'', ''notify_code_user_rate:*'', ''notify_verify:*'', ''oauth:*'',
     ''openai_403_count:account:*'', ''ops:*'', ''password_reset:*'', ''password_reset_sent:*'',
     ''proxy:latency:*'', ''rate_limit:*'', ''redeem:*'', ''refresh_token:*'', ''rpm:*'', ''sched:*'',
     ''session_limit:account:*'', ''sticky_session:*'', ''sub2api:dashboard:*'',
     ''temp_unsched:account:*'', ''timeout_count:account:*'', ''tls_fingerprint_profiles'',
     ''token_family:*'', ''totp:*'', ''umq:*'', ''update:latest'', ''user_refresh_tokens:*'',
     ''verify_code:*'', ''wait:account:*'', ''websearch:*'', ''window_cost:account:*'']"

definition SUB2API_CHANNEL_PATTERNS :: "pystr list" where
  "SUB2API_CHANNEL_PATTERNS =
    [''auth:cache:invalidate'', ''error_passthrough_rules_updated'',
     ''sub2api:prompt_guard:config:invalidate'', ''subscription:cache:invalidate'',
     ''tls_fingerprint_profiles_updated'']"

definition validate_password :: "pystr \<Rightarrow> pystr \<Rightarrow> unit res" where
  "validate_password value label =
     (if length value < 24 then Inl (ValueError (label @ '' must contain at least 24 characters''))
      else if 4096 < length value \<or> list_ex (\<lambda>c. ord c < 33 \<or> 126 < ord c) value
      then Inl (ValueError (label @ '' must contain visible ASCII characters only''))
      else Inr ())"

definition acl_line :: "pystr list \<Rightarrow> pystr" where
  "acl_line rules = join_with '' '' rules @ [CHR 0x0A]"

definition render_application_acl :: "(bytes \<Rightarrow> pystr) \<Rightarrow> pystr \<Rightarrow> pystr res" where
  "render_application_acl sha256_hex default_password =
     res_bind (validate_password default_password ''REDIS_PASSWORD'') (\<lambda>_.
       Inr (acl_line
         ([''user default reset on'', CHR ''#'' # sha256_hex default_password, ''resetkeys'']
          @ map (Cons (CHR ''~'')) SUB2API_KEY_PATTERNS @ [''resetchannels'']
          @ map (Cons (CHR ''&'')) SUB2API_CHANNEL_PATTERNS @ [''+@all'', ''-@admin'', ''-@dangerous''])))"

definition render_nonce_acl :: "(bytes \<Rightarrow> pystr) \<Rightarrow> pystr \<Rightarrow> pystr res" where
  "render_nonce_acl sha256_hex sync_password =
     res_bind (validate_password sync_password ''SUB2API_SYNC_REDIS_PASSWORD'') (\<lambda>_.
       Inr (''user default off'' @ [CHR 0x0A] @ acl_line
         [''user sub2api_sync reset on'', CHR ''#'' # sha256_hex sync_password, ''resetkeys'', ''~sub2api-sync:nonce:*'',
          ''resetchannels'', ''-@all'', ''+ping'', ''+set'', ''+ttl'', ''+select'']))"

definition render_migration_acl :: "(bytes \<Rightarrow> pystr) \<Rightarrow> pystr \<Rightarrow> pystr res" where
  "render_migration_acl sha256_hex migration_password =
     res_bind (validate_password migration_password ''SUB2API_TARGET_REDIS_PASSWORD'') (\<lambda>_.
       Inr (''user default off'' @ [CHR 0x0A] @ acl_line
         [''user sub2api_migration reset on'', CHR ''#'' # sha256_hex migration_password, ''resetkeys'', ''~sub2api-sync:nonce:*'',
          ''resetchannels'', ''-@all'', ''+ping'', ''+info'', ''+dbsize'', ''+config|get'', ''+restore'', ''+unlink'', ''+select'']))"

definition validate_distinct_passwords :: "pystr \<Rightarrow> pystr \<Rightarrow> unit res" where
  "validate_distinct_passwords default_password sync_password =
     res_bind (validate_password default_password ''REDIS_PASSWORD'') (\<lambda>_.
     res_bind (validate_password sync_password ''SUB2API_SYNC_REDIS_PASSWORD'') (\<lambda>_.
       if default_password = sync_password then Inl (ValueError ''Redis application and sync credentials must be distinct'')
       else Inr ()))"

section \<open>The command of the operator\<close>

text \<open>What the host answers: whether the release guard passes, the effective user, the private
  environment, the check of the data directory, and the atomic write of a file.\<close>

record 'w acl_host =
  ah_guard :: "unit res"
  ah_euid :: int
  ah_environment :: "(pystr \<times> pystr) list res"
  ah_directory :: "unit res"
  ah_write :: "pystr \<Rightarrow> pystr \<Rightarrow> 'w \<Rightarrow> unit res \<times> 'w"

definition EXPECTED_DATA_ROOT_ACL :: pystr where "EXPECTED_DATA_ROOT_ACL = ''/mnt/data/sub2api-gate''"
definition APPLICATION_ACL_FILENAME :: pystr where "APPLICATION_ACL_FILENAME = ''users.acl''"
definition NONCE_ACL_FILENAME :: pystr where "NONCE_ACL_FILENAME = ''nonce-users.acl''"

definition value_or_empty :: "(pystr \<times> pystr) list \<Rightarrow> pystr \<Rightarrow> pystr" where
  "value_or_empty values k = (case map_of values k of None \<Rightarrow> [] | Some v \<Rightarrow> v)"

text \<open>Everything before the first write.\<close>

definition plan_acl :: "(bytes \<Rightarrow> pystr) \<Rightarrow> 'w acl_host \<Rightarrow> (pystr \<times> pystr) res" where
  "plan_acl sha256_hex host =
     res_bind (ah_guard host) (\<lambda>_.
       if ah_euid host \<noteq> 0 then Inl (RuntimeError ''Redis ACL apply requires root'')
      else res_bind (ah_environment host) (\<lambda>values.
        if map_of values ''SUB2API_DATA_ROOT'' \<noteq> Some EXPECTED_DATA_ROOT_ACL
        then Inl (RuntimeError ''SUB2API_DATA_ROOT must be exactly /mnt/data/sub2api-gate'')
        else (let default_password = value_or_empty values ''REDIS_PASSWORD'';
                  sync_password = value_or_empty values ''SUB2API_SYNC_REDIS_PASSWORD'' in
          res_bind (validate_distinct_passwords default_password sync_password) (\<lambda>_.
          res_bind (render_application_acl sha256_hex default_password) (\<lambda>application.
          res_bind (render_nonce_acl sha256_hex sync_password) (\<lambda>nonce.
          res_bind (ah_directory host) (\<lambda>_. Inr (application, nonce))))))))"

definition apply_acl :: "(bytes \<Rightarrow> pystr) \<Rightarrow> 'w acl_host \<Rightarrow> (unit, 'w) io" where
  "apply_acl sha256_hex host =
     io_bind (io_lift (plan_acl sha256_hex host)) (\<lambda>(application, nonce).
     io_bind (ah_write host APPLICATION_ACL_FILENAME application) (\<lambda>_.
       ah_write host NONCE_ACL_FILENAME nonce))"

text \<open>The content of the migration list: its password differs from those of the running services.\<close>

definition plan_migration_acl :: "(bytes \<Rightarrow> pystr) \<Rightarrow> (pystr \<times> pystr) list \<Rightarrow> pystr res" where
  "plan_migration_acl sha256_hex values =
     (let password = value_or_empty values ''SUB2API_TARGET_REDIS_PASSWORD''
      in if list_ex (\<lambda>name. password \<noteq> [] \<and> Some password = map_of values name)
              [''REDIS_PASSWORD'', ''SUB2API_SYNC_REDIS_PASSWORD'']
         then Inl (RuntimeError ''migration Redis credential must be one-time and distinct'')
         else render_migration_acl sha256_hex password)"

end
