(* ===== verification/Redis_Acl_Facts.thy ===== *)
theory Redis_Acl_Facts
  imports Redis_Acl Redis_Migration_Facts Auth
begin

text \<open>
  What the access lists of \<open>Redis_Acl\<close> grant, by a reader of access lists that follows the
  documentation of Redis for the rules that occur in them; and that they are enough for the commands
  the service and the migration send.
\<close>

section \<open>A reader of access lists\<close>

record acl_user =
  au_on :: bool
  au_hashes :: "pystr list"
  au_keys :: "pystr list"
  au_channels :: "pystr list"
  au_commands :: "pystr list"

definition no_access :: acl_user where
  "no_access = \<lparr>au_on = False, au_hashes = [], au_keys = [], au_channels = [], au_commands = []\<rparr>"

definition acl_rule :: "pystr \<Rightarrow> acl_user \<Rightarrow> acl_user" where
  "acl_rule r u =
     (if r = ''reset'' then no_access
      else if r = ''on'' then u\<lparr>au_on := True\<rparr>
      else if r = ''off'' then u\<lparr>au_on := False\<rparr>
      else if r = ''resetkeys'' then u\<lparr>au_keys := []\<rparr>
      else if r = ''resetchannels'' then u\<lparr>au_channels := []\<rparr>
      else case r of
        [] \<Rightarrow> u
      | c # rest \<Rightarrow>
          if c = CHR ''#'' then u\<lparr>au_hashes := au_hashes u @ [rest]\<rparr>
          else if c = CHR ''~'' then u\<lparr>au_keys := au_keys u @ [rest]\<rparr>
          else if c = CHR ''&'' then u\<lparr>au_channels := au_channels u @ [rest]\<rparr>
          else u\<lparr>au_commands := au_commands u @ [r]\<rparr>)"

fun acl_entry :: "pystr list \<Rightarrow> (pystr \<times> acl_user) option" where
  "acl_entry (keyword # name # rules) = (if keyword = ''user'' then Some (name, fold acl_rule rules no_access) else None)"
| "acl_entry _ = None"

definition acl_users :: "pystr \<Rightarrow> (pystr \<times> acl_user) option list" where
  "acl_users file = map (\<lambda>l. acl_entry (split_on CHR '' '' l)) (filter (\<lambda>l. l \<noteq> []) (split_on (CHR 0x0A) file))"

text \<open>Command rules count in their order; the members of a category are documented by Redis.\<close>

definition command_rule :: "(pystr \<Rightarrow> pystr \<Rightarrow> bool) \<Rightarrow> pystr \<Rightarrow> pystr \<Rightarrow> bool \<Rightarrow> bool" where
  "command_rule category cmd r granted =
     (case r of
        sign # rest \<Rightarrow>
          if rest = ''@all'' \<or> rest = cmd \<or> (case rest of x # c \<Rightarrow> x = CHR ''@'' \<and> category c cmd | [] \<Rightarrow> False)
          then sign = CHR ''+'' else granted
      | [] \<Rightarrow> granted)"

definition may_run :: "(pystr \<Rightarrow> pystr \<Rightarrow> bool) \<Rightarrow> pystr list \<Rightarrow> pystr \<Rightarrow> bool" where
  "may_run category rules cmd = fold (command_rule category cmd) rules False"

text \<open>The patterns that occur are literal or end with one star.\<close>

definition key_matches :: "pystr \<Rightarrow> pystr \<Rightarrow> bool" where
  "key_matches pattern k \<longleftrightarrow> (if pattern \<noteq> [] \<and> last pattern = CHR ''*'' then prefix (butlast pattern) k else pattern = k)"

text \<open>The name of a command, with its subcommand where Redis distinguishes those, and its keys.\<close>

fun command_id :: "pystr list \<Rightarrow> pystr" where
  "command_id [] = []"
| "command_id [name] = lower name"
| "command_id (name # sub # rest) = (if lower name = ''config'' then ''config|'' @ lower sub else lower name)"

fun command_keys :: "pystr list \<Rightarrow> pystr list" where
  "command_keys (name # k # rest) =
     (if lower name = ''unlink'' then k # rest else if lower name \<in> {''set'', ''ttl'', ''restore''} then [k] else [])"
| "command_keys _ = []"

text \<open>\<open>AUTH\<close> is open to everyone.\<close>

definition acl_permits :: "(pystr \<Rightarrow> pystr \<Rightarrow> bool) \<Rightarrow> acl_user \<Rightarrow> pystr list \<Rightarrow> bool" where
  "acl_permits category u parts \<longleftrightarrow>
     command_id parts = ''auth''
     \<or> (au_on u \<and> may_run category (au_commands u) (command_id parts)
        \<and> list_all (\<lambda>k. list_ex (\<lambda>p. key_matches p k) (au_keys u)) (command_keys parts))"

section \<open>What the files grant\<close>

lemma hex_plain:
  assumes "hex_digest h"
  shows "CHR '' '' \<notin> set h" "CHR 0x0A \<notin> set h"
  using assms by (auto simp: hex_digest_def list_all_iff is_hex_def is_digit_def)

lemma acl_line_words:
  assumes "\<forall>w\<in>set words. CHR '' '' \<notin> set w \<and> CHR 0x0A \<notin> set w" and "words \<noteq> []" and "hd words \<noteq> []"
  shows "acl_users (acl_line words) = [acl_entry words]"
proof -
  let ?l = "join_with '' '' words"
  have words: "split_on (CHR '' '') ?l = words"
    using assms(1,2) by (intro split_on_join) auto
  have "set ?l \<subseteq> insert (CHR '' '') (\<Union>w\<in>set words. set w)"
    by (induction "'' ''" words rule: join_with.induct) auto
  then have "CHR 0x0A \<notin> set ?l" using assms(1) by auto
  then have "split_on (CHR 0x0A) (acl_line words) = [?l, []]"
    using split_on_append_sep[of "CHR 0x0A" ?l "[]"] by (simp add: acl_line_def)
  moreover have "?l \<noteq> []" using assms(2,3) by (cases words rule: remdups_adj.cases) auto
  ultimately show ?thesis using words by (simp add: acl_users_def)
qed

lemma acl_users_default_off:
  "acl_users (''user default off'' @ CHR 0x0A # rest) = Some (''default'', no_access) # acl_users rest"
proof -
  have "split_on (CHR 0x0A) (''user default off'' @ CHR 0x0A # rest) = ''user default off'' # split_on (CHR 0x0A) rest"
    by (rule split_on_append_sep) simp
  then show ?thesis by (simp add: acl_users_def acl_rule_def no_access_def)
qed

definition nonce_user :: "pystr \<Rightarrow> acl_user" where
  "nonce_user h = \<lparr>au_on = True, au_hashes = [h], au_keys = [''sub2api-sync:nonce:*''], au_channels = [],
     au_commands = [''-@all'', ''+ping'', ''+set'', ''+ttl'', ''+select'']\<rparr>"

definition migration_user :: "pystr \<Rightarrow> acl_user" where
  "migration_user h = \<lparr>au_on = True, au_hashes = [h], au_keys = [''sub2api-sync:nonce:*''], au_channels = [],
     au_commands = [''-@all'', ''+ping'', ''+info'', ''+dbsize'', ''+config|get'', ''+restore'', ''+unlink'', ''+select'']\<rparr>"

lemma nonce_words:
  "render_nonce_acl sha pw = Inr file \<Longrightarrow> file = ''user default off'' @ CHR 0x0A # acl_line
     [''user'', ''sub2api_sync'', ''reset'', ''on'', CHR ''#'' # sha pw, ''resetkeys'', ''~sub2api-sync:nonce:*'',
      ''resetchannels'', ''-@all'', ''+ping'', ''+set'', ''+ttl'', ''+select'']"
  by (auto simp: render_nonce_acl_def res_bind_eq_Inr acl_line_def)

lemma migration_words:
  "render_migration_acl sha pw = Inr file \<Longrightarrow> file = ''user default off'' @ CHR 0x0A # acl_line
     [''user'', ''sub2api_migration'', ''reset'', ''on'', CHR ''#'' # sha pw, ''resetkeys'', ''~sub2api-sync:nonce:*'',
      ''resetchannels'', ''-@all'', ''+ping'', ''+info'', ''+dbsize'', ''+config|get'', ''+restore'', ''+unlink'', ''+select'']"
  by (auto simp: render_migration_acl_def res_bind_eq_Inr acl_line_def)

lemma nonce_acl_users:
  assumes "render_nonce_acl sha pw = Inr file" and "hex_digest (sha pw)"
  shows "acl_users file = [Some (''default'', no_access), Some (''sub2api_sync'', nonce_user (sha pw))]"
  unfolding nonce_words[OF assms(1)] acl_users_default_off
  by (subst acl_line_words) (use hex_plain[OF assms(2)] in \<open>simp_all add: acl_rule_def no_access_def nonce_user_def\<close>)

lemma migration_acl_users:
  assumes "render_migration_acl sha pw = Inr file" and "hex_digest (sha pw)"
  shows "acl_users file = [Some (''default'', no_access), Some (''sub2api_migration'', migration_user (sha pw))]"
  unfolding migration_words[OF assms(1)] acl_users_default_off
  by (subst acl_line_words) (use hex_plain[OF assms(2)] in \<open>simp_all add: acl_rule_def no_access_def migration_user_def\<close>)

section \<open>The nonce store of the service\<close>

lemma lower_names:
  "lower ''AUTH'' = ''auth''" "lower ''SELECT'' = ''select''" "lower ''PING'' = ''ping''" "lower ''SET'' = ''set''"
  "lower ''INFO'' = ''info''" "lower ''DBSIZE'' = ''dbsize''" "lower ''CONFIG'' = ''config''" "lower ''GET'' = ''get''"
  "lower ''RESTORE'' = ''restore''" "lower ''UNLINK'' = ''unlink''"
  by code_simp+

lemma last_star: "key_matches ''sub2api-sync:nonce:*'' k = prefix ''sub2api-sync:nonce:'' k"
  by (simp add: key_matches_def)

lemma nonce_user_permits:
  "acl_permits category (nonce_user h) parts \<longleftrightarrow>
     command_id parts = ''auth''
     \<or> (command_id parts \<in> {''ping'', ''set'', ''ttl'', ''select''} \<and> list_all (prefix ''sub2api-sync:nonce:'') (command_keys parts))"
proof -
  have "may_run category (au_commands (nonce_user h)) cmd \<longleftrightarrow> cmd \<in> {''ping'', ''set'', ''ttl'', ''select''}" for cmd
    by (auto simp: may_run_def nonce_user_def command_rule_def)
  then show ?thesis by (auto simp: acl_permits_def nonce_user_def last_star)
qed

text \<open>
  C24. C. The access list of the nonce store turns the default user off and gives the service's user,
  whose only credential is the digest of the password, PING, SET, TTL and SELECT on the keys of the
  nonces, no channel and nothing else.\<close>

theorem nonce_acl_grants_exactly:
  assumes "render_nonce_acl sha256_hex password = Inr file" and "hex_digest (sha256_hex password)"
  shows "\<exists>u. acl_users file = [Some (''default'', no_access), Some (''sub2api_sync'', u)]
     \<and> au_hashes u = [sha256_hex password] \<and> au_channels u = []
     \<and> (\<forall>category parts. acl_permits category u parts \<longleftrightarrow> command_id parts = ''auth''
         \<or> (command_id parts \<in> {''ping'', ''set'', ''ttl'', ''select''} \<and> list_all (prefix ''sub2api-sync:nonce:'') (command_keys parts)))"
proof (intro exI conjI allI)
  show "acl_users file = [Some (''default'', no_access), Some (''sub2api_sync'', nonce_user (sha256_hex password))]"
    by (rule nonce_acl_users[OF assms])
  show "au_hashes (nonce_user (sha256_hex password)) = [sha256_hex password]" "au_channels (nonce_user (sha256_hex password)) = []"
    by (simp_all add: nonce_user_def)
qed (rule nonce_user_permits)

definition example_password :: pystr where "example_password = replicate 32 (CHR ''p'')"
definition example_digest :: "bytes \<Rightarrow> pystr" where "example_digest b = replicate 64 (CHR ''a'')"

lemma example_digest_hex: "hex_digest (example_digest b)"
  by (simp add: hex_digest_def example_digest_def is_hex_def list_all_iff)

lemma example_password_valid: "validate_password example_password label = Inr ()"
  by (simp add: validate_password_def example_password_def list_ex_iff)

theorem nonce_acl_grants_exactly_witness:
  "\<exists>file u. render_nonce_acl example_digest example_password = Inr file
     \<and> acl_users file = [Some (''default'', no_access), Some (''sub2api_sync'', u)]
     \<and> au_hashes u = [example_digest example_password]"
proof -
  obtain content where "render_nonce_acl example_digest example_password = Inr content"
    by (simp add: render_nonce_acl_def example_password_valid res_bind_def)
  with nonce_acl_grants_exactly[OF this example_digest_hex] show ?thesis by blast
qed

lemma login_frames_permitted: "list_all (acl_permits category (nonce_user h)) (redis_login_frames env)"
  by (simp add: redis_login_frames_def Let_def nonce_user_permits lower_names)

lemma redis_command_permitted:
  assumes "acl_permits category (nonce_user h) parts"
  shows "list_all (acl_permits category (nonce_user h)) (snd (redis_command env decode parts evs))"
proof (cases "snd (redis_command env decode parts evs) = []")
  case False
  then have run: "redis_command env decode parts evs = redis_exchange decode (redis_login_frames env) parts evs"
    by (auto simp: redis_command_def split: if_splits)
  have "snd (redis_command env decode parts evs) = redis_login_frames env @ [parts]
      \<or> prefix (snd (redis_command env decode parts evs)) (redis_login_frames env)"
    using redis_exchange_sent[OF surjective_pairing, of decode "redis_login_frames env" parts evs] run by auto
  then show ?thesis
    using assms login_frames_permitted[of category h env] by (auto simp: list_all_iff prefix_def)
qed simp

text \<open>
  C22. C. The access list is enough for the service: every frame that the claim of a nonce or the health
  check sends, the set-up of the session included, is granted to the user of the nonce store that the
  list declares.\<close>

theorem service_commands_granted:
  assumes "render_nonce_acl sha256_hex password = Inr file" and "hex_digest (sha256_hex password)"
  shows "\<exists>u. acl_users file = [Some (''default'', no_access), Some (''sub2api_sync'', u)]
     \<and> list_all (acl_permits category u)
         (snd (redis_command env decode (set_nonce (''sub2api-sync:nonce:'' @ digest)) evs)
          @ snd (redis_command env decode [''PING''] evs'))"
proof -
  let ?u = "nonce_user (sha256_hex password)"
  have "acl_permits category ?u (set_nonce (''sub2api-sync:nonce:'' @ digest))"
    by (simp add: nonce_user_permits set_nonce_def lower_names)
  moreover have "acl_permits category ?u [''PING'']"
    by (simp add: nonce_user_permits lower_names)
  ultimately have "list_all (acl_permits category ?u)
         (snd (redis_command env decode (set_nonce (''sub2api-sync:nonce:'' @ digest)) evs)
          @ snd (redis_command env decode [''PING''] evs'))"
    by (simp add: redis_command_permitted)
  then show ?thesis using nonce_acl_users[OF assms] by blast
qed

theorem service_commands_granted_witness:
  "\<exists>file u. render_nonce_acl example_digest example_password = Inr file
     \<and> acl_users file = [Some (''default'', no_access), Some (''sub2api_sync'', u)]
     \<and> list_all (acl_permits (\<lambda>c x. False) u)
         (snd (redis_command [''SUB2API_SYNC_REDIS_PASSWORD'' \<mapsto> ''secret''] Inr (set_nonce (''sub2api-sync:nonce:'' @ ''ab'')) [])
          @ snd (redis_command [''SUB2API_SYNC_REDIS_PASSWORD'' \<mapsto> ''secret''] Inr [''PING''] []))"
proof -
  obtain content where "render_nonce_acl example_digest example_password = Inr content"
    by (simp add: render_nonce_acl_def example_password_valid res_bind_def)
  with service_commands_granted[OF this example_digest_hex] show ?thesis by blast
qed

section \<open>The migration\<close>

definition arg_text :: "command_arg \<Rightarrow> pystr" where
  "arg_text a = (case a of ArgBytes b \<Rightarrow> b | ArgText t \<Rightarrow> t | ArgInt i \<Rightarrow> int_str i | ArgOther \<Rightarrow> [])"

lemma migration_user_permits:
  "acl_permits category (migration_user h) parts \<longleftrightarrow>
     command_id parts = ''auth''
     \<or> (command_id parts \<in> {''ping'', ''info'', ''dbsize'', ''config|get'', ''restore'', ''unlink'', ''select''}
        \<and> list_all (prefix ''sub2api-sync:nonce:'') (command_keys parts))"
proof -
  have "may_run category (au_commands (migration_user h)) cmd \<longleftrightarrow>
      cmd \<in> {''ping'', ''info'', ''dbsize'', ''config|get'', ''restore'', ''unlink'', ''select''}" for cmd
    by (auto simp: may_run_def migration_user_def command_rule_def)
  then show ?thesis by (auto simp: acl_permits_def migration_user_def last_star)
qed

lemma permitted_granted:
  assumes "permitted ok cmd" and "\<And>k. ok k \<Longrightarrow> prefix ''sub2api-sync:nonce:'' k"
  shows "acl_permits category (migration_user h) (map arg_text cmd)"
proof -
  have keys: "list_all (prefix ''sub2api-sync:nonce:'') (map arg_text ks)" if "list_all (key_arg ok) ks" for ks
    using that assms(2) by (auto simp: list_all_iff key_arg_def arg_text_def split: command_arg.splits)
  consider rest where "cmd = ArgText ''INFO'' # rest" | rest where "cmd = ArgText ''DBSIZE'' # rest"
    | rest where "cmd = ArgText ''CONFIG'' # ArgText ''GET'' # rest"
    | k t v where "cmd = [ArgText ''RESTORE'', k, ArgInt t, v]" "key_arg ok k"
    | ks where "cmd = ArgText ''UNLINK'' # ks" "list_all (key_arg ok) ks"
  proof -
    have questions: "\<exists>name rest. cmd = ArgText name # rest \<and> (name \<in> {''INFO'', ''DBSIZE''}
        \<or> (name = ''CONFIG'' \<and> rest \<noteq> [] \<and> hd rest = ArgText ''GET''))" if "\<not> is_write cmd"
      using that by (auto simp: is_write_def split: list.splits command_arg.splits)
    have restores: "\<exists>k t v. cmd = [ArgText ''RESTORE'', k, ArgInt t, v] \<and> key_arg ok k"
      if given: "case cmd of [ArgText name, k, ArgInt t, _] \<Rightarrow> name = ''RESTORE'' \<and> key_arg ok k \<and> 1 \<le> t \<and> t \<le> 601000 | _ \<Rightarrow> False"
    proof -
      obtain name rest where start: "cmd = ArgText name # rest"
        using given by (cases cmd; cases "hd cmd") auto
      obtain k a tail where rest: "rest = k # a # tail"
        using given by (cases rest; cases "tl rest") (auto simp: start)
      obtain t v where "a = ArgInt t" "tail = [v]"
        using given by (cases a; cases tail; cases "tl tail") (auto simp: start rest)
      then show ?thesis using given by (simp add: start rest)
    qed
    have unlinks: "\<exists>ks. cmd = ArgText ''UNLINK'' # ks \<and> list_all (key_arg ok) ks"
      if "case cmd of ArgText name # ks \<Rightarrow> name = ''UNLINK'' \<and> list_all (key_arg ok) ks | _ \<Rightarrow> False"
      using that by (simp split: list.split_asm command_arg.split_asm)
    show thesis
      using assms(1) questions restores unlinks that unfolding permitted_def by (metis (no_types, lifting) insertE list.collapse singletonD)
  qed
  then show ?thesis
  proof cases
    case (1 rest)
    then show ?thesis by (cases rest) (simp_all add: migration_user_permits arg_text_def lower_names)
  next
    case (2 rest)
    then show ?thesis by (cases rest) (simp_all add: migration_user_permits arg_text_def lower_names)
  next
    case (3 rest)
    then show ?thesis by (simp add: migration_user_permits arg_text_def lower_names)
  next
    case (4 k t v)
    then show ?thesis using keys[of "[k]"] by (simp add: migration_user_permits lower_names arg_text_def[of "ArgText _"])
  next
    case (5 ks)
    then show ?thesis using keys[of ks] by (cases ks) (simp_all add: migration_user_permits lower_names arg_text_def[of "ArgText _"])
  qed
qed



section \<open>Two lists\<close>

text \<open>C. No key pattern of the application covers a nonce.\<close>

theorem application_keys_exclude_nonces:
  "\<not> list_ex (\<lambda>p. key_matches p (''sub2api-sync:nonce:'' @ digest)) SUB2API_KEY_PATTERNS"
  by (simp add: SUB2API_KEY_PATTERNS_def key_matches_def)

text \<open>C. Nothing is written unless the operator is root, the release guard has passed and the private
  environment names the data root and two distinct passwords; and the list of the application is
  written before that of the nonce store.\<close>

theorem acl_written_after_checks:
  assumes "apply_acl sha256_hex host w = (r, w')" and "w' \<noteq> w \<or> r = Inr ()"
  shows "\<exists>values application nonce. ah_guard host = Inr () \<and> ah_euid host = 0 \<and> ah_environment host = Inr values
     \<and> map_of values ''SUB2API_DATA_ROOT'' = Some EXPECTED_DATA_ROOT_ACL
     \<and> value_or_empty values ''REDIS_PASSWORD'' \<noteq> value_or_empty values ''SUB2API_SYNC_REDIS_PASSWORD''
     \<and> render_application_acl sha256_hex (value_or_empty values ''REDIS_PASSWORD'') = Inr application
     \<and> render_nonce_acl sha256_hex (value_or_empty values ''SUB2API_SYNC_REDIS_PASSWORD'') = Inr nonce
     \<and> ah_directory host = Inr ()
     \<and> (r, w') = io_bind (ah_write host APPLICATION_ACL_FILENAME application) (\<lambda>_. ah_write host NONCE_ACL_FILENAME nonce) w"
proof (cases "plan_acl sha256_hex host")
  case (Inl e)
  then show ?thesis using assms by (auto simp: apply_acl_def io_bind_def io_lift_def)
next
  case (Inr plan)
  then show ?thesis
    using assms(1)
    by (cases plan) (auto simp: apply_acl_def plan_acl_def validate_distinct_passwords_def io_bind_def io_lift_def Let_def
        res_bind_eq_Inr split: if_splits)
qed

end
