(* ===== verification/Spec2Isabelle.thy ===== *)
theory Spec2Isabelle
  imports Provision_Result Lifecycle_Facts Auth Usage_Facts Diagnostics Http_Facts Http_Server Redis_Cli
    Private_Env_Facts Cutover_Runs Cutover_Recovery Nginx_Facts Nginx_Install Redis_Acl_Facts
begin

text \<open>
  \<^bold>\<open>A verification development of sub2api-gate\<close>

  \<^bold>\<open>The program.\<close> A gateway (Sub2API, with PostgreSQL and Redis) is provisioned by a small HTTP service,
  \<open>sub2api-sync/sub2api_sync.py\<close> with \<open>usage_metadata.py\<close>: a signed POST names an invite and an action
  (provision, status, deprovision, purge, login, test_key, list_groups, the usage log, the diagnostic of
  a failure), the service checks the signature and claims the nonce in Redis, and runs the action as
  one transaction over the tables of the gateway. The tools under \<open>deploy/\<close> prepare and move an
  installation; modelled of them are the reader of private environment files, the migration of the
  nonces from one Redis to another, the access lists of the Redis servers, the maintenance cutover from
  the legacy services to the new ones with its rollback, and the rewriting of the Nginx configuration
  for the direct \<open>/v1\<close> route.

  \<^bold>\<open>Conventions.\<close> A Python text is a \<open>string\<close> whose characters stand for the code points up to 255
  (\<open>Py_Base\<close>); integers are \<open>int\<close>, as Python's are unbounded; positions and lengths are \<open>nat\<close>.
  An exception is a value: \<open>pyexn\<close> with the class tests of the \<open>except\<close> clauses (\<open>Py_Value\<close>), an
  \<open>cutover_exn\<close> of the cutover, or the message of a \<open>CutoverError\<close>. State is passed explicitly: an action of the
  service maps a \<open>world\<close> to a result and a world (\<open>Sync_World\<close>), a deploy tool does so with the state of
  its host (\<open>Py_Io\<close>). What is not in the repository is a parameter: HMAC and SHA-256, the Redis servers,
  psql and the faults of its connection, docker, systemctl, nginx, the kernel's files, the clock and
  the entropy. Named assumptions about them appear in the statements, and each such statement has a
  theorem \<open>..._witness\<close> that applies it to concrete functions.

  \<^bold>\<open>Theories and what they model.\<close>

  \<^item> \<open>Py_Base\<close>, \<open>Py_Value\<close>, \<open>Py_Io\<close>: text operations of the standard library, JSON values, exceptions,
    sequencing, \<open>try ... finally\<close>; the collections \<open>text_simps\<close>, \<open>text_intros\<close>, \<open>io_keeps\<close>.
  \<^item> \<open>Payload\<close>, \<open>Payload_Facts\<close>: \<open>payload_identity\<close>, \<open>requested_tokens\<close>, \<open>requested_groups\<close> and their
    parts; every accepted identity, key and group has its canonical shape.
  \<^item> \<open>Sql_Text\<close>: \<open>sql_quote\<close>, \<open>jsonb\<close>, \<open>ilike_contains\<close>, against a reader of SQL literals under both settings
    of \<open>standard_conforming_strings\<close>.
  \<^item> \<open>Sync_World\<close>, \<open>Store\<close>, \<open>Psql_Rows\<close>: the tables as lists of records, one definition per SQL
    statement, the transaction with its schedule of faults, the textual transport of rows. The locale
    \<open>db_effect\<close> states what it takes for an effect on the tables to be closed under the combinators of
    actions; it is interpreted for each relation the later theories use.
  \<^item> \<open>Invite\<close>, \<open>Provision\<close>, \<open>Provision_Facts\<close>, \<open>Key_Sync\<close>, \<open>Provision_Result\<close>: \<open>resolve_invite_user\<close>,
    groups, plans and keys, \<open>provision\<close>; an account is never taken from its invite, and a success leaves
    exactly the requested keys.
  \<^item> \<open>Lifecycle\<close>, \<open>Lifecycle_Facts\<close>: status, deprovision, purge, login and the key test.
  \<^item> \<open>Redis_Wire\<close>, \<open>Auth\<close>: frames and replies, the session, \<open>claim_nonce\<close>, \<open>verify_request\<close>. The locale
    \<open>nonce_server\<close> has the laws of SET NX EX the service relies on; it is interpreted on a server with
    expiring keys.
  \<^item> \<open>Usage\<close>, \<open>Usage_Facts\<close>, \<open>Diagnostics\<close>: the usage log with its filters and pages, the bounded record
    of failures, which refines the full history.
  \<^item> \<open>Http\<close>, \<open>Http_Facts\<close>, \<open>Http_Server\<close>: the handlers with every exception clause, and the admission of
    requests as a step relation over the 16 slots.
  \<^item> \<open>Private_Env\<close>, \<open>Private_Env_Facts\<close>: \<open>deploy/private_env.py\<close>, the format, the walk to the file, the
    checks and the read loop over a model of file descriptors.
  \<^item> \<open>Redis_Policy\<close>, \<open>Redis_Values\<close>, \<open>Redis_Migration\<close>, \<open>Redis_Migration_Facts\<close>, \<open>Redis_Cli\<close>:
    \<open>deploy/migrate-redis-allowlist.py\<close>, from the policy file to the copy and its rollback.
  \<^item> \<open>Redis_Acl\<close>, \<open>Redis_Acl_Facts\<close>: \<open>deploy/configure-redis-acl.py\<close> and
    \<open>configure-redis-migration-acl.py\<close>; a reader of access lists is the specification, and the
    theorems connect three programs: what the service and the migration send is granted by the list
    that is installed for them.
  \<^item> \<open>Cutover_Host\<close>, \<open>Cutover\<close>, \<open>Cutover_Facts\<close>, \<open>Cutover_Window\<close>, \<open>Cutover_Hosts\<close>, \<open>Cutover_Runs\<close>,
    \<open>Cutover_Recovery\<close>: \<open>deploy/maintenance-cutover.py\<close>, the controller over every host; its trace of
    events orders what a rollback and a completed cutover have done and when.
  \<^item> \<open>Nginx_Text\<close>, \<open>Nginx_Conf\<close>, \<open>Nginx_Parse\<close>, \<open>Nginx_Rewrite\<close>, \<open>Nginx_Scan\<close>, \<open>Nginx_Facts\<close>,
    \<open>Nginx_Install\<close>: \<open>deploy/install-nginx-direct-v1.py\<close>. The parser keeps an invariant (blocks nested
    in their parents, siblings one after the other), from which the replacements from the end of the
    file to its front are one pass over it; the transaction on the four managed files is over every
    sequence of failing calls.

  \<^bold>\<open>What the properties show.\<close> Safety of the boundary: literals, filters, signatures, nonces, access lists
  and pages. Ownership: nothing of another invite is read, bound or removed. Exactness: what a
  successful provision, removal, migration or rewriting has achieved, and that it has done nothing
  else. Failure: transactions, migrations, cutovers and rewritings that fail leave what they announce.
  Bounds and liveness: pages, diagnostics, slots, the writer window of the cutover, waiting loops. Some
  theorems record behaviour that is not what the code means to do; each says so in its text.

  \<^bold>\<open>Termination and bounds.\<close> Loops over input are structural recursions. \<open>read_chunks\<close> is a function with
  a measure on what is left to read. The scan of the Redis migration is bounded by \<open>MAX_SCAN_PAGES\<close>, as
  in the code. The waiting loops of the cutover are functions whose measure is the time left to their
  deadline, as every pause takes a second, and \<open>legacy_wait_bounded\<close> counts their pauses. No definition
  uses fuel that the code does not have.

  \<^bold>\<open>Evaluation.\<close> Witnesses evaluate the definitions by simplification. \<open>Nginx_Scan\<close> proves the parser
  equal to a form that carries the current statement, which is what is evaluated on whole
  configurations.

  \<^bold>\<open>Not modelled.\<close> The start and the signals of the service and of the tools, argument parsing and
  printed text; the psql process and its pipes beyond the faults they cause; TLS and socket time-outs;
  owners, modes and links of the Nginx tree, its scan of included files and its operation lock; the
  command runner's process groups, the safe export and the clearing of directories in the maintenance
  cutover. Of \<open>deploy/\<close>, the tools that are sequences of docker, systemctl and file system calls
  (hardening, canaries, retirement, PostgreSQL streams), the clients of Cloudflare and wrangler, the
  TOTP enrolment, and the checks of the release are not modelled; nor are the Worker in JavaScript,
  the SQL migrations, the shell scripts and the configuration files.
\<close>

end
